(* ===== verification/Prelude.thy ===== *)
theory Prelude
  imports Main "HOL-Library.Word"
begin

text \<open>
  Shared ground of the development: the machine integers, the outcome of a fallible Rust
  function (a value, an error, or a panic), Rust strings as their UTF-8 byte sequences, and the
  parts of the standard library the agent uses (splitting and trimming of strings, number
  parsing, byte order conversions), with the lemmas the component theories rest on.
\<close>

named_theorems outcome_simps \<open>unfolding rules for outcomes\<close>
named_theorems codec_laws \<open>read-back laws of byte encodings\<close>

section \<open>Machine integers\<close>

type_synonym u8 = "8 word"
type_synonym u16 = "16 word"
type_synonym u32 = "32 word"

lemma unat_lt_pow: "unat (w :: 'a::len word) < 2 ^ LENGTH('a)"
  by simp

section \<open>Outcomes\<close>

text \<open>
  A Rust function that returns \<open>Result<T, E>\<close> ends in one of three ways: \<open>Ok\<close>, \<open>Err\<close>, or a
  panic (an out-of-range slice, an \<open>unwrap\<close> of an error, an arithmetic overflow).
\<close>

datatype ('a, 'e) outcome = Ok (the_ok: 'a) | Err 'e | Panic

text \<open>The \<open>?\<close> operator and \<open>map_err\<close>.\<close>

fun and_then :: "('a, 'e) outcome \<Rightarrow> ('a \<Rightarrow> ('b, 'e) outcome) \<Rightarrow> ('b, 'e) outcome" where
  "and_then (Ok x) f = f x"
| "and_then (Err e) f = Err e"
| "and_then Panic f = Panic"

fun map_err :: "('e \<Rightarrow> 'f) \<Rightarrow> ('a, 'e) outcome \<Rightarrow> ('a, 'f) outcome" where
  "map_err g (Ok x) = Ok x"
| "map_err g (Err e) = Err (g e)"
| "map_err g Panic = Panic"

fun is_ok :: "('a, 'e) outcome \<Rightarrow> bool" where
  "is_ok (Ok _) = True"
| "is_ok _ = False"

fun is_err :: "('a, 'e) outcome \<Rightarrow> bool" where
  "is_err (Err _) = True"
| "is_err _ = False"

text \<open>\<open>Option::ok_or\<close>.\<close>

fun ok_or :: "'e \<Rightarrow> 'a option \<Rightarrow> ('a, 'e) outcome" where
  "ok_or e (Some x) = Ok x"
| "ok_or e None = Err e"

text \<open>\<open>Result::unwrap\<close> and \<open>expect\<close>.\<close>

fun unwrap :: "('a, 'e) outcome \<Rightarrow> ('a, 'f) outcome" where
  "unwrap (Ok x) = Ok x"
| "unwrap _ = Panic"

lemma unwrap_Ok_iff [outcome_simps, simp]: "unwrap r = Ok x \<longleftrightarrow> r = Ok x"
  by (cases r) auto

lemma unwrap_not_Err [simp]: "unwrap r \<noteq> Err e"
  by (cases r) auto

lemma and_then_Ok_iff [outcome_simps]:
  "and_then r f = Ok y \<longleftrightarrow> (\<exists>x. r = Ok x \<and> f x = Ok y)"
  by (cases r) auto

lemma and_then_Err_iff [outcome_simps]:
  "and_then r f = Err e \<longleftrightarrow> r = Err e \<or> (\<exists>x. r = Ok x \<and> f x = Err e)"
  by (cases r) auto

lemma and_then_Panic_iff [outcome_simps]:
  "and_then r f = Panic \<longleftrightarrow> r = Panic \<or> (\<exists>x. r = Ok x \<and> f x = Panic)"
  by (cases r) auto

lemma map_err_Ok_iff [outcome_simps, simp]: "map_err g r = Ok y \<longleftrightarrow> r = Ok y"
  by (cases r) auto

lemma map_err_Panic_iff [outcome_simps, simp]: "map_err g r = Panic \<longleftrightarrow> r = Panic"
  by (cases r) auto

lemma ok_or_Ok_iff [outcome_simps, simp]: "ok_or e x = Ok y \<longleftrightarrow> x = Some y"
  by (cases x) auto

lemma ok_or_Err_iff [outcome_simps, simp]: "ok_or e x = Err e' \<longleftrightarrow> x = None \<and> e' = e"
  by (cases x) auto

lemma ok_or_not_Panic [simp]: "ok_or e x \<noteq> Panic"
  by (cases x) auto

lemma and_then_cong [fundef_cong]:
  "r = r' \<Longrightarrow> (\<And>x. r' = Ok x \<Longrightarrow> f x = f' x) \<Longrightarrow> and_then r f = and_then r' f'"
  by (cases r') auto

lemma is_ok_iff: "is_ok r \<longleftrightarrow> (\<exists>x. r = Ok x)"
  by (cases r) auto

text \<open>Iterating a fallible step over a list, stopping at the first failure.\<close>

fun try_fold :: "('s \<Rightarrow> 'a \<Rightarrow> ('s, 'e) outcome) \<Rightarrow> 's \<Rightarrow> 'a list \<Rightarrow> ('s, 'e) outcome" where
  "try_fold f s [] = Ok s"
| "try_fold f s (x # xs) = and_then (f s x) (\<lambda>s'. try_fold f s' xs)"

lemma try_fold_append:
  "try_fold f s (xs @ ys) = and_then (try_fold f s xs) (\<lambda>s'. try_fold f s' ys)"
proof (induction xs arbitrary: s)
  case (Cons x xs)
  then show ?case by (cases "f s x") auto
qed simp

section \<open>Actions\<close>

text \<open>
  A fallible operation on a state: the state changes also when it fails. Sequencing stops at the
  first failure.
\<close>

type_synonym ('c, 'a, 'e) act = "'c \<Rightarrow> ('a, 'e) outcome \<times> 'c"

definition act_bind :: "('c, 'a, 'e) act \<Rightarrow> ('a \<Rightarrow> ('c, 'b, 'e) act) \<Rightarrow> ('c, 'b, 'e) act" where
  "act_bind f g c =
     (case f c of (Ok x, c') \<Rightarrow> g x c' | (Err e, c') \<Rightarrow> (Err e, c') | (Panic, c') \<Rightarrow> (Panic, c'))"

definition act_lift :: "('a, 'e) outcome \<Rightarrow> ('c, 'a, 'e) act" where
  "act_lift r c = (r, c)"

lemma act_bind_Ok_iff:
  "act_bind f g c = (Ok y, c'') \<longleftrightarrow> (\<exists>x c'. f c = (Ok x, c') \<and> g x c' = (Ok y, c''))"
  by (auto simp: act_bind_def split: prod.splits outcome.splits)

lemma act_lift_Ok_iff: "act_lift r c = (Ok x, c') \<longleftrightarrow> r = Ok x \<and> c' = c"
  by (auto simp: act_lift_def)

lemma act_bind_assoc: "act_bind (act_bind f g) h = act_bind f (\<lambda>x. act_bind (g x) h)"
  by (rule ext) (simp add: act_bind_def split: prod.split outcome.split)

lemma act_bind_lift:
  "act_bind (act_lift (Ok x)) f = f x" "act_bind (act_lift (Err e)) f = act_lift (Err e)"
  "act_bind (act_lift Panic) f = act_lift Panic"
  by (rule ext, simp add: act_bind_def act_lift_def)+

lemma act_bind_cong_Ok:
  assumes "\<And>x c'. f c = (Ok x, c') \<Longrightarrow> g x c' = h x c'"
  shows "act_bind f g c = act_bind f h c"
  using assms by (auto simp: act_bind_def split: prod.split outcome.split)

text \<open>What an action may do to the state, as a relation that is closed under sequencing.\<close>

definition act_within :: "('c \<Rightarrow> 'c \<Rightarrow> bool) \<Rightarrow> ('c, 'a, 'e) act \<Rightarrow> bool" where
  "act_within R f \<longleftrightarrow> (\<forall>c. R c (snd (f c)))"

lemma act_withinD: "act_within R f \<Longrightarrow> f c = (r, c') \<Longrightarrow> R c c'"
  by (metis act_within_def snd_conv)

lemma act_within_apply: "act_within R f \<Longrightarrow> R c (snd (f c))"
  by (simp add: act_within_def)

lemma act_within_mono: "act_within R f \<Longrightarrow> (\<And>c c'. R c c' \<Longrightarrow> S c c') \<Longrightarrow> act_within S f"
  by (simp add: act_within_def)

lemma act_within_lift: "reflp R \<Longrightarrow> act_within R (act_lift r)"
  by (simp add: act_within_def act_lift_def reflpD)

lemma act_within_bind:
  assumes "transp R" and "act_within R f" and "\<And>x. act_within R (g x)"
  shows "act_within R (act_bind f g)"
  unfolding act_within_def
proof
  fix c
  obtain r c1 where f: "f c = (r, c1)" by force
  have R1: "R c c1" using act_withinD [OF assms(2) f] .
  show "R c (snd (act_bind f g c))"
  proof (cases r)
    case (Ok x)
    have "R c1 (snd (g x c1))" using assms(3) by (simp add: act_within_def)
    then show ?thesis using R1 f Ok transpD [OF assms(1)] by (simp add: act_bind_def)
  qed (use R1 f in \<open>simp_all add: act_bind_def\<close>)
qed

section \<open>Strings\<close>

text \<open>
  A Rust \<open>&str\<close> is its UTF-8 byte sequence, held in the 8-bit characters of a HOL \<open>string\<close>:
  \<open>len()\<close> is \<open>length\<close>, and searching for an ASCII character in the bytes is searching for it in
  the text.
\<close>

definition as_bytes :: "string \<Rightarrow> u8 list" where
  "as_bytes s = map (\<lambda>c. word_of_nat (of_char c)) s"

lemma length_as_bytes [simp]: "length (as_bytes s) = length s"
  by (simp add: as_bytes_def)

lemma as_bytes_append [simp]: "as_bytes (s @ t) = as_bytes s @ as_bytes t"
  by (simp add: as_bytes_def)

lemma unat_of_char [simp]: "unat (word_of_nat (of_char c) :: u8) = of_char c"
proof -
  have "(of_char c :: nat) mod 256 = of_char c" by (rule of_char_mod_256)
  then show ?thesis by (simp add: unat_of_nat)
qed

lemma as_bytes_inj: "as_bytes s = as_bytes t \<Longrightarrow> s = t"
proof (induction s arbitrary: t)
  case Nil
  then show ?case by (simp add: as_bytes_def)
next
  case (Cons c s)
  then obtain d t' where t: "t = d # t'"
    by (cases t) (auto simp: as_bytes_def)
  with Cons.prems have "(word_of_nat (of_char c) :: u8) = word_of_nat (of_char d)"
    and rest: "as_bytes s = as_bytes t'"
    by (auto simp: as_bytes_def)
  then have "(of_char c :: nat) = of_char d"
    by (metis unat_of_char)
  then have "c = d" by simp
  with Cons.IH [OF rest] t show ?case by simp
qed

text \<open>\<open>str::split_once\<close>, \<open>rsplit_once\<close>, \<open>splitn\<close> and \<open>split\<close> on a one-character pattern.\<close>

fun split_once :: "char \<Rightarrow> string \<Rightarrow> (string \<times> string) option" where
  "split_once c [] = None"
| "split_once c (x # xs) =
     (if x = c then Some ([], xs)
      else map_option (\<lambda>(a, b). (x # a, b)) (split_once c xs))"

definition rsplit_once :: "char \<Rightarrow> string \<Rightarrow> (string \<times> string) option" where
  "rsplit_once c s = map_option (\<lambda>(a, b). (rev b, rev a)) (split_once c (rev s))"

fun splitn :: "nat \<Rightarrow> char \<Rightarrow> string \<Rightarrow> string list" where
  "splitn 0 c s = []"
| "splitn (Suc 0) c s = [s]"
| "splitn (Suc (Suc n)) c s =
     (case split_once c s of None \<Rightarrow> [s] | Some (a, b) \<Rightarrow> a # splitn (Suc n) c b)"

fun split :: "char \<Rightarrow> string \<Rightarrow> string list" where
  "split c [] = [[]]"
| "split c (x # xs) =
     (if x = c then [] # split c xs
      else (case split c xs of [] \<Rightarrow> [[x]] | y # ys \<Rightarrow> (x # y) # ys))"

lemma split_once_Some_iff:
  "split_once c s = Some (a, b) \<longleftrightarrow> s = a @ c # b \<and> c \<notin> set a"
proof (induction s arbitrary: a)
  case (Cons x s)
  then show ?case by (cases a) auto
qed simp

lemma split_once_None_iff: "split_once c s = None \<longleftrightarrow> c \<notin> set s"
  by (induction s) auto

lemma split_once_append [simp]: "c \<notin> set a \<Longrightarrow> split_once c (a @ c # b) = Some (a, b)"
  by (simp add: split_once_Some_iff)

lemma split_once_absent [simp]: "c \<notin> set s \<Longrightarrow> split_once c s = None"
  by (simp add: split_once_None_iff)

lemma rsplit_once_Some_iff:
  "rsplit_once c s = Some (a, b) \<longleftrightarrow> s = a @ c # b \<and> c \<notin> set b"
proof
  assume "rsplit_once c s = Some (a, b)"
  then have "split_once c (rev s) = Some (rev b, rev a)"
    by (auto simp: rsplit_once_def)
  then have "rev s = rev b @ c # rev a" and nb: "c \<notin> set (rev b)"
    by (auto simp: split_once_Some_iff)
  then have "rev (rev s) = rev (rev b @ c # rev a)" by (simp only:)
  then show "s = a @ c # b \<and> c \<notin> set b" using nb by simp
next
  assume "s = a @ c # b \<and> c \<notin> set b"
  then have "split_once c (rev s) = Some (rev b, rev a)"
    by (simp add: split_once_Some_iff)
  then show "rsplit_once c s = Some (a, b)"
    by (simp add: rsplit_once_def)
qed

lemma rsplit_once_append [simp]: "c \<notin> set b \<Longrightarrow> rsplit_once c (a @ c # b) = Some (a, b)"
  by (simp add: rsplit_once_Some_iff)

lemma split_not_Nil [simp]: "split c s \<noteq> []"
  by (induction s) (auto split: list.splits)

lemma split_absent [simp]: "c \<notin> set s \<Longrightarrow> split c s = [s]"
  by (induction s) auto

lemma split_append [simp]: "c \<notin> set a \<Longrightarrow> split c (a @ c # b) = a # split c b"
  by (induction a) auto

lemma splitn_2_append [simp]: "c \<notin> set a \<Longrightarrow> splitn 2 c (a @ c # b) = [a, b]"
  by (simp add: eval_nat_numeral)

lemma splitn_2_absent [simp]: "c \<notin> set a \<Longrightarrow> splitn 2 c a = [a]"
  by (simp add: eval_nat_numeral)

lemma splitn_3_append [simp]: "c \<notin> set a \<Longrightarrow> splitn 3 c (a @ c # b) = a # splitn 2 c b"
  by (simp add: eval_nat_numeral)

lemma splitn_4_append [simp]: "c \<notin> set a \<Longrightarrow> splitn 4 c (a @ c # b) = a # splitn 3 c b"
  by (simp add: eval_nat_numeral)

text \<open>\<open>[T]::join\<close> on strings.\<close>

fun join :: "string \<Rightarrow> string list \<Rightarrow> string" where
  "join sep [] = []"
| "join sep [x] = x"
| "join sep (x # y # xs) = x @ sep @ join sep (y # xs)"

text \<open>\<open>str::starts_with\<close> and \<open>trim_start_matches\<close> with a fixed, non-empty string.\<close>

fun starts_with :: "string \<Rightarrow> string \<Rightarrow> bool" where
  "starts_with [] s = True"
| "starts_with (p # ps) [] = False"
| "starts_with (p # ps) (x # xs) = (p = x \<and> starts_with ps xs)"

function trim_start_matches :: "string \<Rightarrow> string \<Rightarrow> string" where
  "trim_start_matches p s =
     (if p \<noteq> [] \<and> starts_with p s then trim_start_matches p (drop (length p) s) else s)"
  by pat_completeness auto
termination
proof (relation "measure (\<lambda>(p, s). length s)", goal_cases)
  case (2 p s)
  then have "p \<noteq> []" and "s \<noteq> []" by (cases p; cases s; simp)+
  then show ?case by simp
qed simp

declare trim_start_matches.simps [simp del]

section \<open>Number parsing\<close>

text \<open>\<open>uN::from_str_radix\<close>: an optional plus sign, then digits, checked for overflow.\<close>

datatype int_error_kind = Empty | InvalidDigit | PosOverflow

definition to_digit :: "nat \<Rightarrow> char \<Rightarrow> nat option" where
  "to_digit radix c =
     (let n = (of_char c :: nat);
          d = (if 48 \<le> n \<and> n \<le> 57 then Some (n - 48)
               else if 97 \<le> n \<and> n \<le> 122 then Some (n - 87)
               else if 65 \<le> n \<and> n \<le> 90 then Some (n - 55) else None)
      in case d of None \<Rightarrow> None | Some v \<Rightarrow> if v < radix then Some v else None)"

fun parse_digits :: "nat \<Rightarrow> nat \<Rightarrow> nat \<Rightarrow> string \<Rightarrow> (nat, int_error_kind) outcome" where
  "parse_digits radix bound acc [] = Ok acc"
| "parse_digits radix bound acc (c # cs) =
     (case to_digit radix c of
        None \<Rightarrow> Err InvalidDigit
      | Some d \<Rightarrow>
          if bound \<le> acc * radix then Err PosOverflow
          else if bound \<le> acc * radix + d then Err PosOverflow
          else parse_digits radix bound (acc * radix + d) cs)"

definition from_str_radix :: "nat \<Rightarrow> nat \<Rightarrow> string \<Rightarrow> (nat, int_error_kind) outcome" where
  "from_str_radix bits radix s =
     (case s of
        [] \<Rightarrow> Err Empty
      | [c] \<Rightarrow> if c = CHR ''+'' \<or> c = CHR ''-'' then Err InvalidDigit
               else parse_digits radix (2 ^ bits) 0 s
      | c # cs \<Rightarrow> if c = CHR ''+'' then parse_digits radix (2 ^ bits) 0 cs
                 else parse_digits radix (2 ^ bits) 0 s)"

lemma parse_digits_bound:
  "parse_digits radix bound acc s = Ok n \<Longrightarrow> acc < bound \<Longrightarrow> n < bound"
  by (induction s arbitrary: acc) (auto split: option.splits if_splits)

lemma parse_digits_not_Panic [simp]: "parse_digits radix bound acc s \<noteq> Panic"
  by (induction s arbitrary: acc) (auto split: option.splits)

lemma from_str_radix_bound: "from_str_radix bits radix s = Ok n \<Longrightarrow> n < 2 ^ bits"
  by (auto simp: from_str_radix_def simp del: parse_digits.simps
      dest: parse_digits_bound split: list.splits if_splits)

lemma from_str_radix_not_Panic [simp]: "from_str_radix bits radix s \<noteq> Panic"
  by (auto simp: from_str_radix_def simp del: parse_digits.simps split: list.splits)

section \<open>Formatting\<close>

text \<open>\<open>Display\<close> of integers and \<open>Debug\<close> of byte vectors and options.\<close>

definition digit_char :: "nat \<Rightarrow> char" where
  "digit_char d = ''0123456789'' ! d"

fun show_nat :: "nat \<Rightarrow> string" where
  "show_nat n =
     (if n < 10 then [digit_char n] else show_nat (n div 10) @ [digit_char (n mod 10)])"

declare show_nat.simps [simp del]

definition show_int :: "int \<Rightarrow> string" where
  "show_int i = (if i < 0 then CHR ''-'' # show_nat (nat (- i)) else show_nat (nat i))"

definition debug_bytes :: "u8 list \<Rightarrow> string" where
  "debug_bytes bs = ''['' @ join '', '' (map (\<lambda>b. show_nat (unat b)) bs) @ '']''"

fun debug_option :: "('a \<Rightarrow> string) \<Rightarrow> 'a option \<Rightarrow> string" where
  "debug_option f None = ''None''"
| "debug_option f (Some x) = ''Some('' @ f x @ '')''"

lemma digit_char_decimal: "d < 10 \<Longrightarrow> digit_char d \<in> set ''0123456789''"
  unfolding digit_char_def by (rule nth_mem) simp

lemma to_digit_digit_char:
  assumes "d < 10"
  shows "to_digit 10 (digit_char d) = Some d"
proof -
  have "d \<in> {0,1,2,3,4,5,6,7,8,9}"
    using assms by (simp only: insert_iff empty_iff) arith
  then show ?thesis by (auto simp: digit_char_def to_digit_def)
qed

lemma set_show_nat: "set (show_nat n) \<subseteq> set ''0123456789''"
proof (induction n rule: show_nat.induct)
  case (1 n)
  then show ?case
    using digit_char_decimal [of n] digit_char_decimal [of "n mod 10"] by (subst show_nat.simps) auto
qed

lemma show_nat_not_Nil [simp]: "show_nat n \<noteq> []"
  by (subst show_nat.simps) simp

lemma parse_digits_append:
  "parse_digits r b acc (s @ t) = and_then (parse_digits r b acc s) (\<lambda>a. parse_digits r b a t)"
  by (induction s arbitrary: acc) (auto split: option.split)

lemma parse_show_nat: "n < bound \<Longrightarrow> parse_digits 10 bound 0 (show_nat n) = Ok n"
proof (induction n rule: show_nat.induct)
  case (1 n)
  show ?case
  proof (cases "n < 10")
    case True
    then show ?thesis using 1 by (subst show_nat.simps) (simp add: to_digit_digit_char)
  next
    case False
    then have "parse_digits 10 bound 0 (show_nat (n div 10)) = Ok (n div 10)" using 1 by auto
    moreover have "n div 10 * 10 + n mod 10 = n" by simp
    ultimately show ?thesis using False 1
      by (subst show_nat.simps) (simp add: parse_digits_append to_digit_digit_char)
  qed
qed

lemma from_str_radix_show_nat:
  assumes "n < 2 ^ bits"
  shows "from_str_radix bits 10 (show_nat n) = Ok n"
proof -
  obtain c cs where s: "show_nat n = c # cs" by (cases "show_nat n") auto
  then have "c \<in> set ''0123456789''" using set_show_nat [of n] by auto
  then have "c \<noteq> CHR ''+'' \<and> c \<noteq> CHR ''-''" by auto
  then show ?thesis using parse_show_nat [OF assms] s
    by (auto simp: from_str_radix_def simp del: parse_digits.simps split: list.split)
qed

section \<open>Slices\<close>

text \<open>\<open>&xs[i..j]\<close>, \<open>&xs[i..]\<close> and \<open>xs[i]\<close> panic when out of range.\<close>

definition slice :: "nat \<Rightarrow> nat \<Rightarrow> 'a list \<Rightarrow> ('a list, 'e) outcome" where
  "slice i j xs = (if i \<le> j \<and> j \<le> length xs then Ok (take (j - i) (drop i xs)) else Panic)"

definition slice_from :: "nat \<Rightarrow> 'a list \<Rightarrow> ('a list, 'e) outcome" where
  "slice_from i xs = (if i \<le> length xs then Ok (drop i xs) else Panic)"

definition index :: "'a list \<Rightarrow> nat \<Rightarrow> ('a, 'e) outcome" where
  "index xs i = (if i < length xs then Ok (xs ! i) else Panic)"

lemma slice_append_left [simp]:
  "n = length a \<Longrightarrow> slice 0 n (a @ b) = Ok a"
  by (simp add: slice_def)

lemma slice_append_mid:
  "i = length a \<Longrightarrow> j = i + length b \<Longrightarrow> slice i j (a @ b @ c) = Ok b"
  by (simp add: slice_def)

lemma slice_from_append:
  "i = length a \<Longrightarrow> slice_from i (a @ b) = Ok b"
  by (simp add: slice_from_def)

lemma slice_Ok_length: "slice i j xs = Ok ys \<Longrightarrow> length ys = j - i"
  by (auto simp: slice_def split: if_splits)

lemma slice_not_Err [simp]: "slice i j xs \<noteq> Err e"
  by (simp add: slice_def)

section \<open>Characters\<close>

text \<open>
  \<open>str::chars\<close>: the code points of a valid UTF-8 byte sequence. \<open>char::is_alphanumeric\<close> is the
  ASCII test below 128; above, it is the Unicode table, a parameter.
\<close>

function utf8_chars :: "nat list \<Rightarrow> nat list" where
  "utf8_chars [] = []"
| "utf8_chars (b # bs) =
     (if b < 128 then b # utf8_chars bs
      else if b < 224 then ((b mod 32) * 64 + (case bs of c # _ \<Rightarrow> c mod 64 | _ \<Rightarrow> 0)) # utf8_chars (drop 1 bs)
      else if b < 240 then
        (case bs of c # d # _ \<Rightarrow> (b mod 16) * 4096 + (c mod 64) * 64 + d mod 64 | _ \<Rightarrow> 0)
        # utf8_chars (drop 2 bs)
      else
        (case bs of c # d # e # _ \<Rightarrow>
             (b mod 8) * 262144 + (c mod 64) * 4096 + (d mod 64) * 64 + e mod 64 | _ \<Rightarrow> 0)
        # utf8_chars (drop 3 bs))"
  by pat_completeness auto
termination
  by (relation "measure length") auto

text \<open>Well-formed UTF-8 (\<open>str::from_utf8\<close>), after table 3-7 of the Unicode standard.\<close>

definition continuation :: "nat \<Rightarrow> bool" where
  "continuation b \<longleftrightarrow> 128 \<le> b \<and> b < 192"

function utf8_valid :: "nat list \<Rightarrow> bool" where
  "utf8_valid [] = True"
| "utf8_valid (b # bs) =
     (if b < 128 then utf8_valid bs
      else if 194 \<le> b \<and> b < 224 then
        (case bs of c # r \<Rightarrow> continuation c \<and> utf8_valid r | _ \<Rightarrow> False)
      else if 224 \<le> b \<and> b < 240 then
        (case bs of c # d # r \<Rightarrow>
             continuation c \<and> continuation d \<and> (b = 224 \<longrightarrow> 160 \<le> c) \<and> (b = 237 \<longrightarrow> c < 160)
             \<and> utf8_valid r
         | _ \<Rightarrow> False)
      else if 240 \<le> b \<and> b < 245 then
        (case bs of c # d # e # r \<Rightarrow>
             continuation c \<and> continuation d \<and> continuation e \<and> (b = 240 \<longrightarrow> 144 \<le> c)
             \<and> (b = 244 \<longrightarrow> c < 144) \<and> utf8_valid r
         | _ \<Rightarrow> False)
      else False)"
  by pat_completeness auto
termination
  by (relation "measure length") auto

definition is_utf8 :: "string \<Rightarrow> bool" where
  "is_utf8 s = utf8_valid (map of_char s)"

declare utf8_valid.simps(2) [simp del]

lemma utf8_valid_cases:
  assumes "utf8_valid (y # bs)"
  obtains (ascii) "y < 128" "utf8_valid bs"
  | (two) c r where "bs = c # r" "continuation c" "utf8_valid r"
  | (three) c d r where "bs = c # d # r" "continuation c" "continuation d" "utf8_valid r"
  | (four) c d e r where "bs = c # d # e # r" "continuation c" "continuation d" "continuation e"
      "utf8_valid r"
proof -
  have "(y < 128 \<and> utf8_valid bs) \<or> (\<exists>c r. bs = c # r \<and> continuation c \<and> utf8_valid r)
    \<or> (\<exists>c d r. bs = c # d # r \<and> continuation c \<and> continuation d \<and> utf8_valid r)
    \<or> (\<exists>c d e r. bs = c # d # e # r \<and> continuation c \<and> continuation d \<and> continuation e \<and> utf8_valid r)"
    using assms by (subst (asm) utf8_valid.simps(2)) (simp split: if_splits list.splits)
  then show thesis using that by blast
qed

lemma utf8_valid_after_ascii: "utf8_valid (a @ x # b) \<Longrightarrow> x < 128 \<Longrightarrow> utf8_valid b"
proof (induction a rule: length_induct)
  case (1 a)
  have IH: "utf8_valid (a' @ x # b) \<Longrightarrow> utf8_valid b" if "length a' < length a" for a'
    using "1.IH" "1.prems"(2) that by blast
  have x: "\<not> continuation x" using "1.prems" by (simp add: continuation_def)
  show ?case
  proof (cases a)
    case Nil
    with "1.prems" show ?thesis by (simp add: utf8_valid.simps(2) [of x b])
  next
    case (Cons y ys)
    with "1.prems"(1) have "utf8_valid (y # ys @ x # b)" by simp
    then show ?thesis
    proof (cases rule: utf8_valid_cases)
      case ascii
      then show ?thesis using IH [of ys] Cons by simp
    next
      case (two c r)
      then show ?thesis using IH [of "tl ys"] Cons x by (cases ys) auto
    next
      case (three c d r)
      then show ?thesis using IH [of "tl (tl ys)"] Cons x by (auto simp: append_eq_Cons_conv)
    next
      case (four c d e r)
      then show ?thesis using IH [of "tl (tl (tl ys))"] Cons x by (auto simp: append_eq_Cons_conv)
    qed
  qed
qed

definition chars :: "string \<Rightarrow> nat list" where
  "chars s = utf8_chars (map of_char s)"

definition is_alphanumeric :: "(nat \<Rightarrow> bool) \<Rightarrow> nat \<Rightarrow> bool" where
  "is_alphanumeric uni c =
     (if c < 128 then (48 \<le> c \<and> c \<le> 57) \<or> (65 \<le> c \<and> c \<le> 90) \<or> (97 \<le> c \<and> c \<le> 122)
      else uni c)"

definition all_alphanumeric :: "(nat \<Rightarrow> bool) \<Rightarrow> string \<Rightarrow> bool" where
  "all_alphanumeric uni s = list_all (is_alphanumeric uni) (chars s)"

section \<open>Documented behaviour of the text encodings\<close>

text \<open>
  What the code relies on of the \<open>hex\<close> and \<open>base64\<close> crates: decoding inverts encoding, and the
  encoded text stays within an alphabet. \<open>hex_digits\<close> and \<open>base64_chars\<close> are the documented
  alphabets.
\<close>

definition hex_digits :: string where
  "hex_digits = ''0123456789abcdef''"

definition base64_chars :: string where
  "base64_chars = ''ABCDEFGHIJKLMNOPQRSTUVWXYZabcdefghijklmnopqrstuvwxyz0123456789+/=''"

definition hex_codec :: "(u8 list \<Rightarrow> string) \<Rightarrow> (string \<Rightarrow> u8 list option) \<Rightarrow> bool" where
  "hex_codec enc dec \<longleftrightarrow>
     (\<forall>bs. dec (enc bs) = Some bs \<and> length (enc bs) = 2 * length bs \<and> set (enc bs) \<subseteq> set hex_digits)"

definition base64_codec :: "(u8 list \<Rightarrow> string) \<Rightarrow> (string \<Rightarrow> u8 list option) \<Rightarrow> bool" where
  "base64_codec enc dec \<longleftrightarrow>
     (\<forall>bs. dec (enc bs) = Some bs \<and> set (enc bs) \<subseteq> set base64_chars)"

lemma hex_codecD:
  assumes "hex_codec enc dec"
  shows "dec (enc bs) = Some bs" and "length (enc bs) = 2 * length bs"
    and "set (enc bs) \<subseteq> set hex_digits"
  using assms by (auto simp: hex_codec_def)

lemma hex_codec_no_sep:
  assumes "hex_codec enc dec"
  shows "CHR '' '' \<notin> set (enc bs)" and "CHR '':'' \<notin> set (enc bs)"
proof -
  have "CHR '' '' \<notin> set hex_digits" and "CHR '':'' \<notin> set hex_digits"
    by (simp_all add: hex_digits_def)
  then show "CHR '' '' \<notin> set (enc bs)" and "CHR '':'' \<notin> set (enc bs)"
    using hex_codecD(3) [OF assms, of bs] by blast+
qed

lemma base64_codecD:
  assumes "base64_codec enc dec"
  shows "dec (enc bs) = Some bs" and "set (enc bs) \<subseteq> set base64_chars"
  using assms by (auto simp: base64_codec_def)

lemma base64_codec_no_colon:
  assumes "base64_codec enc dec"
  shows "CHR '':'' \<notin> set (enc bs)"
proof -
  have "CHR '':'' \<notin> set base64_chars" by (simp add: base64_chars_def)
  then show ?thesis using base64_codecD(2) [OF assms, of bs] by blast
qed

subsection \<open>An instance\<close>

text \<open>A concrete codec that has this behaviour: two lower-case digits per byte.\<close>

definition hex_digit :: "nat \<Rightarrow> char" where
  "hex_digit n = hex_digits ! n"

fun hex_encode_ref :: "u8 list \<Rightarrow> string" where
  "hex_encode_ref [] = []"
| "hex_encode_ref (b # bs) = hex_digit (unat b div 16) # hex_digit (unat b mod 16) # hex_encode_ref bs"

fun hex_decode_ref :: "string \<Rightarrow> u8 list option" where
  "hex_decode_ref [] = Some []"
| "hex_decode_ref [c] = None"
| "hex_decode_ref (c # d # cs) =
     (case (to_digit 16 c, to_digit 16 d) of
        (Some x, Some y) \<Rightarrow> map_option (\<lambda>bs. word_of_nat (16 * x + y) # bs) (hex_decode_ref cs)
      | _ \<Rightarrow> None)"

lemma hex_digit_cases:
  assumes "n < 16"
  shows "to_digit 16 (hex_digit n) = Some n" and "hex_digit n \<in> set hex_digits"
proof -
  have "n \<in> {0,1,2,3,4,5,6,7,8,9,10,11,12,13,14,15}"
    using assms by (simp only: insert_iff empty_iff) arith
  then show "to_digit 16 (hex_digit n) = Some n"
    by (auto simp: hex_digit_def hex_digits_def to_digit_def)
  show "hex_digit n \<in> set hex_digits"
    unfolding hex_digit_def by (rule nth_mem) (use assms in \<open>simp add: hex_digits_def\<close>)
qed

lemma hex_codec_ref: "hex_codec hex_encode_ref hex_decode_ref"
proof -
  have "hex_decode_ref (hex_encode_ref bs) = Some bs
      \<and> length (hex_encode_ref bs) = 2 * length bs \<and> set (hex_encode_ref bs) \<subseteq> set hex_digits" for bs
  proof (induction bs)
    case (Cons b bs)
    have "unat b < 256" using unat_lt_pow [of b] by simp
    then have "unat b div 16 < 16" and "unat b mod 16 < 16" by auto
    with Cons show ?case by (simp add: hex_digit_cases)
  qed simp
  then show ?thesis by (simp add: hex_codec_def)
qed

lemma hex_digits_base64: "set hex_digits \<subseteq> set base64_chars"
  by (simp add: hex_digits_def base64_chars_def)

lemma base64_codec_ref: "base64_codec hex_encode_ref hex_decode_ref"
  using hex_codec_ref hex_digits_base64 unfolding hex_codec_def base64_codec_def by blast

section \<open>Lines\<close>

text \<open>\<open>BufRead::lines\<close>: a line ends in a newline, with a carriage return before it taken off; what follows the
  last newline is a line of its own if there is anything.\<close>

definition strip_cr :: "string \<Rightarrow> string" where
  "strip_cr l = (if l \<noteq> [] \<and> last l = CHR 0x0D then butlast l else l)"

definition read_lines :: "string \<Rightarrow> string list" where
  "read_lines f =
     (let ss = split CHR 0x0A f in map strip_cr (butlast ss) @ (if last ss = [] then [] else [last ss]))"

definition complete_lines :: "string \<Rightarrow> bool" where
  "complete_lines f \<longleftrightarrow> f = [] \<or> last f = CHR 0x0A"

lemma split_no_sep: "x \<in> set (split c s) \<Longrightarrow> c \<notin> set x"
  by (induction s arbitrary: x) (auto split: list.splits if_splits)

lemma join_split: "join [c] (split c s) = s"
proof (induction s)
  case (Cons x s)
  have head: "join [c] ((x # a) # ys) = x # join [c] (a # ys)" for a ys by (cases ys) auto
  show ?case using Cons by (cases "split c s") (auto simp: head)
qed simp

lemma split_append_sep: "split c (a @ c # b) = split c a @ split c b"
proof (induction a)
  case (Cons x a)
  then show ?case by (cases "split c a") auto
qed simp

lemma read_lines_append:
  assumes "complete_lines f"
  shows "read_lines (f @ g) = read_lines f @ read_lines g"
proof (cases "f = []")
  case True
  then show ?thesis by (simp add: read_lines_def)
next
  case False
  with assms obtain a where "f = a @ [CHR 0x0A]" by (metis complete_lines_def append_butlast_last_id)
  then show ?thesis
    using split_append_sep [of "CHR 0x0A" a "[]"] by (simp add: read_lines_def Let_def split_append_sep butlast_append)
qed

section \<open>Optional fields\<close>

text \<open>A field of an object that is left out when it is absent.\<close>

definition optional_field :: "string \<Rightarrow> ('a \<Rightarrow> 'b) \<Rightarrow> 'a option \<Rightarrow> (string \<times> 'b) list" where
  "optional_field name f x = (case x of Some v \<Rightarrow> [(name, f v)] | None \<Rightarrow> [])"

lemma optional_field_simps [simp]:
  "optional_field name f (Some v) = [(name, f v)]" "optional_field name f None = []"
  by (simp_all add: optional_field_def)

lemma map_of_optional_field [simp]:
  "map_of (optional_field name f x @ xs) k = (if k = name \<and> x \<noteq> None then map_option f x else map_of xs k)"
  by (cases x) auto

end
