(* ===== verification/Algorithms.thy ===== *)
theory Algorithms
  imports Prelude
begin

text \<open>
  The algorithm names of \<^verbatim>\<open>keylime/src/algorithms.rs\<close>: the three enums, their textual form
  (\<open>Display\<close>), parsing (\<open>TryFrom<&str>\<close>) and the conversions into the TSS and OpenSSL types.
  The textual form and its parser share one contract, the locale \<open>text_codec\<close>.
\<close>

datatype algorithm_error = Hash_error string | Encrypt_error string | Sign_error string

datatype hash_algorithm = Sha1 | Sha256 | Sha384 | Sha512 | Sm3_256

datatype encryption_algorithm = Rsa | Ecc

datatype sign_algorithm = RsaSsa | RsaPss | EcDsa | EcSchnorr

text \<open>
  The TSS and OpenSSL types, by the values the code names; \<open>Hashing_Other\<close> and \<open>Signature_Other\<close>
  stand for the values it never names, the former with its \<open>Debug\<close> text.
\<close>

datatype hashing_algorithm =
  Hashing_Sha1 | Hashing_Sha256 | Hashing_Sha384 | Hashing_Sha512 | Hashing_Sm3_256
| Hashing_Other string

datatype message_digest = md_sha1 | md_sha256 | md_sha384 | md_sha512 | md_sm3

datatype asymmetric_algorithm = Asym_Rsa | Asym_Ecc | Asym_Null

datatype signature_scheme =
  Scheme_RsaSsa hashing_algorithm | Scheme_RsaPss hashing_algorithm
| Scheme_EcDsa hashing_algorithm | Scheme_EcSchnorr hashing_algorithm | Scheme_Null

datatype signature_scheme_algorithm =
  Sign_RsaSsa | Sign_RsaPss | Sign_EcDsa | Sign_EcSchnorr | Signature_Other nat

section \<open>Hash algorithms\<close>

definition hash_algorithm_try_from :: "string \<Rightarrow> (hash_algorithm, algorithm_error) outcome" where
  "hash_algorithm_try_from value =
     (if value = ''sha1'' then Ok Sha1
      else if value = ''sha256'' then Ok Sha256
      else if value = ''sha384'' then Ok Sha384
      else if value = ''sha512'' then Ok Sha512
      else if value = ''sm3_256'' then Ok Sm3_256
      else Err (Hash_error (''Hash algorithm '' @ value @ '' is not supported by Keylime'')))"

fun hash_algorithm_to_string :: "hash_algorithm \<Rightarrow> string" where
  "hash_algorithm_to_string Sha1 = ''sha1''"
| "hash_algorithm_to_string Sha256 = ''sha256''"
| "hash_algorithm_to_string Sha384 = ''sha384''"
| "hash_algorithm_to_string Sha512 = ''sha512''"
| "hash_algorithm_to_string Sm3_256 = ''sm3_256''"

fun hashing_from_hash :: "hash_algorithm \<Rightarrow> hashing_algorithm" where
  "hashing_from_hash Sha1 = Hashing_Sha1"
| "hashing_from_hash Sha256 = Hashing_Sha256"
| "hashing_from_hash Sha384 = Hashing_Sha384"
| "hashing_from_hash Sha512 = Hashing_Sha512"
| "hashing_from_hash Sm3_256 = Hashing_Sm3_256"

fun message_digest_from_hash :: "hash_algorithm \<Rightarrow> message_digest" where
  "message_digest_from_hash Sha1 = md_sha1"
| "message_digest_from_hash Sha256 = md_sha256"
| "message_digest_from_hash Sha384 = md_sha384"
| "message_digest_from_hash Sha512 = md_sha512"
| "message_digest_from_hash Sm3_256 = md_sm3"

section \<open>Encryption algorithms\<close>

fun asymmetric_from_encryption :: "encryption_algorithm \<Rightarrow> asymmetric_algorithm" where
  "asymmetric_from_encryption Rsa = Asym_Rsa"
| "asymmetric_from_encryption Ecc = Asym_Ecc"

definition encryption_algorithm_try_from ::
  "string \<Rightarrow> (encryption_algorithm, algorithm_error) outcome" where
  "encryption_algorithm_try_from value =
     (if value = ''rsa'' then Ok Rsa
      else if value = ''ecc'' then Ok Ecc
      else Err (Encrypt_error (''Encryption algorithm '' @ value @ '' not supported by Keylime'')))"

fun encryption_algorithm_to_string :: "encryption_algorithm \<Rightarrow> string" where
  "encryption_algorithm_to_string Rsa = ''rsa''"
| "encryption_algorithm_to_string Ecc = ''ecc''"

section \<open>Signing algorithms\<close>

fun to_signature_scheme :: "sign_algorithm \<Rightarrow> hash_algorithm \<Rightarrow> signature_scheme" where
  "to_signature_scheme RsaSsa h = Scheme_RsaSsa (hashing_from_hash h)"
| "to_signature_scheme RsaPss h = Scheme_RsaPss (hashing_from_hash h)"
| "to_signature_scheme EcDsa h = Scheme_EcDsa (hashing_from_hash h)"
| "to_signature_scheme EcSchnorr h = Scheme_EcSchnorr (hashing_from_hash h)"

fun scheme_algorithm_from_sign :: "sign_algorithm \<Rightarrow> signature_scheme_algorithm" where
  "scheme_algorithm_from_sign RsaSsa = Sign_RsaSsa"
| "scheme_algorithm_from_sign RsaPss = Sign_RsaPss"
| "scheme_algorithm_from_sign EcDsa = Sign_EcDsa"
| "scheme_algorithm_from_sign EcSchnorr = Sign_EcSchnorr"

definition sign_algorithm_try_from :: "string \<Rightarrow> (sign_algorithm, algorithm_error) outcome" where
  "sign_algorithm_try_from value =
     (if value = ''rsassa'' then Ok RsaSsa
      else if value = ''rsapss'' then Ok RsaPss
      else if value = ''ecdsa'' then Ok EcDsa
      else if value = ''ecschnorr'' then Ok EcSchnorr
      else Err (Sign_error (''Signing algorithm '' @ value @ '' not supported by Keylime'')))"

fun sign_algorithm_to_string :: "sign_algorithm \<Rightarrow> string" where
  "sign_algorithm_to_string RsaSsa = ''rsassa''"
| "sign_algorithm_to_string RsaPss = ''rsapss''"
| "sign_algorithm_to_string EcDsa = ''ecdsa''"
| "sign_algorithm_to_string EcSchnorr = ''ecschnorr''"

section \<open>The contract of a textual form and its parser\<close>

locale text_codec =
  fixes to_text :: "'a \<Rightarrow> string"
    and of_text :: "string \<Rightarrow> ('a, 'e) outcome"
  assumes of_to: "of_text (to_text a) = Ok a"
    and of_sound: "of_text s = Ok a \<Longrightarrow> to_text a = s"
    and of_total: "of_text s \<noteq> Panic"
begin

lemma of_text_Ok_iff: "of_text s = Ok a \<longleftrightarrow> s = to_text a"
  using of_to of_sound by blast

lemma to_text_inj: "to_text a = to_text b \<Longrightarrow> a = b"
  by (metis of_to outcome.inject(1))

lemma of_text_rejects: "s \<notin> range to_text \<Longrightarrow> \<exists>e. of_text s = Err e"
  using of_total [of s] of_sound [of s] by (cases "of_text s") auto

lemma is_err_iff: "is_err (of_text s) \<longleftrightarrow> s \<notin> range to_text"
  using of_text_rejects [of s] of_to by auto

end

interpretation hash_text: text_codec hash_algorithm_to_string hash_algorithm_try_from
proof
  fix a show "hash_algorithm_try_from (hash_algorithm_to_string a) = Ok a"
    by (cases a) (simp_all add: hash_algorithm_try_from_def)
next
  fix s a show "hash_algorithm_try_from s = Ok a \<Longrightarrow> hash_algorithm_to_string a = s"
    by (auto simp: hash_algorithm_try_from_def split: if_splits)
qed (simp add: hash_algorithm_try_from_def)

interpretation encryption_text: text_codec encryption_algorithm_to_string encryption_algorithm_try_from
proof
  fix a show "encryption_algorithm_try_from (encryption_algorithm_to_string a) = Ok a"
    by (cases a) (simp_all add: encryption_algorithm_try_from_def)
next
  fix s a show "encryption_algorithm_try_from s = Ok a \<Longrightarrow> encryption_algorithm_to_string a = s"
    by (auto simp: encryption_algorithm_try_from_def split: if_splits)
qed (simp add: encryption_algorithm_try_from_def)

interpretation sign_text: text_codec sign_algorithm_to_string sign_algorithm_try_from
proof
  fix a show "sign_algorithm_try_from (sign_algorithm_to_string a) = Ok a"
    by (cases a) (simp_all add: sign_algorithm_try_from_def)
next
  fix s a show "sign_algorithm_try_from s = Ok a \<Longrightarrow> sign_algorithm_to_string a = s"
    by (auto simp: sign_algorithm_try_from_def split: if_splits)
qed (simp add: sign_algorithm_try_from_def)

lemma hash_algorithm_to_string_no_colon [simp]: "CHR '':'' \<notin> set (hash_algorithm_to_string a)"
  by (cases a) auto

lemma hash_algorithm_to_string_no_space [simp]: "CHR '' '' \<notin> set (hash_algorithm_to_string a)"
  by (cases a) auto

lemma length_hash_algorithm_to_string: "length (hash_algorithm_to_string a) \<le> 7"
  by (cases a) auto

text \<open>The names of the hash, encryption and signing algorithms round trip. Each parser
  accepts exactly the names its \<open>Display\<close> writes, maps each to the algorithm that writes it, and
  rejects every other text with an error.\<close>

theorem algorithm_names_roundtrip:
  "(hash_algorithm_try_from s = Ok h \<longleftrightarrow> s = hash_algorithm_to_string h)
   \<and> (encryption_algorithm_try_from s = Ok e \<longleftrightarrow> s = encryption_algorithm_to_string e)
   \<and> (sign_algorithm_try_from s = Ok g \<longleftrightarrow> s = sign_algorithm_to_string g)
   \<and> (is_err (hash_algorithm_try_from s) \<longleftrightarrow> s \<notin> range hash_algorithm_to_string)
   \<and> (is_err (encryption_algorithm_try_from s) \<longleftrightarrow> s \<notin> range encryption_algorithm_to_string)
   \<and> (is_err (sign_algorithm_try_from s) \<longleftrightarrow> s \<notin> range sign_algorithm_to_string)"
  by (intro conjI hash_text.of_text_Ok_iff encryption_text.of_text_Ok_iff sign_text.of_text_Ok_iff
      hash_text.is_err_iff encryption_text.is_err_iff sign_text.is_err_iff)

end
