(* ===== verification/Bytes.thy ===== *)
theory Bytes
  imports Prelude
begin

text \<open>
  Byte order conversions of the fixed-width integers, sequential reading of a byte buffer
  (\<open>std::io::Read::read_exact\<close> on a cursor), and the contract that a writer and a reader of one
  format share: reading what was written gives the value back and leaves the rest untouched.
\<close>

section \<open>Byte order\<close>

fun le_bytes :: "nat \<Rightarrow> nat \<Rightarrow> u8 list" where
  "le_bytes 0 k = []"
| "le_bytes (Suc n) k = word_of_nat (k mod 256) # le_bytes n (k div 256)"

fun le_val :: "u8 list \<Rightarrow> nat" where
  "le_val [] = 0"
| "le_val (b # bs) = unat b + 256 * le_val bs"

definition u32_to_le_bytes :: "u32 \<Rightarrow> u8 list" where
  "u32_to_le_bytes w = le_bytes 4 (unat w)"

definition u32_from_le_bytes :: "u8 list \<Rightarrow> u32" where
  "u32_from_le_bytes bs = word_of_nat (le_val bs)"

definition u16_to_le_bytes :: "u16 \<Rightarrow> u8 list" where
  "u16_to_le_bytes w = le_bytes 2 (unat w)"

definition u16_from_le_bytes :: "u8 list \<Rightarrow> u16" where
  "u16_from_le_bytes bs = word_of_nat (le_val bs)"

definition u32_to_be_bytes :: "u32 \<Rightarrow> u8 list" where
  "u32_to_be_bytes w = rev (le_bytes 4 (unat w))"

definition u32_from_be_bytes :: "u8 list \<Rightarrow> u32" where
  "u32_from_be_bytes bs = word_of_nat (le_val (rev bs))"

definition u16_to_be_bytes :: "u16 \<Rightarrow> u8 list" where
  "u16_to_be_bytes w = rev (le_bytes 2 (unat w))"

definition u16_from_be_bytes :: "u8 list \<Rightarrow> u16" where
  "u16_from_be_bytes bs = word_of_nat (le_val (rev bs))"

lemma length_le_bytes [simp]: "length (le_bytes n k) = n"
  by (induction n arbitrary: k) auto

lemma le_val_le_bytes: "le_val (le_bytes n k) = k mod 256 ^ n"
proof (induction n arbitrary: k)
  case 0
  then show ?case by simp
next
  case (Suc n)
  have "k mod 256 ^ Suc n = k mod 256 + 256 * (k div 256 mod 256 ^ n)"
    by (simp add: mod_mult2_eq)
  then show ?case by (simp add: Suc.IH unat_of_nat)
qed

lemma le_val_bound: "le_val bs < 256 ^ length bs"
proof (induction bs)
  case (Cons b bs)
  have "unat b < 256" using unat_lt_pow [of b] by simp
  moreover have "le_val bs + 1 \<le> 256 ^ length bs" using Cons by simp
  ultimately show ?case by simp
qed simp

lemma le_bytes_le_val: "le_bytes (length bs) (le_val bs) = bs"
proof (induction bs)
  case (Cons b bs)
  have "unat b < 256" using unat_lt_pow [of b] by simp
  then show ?case using Cons by simp
qed simp

lemma u32_from_to_le [simp]: "u32_from_le_bytes (u32_to_le_bytes w) = w"
  using unat_lt_pow [of w]
  by (simp add: u32_from_le_bytes_def u32_to_le_bytes_def le_val_le_bytes)

lemma u16_from_to_le [simp]: "u16_from_le_bytes (u16_to_le_bytes w) = w"
  using unat_lt_pow [of w]
  by (simp add: u16_from_le_bytes_def u16_to_le_bytes_def le_val_le_bytes)

lemma u32_from_to_be [simp]: "u32_from_be_bytes (u32_to_be_bytes w) = w"
  using unat_lt_pow [of w]
  by (simp add: u32_from_be_bytes_def u32_to_be_bytes_def le_val_le_bytes)

lemma u16_from_to_be [simp]: "u16_from_be_bytes (u16_to_be_bytes w) = w"
  using unat_lt_pow [of w]
  by (simp add: u16_from_be_bytes_def u16_to_be_bytes_def le_val_le_bytes)

lemma length_to_bytes [simp]:
  "length (u32_to_le_bytes w) = 4" "length (u16_to_le_bytes v) = 2"
  "length (u32_to_be_bytes w) = 4" "length (u16_to_be_bytes v) = 2"
  by (simp_all add: u32_to_le_bytes_def u16_to_le_bytes_def u32_to_be_bytes_def u16_to_be_bytes_def)

section \<open>Reading a buffer\<close>

definition read_exact :: "nat \<Rightarrow> u8 list \<Rightarrow> (u8 list \<times> u8 list) option" where
  "read_exact n bs = (if n \<le> length bs then Some (take n bs, drop n bs) else None)"

lemma read_exact_append [simp, codec_laws]:
  "length a = n \<Longrightarrow> read_exact n (a @ b) = Some (a, b)"
  by (auto simp: read_exact_def)

lemma read_exact_None_iff: "read_exact n bs = None \<longleftrightarrow> length bs < n"
  by (auto simp: read_exact_def)

text \<open>Reading \<open>n\<close> consecutive elements of an array.\<close>

fun read_n :: "(u8 list \<Rightarrow> ('a \<times> u8 list) option) \<Rightarrow> nat \<Rightarrow> u8 list \<Rightarrow> ('a list \<times> u8 list) option"
where
  "read_n rd 0 bs = Some ([], bs)"
| "read_n rd (Suc n) bs =
     (case rd bs of
        None \<Rightarrow> None
      | Some (x, bs') \<Rightarrow> map_option (\<lambda>(xs, r). (x # xs, r)) (read_n rd n bs'))"

section \<open>The contract of a writer and a reader\<close>

locale byte_codec =
  fixes enc :: "'a \<Rightarrow> u8 list"
    and rd :: "u8 list \<Rightarrow> ('a \<times> u8 list) option"
    and valid :: "'a \<Rightarrow> bool"
  assumes read_back: "valid x \<Longrightarrow> rd (enc x @ rest) = Some (x, rest)"
begin

lemma enc_prefix_free:
  assumes "valid x" and "valid y" and "enc x @ r = enc y @ s"
  shows "x = y \<and> r = s"
  using read_back [OF assms(1), of r] read_back [OF assms(2), of s] assms(3)
  by (metis option.inject prod.inject)

lemma enc_inj: "valid x \<Longrightarrow> valid y \<Longrightarrow> enc x = enc y \<Longrightarrow> x = y"
  using enc_prefix_free [of x y "[]" "[]"] by simp

lemma read_n_back:
  "list_all valid xs \<Longrightarrow> read_n rd (length xs) (concat (map enc xs) @ rest) = Some (xs, rest)"
  by (induction xs) (auto simp: read_back)

lemma concat_inj:
  assumes "list_all valid xs" and "list_all valid ys" and "length xs = length ys"
    and "concat (map enc xs) = concat (map enc ys)"
  shows "xs = ys"
  using read_n_back [OF assms(1), of "[]"] read_n_back [OF assms(2), of "[]"] assms(3,4) by simp

end

definition read_u32_le :: "u8 list \<Rightarrow> (u32 \<times> u8 list) option" where
  "read_u32_le bs = map_option (\<lambda>(a, r). (u32_from_le_bytes a, r)) (read_exact 4 bs)"

definition read_u16_le :: "u8 list \<Rightarrow> (u16 \<times> u8 list) option" where
  "read_u16_le bs = map_option (\<lambda>(a, r). (u16_from_le_bytes a, r)) (read_exact 2 bs)"

interpretation u32_le: byte_codec u32_to_le_bytes read_u32_le "\<lambda>_. True"
  by unfold_locales (simp add: read_u32_le_def)

interpretation u16_le: byte_codec u16_to_le_bytes read_u16_le "\<lambda>_. True"
  by unfold_locales (simp add: read_u16_le_def)

lemma read_u32_back [simp, codec_laws]: "read_u32_le (u32_to_le_bytes w @ r) = Some (w, r)"
  by (rule u32_le.read_back) simp

lemma read_u16_back [simp, codec_laws]: "read_u16_le (u16_to_le_bytes w @ r) = Some (w, r)"
  by (rule u16_le.read_back) simp

text \<open>A byte string behind its 32-bit length, as the IMA binary format writes each field.\<close>

definition field_bytes :: "u8 list \<Rightarrow> u8 list" where
  "field_bytes bs = u32_to_le_bytes (word_of_nat (length bs)) @ bs"

definition read_field :: "u8 list \<Rightarrow> (u8 list \<times> u8 list) option" where
  "read_field bs =
     (case read_u32_le bs of None \<Rightarrow> None | Some (n, r) \<Rightarrow> read_exact (unat n) r)"

interpretation field: byte_codec field_bytes read_field "\<lambda>bs. length bs < 2 ^ 32"
  by unfold_locales (simp add: read_field_def field_bytes_def unat_of_nat)

lemma length_field_bytes [simp]: "length (field_bytes bs) = 4 + length bs"
  by (simp add: field_bytes_def)

end
