(* ===== verification/Ima_Entry.thy ===== *)
theory Ima_Entry
  imports Algorithms Bytes
begin

text \<open>
  The IMA measurement list entries of \<^verbatim>\<open>keylime/src/ima/entry.rs\<close>: parsing of the ASCII form of
  the four templates and the binary encoding of the event data over which the kernel computes
  the template hash. The hexadecimal decoder of the \<open>hex\<close> crate and the digest sizes of OpenSSL
  are parameters. A writer is the byte vector it accumulates: on \<open>Vec<u8>\<close>, the only writer the
  workspace uses, \<open>write_all\<close> appends and never fails.
\<close>

section \<open>Digests\<close>

datatype io_error_kind = InvalidInput | NotFound | Other_kind

datatype io_error = Io_error io_error_kind string

record ima_digest =
  digest_algorithm :: hash_algorithm
  digest_value :: "u8 list"

definition digest_new ::
  "(message_digest \<Rightarrow> nat) \<Rightarrow> hash_algorithm \<Rightarrow> u8 list \<Rightarrow> (ima_digest, io_error) outcome" where
  "digest_new md_size alg v =
     (if length v \<noteq> md_size (message_digest_from_hash alg)
      then Err (Io_error InvalidInput ''invalid digest value'')
      else Ok \<lparr>digest_algorithm = alg, digest_value = v\<rparr>)"

definition digest_start :: "(message_digest \<Rightarrow> nat) \<Rightarrow> hash_algorithm \<Rightarrow> ima_digest" where
  "digest_start md_size alg =
     \<lparr>digest_algorithm = alg,
      digest_value = replicate (md_size (message_digest_from_hash alg)) 0x00\<rparr>"

definition digest_ff :: "(message_digest \<Rightarrow> nat) \<Rightarrow> hash_algorithm \<Rightarrow> ima_digest" where
  "digest_ff md_size alg =
     \<lparr>digest_algorithm = alg,
      digest_value = replicate (md_size (message_digest_from_hash alg)) 0xff\<rparr>"

definition invalid_hex :: io_error where
  "invalid_hex = Io_error InvalidInput ''invalid hex encoding''"

definition digest_try_from ::
  "(string \<Rightarrow> u8 list option) \<Rightarrow> string \<Rightarrow> (ima_digest, io_error) outcome" where
  "digest_try_from hex value =
     (case splitn 2 CHR '':'' value of
        [t] \<Rightarrow>
          and_then (ok_or invalid_hex (hex t)) (\<lambda>v.
          Ok \<lparr>digest_algorithm = Sha1, digest_value = v\<rparr>)
      | t0 # t1 # _ \<Rightarrow>
          and_then (map_err (\<lambda>_. Io_error InvalidInput ''invalid algorithm'')
            (hash_algorithm_try_from t0)) (\<lambda>alg.
          and_then (ok_or invalid_hex (hex t1)) (\<lambda>v.
          Ok \<lparr>digest_algorithm = alg, digest_value = v\<rparr>))
      | [] \<Rightarrow> Panic)"

definition digest_encode :: "ima_digest \<Rightarrow> u8 list" where
  "digest_encode d =
     (if digest_algorithm d = Sha1
      then u32_to_le_bytes (word_of_nat (length (digest_value d))) @ digest_value d
      else
        let alg = hash_algorithm_to_string (digest_algorithm d);
            total_len = length alg + 2 + length (digest_value d)
        in u32_to_le_bytes (word_of_nat total_len) @ as_bytes alg @ [58, 0] @ digest_value d)"

definition digest_encode_legacy :: "ima_digest \<Rightarrow> u8 list" where
  "digest_encode_legacy d = digest_value d"

section \<open>Names, signatures and buffers\<close>

definition TCG_EVENT_NAME_LEN_MAX :: nat where
  "TCG_EVENT_NAME_LEN_MAX = 255"

definition name_encode :: "string \<Rightarrow> u8 list" where
  "name_encode name =
     (let bytes = as_bytes name
      in u32_to_le_bytes (word_of_nat (length bytes + 1)) @ bytes @ [0])"

text \<open>
  The padding length is a \<open>usize\<close> subtraction: on a longer name it panics (overflow check) or
  wraps to a length no vector can have, which panics too.
\<close>

definition name_encode_legacy :: "string \<Rightarrow> (u8 list, io_error) outcome" where
  "name_encode_legacy name =
     (let bytes = as_bytes name
      in if length bytes > TCG_EVENT_NAME_LEN_MAX then Panic
         else Ok (bytes @ replicate (TCG_EVENT_NAME_LEN_MAX - length bytes) 0))"

definition signature_try_from ::
  "(string \<Rightarrow> u8 list option) \<Rightarrow> string \<Rightarrow> (u8 list, io_error) outcome" where
  "signature_try_from hex value =
     and_then (ok_or invalid_hex (hex value)) (\<lambda>v.
     if length v < 9 then Err (Io_error InvalidInput ''invalid signature'')
     else
       and_then (slice 7 9 v) (\<lambda>sz.
       let sig_size = u16_from_be_bytes sz
       in if unat sig_size + 9 \<noteq> length v then Err (Io_error InvalidInput ''invalid signature'')
          else Ok v))"

definition signature_encode :: "u8 list \<Rightarrow> u8 list" where
  "signature_encode v = u32_to_le_bytes (word_of_nat (length v)) @ v"

definition buffer_try_from ::
  "(string \<Rightarrow> u8 list option) \<Rightarrow> string \<Rightarrow> (u8 list, io_error) outcome" where
  "buffer_try_from hex value = ok_or invalid_hex (hex value)"

definition buffer_encode :: "u8 list \<Rightarrow> u8 list" where
  "buffer_encode v = u32_to_le_bytes (word_of_nat (length v)) @ v"

section \<open>Event data\<close>

text \<open>The four implementations of the trait \<open>EventData\<close>, one constructor each.\<close>

datatype event_data =
  Ima ima_digest string
| ImaNg ima_digest string
| ImaSig ima_digest string "u8 list option"
| ImaBuf ima_digest string "u8 list"

fun event_path :: "event_data \<Rightarrow> string" where
  "event_path (Ima d p) = p"
| "event_path (ImaNg d p) = p"
| "event_path (ImaSig d p s) = p"
| "event_path (ImaBuf d n b) = n"

definition ima_try_from ::
  "(string \<Rightarrow> u8 list option) \<Rightarrow> string \<Rightarrow> (event_data, io_error) outcome" where
  "ima_try_from hex value =
     (case splitn 2 CHR '' '' value of
        [t0, t1] \<Rightarrow> and_then (digest_try_from hex t0) (\<lambda>d. Ok (Ima d t1))
      | _ \<Rightarrow> Err (Io_error InvalidInput value))"

definition ima_ng_try_from ::
  "(string \<Rightarrow> u8 list option) \<Rightarrow> string \<Rightarrow> (event_data, io_error) outcome" where
  "ima_ng_try_from hex value =
     (case splitn 2 CHR '' '' value of
        [t0, t1] \<Rightarrow> and_then (digest_try_from hex t0) (\<lambda>d. Ok (ImaNg d t1))
      | _ \<Rightarrow> Err (Io_error InvalidInput value))"

definition ima_sig_try_from ::
  "(string \<Rightarrow> u8 list option) \<Rightarrow> string \<Rightarrow> (event_data, io_error) outcome" where
  "ima_sig_try_from hex value =
     (case rsplit_once CHR '' '' value of
        None \<Rightarrow> Err (Io_error InvalidInput value)
      | Some (v, signature) \<Rightarrow>
          (case splitn 2 CHR '' '' v of
             [t0, t1] \<Rightarrow>
               and_then (digest_try_from hex t0) (\<lambda>d.
               and_then (if signature \<noteq> [] then
                           and_then (signature_try_from hex signature) (\<lambda>s. Ok (Some s))
                         else Ok None) (\<lambda>s.
               Ok (ImaSig d t1 s)))
           | _ \<Rightarrow> Err (Io_error InvalidInput v)))"

definition ima_buf_try_from ::
  "(string \<Rightarrow> u8 list option) \<Rightarrow> string \<Rightarrow> (event_data, io_error) outcome" where
  "ima_buf_try_from hex value =
     (case splitn 3 CHR '' '' value of
        [t0, t1, t2] \<Rightarrow>
          and_then (digest_try_from hex t0) (\<lambda>d.
          and_then (buffer_try_from hex t2) (\<lambda>b. Ok (ImaBuf d t1 b)))
      | _ \<Rightarrow> Err (Io_error InvalidInput value))"

fun event_encode :: "event_data \<Rightarrow> (u8 list, io_error) outcome" where
  "event_encode (Ima d p) =
     and_then (name_encode_legacy p) (\<lambda>n. Ok (digest_encode_legacy d @ n))"
| "event_encode (ImaNg d p) = Ok (digest_encode d @ name_encode p)"
| "event_encode (ImaSig d p s) =
     Ok (digest_encode d @ name_encode p
         @ (case s of Some sg \<Rightarrow> signature_encode sg | None \<Rightarrow> u32_to_le_bytes 0))"
| "event_encode (ImaBuf d n b) = Ok (digest_encode d @ name_encode n @ buffer_encode b)"

section \<open>Entries\<close>

record ima_entry =
  template_hash :: ima_digest
  event_data :: event_data

definition entry_try_from ::
  "(string \<Rightarrow> u8 list option) \<Rightarrow> string \<Rightarrow> (ima_entry, io_error) outcome" where
  "entry_try_from hex value =
     (case splitn 4 CHR '' '' value of
        [t0, t1, mode, event] \<Rightarrow>
          and_then (ok_or invalid_hex (hex t1)) (\<lambda>h.
          let mk = (\<lambda>ev. Ok \<lparr>template_hash = \<lparr>digest_algorithm = Sha1, digest_value = h\<rparr>,
                              event_data = ev\<rparr>)
          in if mode = ''ima'' then and_then (ima_try_from hex event) mk
             else if mode = ''ima-ng'' then and_then (ima_ng_try_from hex event) mk
             else if mode = ''ima-sig'' then and_then (ima_sig_try_from hex event) mk
             else if mode = ''ima-buf'' then and_then (ima_buf_try_from hex event) mk
             else Err (Io_error Other_kind
                    (''unrecognized template '' @ [CHR 0x22] @ mode @ [CHR 0x22])))
      | _ \<Rightarrow> Err (Io_error InvalidInput value))"

section \<open>The ASCII form of an entry\<close>

text \<open>
  How the kernel prints an entry (the PCR, the template hash, the template name and the fields of
  the template, separated by spaces), as the specification of the parser.
\<close>

definition digest_text :: "(u8 list \<Rightarrow> string) \<Rightarrow> ima_digest \<Rightarrow> string" where
  "digest_text hexe d =
     hash_algorithm_to_string (digest_algorithm d) @ CHR '':'' # hexe (digest_value d)"

fun event_template :: "event_data \<Rightarrow> string" where
  "event_template (Ima d p) = ''ima''"
| "event_template (ImaNg d p) = ''ima-ng''"
| "event_template (ImaSig d p s) = ''ima-sig''"
| "event_template (ImaBuf d n b) = ''ima-buf''"

fun event_text :: "(u8 list \<Rightarrow> string) \<Rightarrow> event_data \<Rightarrow> string" where
  "event_text hexe (Ima d p) = hexe (digest_value d) @ CHR '' '' # p"
| "event_text hexe (ImaNg d p) = digest_text hexe d @ CHR '' '' # p"
| "event_text hexe (ImaSig d p s) =
     (digest_text hexe d @ CHR '' '' # p) @ CHR '' '' # (case s of None \<Rightarrow> [] | Some sg \<Rightarrow> hexe sg)"
| "event_text hexe (ImaBuf d n b) = digest_text hexe d @ CHR '' '' # n @ CHR '' '' # hexe b"

definition entry_text :: "(u8 list \<Rightarrow> string) \<Rightarrow> string \<Rightarrow> ima_entry \<Rightarrow> string" where
  "entry_text hexe pcr e =
     pcr @ CHR '' '' # hexe (digest_value (template_hash e)) @ CHR '' '' #
     event_template (event_data e) @ CHR '' '' # event_text hexe (event_data e)"

definition valid_signature :: "u8 list \<Rightarrow> bool" where
  "valid_signature sg \<longleftrightarrow>
     9 \<le> length sg \<and> unat (u16_from_be_bytes (take 2 (drop 7 sg))) + 9 = length sg"

fun printable_event :: "event_data \<Rightarrow> bool" where
  "printable_event (Ima d p) = (digest_algorithm d = Sha1)"
| "printable_event (ImaNg d p) = True"
| "printable_event (ImaSig d p s) = (case s of None \<Rightarrow> True | Some sg \<Rightarrow> valid_signature sg)"
| "printable_event (ImaBuf d n b) = (CHR '' '' \<notin> set n)"

definition printable_entry :: "ima_entry \<Rightarrow> bool" where
  "printable_entry e \<longleftrightarrow>
     digest_algorithm (template_hash e) = Sha1 \<and> printable_event (event_data e)"

section \<open>Parsing\<close>

lemma digest_try_from_text:
  assumes "hex_codec hexe hexd"
  shows "digest_try_from hexd (digest_text hexe d) = Ok d"
  by (simp add: digest_try_from_def digest_text_def hash_text.of_to hex_codecD [OF assms])

lemma digest_try_from_plain:
  assumes "hex_codec hexe hexd"
  shows "digest_try_from hexd (hexe v) = Ok \<lparr>digest_algorithm = Sha1, digest_value = v\<rparr>"
  by (simp add: digest_try_from_def hex_codecD [OF assms] hex_codec_no_sep [OF assms])

lemma digest_text_no_space:
  assumes "hex_codec hexe hexd"
  shows "CHR '' '' \<notin> set (digest_text hexe d)"
  by (simp add: digest_text_def hex_codec_no_sep [OF assms])

lemma signature_try_from_Ok_iff:
  "signature_try_from hex s = Ok v \<longleftrightarrow> hex s = Some v \<and> valid_signature v"
  by (cases "hex s")
    (auto simp: signature_try_from_def valid_signature_def slice_def Let_def numeral_2_eq_2)

lemma signature_try_from_no_panic: "signature_try_from hex s \<noteq> Panic"
  by (cases "hex s") (auto simp: signature_try_from_def slice_def Let_def)

lemma event_try_from_text:
  assumes "hex_codec hexe hexd" and "printable_event ev"
  shows "(case ev of Ima _ _ \<Rightarrow> ima_try_from | ImaNg _ _ \<Rightarrow> ima_ng_try_from
            | ImaSig _ _ _ \<Rightarrow> ima_sig_try_from | ImaBuf _ _ _ \<Rightarrow> ima_buf_try_from)
           hexd (event_text hexe ev) = Ok ev"
proof (cases ev)
  case (Ima d p)
  then show ?thesis using assms(2)
    by (simp add: ima_try_from_def hex_codec_no_sep [OF assms(1)] digest_try_from_plain [OF assms(1)])
next
  case (ImaNg d p)
  then show ?thesis
    by (simp add: ima_ng_try_from_def digest_text_no_space [OF assms(1)] digest_try_from_text [OF assms(1)])
next
  case (ImaSig d p s)
  note digest_facts = digest_text_no_space [OF assms(1)] digest_try_from_text [OF assms(1)]
  show ?thesis
  proof (cases s)
    case None
    then show ?thesis using ImaSig digest_facts
      by (simp add: ima_sig_try_from_def del: append_assoc append_Cons)
  next
    case (Some sg)
    with ImaSig assms(2) have "valid_signature sg" by simp
    then have "signature_try_from hexd (hexe sg) = Ok sg" and "0 < length (hexe sg)"
      by (auto simp: signature_try_from_Ok_iff hex_codecD [OF assms(1)] valid_signature_def)
    then show ?thesis using ImaSig Some digest_facts hex_codec_no_sep [OF assms(1), of sg]
      by (simp add: ima_sig_try_from_def del: append_assoc append_Cons)
  qed
next
  case (ImaBuf d n b)
  then show ?thesis using assms(2)
    by (simp add: ima_buf_try_from_def buffer_try_from_def digest_text_no_space [OF assms(1)]
        digest_try_from_text [OF assms(1)] hex_codecD [OF assms(1)])
qed

lemma event_template_no_space [simp]: "CHR '' '' \<notin> set (event_template ev)"
  by (cases ev) auto

text \<open>\<^bold>\<open>C24\<close>: parsing the ASCII form of an entry gives the entry back, for each of the four
  templates; paths of the first three templates may contain spaces.\<close>

theorem entry_try_from_text:
  assumes "hex_codec hexe hexd" and "printable_entry e" and "CHR '' '' \<notin> set pcr"
  shows "entry_try_from hexd (entry_text hexe pcr e) = Ok e"
proof -
  obtain th ev where e: "e = \<lparr>template_hash = th, event_data = ev\<rparr>" by (cases e)
  with assms(2) have th: "th = \<lparr>digest_algorithm = Sha1, digest_value = digest_value th\<rparr>"
    and ev: "printable_event ev"
    by (auto simp: printable_entry_def)
  have "splitn 4 CHR '' '' (entry_text hexe pcr e)
      = [pcr, hexe (digest_value th), event_template ev, event_text hexe ev]"
    using assms(3) by (simp add: entry_text_def e hex_codec_no_sep [OF assms(1)])
  then show ?thesis
    using event_try_from_text [OF assms(1) ev] th
    by (cases ev) (simp_all add: e entry_try_from_def hex_codecD [OF assms(1)])
qed

theorem entry_try_from_text_witness:
  "entry_try_from hex_decode_ref (entry_text hex_encode_ref ''10''
     \<lparr>template_hash = \<lparr>digest_algorithm = Sha1, digest_value = [0xd7, 2]\<rparr>,
      event_data = ImaNg \<lparr>digest_algorithm = Sha256, digest_value = [0x6f]\<rparr> ''/usr/my file''\<rparr>)
   = Ok \<lparr>template_hash = \<lparr>digest_algorithm = Sha1, digest_value = [0xd7, 2]\<rparr>,
      event_data = ImaNg \<lparr>digest_algorithm = Sha256, digest_value = [0x6f]\<rparr> ''/usr/my file''\<rparr>"
  by (rule entry_try_from_text [OF hex_codec_ref]) (simp_all add: printable_entry_def)

text \<open>A parsed file signature is exactly a decoded byte string of at least nine
  bytes whose big-endian length field (bytes 7 and 8) accounts for all the rest; no input makes
  the parser panic.\<close>

theorem signature_try_from_spec:
  "(signature_try_from hex s = Ok v \<longleftrightarrow> hex s = Some v \<and> valid_signature v)
   \<and> signature_try_from hex s \<noteq> Panic"
  using signature_try_from_Ok_iff signature_try_from_no_panic by blast

section \<open>The binary form\<close>

text \<open>
  The body of an encoded digest: the bare value for SHA-1, the algorithm name, a colon and a NUL
  before the value otherwise.
\<close>

definition digest_body :: "ima_digest \<Rightarrow> u8 list" where
  "digest_body d =
     (if digest_algorithm d = Sha1 then digest_value d
      else as_bytes (hash_algorithm_to_string (digest_algorithm d)) @ [58, 0] @ digest_value d)"

lemma digest_encode_field: "digest_encode d = field_bytes (digest_body d)"
  by (simp add: digest_encode_def digest_body_def field_bytes_def Let_def add.assoc)

lemma name_encode_field: "name_encode n = field_bytes (as_bytes n @ [0])"
  by (simp add: name_encode_def field_bytes_def Let_def)

lemma signature_encode_field: "signature_encode s = field_bytes s"
  by (simp add: signature_encode_def field_bytes_def)

lemma buffer_encode_field: "buffer_encode s = field_bytes s"
  by (simp add: buffer_encode_def field_bytes_def)

lemma empty_field: "u32_to_le_bytes 0 = field_bytes []"
  by (simp add: field_bytes_def)

lemmas encode_fields =
  digest_encode_field name_encode_field signature_encode_field buffer_encode_field empty_field

text \<open>Digests whose value has the length their algorithm gives, and events made of them.\<close>

definition digest_size :: "hash_algorithm \<Rightarrow> nat" where
  "digest_size alg = (case alg of Sha1 \<Rightarrow> 20 | Sha256 \<Rightarrow> 32 | Sha384 \<Rightarrow> 48 | Sha512 \<Rightarrow> 64 | Sm3_256 \<Rightarrow> 32)"

definition sized_digest :: "ima_digest \<Rightarrow> bool" where
  "sized_digest d \<longleftrightarrow> length (digest_value d) = digest_size (digest_algorithm d)"

definition sized_name :: "string \<Rightarrow> bool" where
  "sized_name n \<longleftrightarrow> length n < 2 ^ 32 - 1 \<and> CHR 0x00 \<notin> set n"

fun sized_event :: "event_data \<Rightarrow> bool" where
  "sized_event (Ima d p) = (sized_digest d \<and> digest_algorithm d = Sha1 \<and> sized_name p \<and> length p \<le> 255)"
| "sized_event (ImaNg d p) = (sized_digest d \<and> sized_name p)"
| "sized_event (ImaSig d p s) =
     (sized_digest d \<and> sized_name p \<and> (case s of None \<Rightarrow> True | Some sg \<Rightarrow> valid_signature sg))"
| "sized_event (ImaBuf d n b) = (sized_digest d \<and> sized_name n \<and> length b < 2 ^ 32)"

lemma length_digest_body:
  "sized_digest d \<Longrightarrow> length (digest_body d) =
     (case digest_algorithm d of Sha1 \<Rightarrow> 20 | Sha256 \<Rightarrow> 40 | Sha384 \<Rightarrow> 56 | Sha512 \<Rightarrow> 72 | Sm3_256 \<Rightarrow> 41)"
  by (cases "digest_algorithm d") (auto simp: digest_body_def sized_digest_def digest_size_def)

lemma digest_body_inj:
  assumes "sized_digest d" and "sized_digest d'" and "digest_body d = digest_body d'"
  shows "d = d'"
proof -
  have "digest_algorithm d = digest_algorithm d'"
    using arg_cong [OF assms(3), of length] length_digest_body [OF assms(1)] length_digest_body [OF assms(2)]
    by (cases "digest_algorithm d"; cases "digest_algorithm d'"; simp)
  moreover from this have "digest_value d = digest_value d'"
    using assms(3) by (simp add: digest_body_def split: if_splits)
  ultimately show ?thesis by (cases d; cases d'; simp)
qed

lemma digest_body_short: "sized_digest d \<Longrightarrow> length (digest_body d) < 2 ^ 32"
  by (cases "digest_algorithm d") (auto simp: length_digest_body)

lemma valid_signature_short: "valid_signature sg \<Longrightarrow> length sg < 2 ^ 32"
  using unat_lt_pow [of "u16_from_be_bytes (take 2 (drop 7 sg))"] by (simp add: valid_signature_def)

lemma digest_encode_prefix:
  assumes "sized_digest d" and "sized_digest d'" and "digest_encode d @ r = digest_encode d' @ r'"
  shows "d = d' \<and> r = r'"
  using field.enc_prefix_free [OF digest_body_short digest_body_short, of d d' r r'] assms
    digest_body_inj by (simp add: encode_fields)

lemma name_encode_prefix:
  assumes "sized_name n" and "sized_name n'" and "name_encode n @ r = name_encode n' @ r'"
  shows "n = n' \<and> r = r'"
proof -
  have "as_bytes n @ [0] = as_bytes n' @ [0] \<and> r = r'"
    by (rule field.enc_prefix_free) (use assms in \<open>simp_all add: sized_name_def name_encode_field\<close>)
  then show ?thesis using as_bytes_inj [of n n'] by simp
qed

lemma byte_of_char_eq_0: "(word_of_nat (of_char c) :: u8) = 0 \<longleftrightarrow> c = CHR 0x00"
proof
  assume "(word_of_nat (of_char c) :: u8) = 0"
  then have "unat (word_of_nat (of_char c) :: u8) = unat (0 :: u8)" by (simp only:)
  then have "(of_char c :: nat) = 0" by simp
  then have "char_of (of_char c :: nat) = char_of (0 :: nat)" by (simp only:)
  then have "c = char_of (0 :: nat)" by (simp only: char_of_char)
  then show "c = CHR 0x00" by (simp add: char_of_def)
qed simp

lemma takeWhile_padded:
  "CHR 0x00 \<notin> set n \<Longrightarrow> takeWhile (\<lambda>b. b \<noteq> 0) (as_bytes n @ replicate k 0) = as_bytes n"
proof (induction n)
  case Nil
  then show ?case by (cases k) (simp_all add: as_bytes_def)
next
  case (Cons c n)
  then show ?case using byte_of_char_eq_0 [of c] by (auto simp: as_bytes_def)
qed

lemma name_encode_legacy_name:
  assumes "name_encode_legacy n = Ok b" and "CHR 0x00 \<notin> set n"
  shows "takeWhile (\<lambda>b. b \<noteq> 0) b = as_bytes n"
proof -
  have "b = as_bytes n @ replicate (TCG_EVENT_NAME_LEN_MAX - length n) 0"
    using assms(1) by (simp add: name_encode_legacy_def Let_def split: if_splits)
  then show ?thesis using takeWhile_padded [OF assms(2)] by simp
qed

lemma name_encode_legacy_inj:
  assumes "CHR 0x00 \<notin> set n" and "CHR 0x00 \<notin> set n'"
    and "name_encode_legacy n = Ok b" and "name_encode_legacy n' = Ok b"
  shows "n = n'"
  by (rule as_bytes_inj)
    (use name_encode_legacy_name [OF assms(3,1)] name_encode_legacy_name [OF assms(4,2)] in simp)

fun same_template :: "event_data \<Rightarrow> event_data \<Rightarrow> bool" where
  "same_template (Ima _ _) (Ima _ _) = True"
| "same_template (ImaNg _ _) (ImaNg _ _) = True"
| "same_template (ImaSig _ _ _) (ImaSig _ _ _) = True"
| "same_template (ImaBuf _ _ _) (ImaBuf _ _ _) = True"
| "same_template _ _ = False"

lemma ima_encode_inj:
  assumes "sized_event (Ima d p)" and "sized_event (Ima d' p')"
    and "event_encode (Ima d p) = event_encode (Ima d' p')"
  shows "Ima d p = Ima d' p'"
proof -
  obtain b b' where b: "name_encode_legacy p = Ok b" and b': "name_encode_legacy p' = Ok b'"
    using assms(1,2) by (auto simp: name_encode_legacy_def TCG_EVENT_NAME_LEN_MAX_def Let_def)
  with assms(3) have "digest_value d @ b = digest_value d' @ b'"
    by (simp add: digest_encode_legacy_def)
  moreover have "length (digest_value d) = length (digest_value d')"
    using assms(1,2) by (simp add: sized_digest_def)
  ultimately have "digest_value d = digest_value d'" and "b = b'" by auto
  with b b' assms(1,2) name_encode_legacy_inj [of p p' b] show ?thesis
    by (cases d; cases d') (simp add: sized_name_def)
qed

lemma ima_sig_tail_inj:
  assumes "case s of None \<Rightarrow> True | Some sg \<Rightarrow> valid_signature sg"
    and "case s' of None \<Rightarrow> True | Some sg \<Rightarrow> valid_signature sg"
    and "(case s of Some sg \<Rightarrow> signature_encode sg | None \<Rightarrow> u32_to_le_bytes 0)
       = (case s' of Some sg \<Rightarrow> signature_encode sg | None \<Rightarrow> u32_to_le_bytes 0)"
  shows "s = s'"
proof -
  define body where "body = (\<lambda>t :: u8 list option. case t of Some sg \<Rightarrow> sg | None \<Rightarrow> [])"
  have tail: "(case t of Some sg \<Rightarrow> signature_encode sg | None \<Rightarrow> u32_to_le_bytes 0) = field_bytes (body t)"
    for t by (cases t) (simp_all add: body_def signature_encode_field empty_field)
  have "length (body s) < 2 ^ 32" and "length (body s') < 2 ^ 32"
    using assms(1,2) valid_signature_short by (auto simp: body_def split: option.splits)
  moreover have "field_bytes (body s) = field_bytes (body s')"
    using assms(3) unfolding tail .
  ultimately have "body s = body s'" by (rule field.enc_inj)
  then show ?thesis using assms(1,2) by (auto simp: body_def valid_signature_def split: option.splits)
qed



text \<open>The length check of \<open>Digest::new\<close> is not made when a digest is parsed, and
  without it the binary form is ambiguous: a line that labels 40 bytes as a SHA-1 digest parses,
  and its event encodes to the same bytes as a genuine SHA-256 event.\<close>

theorem ima_ng_unsized_collision:
  assumes "hex_codec hexe hexd"
  shows "\<exists>a b. ima_ng_try_from hexd (event_text hexe a) = Ok a
           \<and> ima_ng_try_from hexd (event_text hexe b) = Ok b
           \<and> a \<noteq> b \<and> event_encode a = event_encode b \<and> sized_event a"
proof -
  define a where "a = ImaNg \<lparr>digest_algorithm = Sha256, digest_value = replicate 32 0\<rparr> ''/bin/sh''"
  define b where "b = ImaNg \<lparr>digest_algorithm = Sha1,
      digest_value = as_bytes ''sha256'' @ [58, 0] @ replicate 32 0\<rparr> ''/bin/sh''"
  have "ima_ng_try_from hexd (event_text hexe a) = Ok a"
    and "ima_ng_try_from hexd (event_text hexe b) = Ok b"
    using event_try_from_text [OF assms, of a] event_try_from_text [OF assms, of b]
    by (simp_all add: a_def b_def)
  moreover have "a \<noteq> b" by (simp add: a_def b_def)
  moreover have "event_encode a = event_encode b"
    by (simp add: a_def b_def digest_encode_def Let_def)
  moreover have "sized_event a"
    by (simp add: a_def sized_digest_def digest_size_def sized_name_def)
  ultimately show ?thesis by blast
qed

theorem ima_ng_unsized_collision_witness:
  "\<exists>a b. ima_ng_try_from hex_decode_ref (event_text hex_encode_ref a) = Ok a
           \<and> ima_ng_try_from hex_decode_ref (event_text hex_encode_ref b) = Ok b
           \<and> a \<noteq> b \<and> event_encode a = event_encode b \<and> sized_event a"
  by (rule ima_ng_unsized_collision [OF hex_codec_ref])

text \<open>The legacy template has a fixed-width name field. Encoding an event of it gives
  the digest and 255 further bytes when the path fits, and panics when it does not; the other
  templates always encode.\<close>

theorem event_encode_legacy_width:
  "(length p \<le> 255 \<longrightarrow>
      (\<exists>bs. event_encode (Ima d p) = Ok bs \<and> length bs = length (digest_value d) + 255))
   \<and> (255 < length p \<longrightarrow> event_encode (Ima d p) = Panic)
   \<and> is_ok (event_encode (ImaNg d p)) \<and> is_ok (event_encode (ImaSig d p s))
   \<and> is_ok (event_encode (ImaBuf d p b))"
  by (simp add: name_encode_legacy_def TCG_EVENT_NAME_LEN_MAX_def digest_encode_legacy_def Let_def)

theorem event_encode_legacy_width_witness:
  "(\<exists>bs. event_encode (Ima \<lparr>digest_algorithm = Sha1, digest_value = replicate 20 1\<rparr> ''/bin/sh'') = Ok bs
      \<and> length bs = 275)
   \<and> event_encode (Ima \<lparr>digest_algorithm = Sha1, digest_value = replicate 20 1\<rparr> (replicate 256 CHR ''a''))
      = Panic"
  using event_encode_legacy_width
      [of "''/bin/sh''" "\<lparr>digest_algorithm = Sha1, digest_value = replicate 20 1\<rparr>" None "[]"]
    event_encode_legacy_width
      [of "replicate 256 CHR ''a''" "\<lparr>digest_algorithm = Sha1, digest_value = replicate 20 1\<rparr>" None "[]"]
  by simp

end
