(* ===== verification/Measurement_List.thy ===== *)
theory Measurement_List
  imports Ima_Entry "HOL-Library.Multiset"
begin

text \<open>
  The incremental reader of the IMA measurement list, \<^verbatim>\<open>keylime/src/ima/measurement_list.rs\<close>. It
  keeps a set of (number of entries, byte offset) pairs and starts reading at the offset closest
  below the requested entry. The specification reads the whole file; the reader is shown to
  refine it, whatever it has cached, as long as the file only grows.

  Entry counts and offsets are \<open>u64\<close>; they are bounded by the length of a file, which is below
  \<open>2^64\<close>, and are modelled as natural numbers.
\<close>

section \<open>Iteration order\<close>

text \<open>
  A \<open>HashSet\<close> is the duplicate-free list of its elements in iteration order. The order is
  unspecified and may change with every mutation: it is a permutation the environment chooses.
\<close>

typedef 'a iteration_order = "{f :: 'a list \<Rightarrow> 'a list. \<forall>xs. mset (f xs) = mset xs}"
  by (rule exI [of _ id]) simp

setup_lifting type_definition_iteration_order

lift_definition iterate :: "'a iteration_order \<Rightarrow> 'a list \<Rightarrow> 'a list" is "\<lambda>f. f" .

lift_definition insertion_order :: "'a iteration_order" is id
  by simp

lift_definition reverse_order :: "'a iteration_order" is rev
  by simp

lemma mset_iterate [simp]: "mset (iterate ord xs) = mset xs"
  by transfer simp

lemma set_iterate [simp]: "set (iterate ord xs) = set xs"
  by (rule mset_eq_setD) simp

lemma length_iterate [simp]: "length (iterate ord xs) = length xs"
  by (rule mset_eq_length) simp

lemma distinct_iterate [simp]: "distinct (iterate ord xs) = distinct xs"
  by (rule mset_eq_imp_distinct_iff) simp

lemma iterate_insertion [simp]: "iterate insertion_order xs = xs"
  by transfer simp

lemma iterate_reverse [simp]: "iterate reverse_order xs = rev xs"
  by transfer simp

section \<open>The cache\<close>

record measurement_list =
  entries :: "(nat \<times> nat) list"

definition ml_new :: measurement_list where
  "ml_new = \<lparr>entries = []\<rparr>"

definition ml_reset :: "measurement_list \<Rightarrow> measurement_list" where
  "ml_reset ml = ml\<lparr>entries := []\<rparr>"

definition ml_update ::
  "(nat \<times> nat) iteration_order \<Rightarrow> measurement_list \<Rightarrow> nat \<Rightarrow> nat \<Rightarrow> measurement_list \<times> bool option"
where
  "ml_update ord ml num_entries filesize =
     (let insert_into = (\<lambda>es.
            if (num_entries, filesize) \<in> set es then (ml\<lparr>entries := iterate ord es\<rparr>, Some False)
            else (ml\<lparr>entries := iterate ord (es @ [(num_entries, filesize)])\<rparr>, Some True))
      in if length (entries ml) > 32 then
           (case entries ml of [] \<Rightarrow> (ml, None) | e # es \<Rightarrow> insert_into (remove1 e (e # es)))
         else insert_into (entries ml))"

definition ml_find :: "measurement_list \<Rightarrow> nat \<Rightarrow> nat \<times> nat" where
  "ml_find ml nth_entry =
     foldl (\<lambda>best entry. if fst entry > fst best \<and> fst entry < nth_entry then entry else best)
       (0, 0) (entries ml)"

section \<open>Reading\<close>

text \<open>The file is its contents; reading a tail that is not UTF-8 is an error.\<close>

definition seek_read_to_string :: "string \<Rightarrow> nat \<Rightarrow> (string, io_error) outcome" where
  "seek_read_to_string file off =
     (if is_utf8 (drop off file) then Ok (drop off file)
      else Err (Io_error Other_kind ''stream did not contain valid UTF-8''))"

abbreviation newline :: char where
  "newline \<equiv> CHR 0x0A"

text \<open>
  The loop, over the unread text \<open>rest\<close> (\<open>&filedata[offset..]\<close>, always cut right after a newline),
  the offset, the number of entries passed and the slice found so far.
\<close>

function ml_scan ::
  "nat \<Rightarrow> string \<Rightarrow> nat \<Rightarrow> nat \<Rightarrow> string option \<Rightarrow> string option \<times> nat \<times> nat" where
  "ml_scan nth_entry rest offset num_entries ml =
     (let ml' = (if nth_entry = num_entries then Some rest else ml)
      in case split_once newline rest of
           None \<Rightarrow> (ml', offset, num_entries)
         | Some (a, b) \<Rightarrow> ml_scan nth_entry b (offset + length a + 1) (num_entries + 1) ml')"
  by pat_completeness auto
termination
  by (relation "measure (\<lambda>(nth, rest, off, num, ml). length rest)")
    (auto simp: split_once_Some_iff)

declare ml_scan.simps [simp del]

text \<open>One activation of \<open>read\<close>, up to the decision whether to start over from entry 0.\<close>

definition ml_read_once ::
  "(nat \<times> nat) iteration_order \<Rightarrow> string \<Rightarrow> measurement_list \<Rightarrow> nat
   \<Rightarrow> (string option \<times> nat, io_error) outcome \<times> measurement_list" where
  "ml_read_once ord ima_file self nth_entry =
     (let (num_entries, filesize) = ml_find self nth_entry
      in case seek_read_to_string ima_file filesize of
           Ok filedata \<Rightarrow>
             (let (ml, offset, num_entries') = ml_scan nth_entry filedata 0 num_entries None;
                  (self', _) = ml_update ord self num_entries' (filesize + offset)
              in (Ok (ml, num_entries'), self'))
         | Err e \<Rightarrow> (Err e, self)
         | Panic \<Rightarrow> (Panic, self))"

text \<open>Entry 0 is always found: the recursion of \<open>read\<close> is at most one deep.\<close>

lemma foldl_keep:
  assumes "\<And>e. \<not> (fst e > fst b \<and> fst e < n)"
  shows "foldl (\<lambda>best entry. if fst entry > fst best \<and> fst entry < n then entry else best) b es = b"
proof (induction es)
  case (Cons e es)
  have "(if fst e > fst b \<and> fst e < n then e else b) = b" using assms by auto
  then show ?case using Cons by (simp only: foldl_Cons)
qed simp

lemma ml_find_0: "ml_find ml 0 = (0, 0)"
  unfolding ml_find_def by (rule foldl_keep) simp

lemma ml_scan_keeps: "\<exists>y. fst (ml_scan n rest off num (Some s)) = Some y"
proof (induction n rest off num "Some s" arbitrary: s rule: ml_scan.induct)
  case (1 n rest off num)
  then show ?case
    by (subst ml_scan.simps) (auto simp: Let_def split: option.split)
qed

lemma ml_scan_start: "\<exists>y. fst (ml_scan n rest off n ml) = Some y"
  by (subst ml_scan.simps) (auto simp: Let_def ml_scan_keeps split: option.split)

lemma ml_read_once_0: "ml_read_once ord f self 0 \<noteq> (Ok (None, m), self')"
proof
  assume "ml_read_once ord f self 0 = (Ok (None, m), self')"
  then obtain filedata where "fst (ml_scan 0 filedata 0 0 None) = None"
    by (auto simp: ml_read_once_def ml_find_0 Let_def case_prod_beta split: outcome.splits)
  then show False using ml_scan_start [of 0 filedata 0 None] by simp
qed

function ml_read ::
  "(nat \<times> nat) iteration_order \<Rightarrow> string \<Rightarrow> measurement_list \<Rightarrow> nat
   \<Rightarrow> (string \<times> nat \<times> nat, io_error) outcome \<times> measurement_list" where
  "ml_read ord ima_file self nth_entry =
     (case ml_read_once ord ima_file self nth_entry of
        (Ok (Some text, num_entries), self') \<Rightarrow> (Ok (text, nth_entry, num_entries), self')
      | (Ok (None, _), self') \<Rightarrow> ml_read ord ima_file self' 0
      | (Err e, self') \<Rightarrow> (Err e, self')
      | (Panic, self') \<Rightarrow> (Panic, self'))"
  by pat_completeness auto
termination
  by (relation "measure (\<lambda>(ord, f, self, n). n)") (auto, metis gr0I ml_read_once_0)

declare ml_read.simps [simp del]

section \<open>Specification\<close>

definition line_count :: "string \<Rightarrow> nat" where
  "line_count s = count_list s newline"

fun drop_lines :: "nat \<Rightarrow> string \<Rightarrow> string option" where
  "drop_lines 0 s = Some s"
| "drop_lines (Suc n) s =
     (case split_once newline s of None \<Rightarrow> None | Some (a, b) \<Rightarrow> drop_lines n b)"

text \<open>The whole file from the requested entry, or from the first when there is no such entry.\<close>

definition ml_read_spec :: "string \<Rightarrow> nat \<Rightarrow> string \<times> nat \<times> nat" where
  "ml_read_spec s n =
     (case drop_lines n s of Some r \<Rightarrow> (r, n, line_count s) | None \<Rightarrow> (s, 0, line_count s))"

lemma line_count_split: "split_once newline s = Some (a, b) \<Longrightarrow> line_count s = Suc (line_count b)"
  by (auto simp: split_once_Some_iff line_count_def)

lemma line_count_absent: "split_once newline s = None \<Longrightarrow> line_count s = 0"
  by (auto simp: split_once_None_iff line_count_def)

lemma drop_lines_Some_iff: "(\<exists>r. drop_lines n s = Some r) \<longleftrightarrow> n \<le> line_count s"
proof (induction n s rule: drop_lines.induct)
  case (2 n s)
  then show ?case
    by (cases "split_once newline s") (auto simp: line_count_absent line_count_split)
qed simp

lemma drop_lines_None_iff: "drop_lines n s = None \<longleftrightarrow> line_count s < n"
  using drop_lines_Some_iff [of n s] by (auto simp: not_less [symmetric])

lemma drop_lines_add:
  "drop_lines n s = Some r \<Longrightarrow> drop_lines (n + m) s = drop_lines m r"
  by (induction n s rule: drop_lines.induct) (auto split: option.splits)

lemma drop_lines_line_count:
  "drop_lines n s = Some r \<Longrightarrow> line_count s = n + line_count r"
  by (induction n s rule: drop_lines.induct) (auto split: option.splits simp: line_count_split)

lemma drop_lines_append:
  "drop_lines n s = Some r \<Longrightarrow> drop_lines n (s @ t) = Some (r @ t)"
proof (induction n s rule: drop_lines.induct)
  case (2 n s)
  then obtain a b where split: "split_once newline s = Some (a, b)" and r: "drop_lines n b = Some r"
    by (auto split: option.splits)
  then have "s @ t = a @ newline # b @ t" and "newline \<notin> set a" by (auto simp: split_once_Some_iff)
  then show ?case using "2.IH" [OF split refl r] by simp
qed simp

lemma drop_lines_utf8:
  assumes "drop_lines n s = Some r" and "is_utf8 s"
  shows "is_utf8 r"
  using assms
proof (induction n s rule: drop_lines.induct)
  case (2 n s)
  then obtain a b where s: "s = a @ newline # b" and r: "drop_lines n b = Some r"
    and split: "split_once newline s = Some (a, b)"
    by (auto split: option.splits simp: split_once_Some_iff)
  have "is_utf8 b"
    using "2.prems"(2) utf8_valid_after_ascii [of "map of_char a" 10 "map of_char b"]
    by (simp add: is_utf8_def s)
  then show ?case using "2.IH" [OF split refl r] by simp
qed simp

text \<open>A pair of the cache is right when its offset is where its entry starts.\<close>

definition points_at :: "string \<Rightarrow> nat \<times> nat \<Rightarrow> bool" where
  "points_at s e \<longleftrightarrow> snd e \<le> length s \<and> drop_lines (fst e) s = Some (drop (snd e) s)"

definition ml_consistent :: "string \<Rightarrow> measurement_list \<Rightarrow> bool" where
  "ml_consistent s ml \<longleftrightarrow> (\<forall>e \<in> set (entries ml). points_at s e)"

lemma points_at_start [simp]: "points_at s (0, 0)"
  by (simp add: points_at_def)

lemma points_at_append: "points_at s e \<Longrightarrow> points_at (s @ t) e"
  using drop_lines_append by (auto simp: points_at_def)

section \<open>The scan\<close>

lemma ml_scan_result:
  "\<exists>k \<le> length rest.
     ml_scan n rest off num ml =
       (if num \<le> n \<and> n \<le> num + line_count rest then drop_lines (n - num) rest else ml,
        off + k, num + line_count rest)
     \<and> drop_lines (line_count rest) rest = Some (drop k rest)"
proof (induction n rest off num ml rule: ml_scan.induct)
  case (1 n rest off num ml)
  show ?case
  proof (cases "split_once newline rest")
    case None
    then show ?thesis
      by (subst ml_scan.simps) (auto simp: Let_def line_count_absent intro: exI [of _ 0])
  next
    case (Some ab)
    obtain a b where ab: "ab = (a, b)" by (cases ab)
    with Some have split: "split_once newline rest = Some (a, b)" by simp
    then have rest: "rest = a @ newline # b" by (simp add: split_once_Some_iff)
    let ?ml = "if n = num then Some rest else ml"
    obtain k where k: "k \<le> length b"
      and scan: "ml_scan n b (off + length a + 1) (num + 1) ?ml =
        (if num + 1 \<le> n \<and> n \<le> num + 1 + line_count b then drop_lines (n - (num + 1)) b else ?ml,
         off + length a + 1 + k, num + 1 + line_count b)"
      and tail: "drop_lines (line_count b) b = Some (drop k b)"
      using "1" [OF refl split refl] by (auto simp: Let_def)
    have res: "ml_scan n rest off num ml =
        (if num \<le> n \<and> n \<le> num + line_count rest then drop_lines (n - num) rest else ml,
         off + (length a + 1 + k), num + line_count rest)"
    proof (cases "n \<le> num")
      case True
      then show ?thesis using scan split line_count_split [OF split]
        by (subst ml_scan.simps) auto
    next
      case False
      then have "n - num = Suc (n - (num + 1))" by simp
      then show ?thesis using False scan split line_count_split [OF split]
        by (subst ml_scan.simps) auto
    qed
    have "drop_lines (line_count rest) rest = Some (drop (length a + 1 + k) rest)"
      using tail split line_count_split [OF split] by (simp add: rest)
    with res k show ?thesis by (intro exI [of _ "length a + 1 + k"]) (simp add: rest)
  qed
qed

section \<open>The contract of the cache\<close>

text \<open>
  What \<open>read\<close> relies on: \<open>find\<close> returns a known pair (or the start of the file) at or below the
  entry asked for, and \<open>update\<close> adds at most the pair it is given.
\<close>

locale entry_cache =
  fixes find :: "'c \<Rightarrow> nat \<Rightarrow> nat \<times> nat"
    and update :: "'c \<Rightarrow> nat \<Rightarrow> nat \<Rightarrow> 'c"
    and known :: "'c \<Rightarrow> (nat \<times> nat) set"
  assumes find_known: "find c n \<in> insert (0, 0) (known c)"
    and find_below: "fst (find c n) \<le> n"
    and update_known: "known (update c n sz) \<subseteq> insert (n, sz) (known c)"
begin

lemma find_points: "\<forall>e \<in> known c. points_at s e \<Longrightarrow> points_at s (find c n)"
  using find_known [of c n] by auto

lemma update_points:
  "\<forall>e \<in> known c. points_at s e \<Longrightarrow> points_at s (n, sz) \<Longrightarrow> \<forall>e \<in> known (update c n sz). points_at s e"
  using update_known [of c n sz] by blast

lemma scan_from_find:
  assumes "\<forall>e \<in> known c. points_at s e" and "find c n = (num, off)"
  obtains k where "k \<le> length s - off"
    and "ml_scan n (drop off s) 0 num None = (drop_lines n s, k, line_count s)"
    and "points_at s (line_count s, off + k)"
proof -
  have at: "off \<le> length s" "drop_lines num s = Some (drop off s)" and le: "num \<le> n"
    using find_points [OF assms(1), of n] find_below [of c n] assms(2) by (auto simp: points_at_def)
  then have count: "line_count s = num + line_count (drop off s)"
    by (intro drop_lines_line_count)
  obtain k where k: "k \<le> length (drop off s)"
    and scan: "ml_scan n (drop off s) 0 num None =
       (if num \<le> n \<and> n \<le> num + line_count (drop off s) then drop_lines (n - num) (drop off s) else None,
        k, num + line_count (drop off s))"
    and tail: "drop_lines (line_count (drop off s)) (drop off s) = Some (drop k (drop off s))"
    using ml_scan_result [of "drop off s" n 0 num None] by auto
  have "drop_lines n s = drop_lines (n - num) (drop off s)"
    using drop_lines_add [OF at(2), of "n - num"] le by simp
  then have "ml_scan n (drop off s) 0 num None = (drop_lines n s, k, line_count s)"
    using scan le count drop_lines_None_iff [of n s] by auto
  moreover have "points_at s (line_count s, off + k)"
    using tail k at drop_lines_add [OF at(2), of "line_count (drop off s)"] count
    by (simp add: points_at_def add.commute)
  ultimately show thesis using that k by simp
qed

end

lemma ml_find_fold:
  fixes es :: "(nat \<times> nat) list" and n :: nat
  assumes f: "f = foldl (\<lambda>best entry. if fst entry > fst best \<and> fst entry < n then entry else best)"
  shows "f b es \<in> insert b (set es) \<and> fst b \<le> fst (f b es) \<and> (fst b \<le> n \<longrightarrow> fst (f b es) \<le> n)
    \<and> (\<forall>e \<in> set es. fst e < n \<longrightarrow> fst e \<le> fst (f b es))"
proof (induction es arbitrary: b)
  case (Cons x es)
  define b' where "b' = (if fst x > fst b \<and> fst x < n then x else b)"
  have step: "f b (x # es) = f b' es" by (simp add: f b'_def)
  show ?case using Cons.IH [of b'] unfolding step by (auto simp: b'_def split: if_splits)
qed (simp add: f)

lemma ml_update_entries:
  "set (entries (fst (ml_update ord ml n sz))) \<subseteq> insert (n, sz) (set (entries ml))"
  by (cases "entries ml") (auto simp: ml_update_def Let_def split: if_splits)

interpretation ml_cache: entry_cache ml_find "\<lambda>c n sz. fst (ml_update ord c n sz)" "\<lambda>c. set (entries c)"
  for ord
proof
  show "ml_find c n \<in> insert (0, 0) (set (entries c))" for c n
    using ml_find_fold [OF refl, of n "(0, 0)" "entries c"] unfolding ml_find_def by blast
  show "fst (ml_find c n) \<le> n" for c n
    using ml_find_fold [OF refl, of n "(0, 0)" "entries c"] unfolding ml_find_def by simp
qed (rule ml_update_entries)

section \<open>Correctness of read\<close>

lemma ml_consistent_append: "ml_consistent s ml \<Longrightarrow> ml_consistent (s @ t) ml"
  using points_at_append by (auto simp: ml_consistent_def)

text \<open>One activation, whether or not the file can be read.\<close>

lemma ml_read_once_consistent:
  assumes "ml_consistent s ml" and "ml_read_once ord s ml n = (r, ml')"
  shows "ml_consistent s ml'"
    and "is_utf8 s \<Longrightarrow> r = Ok (drop_lines n s, line_count s)"
proof -
  obtain num off where find: "ml_find ml n = (num, off)" by (cases "ml_find ml n")
  have known: "\<forall>e \<in> set (entries ml). points_at s e" using assms(1) by (simp add: ml_consistent_def)
  obtain k where scan: "ml_scan n (drop off s) 0 num None = (drop_lines n s, k, line_count s)"
    and at: "points_at s (line_count s, off + k)"
    using ml_cache.scan_from_find [OF known find] by metis
  have upd: "ml_consistent s (fst (ml_update ord ml (line_count s) (off + k)))"
    using ml_cache.update_points [OF known at] by (simp add: ml_consistent_def)
  show "ml_consistent s ml'"
    using assms upd scan find
    by (auto simp: ml_read_once_def seek_read_to_string_def Let_def case_prod_beta split: if_splits)
  assume utf8: "is_utf8 s"
  have "drop_lines num s = Some (drop off s)"
    using ml_cache.find_points [OF known, of n] find by (simp add: points_at_def)
  then have "is_utf8 (drop off s)" using utf8 by (rule drop_lines_utf8)
  then show "r = Ok (drop_lines n s, line_count s)"
    using assms(2) scan find
    by (auto simp: ml_read_once_def seek_read_to_string_def Let_def case_prod_beta)
qed

lemma ml_read_consistent:
  "ml_read ord s ml n = (r, ml') \<Longrightarrow> ml_consistent s ml \<Longrightarrow> ml_consistent s ml'"
proof (induction ord s ml n arbitrary: r ml' rule: ml_read.induct)
  case (1 ord s ml n)
  obtain q m where once: "ml_read_once ord s ml n = (q, m)" by (cases "ml_read_once ord s ml n")
  then have m: "ml_consistent s m" using "1.prems"(2) ml_read_once_consistent(1) by blast
  show ?case
  proof (cases "\<exists>k. q = Ok (None, k)")
    case True
    then obtain k where q: "q = Ok (None, k)" by blast
    have "ml_read ord s m 0 = (r, ml')"
      using "1.prems"(1) by (subst (asm) ml_read.simps) (simp add: once q)
    then show ?thesis using "1.IH" [OF once [symmetric] q] m by blast
  next
    case False
    then show ?thesis using "1.prems"(1) m once
      by (subst (asm) ml_read.simps) (auto split: outcome.splits option.splits)
  qed
qed

lemma ml_read_refines:
  assumes "ml_consistent s ml" and "is_utf8 s"
  shows "\<exists>ml'. ml_read ord s ml n = (Ok (ml_read_spec s n), ml')"
proof -
  obtain q m where once: "ml_read_once ord s ml n = (q, m)" by (cases "ml_read_once ord s ml n")
  note q = ml_read_once_consistent(2) [OF assms(1) once assms(2)]
  have m: "ml_consistent s m" using ml_read_once_consistent(1) [OF assms(1) once] .
  obtain q0 m0 where once0: "ml_read_once ord s m 0 = (q0, m0)" by (cases "ml_read_once ord s m 0")
  note q0 = ml_read_once_consistent(2) [OF m once0 assms(2)]
  have start: "ml_read ord s m 0 = (Ok (s, 0, line_count s), m0)"
    by (subst ml_read.simps) (simp add: once0 q0)
  show ?thesis
    by (subst ml_read.simps) (auto simp: once q start ml_read_spec_def split: option.splits)
qed

text \<open>A read that succeeds is right even when a part of the file that it skipped is not UTF-8.\<close>

lemma ml_read_once_Ok:
  assumes "ml_consistent s ml" and "ml_read_once ord s ml n = (Ok r, ml')"
  shows "r = (drop_lines n s, line_count s)"
proof -
  obtain num off where find: "ml_find ml n = (num, off)" by (cases "ml_find ml n")
  have known: "\<forall>e \<in> set (entries ml). points_at s e" using assms(1) by (simp add: ml_consistent_def)
  obtain k where "ml_scan n (drop off s) 0 num None = (drop_lines n s, k, line_count s)"
    using ml_cache.scan_from_find [OF known find] by metis
  then show ?thesis using assms(2) find
    by (auto simp: ml_read_once_def seek_read_to_string_def Let_def case_prod_beta split: if_splits)
qed

lemma ml_read_Ok:
  assumes "ml_consistent s ml" and "ml_read ord s ml n = (Ok r, ml')"
  shows "r = ml_read_spec s n"
proof -
  obtain q m where once: "ml_read_once ord s ml n = (q, m)" by (cases "ml_read_once ord s ml n")
  then have m: "ml_consistent s m" using ml_read_once_consistent(1) [OF assms(1)] by blast
  obtain q0 m0 where once0: "ml_read_once ord s m 0 = (q0, m0)" by (cases "ml_read_once ord s m 0")
  have restart: "x = (s, 0, line_count s)" if "ml_read ord s m 0 = (Ok x, ml')" for x
    using that once0 ml_read_once_Ok [OF m, of ord 0]
    by (subst (asm) ml_read.simps) (auto split: outcome.splits option.splits prod.splits)
  show ?thesis
    using assms(2) once ml_read_once_Ok [OF assms(1), of ord n] restart
    by (subst (asm) ml_read.simps)
      (auto simp: ml_read_spec_def split: outcome.splits option.splits prod.splits)
qed

lemma ml_update_bounded:
  "length (entries ml) \<le> 33 \<Longrightarrow> length (entries (fst (ml_update ord ml n sz))) \<le> 33"
  by (cases "entries ml") (auto simp: ml_update_def Let_def)

lemma ml_read_once_bounded:
  "ml_read_once ord s ml n = (r, ml') \<Longrightarrow> length (entries ml) \<le> 33 \<Longrightarrow> length (entries ml') \<le> 33"
  using ml_update_bounded
  by (auto simp: ml_read_once_def Let_def case_prod_beta split: outcome.splits)

lemma ml_read_bounded:
  "ml_read ord s ml n = (r, ml') \<Longrightarrow> length (entries ml) \<le> 33 \<Longrightarrow> length (entries ml') \<le> 33"
proof (induction ord s ml n arbitrary: r ml' rule: ml_read.induct)
  case (1 ord s ml n)
  obtain q m where once: "ml_read_once ord s ml n = (q, m)" by (cases "ml_read_once ord s ml n")
  then have m: "length (entries m) \<le> 33" using "1.prems"(2) ml_read_once_bounded by blast
  show ?case
  proof (cases "\<exists>k. q = Ok (None, k)")
    case True
    then obtain k where q: "q = Ok (None, k)" by blast
    have "ml_read ord s m 0 = (r, ml')"
      using "1.prems"(1) by (subst (asm) ml_read.simps) (simp add: once q)
    then show ?thesis using "1.IH" [OF once [symmetric] q] m by blast
  next
    case False
    then show ?thesis using "1.prems"(1) m once
      by (subst (asm) ml_read.simps) (auto split: outcome.splits option.splits)
  qed
qed

section \<open>Histories\<close>

text \<open>
  The states an agent can be in: the kernel appends to the list at any time, requests read from
  any entry (successfully or not), with any iteration order, and the cache may be reset.
\<close>

inductive ml_reachable :: "string \<Rightarrow> measurement_list \<Rightarrow> bool" where
  fresh: "ml_reachable s ml_new"
| grow: "ml_reachable s ml \<Longrightarrow> ml_reachable (s @ t) ml"
| reading: "ml_reachable s ml \<Longrightarrow> ml_read ord s ml n = (r, ml') \<Longrightarrow> ml_reachable s ml'"
| reset: "ml_reachable s ml \<Longrightarrow> ml_reachable s (ml_reset ml)"

lemma ml_reachable_inv:
  "ml_reachable s ml \<Longrightarrow> ml_consistent s ml \<and> length (entries ml) \<le> 33"
proof (induction rule: ml_reachable.induct)
  case (fresh s)
  then show ?case by (simp add: ml_new_def ml_consistent_def)
next
  case (grow s ml t)
  then show ?case by (simp add: ml_consistent_append)
next
  case (reading s ml ord n r ml')
  then show ?case using ml_read_consistent ml_read_bounded by blast
next
  case (reset s ml)
  then show ?case by (simp add: ml_reset_def ml_consistent_def)
qed

text \<open>\<^bold>\<open>C11\<close>: whatever was cached by earlier reads of the growing list, a read returns the
  same answer as reading the whole file from the start: the tail from the requested entry, that
  entry and the number of entries, or the whole list from entry 0 when the request lies beyond
  the next entry.\<close>

theorem ml_read_correct:
  assumes "ml_reachable s ml" and "is_utf8 s"
  shows "\<exists>ml'. ml_read ord s ml n = (Ok (ml_read_spec s n), ml') \<and> ml_reachable s ml'"
  using ml_read_refines [of s ml ord n] ml_reachable_inv [OF assms(1)] assms ml_reachable.reading
  by blast

theorem ml_read_correct_witness:
  "\<exists>ml'. ml_read reverse_order (''0-entry'' @ [newline] @ ''1-entry'' @ [newline])
       (snd (ml_read insertion_order (''0-entry'' @ [newline]) ml_new 1)) 1
     = (Ok (ml_read_spec (''0-entry'' @ [newline] @ ''1-entry'' @ [newline]) 1), ml')
     \<and> ml_reachable (''0-entry'' @ [newline] @ ''1-entry'' @ [newline]) ml'"
proof -
  have "ml_reachable (''0-entry'' @ [newline])
      (snd (ml_read insertion_order (''0-entry'' @ [newline]) ml_new 1))"
    by (rule ml_reachable.reading [OF ml_reachable.fresh]) (rule surjective_pairing)
  then have "ml_reachable ((''0-entry'' @ [newline]) @ ''1-entry'' @ [newline])
      (snd (ml_read insertion_order (''0-entry'' @ [newline]) ml_new 1))"
    by (rule ml_reachable.grow)
  then show ?thesis
    by (intro ml_read_correct) (simp_all add: is_utf8_def utf8_valid.simps)
qed

text \<open>\<^bold>\<open>C23\<close>: the cache holds at most 33 pairs, each of them the true offset of its entry, in
  every reachable state.\<close>

theorem ml_cache_invariant:
  assumes "ml_reachable s ml" and "(n, off) \<in> set (entries ml)"
  shows "length (entries ml) \<le> 33 \<and> n \<le> line_count s \<and> drop_lines n s = Some (drop off s)"
  using ml_reachable_inv [OF assms(1)] assms(2) drop_lines_Some_iff [of n s]
  by (auto simp: ml_consistent_def points_at_def)

theorem ml_cache_invariant_witness:
  "length (entries \<lparr>entries = [(1, 3)]\<rparr>) \<le> 33 \<and> 1 \<le> line_count (''ab'' @ [newline])
   \<and> drop_lines 1 (''ab'' @ [newline]) = Some (drop 3 (''ab'' @ [newline]))"
proof (rule ml_cache_invariant)
  have "ml_read insertion_order (''ab'' @ [newline]) ml_new 0
      = (Ok (''ab'' @ [newline], 0, 1), \<lparr>entries = [(1, 3)]\<rparr>)"
    by (simp add: ml_read.simps ml_read_once_def ml_find_def ml_new_def seek_read_to_string_def
        is_utf8_def utf8_valid.simps ml_scan.simps ml_update_def)
  then show "ml_reachable (''ab'' @ [newline]) \<lparr>entries = [(1, 3)]\<rparr>"
    by (rule ml_reachable.reading [OF ml_reachable.fresh])
qed simp

text \<open>\<open>find\<close> starts reading at the closest known entry: no cached pair lies strictly
  between the one it returns and the requested entry.\<close>

theorem ml_find_closest:
  assumes "e \<in> set (entries ml)" and "fst e < n"
  shows "fst e \<le> fst (ml_find ml n) \<and> fst (ml_find ml n) \<le> n
    \<and> ml_find ml n \<in> insert (0, 0) (set (entries ml))"
  using ml_find_fold [OF refl, of n "(0, 0)" "entries ml"] assms ml_cache.find_below [of ml n] ml_cache.find_known [of ml n]
  by (simp add: ml_find_def)

theorem ml_find_closest_witness:
  "fst (3 :: nat, 30 :: nat) \<le> fst (ml_find \<lparr>entries = [(7, 70), (3, 30), (5, 50)]\<rparr> 6)
   \<and> fst (ml_find \<lparr>entries = [(7, 70), (3, 30), (5, 50)]\<rparr> 6) \<le> 6
   \<and> ml_find \<lparr>entries = [(7, 70), (3, 30), (5, 50)]\<rparr> 6 \<in> insert (0, 0) (set [(7, 70), (3, 30), (5, 50)])"
  using ml_find_closest [of "(3, 30)" "\<lparr>entries = [(7, 70), (3, 30), (5, 50)]\<rparr>" 6] by simp

end
