(* ===== verification/Errors.thy ===== *)
theory Errors
  imports Algorithms
begin

text \<open>
  The error types: \<open>TpmError\<close> of \<^verbatim>\<open>keylime/src/tpm.rs\<close> and \<open>Error\<close> of
  \<^verbatim>\<open>keylime-agent/src/error.rs\<close>, with their \<open>Display\<close> texts, conversions and accessors. An
  error of a third-party crate is what the agent observes of it: its \<open>Display\<close> text and, for
  \<open>tss_esapi::Error\<close>, the response code kind and the \<open>Debug\<close> text as well.
\<close>

section \<open>TPM errors\<close>

text \<open>\<open>tss_esapi::Error\<close>: kind of the response code (\<open>Debug\<close> text), \<open>Debug\<close> and \<open>Display\<close> text.\<close>

datatype tss_error =
  Tss2Error (tss_kind: "string option") (tss_debug: string) (tss_display: string)
| WrapperError (tss_debug: string) (tss_display: string)

datatype attestation_type = Attest_Quote | Attest_Other string

fun debug_hashing :: "hashing_algorithm \<Rightarrow> string" where
  "debug_hashing Hashing_Sha1 = ''Sha1''"
| "debug_hashing Hashing_Sha256 = ''Sha256''"
| "debug_hashing Hashing_Sha384 = ''Sha384''"
| "debug_hashing Hashing_Sha512 = ''Sha512''"
| "debug_hashing Hashing_Sm3_256 = ''Sm3_256''"
| "debug_hashing (Hashing_Other s) = s"

fun debug_attestation :: "attestation_type \<Rightarrow> string" where
  "debug_attestation Attest_Quote = ''Quote''"
| "debug_attestation (Attest_Other s) = s"

fun algorithm_error_to_string :: "algorithm_error \<Rightarrow> string" where
  "algorithm_error_to_string (Hash_error s) = s"
| "algorithm_error_to_string (Encrypt_error s) = s"
| "algorithm_error_to_string (Sign_error s) = s"

datatype (plugins only: code size) tpm_error =
  UnsupportedHashingAlgorithm hashing_algorithm
| TSSCreateEKError tss_error
| TSSCreateAKError tss_error
| TSSLoadAKError tss_error
| TSSNewPersistentHandleError string tss_error
| TSSHandleFromPersistentHandleError string tss_error
| TSSCreatePrimaryError tss_error
| TSSPCRSelectionBuildError tss_error
| TSSDigestFromAuthPolicyError tss_error
| TSSPublicKeyFromIDevID tss_error
| TSSPublicKeyFromIAK tss_error
| TSSObjectAttributesBuildError tss_error
| TSSPublicRSAParametersBuildError tss_error
| TSSPublicECCParametersBuildError tss_error
| TSSIDevIDKeyBuildError tss_error
| TSSIAKKeyBuildError tss_error
| TSSECCParameterFromIDevIDError tss_error
| TSSECCParameterFromIAKError tss_error
| TSSReadPublicError tss_error
| TSSSymmetricDefinitionFromCipher tss_error
| TSSStartAuthenticationSessionError tss_error
| TSSSessionSetAttributesError tss_error
| TSSDigestFromValue tss_error
| TSSTctiContextError tss_error
| TSSMarshallAttestError tss_error
| TSSMarshallSignatureError tss_error
| TSSPCRListError tss_error
| TSSQuoteError tss_error
| UnexpectedAttestedType attestation_type attestation_type
| TooManyAttestationMismatches nat
| DataFromNonce
| EmptyAuthenticationSessionError
| Tpm_NumParse string int_error_kind
| KeyblobParseMagicNumberError "u8 list"
| KeyblobParseVersionError "u8 list"
| KeyblobParseCredSizeError "u8 list"
| KeyblobParseSecreSizeError "u8 list"
| KeyblobParseCredential
| KeyblobParseEncryptedSecret
| KeyblobInvalidMagicNumber u32 u32
| InvalidKeyblobVersion u32 u32
| TctiNameError string tss_error
| OpenSSLRSAFromPKey string
| OpenSSLPublicKeyToPEM string
| OpenSSLHasherNew string
| OpenSSLHasherUpdate string
| OpenSSLHasherFinish string
| Tpm_TryFromInt string
| Base64Decode string
| MalformedPCRSelectionMask string
| NotImplemented string
| IoReadError string string
| Tpm_InvalidRequest string
| Tpm_Infallible string
| Tpm_Tss2 tss_error "string option" string
| AlgorithmError algorithm_error
| Tpm_Other string

text \<open>\<open>Display\<close> of \<open>std::num::ParseIntError\<close>.\<close>

fun int_error_to_string :: "int_error_kind \<Rightarrow> string" where
  "int_error_to_string Empty = ''cannot parse integer from empty string''"
| "int_error_to_string InvalidDigit = ''invalid digit found in string''"
| "int_error_to_string PosOverflow = ''number too large to fit in target type''"

primrec tpm_error_to_string :: "tpm_error \<Rightarrow> string" where
  "tpm_error_to_string (UnsupportedHashingAlgorithm alg) =
     ''Unsupported hashing algorithm : '' @ debug_hashing alg"
| "tpm_error_to_string (TSSCreateEKError e) = ''Error creating EK object: '' @ tss_display e"
| "tpm_error_to_string (TSSCreateAKError e) = ''Error creating AK object: '' @ tss_display e"
| "tpm_error_to_string (TSSLoadAKError e) = ''Error loading AK object: '' @ tss_display e"
| "tpm_error_to_string (TSSNewPersistentHandleError handle e) =
     ''Error creating handle for persistent TPM object in '' @ handle @ '': '' @ tss_display e"
| "tpm_error_to_string (TSSHandleFromPersistentHandleError handle e) =
     ''Error creating handle from persistent TPM handle '' @ handle @ '': '' @ tss_display e"
| "tpm_error_to_string (TSSCreatePrimaryError e) = ''Error creating primary key: '' @ tss_display e"
| "tpm_error_to_string (TSSPCRSelectionBuildError e) =
     ''Error building PCR Selection list: '' @ tss_display e"
| "tpm_error_to_string (TSSDigestFromAuthPolicyError e) =
     ''Error obtaining digest value from an authorization policy: '' @ tss_display e"
| "tpm_error_to_string (TSSPublicKeyFromIDevID e) =
     ''Error obtaining RSA public key from IDevID: '' @ tss_display e"
| "tpm_error_to_string (TSSPublicKeyFromIAK e) =
     ''Error obtaining RSA public key from IAK: '' @ tss_display e"
| "tpm_error_to_string (TSSObjectAttributesBuildError e) =
     ''Error building Object Attributes: '' @ tss_display e"
| "tpm_error_to_string (TSSPublicRSAParametersBuildError e) =
     ''Error building public RSA parameters: '' @ tss_display e"
| "tpm_error_to_string (TSSPublicECCParametersBuildError e) =
     ''Error building public ECC parameters: '' @ tss_display e"
| "tpm_error_to_string (TSSIDevIDKeyBuildError e) = ''Error building IDevID key: '' @ tss_display e"
| "tpm_error_to_string (TSSIAKKeyBuildError e) = ''Error building IAK key: '' @ tss_display e"
| "tpm_error_to_string (TSSECCParameterFromIDevIDError e) =
     ''Error obtaining ECC parameter from IDevID: '' @ tss_display e"
| "tpm_error_to_string (TSSECCParameterFromIAKError e) =
     ''Error obtaining ECC parameter from IAK: '' @ tss_display e"
| "tpm_error_to_string (TSSReadPublicError e) = ''Error reading EK public info: '' @ tss_display e"
| "tpm_error_to_string (TSSSymmetricDefinitionFromCipher e) =
     ''Error converting Cipher to SymmetricDefinition: '' @ tss_display e"
| "tpm_error_to_string (TSSStartAuthenticationSessionError e) =
     ''Error starting authentication session: '' @ tss_display e"
| "tpm_error_to_string (TSSSessionSetAttributesError e) =
     ''Error setting authentication session attributes: '' @ tss_display e"
| "tpm_error_to_string (TSSDigestFromValue e) =
     ''Error converting to TSS Digest from digest value: '' @ tss_display e"
| "tpm_error_to_string (TSSTctiContextError e) = ''Error creating TCTI context: '' @ tss_debug e"
| "tpm_error_to_string (TSSMarshallAttestError e) =
     ''Error marshalling TPMS_ATTEST structure: '' @ tss_debug e"
| "tpm_error_to_string (TSSMarshallSignatureError e) =
     ''Error marshalling TPMT_SIGNATURE structure: '' @ tss_debug e"
| "tpm_error_to_string (TSSPCRListError e) = ''Error getting PCR data from TPM: '' @ tss_debug e"
| "tpm_error_to_string (TSSQuoteError e) = ''Error generating quote: '' @ tss_debug e"
| "tpm_error_to_string (UnexpectedAttestedType expected got) =
     ''Unexpected attested type in quote: expected '' @ debug_attestation expected @ '' got ''
     @ debug_attestation got"
| "tpm_error_to_string (TooManyAttestationMismatches attempts) =
     ''Consistent race condition: PCR data and attestation data mismatched on all ''
     @ show_nat attempts @ '' attempts''"
| "tpm_error_to_string DataFromNonce = ''Error converting nonce to Data structure''"
| "tpm_error_to_string EmptyAuthenticationSessionError =
     ''Error starting authentication session: Empty authentication session''"
| "tpm_error_to_string (Tpm_NumParse origin e) =
     ''Number parsing error from string '' @ origin @ '': '' @ int_error_to_string e"
| "tpm_error_to_string (KeyblobParseMagicNumberError header) =
     ''Error converting TSS_MAGIC number from MakeCredential keyblob header ''
     @ debug_bytes header @ '' to u32''"
| "tpm_error_to_string (KeyblobParseVersionError header) =
     ''Error converting version from MakeCredential keyblob header '' @ debug_bytes header @ '' to u32''"
| "tpm_error_to_string (KeyblobParseCredSizeError v) =
     ''Error converting credential size from MakeCredential keyblob '' @ debug_bytes v @ '' to u16''"
| "tpm_error_to_string (KeyblobParseSecreSizeError v) =
     ''Error converting secret size from MakeCredential keyblob '' @ debug_bytes v @ '' to u16''"
| "tpm_error_to_string KeyblobParseCredential =
     ''Error parsing credential from MakeCredential keyblob header''"
| "tpm_error_to_string KeyblobParseEncryptedSecret =
     ''Error parsing encrypted secret from MakeCredential keyblob''"
| "tpm_error_to_string (KeyblobInvalidMagicNumber expected got) =
     ''Mismatching MakeCredential keyblob header TSS_MAGIC number: expected ''
     @ show_nat (unat expected) @ '', got '' @ show_nat (unat got)"
| "tpm_error_to_string (InvalidKeyblobVersion expected got) =
     ''Unexpected MakeCredential keyblob header version number: expected ''
     @ show_nat (unat expected) @ '', got '' @ show_nat (unat got)"
| "tpm_error_to_string (TctiNameError path error) =
     ''Error parsing TCTI configuration from env var '' @ [CHR 0x27] @ ''TCTI'' @ [CHR 0x27] @ '' ''
     @ path @ '': '' @ tss_debug error"
| "tpm_error_to_string (OpenSSLRSAFromPKey e) = ''Error getting RSA public key from PKey: '' @ e"
| "tpm_error_to_string (OpenSSLPublicKeyToPEM e) = ''Error encoding public key in PEM format: '' @ e"
| "tpm_error_to_string (OpenSSLHasherNew e) = ''Error creating Hasher : '' @ e"
| "tpm_error_to_string (OpenSSLHasherUpdate e) = ''Error updating Hasher : '' @ e"
| "tpm_error_to_string (OpenSSLHasherFinish e) = ''Error finishing Hasher : '' @ e"
| "tpm_error_to_string (Tpm_TryFromInt e) = ''Error converting number: '' @ e"
| "tpm_error_to_string (Base64Decode e) = ''base64 decode error: '' @ e"
| "tpm_error_to_string (MalformedPCRSelectionMask s) = ''Malformed PCR selection mask: '' @ s"
| "tpm_error_to_string (NotImplemented s) = s @ '' is not yet implemented''"
| "tpm_error_to_string (IoReadError what e) = ''Error reading '' @ what @ '': '' @ e"
| "tpm_error_to_string (Tpm_InvalidRequest s) = ''Invalid request: '' @ s"
| "tpm_error_to_string (Tpm_Infallible s) = ''Infallible: '' @ s"
| "tpm_error_to_string (Tpm_Tss2 err kind message) =
     ''TSS2 Error: '' @ tss_debug err @ '', kind: '' @ debug_option id kind @ '', '' @ message"
| "tpm_error_to_string (AlgorithmError e) = ''AlgorithmError: '' @ algorithm_error_to_string e"
| "tpm_error_to_string (Tpm_Other s) = s"

definition tpm_error_from_tss :: "tss_error \<Rightarrow> tpm_error" where
  "tpm_error_from_tss err =
     (let kind = (case err of Tss2Error k _ _ \<Rightarrow> k | WrapperError _ _ \<Rightarrow> None);
          message = tss_display err
      in Tpm_Tss2 err kind message)"

section \<open>Agent errors\<close>

datatype (plugins only: code size) agent_error =
  ActixWeb string
| Tss2 tss_error "string option" string
| Tpm tpm_error
| InvalidRequest
| Config_error string
| Infallible string
| Conversion string
| Configuration string
| Reqwest string
| Registrar string nat
| Serde string
| Permission
| Glob string
| GlobPattern string
| Io string
| Utf8 string
| SecureMount string
| TpmInUse
| Uuid string
| Execution "int option" string
| Script string "int option" string
| NumParse int_error_kind
| Crypto string
| Zmq string
| Base64 string
| ParseBool string
| FromHex string
| Algorithm algorithm_error
| TryFromInt string
| Nul string
| PathPersist string
| Persist string
| Join string
| PickyAsn1 string
| Sender string
| Receiver string
| ListParser string
| Zip string
| Other string

primrec error_to_string :: "agent_error \<Rightarrow> string" where
  "error_to_string (ActixWeb e) = ''HttpServer error: '' @ e"
| "error_to_string (Tss2 err kind message) =
     ''TSS2 Error: '' @ tss_debug err @ '', kind: '' @ debug_option id kind @ '', '' @ message"
| "error_to_string (Tpm e) = ''Keylime TPM error: '' @ tpm_error_to_string e"
| "error_to_string InvalidRequest = ''Invalid request''"
| "error_to_string (Config_error e) = ''Configuration loading error: '' @ e"
| "error_to_string (Infallible e) = ''Infallible: '' @ e"
| "error_to_string (Conversion s) = ''Conversion error: '' @ s"
| "error_to_string (Configuration s) = ''Configuration error: '' @ s"
| "error_to_string (Reqwest e) = ''Reqwest error: '' @ e"
| "error_to_string (Registrar addr code) =
     ''Registrar error: received '' @ show_nat code @ '' from '' @ addr"
| "error_to_string (Serde e) = ''Serialization/deserialization error: '' @ e"
| "error_to_string Permission = ''Permission error''"
| "error_to_string (Glob e) = ''Glob error''"
| "error_to_string (GlobPattern e) = ''Glob pattern error''"
| "error_to_string (Io e) = ''IO error: '' @ e"
| "error_to_string (Utf8 e) = ''Text decoding error: '' @ e"
| "error_to_string (SecureMount s) = ''Secure Mount error: '' @ s @ '')''"
| "error_to_string TpmInUse = ''TPM in use''"
| "error_to_string (Uuid e) = ''UUID error''"
| "error_to_string (Execution code err) =
     ''Execution error: '' @ debug_option show_int code @ '', '' @ err"
| "error_to_string (Script name code err) =
     ''Error executing script '' @ name @ '': '' @ debug_option show_int code @ '', '' @ err"
| "error_to_string (NumParse e) = ''Number parsing error: '' @ int_error_to_string e"
| "error_to_string (Crypto e) = ''Crypto error: '' @ e"
| "error_to_string (Zmq e) = ''ZMQ error: '' @ e"
| "error_to_string (Base64 e) = ''base64 decode error: '' @ e"
| "error_to_string (ParseBool e) = ''parse bool error: '' @ e"
| "error_to_string (FromHex e) = ''from hex error: '' @ e"
| "error_to_string (Algorithm e) = ''Keylime algorithm error: '' @ algorithm_error_to_string e"
| "error_to_string (TryFromInt e) = ''Error converting number: '' @ e"
| "error_to_string (Nul e) = ''C string is not NUL-terminated: '' @ e"
| "error_to_string (PathPersist e) = ''Error persisting file path: '' @ e"
| "error_to_string (Persist e) = ''Error persisting file: '' @ e"
| "error_to_string (Join e) = ''Error joining threads: '' @ e"
| "error_to_string (PickyAsn1 e) = ''Asn1DerError: '' @ e"
| "error_to_string (Sender s) = ''Error sending internal message: '' @ s"
| "error_to_string (Receiver s) = ''Error receiving internal message: '' @ s"
| "error_to_string (ListParser e) = ''List parser error: '' @ e"
| "error_to_string (Zip e) = ''Zip error: '' @ e"
| "error_to_string (Other s) = s"

definition http_code :: "agent_error \<Rightarrow> (nat, agent_error) outcome" where
  "http_code e =
     (case e of
        Registrar addr code \<Rightarrow> Ok code
      | _ \<Rightarrow> Err (Other (''cannot get http code for Error type '' @ error_to_string e)))"

definition exe_code :: "agent_error \<Rightarrow> (int option, agent_error) outcome" where
  "exe_code e =
     (case e of
        Execution code _ \<Rightarrow> Ok code
      | _ \<Rightarrow> Err (Other (''cannot get execution status code for Error type '' @ error_to_string e)))"

definition stderr :: "agent_error \<Rightarrow> (string, agent_error) outcome" where
  "stderr e =
     (case e of
        Execution _ err \<Rightarrow> Ok err
      | _ \<Rightarrow> Err (Other (''cannot get stderr for Error type '' @ error_to_string e)))"

text \<open>\<open>std::process::Output\<close>; the standard streams are bytes.\<close>

record process_output =
  status_code :: "int option"
  stdout_bytes :: string
  stderr_bytes :: string

definition error_from_output ::
  "(string \<Rightarrow> string) \<Rightarrow> process_output \<Rightarrow> (agent_error, agent_error) outcome" where
  "error_from_output utf8_error out =
     (if is_utf8 (stderr_bytes out) then Ok (Execution (status_code out) (stderr_bytes out))
      else Err (Utf8 (utf8_error (stderr_bytes out))))"

definition error_from_tss :: "tss_error \<Rightarrow> agent_error" where
  "error_from_tss err =
     (let kind = (case err of Tss2Error k _ _ \<Rightarrow> k | WrapperError _ _ \<Rightarrow> None);
          message = tss_display err
      in Tss2 err kind message)"

end
