(* ===== verification/Tpm_Pcr.thy ===== *)
theory Tpm_Pcr
  imports Errors Bytes
begin

text \<open>
  PCR masks, the tpm2-tools format of PCR values and the MakeCredential blob, from
  \<^verbatim>\<open>keylime/src/tpm.rs\<close>. The C structures of the TSS are records with the arrays as lists of their
  fixed length.
\<close>

unbundle bit_operations_syntax

section \<open>PCR slots\<close>

datatype pcr_slot =
  Slot0 | Slot1 | Slot2 | Slot3 | Slot4 | Slot5 | Slot6 | Slot7 | Slot8 | Slot9 | Slot10 | Slot11
| Slot12 | Slot13 | Slot14 | Slot15 | Slot16 | Slot17 | Slot18 | Slot19 | Slot20 | Slot21 | Slot22 | Slot23

definition all_slots :: "pcr_slot list" where
  "all_slots =
     [Slot0, Slot1, Slot2, Slot3, Slot4, Slot5, Slot6, Slot7, Slot8, Slot9, Slot10, Slot11,
      Slot12, Slot13, Slot14, Slot15, Slot16, Slot17, Slot18, Slot19, Slot20, Slot21, Slot22, Slot23]"

primrec slot_index :: "pcr_slot \<Rightarrow> nat" where
  "slot_index Slot0 = 0" | "slot_index Slot1 = 1" | "slot_index Slot2 = 2" | "slot_index Slot3 = 3"
| "slot_index Slot4 = 4" | "slot_index Slot5 = 5" | "slot_index Slot6 = 6" | "slot_index Slot7 = 7"
| "slot_index Slot8 = 8" | "slot_index Slot9 = 9" | "slot_index Slot10 = 10" | "slot_index Slot11 = 11"
| "slot_index Slot12 = 12" | "slot_index Slot13 = 13" | "slot_index Slot14 = 14" | "slot_index Slot15 = 15"
| "slot_index Slot16 = 16" | "slot_index Slot17 = 17" | "slot_index Slot18 = 18" | "slot_index Slot19 = 19"
| "slot_index Slot20 = 20" | "slot_index Slot21 = 21" | "slot_index Slot22 = 22" | "slot_index Slot23 = 23"

definition slot_of :: "nat \<Rightarrow> pcr_slot option" where
  "slot_of i = (if i < 24 then Some (all_slots ! i) else None)"

lemma length_all_slots [simp]: "length all_slots = 24"
  by (simp add: all_slots_def)

lemma slot_index_less [simp]: "slot_index s < 24"
  by (cases s) simp_all

lemma slot_index_nth [simp]: "all_slots ! slot_index s = s"
  by (cases s) (simp_all add: all_slots_def)

lemma map_slot_index: "map slot_index all_slots = [0..<24]"
  by (simp add: all_slots_def upt_rec)

lemma slot_index_of: "i < 24 \<Longrightarrow> slot_index (all_slots ! i) = i"
  by (metis add_0 length_all_slots map_slot_index nth_map nth_upt)

lemma slot_index_inj: "slot_index s = slot_index t \<Longrightarrow> s = t"
  by (metis slot_index_nth)

instantiation pcr_slot :: linorder
begin

definition less_eq_pcr_slot :: "pcr_slot \<Rightarrow> pcr_slot \<Rightarrow> bool" where
  "less_eq_pcr_slot s t \<longleftrightarrow> slot_index s \<le> slot_index t"

definition less_pcr_slot :: "pcr_slot \<Rightarrow> pcr_slot \<Rightarrow> bool" where
  "less_pcr_slot s t \<longleftrightarrow> slot_index s < slot_index t"

instance
  by standard (auto simp: less_eq_pcr_slot_def less_pcr_slot_def intro: slot_index_inj)

end

section \<open>Masks\<close>

definition mask_error :: "nat \<Rightarrow> tpm_error" where
  "mask_error i = MalformedPCRSelectionMask
     (''only pcrs 0-23 can be included in integrity quote, but mask included pcr '' @ show_nat i)"

definition read_mask_bit :: "u32 \<Rightarrow> pcr_slot list \<Rightarrow> nat \<Rightarrow> (pcr_slot list, tpm_error) outcome" where
  "read_mask_bit m pcrs i =
     (if m AND push_bit i 1 \<noteq> 0 then
        (case slot_of i of Some s \<Rightarrow> Ok (pcrs @ [s]) | None \<Rightarrow> Err (mask_error i))
      else Ok pcrs)"

definition read_mask :: "u32 \<Rightarrow> (pcr_slot list, tpm_error) outcome" where
  "read_mask m = try_fold (read_mask_bit m) [] [0..<32]"

definition check_mask :: "u32 \<Rightarrow> pcr_slot \<Rightarrow> (bool, tpm_error) outcome" where
  "check_mask m pcr = and_then (read_mask m) (\<lambda>selected. Ok (pcr \<in> set selected))"

lemma read_mask_bit_bit:
  "read_mask_bit m pcrs i =
     (if bit m i then if i < 24 then Ok (pcrs @ [all_slots ! i]) else Err (mask_error i) else Ok pcrs)"
  unfolding read_mask_bit_def bit_iff_and_push_bit_not_eq_0 [symmetric] by (simp add: slot_of_def)

lemma read_mask_low:
  "n \<le> 24 \<Longrightarrow> try_fold (read_mask_bit m) [] [0..<n] = Ok (filter (\<lambda>s. bit m (slot_index s)) (take n all_slots))"
proof (induction n)
  case (Suc n)
  then have "take (Suc n) all_slots = take n all_slots @ [all_slots ! n]"
    by (simp add: take_Suc_conv_app_nth)
  with Suc show ?case
    by (simp add: try_fold_append read_mask_bit_bit slot_index_of)
qed simp

lemma try_fold_high:
  "list_all ((\<le>) 24) is \<Longrightarrow>
   try_fold (read_mask_bit m) pcrs is =
     (case filter (bit m) is of [] \<Rightarrow> Ok pcrs | i # _ \<Rightarrow> Err (mask_error i))"
  by (induction "is") (auto simp: read_mask_bit_bit)

definition high_bits :: "u32 \<Rightarrow> nat list" where
  "high_bits m = filter (bit m) [24..<32]"

lemma set_high_bits: "i \<in> set (high_bits m) \<longleftrightarrow> 24 \<le> i \<and> bit m i"
  unfolding high_bits_def set_filter set_upt using bit_imp_le_length [of m i] by auto

lemma read_mask_split:
  "read_mask m =
     (case high_bits m of
        [] \<Rightarrow> Ok (filter (\<lambda>s. bit m (slot_index s)) all_slots)
      | i # _ \<Rightarrow> Err (mask_error i))"
proof -
  have "[0..<32] = [0..<24] @ [24..<32]" using upt_add_eq_append [of 0 24 8] by simp
  moreover have "list_all ((\<le>) 24) [24..<32]" by (simp only: list_all_iff set_upt) simp
  ultimately show ?thesis
    unfolding read_mask_def high_bits_def
    by (simp only: try_fold_append read_mask_low [OF order_refl] and_then.simps try_fold_high) simp
qed

lemma high_bits_Nil_iff: "high_bits m = [] \<longleftrightarrow> unat m < 2 ^ 24"
proof -
  have "high_bits m = [] \<longleftrightarrow> (\<forall>i \<ge> 24. \<not> bit m i)"
    using set_high_bits [of _ m] by (metis list.set_intros(1) empty_iff list.exhaust list.set(1))
  also have "\<dots> \<longleftrightarrow> take_bit 24 m = m"
    unfolding bit_eq_iff bit_take_bit_iff by (metis bit_imp_possible_bit not_le)
  also have "\<dots> \<longleftrightarrow> take_bit 24 (unat m) = unat m"
    by (simp only: unsigned_take_bit_eq [symmetric] inj_eq [OF inj_unsigned])
  also have "\<dots> \<longleftrightarrow> unat m < 2 ^ 24" by (rule take_bit_nat_eq_self_iff)
  finally show ?thesis .
qed

lemma sorted_all_slots: "sorted all_slots" and distinct_all_slots: "distinct all_slots"
  by (simp_all add: all_slots_def less_eq_pcr_slot_def)

lemma in_all_slots [simp]: "s \<in> set all_slots"
  by (metis length_all_slots nth_mem slot_index_less slot_index_nth)

text \<open>\<^bold>\<open>C26\<close>: a mask is read bit by bit: it is accepted exactly when it lies below 2 to the 24, the
  result then lists each selected PCR once, in increasing order, and a PCR is selected exactly when
  its bit is set; otherwise the error names the lowest offending bit.\<close>

theorem read_mask_correct:
  "(is_ok (read_mask m) \<longleftrightarrow> unat m < 2 ^ 24)
   \<and> (\<forall>pcrs. read_mask m = Ok pcrs \<longrightarrow>
        sorted pcrs \<and> distinct pcrs \<and> (\<forall>s. s \<in> set pcrs \<longleftrightarrow> bit m (slot_index s)))
   \<and> (2 ^ 24 \<le> unat m \<longrightarrow> (\<exists>i. read_mask m = Err (mask_error i) \<and> 24 \<le> i \<and> bit m i
        \<and> (\<forall>j. 24 \<le> j \<and> bit m j \<longrightarrow> i \<le> j)))"
proof (cases "high_bits m")
  case Nil
  have "sorted (filter P all_slots)" and "distinct (filter P all_slots)" for P
    using sorted_all_slots distinct_all_slots by (auto simp: sorted_wrt_filter)
  moreover have "unat m < 2 ^ 24" using Nil by (simp add: high_bits_Nil_iff)
  ultimately show ?thesis using Nil by (auto simp: read_mask_split)
next
  case (Cons i rest)
  have sorted: "sorted (high_bits m)"
    unfolding high_bits_def by (rule sorted_wrt_filter) (rule sorted_upt)
  have i: "24 \<le> i \<and> bit m i" using Cons set_high_bits [of i m] by simp
  have "i \<le> j" if "24 \<le> j" "bit m j" for j
    using that set_high_bits [of j m] Cons sorted by auto
  moreover have "\<not> unat m < 2 ^ 24"
    using Cons high_bits_Nil_iff [of m] by (simp only: list.distinct not_False_eq_True simp_thms)
  ultimately show ?thesis using Cons i by (auto simp: read_mask_split)
qed

theorem read_mask_correct_witness:
  "read_mask 0x408000 = Ok [Slot15, Slot22] \<and> bit (0x408000 :: u32) (slot_index Slot22)
   \<and> read_mask 0x1ffffff = Err (mask_error 24)"
proof -
  have a: "read_mask 0x408000 = Ok [Slot15, Slot22]"
    by code_simp
  moreover have "bit (0x408000 :: u32) (slot_index Slot22)"
    using read_mask_correct [of "0x408000"] a by simp
  ultimately show ?thesis by (simp add: read_mask_def) code_simp
qed

section \<open>PCR values in the format of tpm2-tools\<close>

record tpms_pcr_selection =
  sel_hash :: u16
  sizeofSelect :: u8
  pcrSelect :: "u8 list"

record tpml_pcr_selection =
  sel_count :: u32
  pcrSelections :: "tpms_pcr_selection list"

record tpm2b_digest =
  digest_size :: u16
  digest_buffer :: "u8 list"

record tpml_digest =
  digest_count :: u32
  digests :: "tpm2b_digest list"

definition TPML_DIGEST_SIZE :: nat where
  "TPML_DIGEST_SIZE = 532"

definition TPML_PCR_SELECTION_SIZE :: nat where
  "TPML_PCR_SELECTION_SIZE = 132"

text \<open>The array lengths of the C types.\<close>

definition wf_pcrsel :: "tpml_pcr_selection \<Rightarrow> bool" where
  "wf_pcrsel s \<longleftrightarrow> length (pcrSelections s) = 16 \<and> list_all (\<lambda>x. length (pcrSelect x) = 4) (pcrSelections s)"

definition wf_digest :: "tpml_digest \<Rightarrow> bool" where
  "wf_digest d \<longleftrightarrow> length (digests d) = 8 \<and> list_all (\<lambda>x. length (digest_buffer x) = 64) (digests d)"

definition serialize_selection :: "tpms_pcr_selection \<Rightarrow> u8 list" where
  "serialize_selection x = u16_to_le_bytes (sel_hash x) @ [sizeofSelect x] @ pcrSelect x @ [0]"

definition serialize_pcrsel :: "tpml_pcr_selection \<Rightarrow> u8 list" where
  "serialize_pcrsel s =
     u32_to_le_bytes (sel_count s) @ concat (map serialize_selection (pcrSelections s))"

definition serialize_one_digest :: "tpm2b_digest \<Rightarrow> u8 list" where
  "serialize_one_digest x = u16_to_le_bytes (digest_size x) @ digest_buffer x"

definition serialize_digest :: "tpml_digest \<Rightarrow> u8 list" where
  "serialize_digest d =
     u32_to_le_bytes (digest_count d) @ concat (map serialize_one_digest (digests d))"

text \<open>The conversions of a PCR selection list and of PCR data into the C types are the TSS library's.\<close>

definition pcrdata_to_vec ::
  "('sel \<Rightarrow> tpml_pcr_selection) \<Rightarrow> ('data \<Rightarrow> tpml_digest list) \<Rightarrow> 'sel \<Rightarrow> 'data \<Rightarrow> u8 list" where
  "pcrdata_to_vec sel_into data_into selection_list pcrdata =
     (let pcrsel_vec = serialize_pcrsel (sel_into selection_list);
          digest = data_into pcrdata;
          num_tpml_digests = word_of_nat (length digest) :: u32;
          digest_vec = concat (map serialize_digest digest)
      in pcrsel_vec @ u32_to_le_bytes num_tpml_digests @ digest_vec)"

subsection \<open>Reading it back\<close>

definition eof_text :: string where
  "eof_text = ''failed to fill whole buffer''"

definition read_or :: "string \<Rightarrow> nat \<Rightarrow> u8 list \<Rightarrow> (u8 list \<times> u8 list, tpm_error) outcome" where
  "read_or what n r = ok_or (IoReadError what eof_text) (read_exact n r)"

definition read_selection ::
  "tpms_pcr_selection list \<times> u8 list \<Rightarrow> nat \<Rightarrow> (tpms_pcr_selection list \<times> u8 list, tpm_error) outcome" where
  "read_selection acc i =
     and_then (read_or ''PCR selection hash from slice'' 2 (snd acc)) (\<lambda>(h, r1).
     and_then (read_or ''PCR selection size from slice'' 1 r1) (\<lambda>(z, r2).
     and_then (read_or ''PCR selection from slice'' 4 r2) (\<lambda>(sel, r3).
     Ok (fst acc @ [\<lparr>sel_hash = u16_from_le_bytes h, sizeofSelect = hd z, pcrSelect = sel\<rparr>], r3))))"

definition deserialize_pcrsel :: "u8 list \<Rightarrow> (tpml_pcr_selection, tpm_error) outcome" where
  "deserialize_pcrsel v =
     (if length v \<noteq> TPML_PCR_SELECTION_SIZE then
        Err (Tpm_InvalidRequest (''Unexpected PCR selection size: Expected ''
          @ show_nat TPML_PCR_SELECTION_SIZE @ '' but got '' @ show_nat (length v)))
      else
        and_then (read_or ''PCR selection count from slice'' 4 v) (\<lambda>(count_vec, r).
        and_then (try_fold read_selection ([], r) [0..<16]) (\<lambda>(sels, _).
        Ok \<lparr>sel_count = u32_from_le_bytes count_vec, pcrSelections = sels\<rparr>)))"

definition read_one_digest ::
  "tpm2b_digest list \<times> u8 list \<Rightarrow> nat \<Rightarrow> (tpm2b_digest list \<times> u8 list, tpm_error) outcome" where
  "read_one_digest acc i =
     and_then (read_or ''Digest size from slice'' 2 (snd acc)) (\<lambda>(z, r1).
     and_then (read_or ''Digest from slice'' 64 r1) (\<lambda>(b, r2).
     Ok (fst acc @ [\<lparr>digest_size = u16_from_le_bytes z, digest_buffer = b\<rparr>], r2)))"

definition deserialize_digest :: "u8 list \<Rightarrow> (tpml_digest, tpm_error) outcome" where
  "deserialize_digest v =
     (if length v \<noteq> TPML_DIGEST_SIZE then
        Err (Tpm_InvalidRequest (''Unexpected digest size: Expected ''
          @ show_nat TPML_DIGEST_SIZE @ '' but got '' @ show_nat (length v)))
      else
        and_then (read_or ''Digest count from slice'' 4 v) (\<lambda>(count_vec, r).
        and_then (try_fold read_one_digest ([], r) [0..<8]) (\<lambda>(ds, _).
        Ok \<lparr>digest_count = u32_from_le_bytes count_vec, digests = ds\<rparr>)))"

text \<open>Adding the announced number of digests indexes the array of 8: a larger count panics.\<close>

definition vec_to_pcrdata ::
  "(tpml_pcr_selection \<Rightarrow> ('sel, tss_error) outcome) \<Rightarrow> (tpm2b_digest \<Rightarrow> ('digest, tss_error) outcome)
   \<Rightarrow> ('digest list \<Rightarrow> 'digest \<Rightarrow> ('digest list, tss_error) outcome)
   \<Rightarrow> ('sel \<Rightarrow> 'digest list \<Rightarrow> ('data, tss_error) outcome)
   \<Rightarrow> u8 list \<Rightarrow> ('sel \<times> 'data, tpm_error) outcome" where
  "vec_to_pcrdata sel_from digest_from digest_list_add data_create val =
     and_then (read_or ''PCR selection size from slice'' TPML_PCR_SELECTION_SIZE val) (\<lambda>(pcrsel_vec, r).
     and_then (deserialize_pcrsel pcrsel_vec) (\<lambda>pcrsel.
     and_then (map_err tpm_error_from_tss (sel_from pcrsel)) (\<lambda>pcrlist.
     and_then (read_or ''PCR selection count from slice'' 4 r) (\<lambda>(count_vec, r2).
     let count = u32_from_le_bytes count_vec
     in if count \<noteq> 1 then
          Err (Tpm_InvalidRequest (''Expected 1 PCR digest, got '' @ show_nat (unat count)))
        else
          and_then (read_or ''Digest from slice'' TPML_DIGEST_SIZE r2) (\<lambda>(digest_vec, _).
          and_then (deserialize_digest digest_vec) (\<lambda>digest.
          and_then (try_fold (\<lambda>dl i.
              and_then (index (digests digest) i) (\<lambda>d.
              and_then (map_err tpm_error_from_tss (digest_from d)) (\<lambda>td.
              map_err tpm_error_from_tss (digest_list_add dl td)))) [] [0..<unat (digest_count digest)]) (\<lambda>digest_list.
          and_then (map_err tpm_error_from_tss (data_create pcrlist digest_list)) (\<lambda>pcrdata.
          Ok (pcrlist, pcrdata)))))))))"

subsection \<open>Lengths and round trips\<close>

lemma length_concat_const: "list_all (\<lambda>x. length (f x) = n) xs \<Longrightarrow> length (concat (map f xs)) = n * length xs"
  by (induction xs) auto

lemma length_serialize_pcrsel: "wf_pcrsel s \<Longrightarrow> length (serialize_pcrsel s) = TPML_PCR_SELECTION_SIZE"
  using length_concat_const [of serialize_selection 8 "pcrSelections s"]
  by (auto simp: serialize_pcrsel_def wf_pcrsel_def TPML_PCR_SELECTION_SIZE_def serialize_selection_def list_all_iff)

lemma length_serialize_digest: "wf_digest d \<Longrightarrow> length (serialize_digest d) = TPML_DIGEST_SIZE"
  using length_concat_const [of serialize_one_digest 66 "digests d"]
  by (auto simp: serialize_digest_def wf_digest_def TPML_DIGEST_SIZE_def serialize_one_digest_def list_all_iff)

lemma read_or_append [simp]: "length a = n \<Longrightarrow> read_or what n (a @ b) = Ok (a, b)"
  by (simp add: read_or_def)

lemma read_one_digest_back:
  "length (digest_buffer x) = 64 \<Longrightarrow>
   read_one_digest (acc, serialize_one_digest x @ r) i = Ok (acc @ [x], r)"
  by (simp add: read_one_digest_def serialize_one_digest_def)

lemma read_digests_back:
  "list_all (\<lambda>x. length (digest_buffer x) = 64) xs \<Longrightarrow> length is = length xs \<Longrightarrow>
   try_fold read_one_digest (acc, concat (map serialize_one_digest xs) @ r) is = Ok (acc @ xs, r)"
proof (induction xs arbitrary: acc "is")
  case (Cons x xs)
  then obtain i is' where "is = i # is'" by (cases "is") auto
  with Cons show ?case by (simp add: read_one_digest_back)
qed simp

lemma deserialize_serialize_digest:
  assumes "wf_digest d"
  shows "deserialize_digest (serialize_digest d) = Ok d"
proof -
  have "try_fold read_one_digest ([], concat (map serialize_one_digest (digests d))) [0..<8] = Ok (digests d, [])"
    using read_digests_back [of "digests d" "[0..<8]" "[]" "[]"] assms by (simp add: wf_digest_def)
  then show ?thesis
    using length_serialize_digest [OF assms]
    by (simp add: deserialize_digest_def) (simp add: serialize_digest_def)
qed

text \<open>An unused element of the selection array, and a selection of one bank only.\<close>

definition no_selection :: tpms_pcr_selection where
  "no_selection = \<lparr>sel_hash = 0, sizeofSelect = 0, pcrSelect = [0, 0, 0, 0]\<rparr>"

definition single_bank :: "tpml_pcr_selection \<Rightarrow> bool" where
  "single_bank s \<longleftrightarrow>
     (\<exists>x. length (pcrSelect x) = 4 \<and> pcrSelections s = x # replicate 15 no_selection)"

lemma u16_zero_bytes [simp]: "u16_to_le_bytes 0 = [0, 0]" "u16_from_le_bytes [0, 0] = 0"
  by (simp_all add: u16_to_le_bytes_def u16_from_le_bytes_def numeral_2_eq_2)

lemma serialize_no_selection: "serialize_selection no_selection = replicate 8 0"
  by (simp add: serialize_selection_def no_selection_def eval_nat_numeral)

lemma read_selection_zeros:
  assumes "7 \<le> n"
  shows "read_selection (acc, replicate n 0) i = Ok (acc @ [no_selection], replicate (n - 7) 0)"
proof -
  obtain k where "n = 7 + k" using assms le_Suc_ex by blast
  moreover have "replicate 7 (0 :: u8) = [0, 0] @ [0] @ [0, 0, 0, 0]" by (simp add: eval_nat_numeral)
  ultimately have z: "replicate n (0 :: u8) = [0, 0] @ [0] @ [0, 0, 0, 0] @ replicate k 0" and k: "n - 7 = k"
    by (simp_all add: replicate_add)
  show ?thesis unfolding z k
    by (simp add: read_selection_def no_selection_def del: append.simps)
qed

lemma read_selections_zeros:
  "7 * length is \<le> n \<Longrightarrow>
   try_fold read_selection (acc, replicate n 0) is
     = Ok (acc @ replicate (length is) no_selection, replicate (n - 7 * length is) 0)"
proof (induction "is" arbitrary: acc n)
  case (Cons i "is")
  then show ?case
    by (simp add: read_selection_zeros replicate_append_same flip: replicate_Suc)
qed simp

lemma deserialize_serialize_pcrsel:
  assumes "single_bank s"
  shows "deserialize_pcrsel (serialize_pcrsel s) = Ok s"
proof -
  from assms obtain x where len: "length (pcrSelect x) = 4"
    and sel: "pcrSelections s = x # replicate 15 no_selection"
    by (auto simp: single_bank_def)
  let ?z = "replicate 121 0 :: u8 list"
  have "concat (map serialize_selection (replicate 15 no_selection)) = replicate 120 0"
    by (simp add: serialize_no_selection eval_nat_numeral)
  moreover have "[0] @ replicate 120 (0 :: u8) = ?z" by (simp flip: replicate_Suc)
  ultimately have body: "concat (map serialize_selection (pcrSelections s))
      = u16_to_le_bytes (sel_hash x) @ [sizeofSelect x] @ pcrSelect x @ ?z"
    by (simp add: sel serialize_selection_def)
  have "read_selection ([], concat (map serialize_selection (pcrSelections s))) 0 = Ok ([x], ?z)"
    unfolding body using len by (simp add: read_selection_def del: append.simps)
  moreover have "try_fold read_selection ([x], ?z) [1..<16] = Ok (x # replicate 15 no_selection, replicate 16 0)"
    by (subst read_selections_zeros) simp_all
  moreover have "[0..<16] = 0 # [1..<16 :: nat]" by (simp add: upt_rec)
  ultimately have "try_fold read_selection ([], concat (map serialize_selection (pcrSelections s))) [0..<16]
      = Ok (pcrSelections s, replicate 16 0)"
    by (simp only: try_fold.simps and_then.simps sel)
  moreover have "length (serialize_pcrsel s) = TPML_PCR_SELECTION_SIZE"
    by (rule length_serialize_pcrsel) (simp add: wf_pcrsel_def sel len no_selection_def list_all_iff)
  ultimately show ?thesis
    by (simp add: deserialize_pcrsel_def) (simp add: serialize_pcrsel_def)
qed

text \<open>
  What the reader relies on for PCR data \<open>pd\<close> read under the selection \<open>sl\<close>: one bank, at most eight
  PCRs (one \<open>TPML_DIGEST\<close>), and TSS conversions that give the list and the data back.
\<close>

definition readable_blob ::
  "('sel \<Rightarrow> tpml_pcr_selection) \<Rightarrow> (tpml_pcr_selection \<Rightarrow> ('sel, tss_error) outcome)
   \<Rightarrow> ('data \<Rightarrow> tpml_digest list) \<Rightarrow> (tpm2b_digest \<Rightarrow> ('dig, tss_error) outcome)
   \<Rightarrow> ('dig list \<Rightarrow> 'dig \<Rightarrow> ('dig list, tss_error) outcome)
   \<Rightarrow> ('sel \<Rightarrow> 'dig list \<Rightarrow> ('data, tss_error) outcome) \<Rightarrow> 'sel \<Rightarrow> 'data \<Rightarrow> bool" where
  "readable_blob sel_into sel_from data_into digest_from add data_create sl pd \<longleftrightarrow>
     single_bank (sel_into sl) \<and> sel_from (sel_into sl) = Ok sl
     \<and> (\<forall>dl t. add dl t = Ok (dl @ [t]))
     \<and> (\<exists>d conv. data_into pd = [d] \<and> wf_digest d \<and> unat (digest_count d) \<le> 8
          \<and> (\<forall>x. digest_from x = Ok (conv x))
          \<and> data_create sl (map conv (take (unat (digest_count d)) (digests d))) = Ok pd)"

lemma single_bank_wf: "single_bank s \<Longrightarrow> wf_pcrsel s"
  by (auto simp: single_bank_def wf_pcrsel_def no_selection_def list_all_iff)

lemma read_digest_list:
  assumes "\<And>x. digest_from x = Ok (conv x)" and "\<And>dl t. add dl t = Ok (dl @ [t])" and "n \<le> length ds"
  shows "try_fold (\<lambda>dl i. and_then (index ds i) (\<lambda>x.
      and_then (map_err tpm_error_from_tss (digest_from x)) (\<lambda>td.
      map_err tpm_error_from_tss (add dl td)))) [] [0..<n] = Ok (map conv (take n ds))"
  using assms(3)
proof (induction n)
  case (Suc n)
  then show ?case
    by (simp add: try_fold_append index_def assms(1,2) take_Suc_conv_app_nth)
qed simp

lemma vec_to_pcrdata_back:
  assumes "readable_blob sel_into sel_from data_into digest_from add data_create sl pd"
  shows "vec_to_pcrdata sel_from digest_from add data_create (pcrdata_to_vec sel_into data_into sl pd)
    = Ok (sl, pd)"
proof -
  from assms obtain d conv where sel: "single_bank (sel_into sl)" "sel_from (sel_into sl) = Ok sl"
    and add: "\<And>dl t. add dl t = Ok (dl @ [t])" and d: "data_into pd = [d]" "wf_digest d"
    and n: "unat (digest_count d) \<le> 8" and conv: "\<And>x. digest_from x = Ok (conv x)"
    and create: "data_create sl (map conv (take (unat (digest_count d)) (digests d))) = Ok pd"
    by (auto simp: readable_blob_def)
  have "unat (digest_count d) \<le> length (digests d)" using n d(2) by (simp add: wf_digest_def)
  note fold = read_digest_list [of digest_from conv add, OF conv add this]
  have "length (serialize_pcrsel (sel_into sl)) = TPML_PCR_SELECTION_SIZE"
    by (rule length_serialize_pcrsel [OF single_bank_wf [OF sel(1)]])
  moreover have "read_or ''Digest from slice'' TPML_DIGEST_SIZE (serialize_digest d) = Ok (serialize_digest d, [])"
    using read_or_append [where b = "[]", OF length_serialize_digest [OF d(2)]] by simp
  ultimately show ?thesis
    by (simp add: vec_to_pcrdata_def pcrdata_to_vec_def Let_def sel(2) d(1) create fold
        deserialize_serialize_pcrsel [OF sel(1)] deserialize_serialize_digest [OF d(2)])
qed

text \<open>The PCR blob written for a quote over one bank with at most eight PCRs reads back to the
  selection and the PCR values it was written from. Its size is the size of the two C structures
  and the count between them.\<close>

theorem pcr_blob_roundtrip:
  assumes "readable_blob sel_into sel_from data_into digest_from add data_create sl pd"
  shows "vec_to_pcrdata sel_from digest_from add data_create (pcrdata_to_vec sel_into data_into sl pd)
      = Ok (sl, pd)
    \<and> length (pcrdata_to_vec sel_into data_into sl pd) = 132 + 4 + 532"
proof -
  from assms obtain d where "wf_pcrsel (sel_into sl)" and "data_into pd = [d]" and "wf_digest d"
    by (auto simp: readable_blob_def intro: single_bank_wf)
  then have "length (pcrdata_to_vec sel_into data_into sl pd) = 132 + 4 + 532"
    using length_serialize_pcrsel length_serialize_digest
    by (simp add: pcrdata_to_vec_def TPML_PCR_SELECTION_SIZE_def TPML_DIGEST_SIZE_def)
  with vec_to_pcrdata_back [OF assms] show ?thesis by blast
qed

text \<open>One SHA-256 bank with PCR 16 and one value.\<close>

definition pcrsel_ref :: tpml_pcr_selection where
  "pcrsel_ref = \<lparr>sel_count = 1, pcrSelections =
     \<lparr>sel_hash = 0x0b, sizeofSelect = 3, pcrSelect = [0, 0, 1, 0]\<rparr> # replicate 15 no_selection\<rparr>"

definition digest_ref :: tpml_digest where
  "digest_ref = \<lparr>digest_count = 1, digests =
     \<lparr>digest_size = 32, digest_buffer = replicate 64 7\<rparr> # replicate 7 \<lparr>digest_size = 32, digest_buffer = replicate 64 7\<rparr>\<rparr>"

definition data_into_ref :: "tpm2b_digest list \<Rightarrow> tpml_digest list" where
  "data_into_ref ds =
     [\<lparr>digest_count = 1, digests = ds @ replicate 7 \<lparr>digest_size = 32, digest_buffer = replicate 64 7\<rparr>\<rparr>]"

lemma readable_blob_ref:
  "readable_blob id Ok data_into_ref Ok (\<lambda>dl t. Ok (dl @ [t])) (\<lambda>s ds. Ok ds)
     pcrsel_ref [\<lparr>digest_size = 32, digest_buffer = replicate 64 7\<rparr>]"
  unfolding readable_blob_def
  by (intro conjI exI [of _ digest_ref] exI [of _ id])
    (simp_all add: single_bank_def pcrsel_ref_def data_into_ref_def digest_ref_def wf_digest_def
      list_all_iff)

theorem pcr_blob_roundtrip_witness:
  "vec_to_pcrdata Ok Ok (\<lambda>dl t. Ok (dl @ [t])) (\<lambda>s ds. Ok ds)
     (pcrdata_to_vec id data_into_ref pcrsel_ref [\<lparr>digest_size = 32, digest_buffer = replicate 64 7\<rparr>])
   = Ok (pcrsel_ref, [\<lparr>digest_size = 32, digest_buffer = replicate 64 7\<rparr>])"
  using pcr_blob_roundtrip [OF readable_blob_ref] by blast


section \<open>The MakeCredential blob\<close>

definition TSS_MAGIC :: u32 where
  "TSS_MAGIC = 3135029470"

text \<open>
  Slices out of range panic. The conversions of a slice of the right length into an array cannot
  fail, so that their error branches are never taken. \<open>IdObject\<close> and \<open>EncryptedSecret\<close> are the TSS
  library's; their constructors reject buffers that are too long.
\<close>

definition parse_cred_and_secret ::
  "(u8 list \<Rightarrow> 'id option) \<Rightarrow> (u8 list \<Rightarrow> 'sec option) \<Rightarrow> u8 list \<Rightarrow> ('id \<times> 'sec, tpm_error) outcome" where
  "parse_cred_and_secret id_from sec_from keyblob =
     and_then (slice 0 4 keyblob) (\<lambda>m.
     and_then (slice 4 8 keyblob) (\<lambda>v.
     let magic = u32_from_be_bytes m; version = u32_from_be_bytes v
     in if magic \<noteq> TSS_MAGIC then Err (KeyblobInvalidMagicNumber TSS_MAGIC magic)
        else if version \<noteq> 1 then Err (InvalidKeyblobVersion 1 version)
        else
          and_then (slice 8 10 keyblob) (\<lambda>c.
          let credsize = unat (u16_from_be_bytes c)
          in and_then (slice (10 + credsize) (12 + credsize) keyblob) (\<lambda>secretsize.
             and_then (slice 10 (10 + credsize) keyblob) (\<lambda>credential.
             and_then (slice_from (12 + credsize) keyblob) (\<lambda>secret.
             and_then (ok_or KeyblobParseCredential (id_from credential)) (\<lambda>cred.
             and_then (ok_or KeyblobParseEncryptedSecret (sec_from secret)) (\<lambda>sec.
             Ok (cred, sec)))))))))"

text \<open>How the registrar's MakeCredential lays the blob out.\<close>

definition keyblob :: "u8 list \<Rightarrow> u8 list \<Rightarrow> u8 list" where
  "keyblob cred secret =
     u32_to_be_bytes TSS_MAGIC @ u32_to_be_bytes 1 @ u16_to_be_bytes (word_of_nat (length cred)) @ cred
     @ u16_to_be_bytes (word_of_nat (length secret)) @ secret"

definition header_ok :: "u8 list \<Rightarrow> bool" where
  "header_ok bs \<longleftrightarrow> u32_from_be_bytes (take 4 bs) = TSS_MAGIC \<and> u32_from_be_bytes (take 4 (drop 4 bs)) = 1"

definition cred_size :: "u8 list \<Rightarrow> nat" where
  "cred_size bs = unat (u16_from_be_bytes (take 2 (drop 8 bs)))"

lemma parse_cred_and_secret_short: "length bs < 8 \<Longrightarrow> parse_cred_and_secret idf sf bs = Panic"
  by (auto simp: parse_cred_and_secret_def slice_def)

lemma parse_cred_and_secret_long:
  assumes "8 \<le> length bs"
  shows "parse_cred_and_secret idf sf bs =
    (if \<not> header_ok bs then
       (if u32_from_be_bytes (take 4 bs) \<noteq> TSS_MAGIC
        then Err (KeyblobInvalidMagicNumber TSS_MAGIC (u32_from_be_bytes (take 4 bs)))
        else Err (InvalidKeyblobVersion 1 (u32_from_be_bytes (take 4 (drop 4 bs)))))
     else if length bs < 10 \<or> length bs < 12 + cred_size bs then Panic
     else
       (case (idf (take (cred_size bs) (drop 10 bs)), sf (drop (12 + cred_size bs) bs)) of
          (None, _) \<Rightarrow> Err KeyblobParseCredential
        | (Some c, None) \<Rightarrow> Err KeyblobParseEncryptedSecret
        | (Some c, Some x) \<Rightarrow> Ok (c, x)))"
  using assms
  by (auto simp: parse_cred_and_secret_def slice_def slice_from_def header_ok_def cred_size_def Let_def
      split: option.splits)

lemma parse_keyblob:
  assumes "length cred < 2 ^ 16" and "idf cred = Some c" and "sf secret = Some x"
  shows "parse_cred_and_secret idf sf (keyblob cred secret) = Ok (c, x)"
proof -
  let ?h = "u32_to_be_bytes TSS_MAGIC @ u32_to_be_bytes 1" and ?l = "u16_to_be_bytes (word_of_nat (length cred))"
  have blob: "keyblob cred secret = ?h @ ?l @ cred @ u16_to_be_bytes (word_of_nat (length secret)) @ secret"
    by (simp add: keyblob_def)
  have "header_ok (keyblob cred secret)" and size: "cred_size (keyblob cred secret) = length cred"
    using assms(1) by (simp_all add: blob header_ok_def cred_size_def unat_of_nat)
  moreover have "take (length cred) (drop 10 (keyblob cred secret)) = cred"
    and "drop (12 + length cred) (keyblob cred secret) = secret"
    by (simp_all add: blob)
  moreover have "length (keyblob cred secret) = 12 + length cred + length secret" by (simp add: blob)
  ultimately show ?thesis using assms(2,3) by (simp add: parse_cred_and_secret_long)
qed

text \<open>The blob the registrar sends parses into its credential and its encrypted secret, and the
  blobs that make the parser panic instead of reporting an error are exactly those shorter than the
  8-byte header and those with a good header that end before the announced credential and the size
  field after it.\<close>

theorem parse_cred_and_secret_correct:
  assumes "length cred < 2 ^ 16" and "idf cred = Some c" and "sf secret = Some x"
  shows "parse_cred_and_secret idf sf (keyblob cred secret) = Ok (c, x)
    \<and> (parse_cred_and_secret idf sf bs = Panic \<longleftrightarrow>
         length bs < 8 \<or> (header_ok bs \<and> (length bs < 10 \<or> length bs < 12 + cred_size bs)))"
proof -
  have "parse_cred_and_secret idf sf bs = Panic \<longleftrightarrow>
      length bs < 8 \<or> (header_ok bs \<and> (length bs < 10 \<or> length bs < 12 + cred_size bs))"
    by (cases "length bs < 8")
      (auto simp: parse_cred_and_secret_short parse_cred_and_secret_long split: option.splits)
  then show ?thesis using parse_keyblob [of cred idf c sf secret x] assms by blast
qed

theorem parse_cred_and_secret_correct_witness:
  "parse_cred_and_secret Some Some (keyblob [1, 2] [3]) = Ok ([1, 2], [3])
   \<and> parse_cred_and_secret Some Some [] = (Panic :: (u8 list \<times> u8 list, tpm_error) outcome)"
  using parse_cred_and_secret_correct [of "[1, 2]" Some "[1, 2]" Some "[3]" "[3]" "[]"] by simp

end
