(* ===== verification/Tpm_Quote.thy ===== *)
theory Tpm_Quote
  imports Tpm_Pcr
begin

text \<open>
  Quotes, from \<^verbatim>\<open>keylime/src/tpm.rs\<close>: binding the transport key into PCR 16, selecting PCRs by
  mask, quoting until the quote and the PCR values agree, and the textual form of a quote with its
  decoder and checker. The TPM is a context the TSS calls act on; those calls, the structures of the
  TSS library and OpenSSL's hasher are parameters.
\<close>

section \<open>Actions on the TPM context\<close>

type_synonym ('c, 'a) tpm_act = "('c, 'a, tpm_error) act"

text \<open>Sequencing with \<open>?\<close>: the first failure ends the action; the context keeps its changes.\<close>

definition act_tss ::
  "(tss_error \<Rightarrow> tpm_error) \<Rightarrow> ('c \<Rightarrow> ('a, tss_error) outcome \<times> 'c) \<Rightarrow> ('c, 'a) tpm_act" where
  "act_tss f call c = (case call c of (r, c') \<Rightarrow> (map_err f r, c'))"

lemma act_tss_Ok_iff: "act_tss f call c = (Ok x, c') \<longleftrightarrow> call c = (Ok x, c')"
  by (auto simp: act_tss_def split: prod.splits)

section \<open>Digests\<close>

text \<open>OpenSSL's incremental hasher.\<close>

record 'h hasher_ops =
  hasher_new :: "message_digest \<Rightarrow> ('h, string) outcome"
  hasher_update :: "'h \<Rightarrow> u8 list \<Rightarrow> ('h, string) outcome"
  hasher_finish :: "'h \<Rightarrow> (u8 list, string) outcome"

definition hash_alg_to_message_digest :: "hashing_algorithm \<Rightarrow> (message_digest, tpm_error) outcome" where
  "hash_alg_to_message_digest hash_alg =
     (case hash_alg of
        Hashing_Sha256 \<Rightarrow> Ok md_sha256
      | Hashing_Sha1 \<Rightarrow> Ok md_sha1
      | Hashing_Sha384 \<Rightarrow> Ok md_sha384
      | Hashing_Sha512 \<Rightarrow> Ok md_sha512
      | Hashing_Sm3_256 \<Rightarrow> Ok md_sm3
      | Hashing_Other s \<Rightarrow> Err (UnsupportedHashingAlgorithm (Hashing_Other s)))"

text \<open>What the code asks of a public key.\<close>

record pubkey_view =
  pkv_is_rsa :: bool
  pkv_id_debug :: string
  pkv_rsa :: "(unit, string) outcome"
  pkv_rsa_pem :: "(u8 list, string) outcome"

definition pubkey_to_tpm_digest ::
  "'h hasher_ops \<Rightarrow> (u8 list \<Rightarrow> ('dig, tss_error) outcome) \<Rightarrow> pubkey_view \<Rightarrow> hash_algorithm
   \<Rightarrow> ((hashing_algorithm \<times> 'dig) list, tpm_error) outcome" where
  "pubkey_to_tpm_digest ho digest_from pubkey hash_algo =
     and_then
       (if pkv_is_rsa pubkey then
          and_then (map_err OpenSSLRSAFromPKey (pkv_rsa pubkey)) (\<lambda>_.
          map_err OpenSSLPublicKeyToPEM (pkv_rsa_pem pubkey))
        else Err (NotImplemented (''Converting to digest value for key type '' @ pkv_id_debug pubkey)))
       (\<lambda>keybytes.
     let hashing_algo = hashing_from_hash hash_algo
     in and_then (hash_alg_to_message_digest hashing_algo) (\<lambda>md.
        and_then (map_err OpenSSLHasherNew (hasher_new ho md)) (\<lambda>h0.
        and_then (map_err OpenSSLHasherUpdate (hasher_update ho h0 keybytes)) (\<lambda>h1.
        and_then (map_err OpenSSLHasherFinish (hasher_finish ho h1)) (\<lambda>hashvec.
        and_then (map_err TSSDigestFromValue (digest_from hashvec)) (\<lambda>d.
        Ok [(hashing_algo, d)]))))))"

section \<open>Quoting\<close>

datatype attest_info = Quote_info (pcr_digest: "u8 list") | Other_info attestation_type

record attest =
  attested :: attest_info
  extra_data :: "u8 list"

definition attest_type :: "attest \<Rightarrow> attestation_type" where
  "attest_type a = (case attested a of Quote_info _ \<Rightarrow> Attest_Quote | Other_info t \<Rightarrow> t)"

text \<open>The TSS calls a quote makes.\<close>

record ('c, 'key, 'sel, 'data, 'sig, 'dig) quote_ops =
  op_pcr_reset :: "nat \<Rightarrow> 'c \<Rightarrow> (unit, tss_error) outcome \<times> 'c"
  op_pcr_extend :: "nat \<Rightarrow> (hashing_algorithm \<times> 'dig) list \<Rightarrow> 'c \<Rightarrow> (unit, tss_error) outcome \<times> 'c"
  op_build_sel :: "hashing_algorithm \<Rightarrow> pcr_slot list \<Rightarrow> ('sel, tss_error) outcome"
  op_read_all :: "'sel \<Rightarrow> 'c \<Rightarrow> ('data, tss_error) outcome \<times> 'c"
  op_quote :: "'key \<Rightarrow> u8 list \<Rightarrow> signature_scheme \<Rightarrow> 'sel \<Rightarrow> 'c \<Rightarrow> (attest \<times> 'sig, tss_error) outcome \<times> 'c"
  op_data_from :: "u8 list \<Rightarrow> (u8 list, tss_error) outcome"
  op_digest_from :: "u8 list \<Rightarrow> ('dig, tss_error) outcome"
  op_data_into :: "'data \<Rightarrow> tpml_digest list"
  op_sel_into :: "'sel \<Rightarrow> tpml_pcr_selection"
  op_marshall_attest :: "attest \<Rightarrow> (u8 list, tss_error) outcome"
  op_marshall_sig :: "'sig \<Rightarrow> (u8 list, tss_error) outcome"

definition build_pcr_list ::
  "('c, 'key, 'sel, 'data, 'sig, 'dig) quote_ops \<Rightarrow> (hashing_algorithm \<times> 'dig) list \<Rightarrow> u32
   \<Rightarrow> hashing_algorithm \<Rightarrow> ('c, 'sel) tpm_act" where
  "build_pcr_list qo digest pcr_mask hash_alg =
     act_bind (act_tss tpm_error_from_tss (op_pcr_reset qo 16)) (\<lambda>_.
     act_bind (act_tss tpm_error_from_tss (op_pcr_extend qo 16 digest)) (\<lambda>_.
     act_bind (act_lift (read_mask pcr_mask)) (\<lambda>pcrs.
     let pcrs' = (if Slot16 \<notin> set pcrs then pcrs @ [Slot16] else pcrs)
     in act_lift (map_err tpm_error_from_tss (op_build_sel qo hash_alg pcrs')))))"

text \<open>Feeding the valid prefix of every digest to the hasher; the array accesses may panic.\<close>

definition update_digest ::
  "'h hasher_ops \<Rightarrow> tpml_digest \<Rightarrow> 'h \<Rightarrow> nat \<Rightarrow> ('h, tpm_error) outcome" where
  "update_digest ho d h i =
     and_then (index (digests d) i) (\<lambda>pcr.
     and_then (slice 0 (unat (digest_size pcr)) (digest_buffer pcr)) (\<lambda>v.
     map_err OpenSSLHasherUpdate (hasher_update ho h v)))"

definition update_digests :: "'h hasher_ops \<Rightarrow> 'h \<Rightarrow> tpml_digest \<Rightarrow> ('h, tpm_error) outcome" where
  "update_digests ho h d = try_fold (update_digest ho d) h [0..<unat (digest_count d)]"

definition memcmp_bytes :: "u8 list \<Rightarrow> u8 list \<Rightarrow> (bool, tpm_error) outcome" where
  "memcmp_bytes a b = (if length a = length b then Ok (a = b) else Panic)"

definition check_if_pcr_data_and_attestation_match ::
  "'h hasher_ops \<Rightarrow> hashing_algorithm \<Rightarrow> tpml_digest list \<Rightarrow> attest \<Rightarrow> (bool, tpm_error) outcome" where
  "check_if_pcr_data_and_attestation_match ho hash_algo pcr_data attestation =
     (case attested attestation of
        Other_info _ \<Rightarrow> Err (UnexpectedAttestedType Attest_Quote (attest_type attestation))
      | Quote_info attested_pcr \<Rightarrow>
          and_then (hash_alg_to_message_digest hash_algo) (\<lambda>md.
          and_then (map_err OpenSSLHasherNew (hasher_new ho md)) (\<lambda>h0.
          and_then (try_fold (update_digests ho) h0 pcr_data) (\<lambda>h1.
          and_then (map_err OpenSSLHasherFinish (hasher_finish ho h1)) (\<lambda>d.
          memcmp_bytes attested_pcr d)))))"

definition NUM_ATTESTATION_ATTEMPTS :: nat where
  "NUM_ATTESTATION_ATTEMPTS = 5"

definition make_pcr_blob ::
  "('c, 'key, 'sel, 'data, 'sig, 'dig) quote_ops \<Rightarrow> 'sel \<Rightarrow> ('c, 'sel \<times> 'data) tpm_act" where
  "make_pcr_blob qo pcrlist =
     act_bind (act_tss TSSPCRListError (op_read_all qo pcrlist)) (\<lambda>pcr_data.
     act_lift (Ok (pcrlist, pcr_data)))"

text \<open>One pass of the loop: the comparison and what was quoted and read.\<close>

definition quote_attempt ::
  "'h hasher_ops \<Rightarrow> ('c, 'key, 'sel, 'data, 'sig, 'dig) quote_ops \<Rightarrow> 'key \<Rightarrow> u8 list \<Rightarrow> 'sel
   \<Rightarrow> signature_scheme \<Rightarrow> hashing_algorithm \<Rightarrow> ('c, bool \<times> attest \<times> 'sig \<times> 'sel \<times> 'data) tpm_act" where
  "quote_attempt ho qo ak nonce pcrlist scheme hash_alg =
     act_bind (make_pcr_blob qo pcrlist) (\<lambda>(pcrs_read, pcr_data).
     act_bind (act_tss TSSQuoteError (op_quote qo ak nonce scheme pcrs_read)) (\<lambda>(attestation, sg).
     act_bind (act_lift (check_if_pcr_data_and_attestation_match ho hash_alg (op_data_into qo pcr_data) attestation)) (\<lambda>same.
     act_lift (Ok (same, attestation, sg, pcrs_read, pcr_data)))))"

text \<open>The loop over the attempts left.\<close>

fun quote_attempts ::
  "nat \<Rightarrow> 'h hasher_ops \<Rightarrow> ('c, 'key, 'sel, 'data, 'sig, 'dig) quote_ops \<Rightarrow> 'key \<Rightarrow> u8 list \<Rightarrow> 'sel
   \<Rightarrow> signature_scheme \<Rightarrow> hashing_algorithm \<Rightarrow> ('c, attest \<times> 'sig \<times> 'sel \<times> 'data) tpm_act" where
  "quote_attempts 0 ho qo ak nonce pcrlist scheme hash_alg =
     act_lift (Err (TooManyAttestationMismatches NUM_ATTESTATION_ATTEMPTS))"
| "quote_attempts (Suc n) ho qo ak nonce pcrlist scheme hash_alg =
     act_bind (quote_attempt ho qo ak nonce pcrlist scheme hash_alg) (\<lambda>(same, r).
     if same then act_lift (Ok r) else quote_attempts n ho qo ak nonce pcrlist scheme hash_alg)"

definition perform_quote_and_pcr_read ::
  "'h hasher_ops \<Rightarrow> ('c, 'key, 'sel, 'data, 'sig, 'dig) quote_ops \<Rightarrow> 'key \<Rightarrow> u8 list \<Rightarrow> 'sel
   \<Rightarrow> signature_scheme \<Rightarrow> hashing_algorithm \<Rightarrow> ('c, attest \<times> 'sig \<times> 'sel \<times> 'data) tpm_act" where
  "perform_quote_and_pcr_read ho qo ak nonce pcrlist scheme hash_alg =
     act_bind (act_lift (map_err (\<lambda>_. DataFromNonce) (op_data_from qo nonce))) (\<lambda>nonce_data.
     quote_attempts NUM_ATTESTATION_ATTEMPTS ho qo ak nonce_data pcrlist scheme hash_alg)"

definition encode_quote_string ::
  "(u8 list \<Rightarrow> string) \<Rightarrow> ('c, 'key, 'sel, 'data, 'sig, 'dig) quote_ops \<Rightarrow> attest \<Rightarrow> 'sig \<Rightarrow> 'sel \<Rightarrow> 'data
   \<Rightarrow> (string, tpm_error) outcome" where
  "encode_quote_string b64 qo att sg pcrs_read pcr_data =
     and_then (map_err TSSMarshallAttestError (op_marshall_attest qo att)) (\<lambda>att_vec.
     and_then (map_err TSSMarshallSignatureError (op_marshall_sig qo sg)) (\<lambda>sig_vec.
     let pcr_vec = pcrdata_to_vec (op_sel_into qo) (op_data_into qo) pcrs_read pcr_data
     in Ok (''r'' @ b64 att_vec @ '':'' @ b64 sig_vec @ '':'' @ b64 pcr_vec)))"

definition quote ::
  "(u8 list \<Rightarrow> string) \<Rightarrow> 'h hasher_ops \<Rightarrow> ('c, 'key, 'sel, 'data, 'sig, 'dig) quote_ops \<Rightarrow> u8 list \<Rightarrow> u32
   \<Rightarrow> pubkey_view \<Rightarrow> 'key \<Rightarrow> hash_algorithm \<Rightarrow> sign_algorithm \<Rightarrow> ('c, string) tpm_act" where
  "quote b64 ho qo nonce pcr_mask pubkey ak_handle hash_alg sign_alg =
     act_bind (act_lift (pubkey_to_tpm_digest ho (op_digest_from qo) pubkey hash_alg)) (\<lambda>nk_digest.
     act_bind (build_pcr_list qo nk_digest pcr_mask (hashing_from_hash hash_alg)) (\<lambda>pcrlist.
     act_bind (perform_quote_and_pcr_read ho qo ak_handle nonce pcrlist
                 (to_signature_scheme sign_alg hash_alg) (hashing_from_hash hash_alg))
       (\<lambda>(attestation, sg, pcrs_read, pcr_data).
     act_lift (encode_quote_string b64 qo attestation sg pcrs_read pcr_data))))"

section \<open>Decoding and checking a quote\<close>

text \<open>The TSS conversions of the decoder and the calls of the checker.\<close>

record ('c, 'key, 'sel, 'data, 'sig, 'dig) check_ops =
  co_vec_to_sig :: "u8 list \<Rightarrow> ('sig, tpm_error) outcome"
  co_sel_from :: "tpml_pcr_selection \<Rightarrow> ('sel, tss_error) outcome"
  co_digest_from :: "tpm2b_digest \<Rightarrow> ('dig, tss_error) outcome"
  co_digest_list_add :: "'dig list \<Rightarrow> 'dig \<Rightarrow> ('dig list, tss_error) outcome"
  co_data_create :: "'sel \<Rightarrow> 'dig list \<Rightarrow> ('data, tss_error) outcome"
  co_attest_capacity :: nat
  co_sig_digest :: "u8 list \<Rightarrow> ('dig, tss_error) outcome"
  co_verify_signature :: "'key \<Rightarrow> 'dig \<Rightarrow> 'sig \<Rightarrow> 'c \<Rightarrow> (bool, tss_error) outcome \<times> 'c"
  co_attest_from :: "u8 list \<Rightarrow> (attest, tss_error) outcome"
  co_pcr_bank :: "'data \<Rightarrow> hashing_algorithm \<Rightarrow> (pcr_slot \<Rightarrow> u8 list option) option"
  co_selections :: "'sel \<Rightarrow> pcr_slot list list"

definition malformed :: "string \<Rightarrow> tpm_error" where
  "malformed what = Tpm_InvalidRequest (''Malformed quote string, could not parse '' @ what)"

definition decode_quote_string ::
  "(string \<Rightarrow> u8 list option) \<Rightarrow> (string \<Rightarrow> string) \<Rightarrow> ('c, 'key, 'sel, 'data, 'sig, 'dig) check_ops \<Rightarrow> string
   \<Rightarrow> (u8 list \<times> 'sig \<times> 'sel \<times> 'data, tpm_error) outcome" where
  "decode_quote_string b64d b64_error co q =
     (if \<not> starts_with ''r'' q then
        Err (Tpm_InvalidRequest (''Quote string should start with '' @ [CHR 0x27] @ ''r'' @ [CHR 0x27]))
      else
        let parts = split CHR '':'' (drop 1 q);
            decode = (\<lambda>s. ok_or (Base64Decode (b64_error s)) (b64d s))
        in case parts of
             att_str # sig_str # pcr_str # _ \<Rightarrow>
               and_then (decode att_str) (\<lambda>att.
               and_then (decode sig_str) (\<lambda>sig_bytes.
               and_then (decode pcr_str) (\<lambda>pcr.
               and_then (co_vec_to_sig co sig_bytes) (\<lambda>sg.
               and_then (vec_to_pcrdata (co_sel_from co) (co_digest_from co) (co_digest_list_add co)
                           (co_data_create co) pcr) (\<lambda>(pcrsel, pcrdata).
               if 2 ^ 16 \<le> length att then Err (Tpm_TryFromInt ''out of range integral type conversion attempted'')
               else if co_attest_capacity co < length att then Panic
               else Ok (att, sg, pcrsel, pcrdata))))))
           | [att_str, sig_str] \<Rightarrow> Err (malformed ''the PCR blob'')
           | [att_str] \<Rightarrow> Err (malformed ''signature'')
           | [] \<Rightarrow> Err (malformed ''quote''))"

definition hash_all :: "'h hasher_ops \<Rightarrow> message_digest \<Rightarrow> u8 list list \<Rightarrow> (u8 list, tpm_error) outcome" where
  "hash_all ho md vs =
     and_then (map_err OpenSSLHasherNew (hasher_new ho md)) (\<lambda>h0.
     and_then (try_fold (\<lambda>h v. map_err OpenSSLHasherUpdate (hasher_update ho h v)) h0 vs) (\<lambda>h1.
     map_err OpenSSLHasherFinish (hasher_finish ho h1)))"

definition selected_values :: "(pcr_slot \<Rightarrow> u8 list option) \<Rightarrow> pcr_slot list list \<Rightarrow> u8 list list" where
  "selected_values bank sels = List.map_filter bank (concat sels)"

text \<open>Any answer of \<open>verify_signature\<close> but a ticket tagged as verified is a failure.\<close>

definition verify_quote_signature ::
  "('c, 'key, 'sel, 'data, 'sig, 'dig) check_ops \<Rightarrow> 'key \<Rightarrow> 'dig \<Rightarrow> 'sig \<Rightarrow> ('c, unit) tpm_act" where
  "verify_quote_signature co ak_handle dig sg c =
     (case co_verify_signature co ak_handle dig sg c of
        (r, c') \<Rightarrow> (if r = Ok True then Ok () else Err (Tpm_Other ''unable to verify quote signature''), c'))"

definition check_attested ::
  "'h hasher_ops \<Rightarrow> ('c, 'key, 'sel, 'data, 'sig, 'dig) check_ops \<Rightarrow> u8 list \<Rightarrow> attest \<Rightarrow> 'sel \<Rightarrow> 'data
   \<Rightarrow> (unit, tpm_error) outcome" where
  "check_attested ho co nonce attestation pcrsel pcrdata =
     (if extra_data attestation \<noteq> nonce then Err (Tpm_Other ''nonce does not match'')
      else
        and_then (ok_or (Tpm_Other ''no SHA256 bank'') (co_pcr_bank co pcrdata Hashing_Sha256)) (\<lambda>bank.
        and_then (hash_all ho md_sha256 (selected_values bank (co_selections co pcrsel))) (\<lambda>computed.
        case attested attestation of
          Other_info _ \<Rightarrow>
            Err (Tpm_Other (''Expected attestation type TPM2_ST_ATTEST_QUOTE, got ''
              @ debug_attestation (attest_type attestation)))
        | Quote_info pd \<Rightarrow>
            if pd \<noteq> computed then Err (Tpm_Other ''PCR digest does not match'') else Ok ())))"

definition check_quote ::
  "(string \<Rightarrow> u8 list option) \<Rightarrow> (string \<Rightarrow> string) \<Rightarrow> 'h hasher_ops \<Rightarrow> ('c, 'key, 'sel, 'data, 'sig, 'dig) check_ops
   \<Rightarrow> 'key \<Rightarrow> string \<Rightarrow> u8 list \<Rightarrow> ('c, unit) tpm_act" where
  "check_quote b64d b64_error ho co ak_handle q nonce =
     act_bind (act_lift (decode_quote_string b64d b64_error co q)) (\<lambda>(att, sg, pcrsel, pcrdata).
     act_bind (act_lift (hash_all ho md_sha256 [att])) (\<lambda>d.
     act_bind (act_lift (unwrap (co_sig_digest co d))) (\<lambda>dig.
     act_bind (verify_quote_signature co ak_handle dig sg) (\<lambda>_.
     act_bind (act_lift (map_err tpm_error_from_tss (co_attest_from co att))) (\<lambda>attestation.
     act_lift (check_attested ho co nonce attestation pcrsel pcrdata))))))"

section \<open>Races between reading and quoting\<close>

text \<open>\<open>n\<close> passes in a row in which the PCRs changed between the read and the quote.\<close>

fun raced ::
  "nat \<Rightarrow> 'h hasher_ops \<Rightarrow> ('c, 'key, 'sel, 'data, 'sig, 'dig) quote_ops \<Rightarrow> 'key \<Rightarrow> u8 list \<Rightarrow> 'sel
   \<Rightarrow> signature_scheme \<Rightarrow> hashing_algorithm \<Rightarrow> 'c \<Rightarrow> 'c \<Rightarrow> bool" where
  "raced 0 ho qo ak nd sl scheme h c c' = (c' = c)"
| "raced (Suc n) ho qo ak nd sl scheme h c c' =
     (case quote_attempt ho qo ak nd sl scheme h c of
        (Ok (same, _), c1) \<Rightarrow> \<not> same \<and> raced n ho qo ak nd sl scheme h c1 c'
      | _ \<Rightarrow> False)"

section \<open>What a returned quote guarantees\<close>

lemma quote_attempt_Ok:
  assumes "quote_attempt ho qo ak nonce sl scheme h c = (Ok (same, att, sg, sl', pd), c')"
  shows "sl' = sl \<and> check_if_pcr_data_and_attestation_match ho h (op_data_into qo pd) att = Ok same
    \<and> (\<exists>c1. op_read_all qo sl c = (Ok pd, c1) \<and> op_quote qo ak nonce scheme sl c1 = (Ok (att, sg), c'))"
  using assms
  by (auto simp: quote_attempt_def make_pcr_blob_def act_bind_Ok_iff act_lift_Ok_iff act_tss_Ok_iff)

lemma quote_attempts_Ok:
  assumes "quote_attempts n ho qo ak nonce sl scheme h c = (Ok (att, sg, sl', pd), c')"
  shows "\<exists>k c0. k < n \<and> raced k ho qo ak nonce sl scheme h c c0
    \<and> quote_attempt ho qo ak nonce sl scheme h c0 = (Ok (True, att, sg, sl', pd), c')"
  using assms
proof (induction n arbitrary: c)
  case (Suc n)
  then obtain same r c1 where a: "quote_attempt ho qo ak nonce sl scheme h c = (Ok (same, r), c1)"
    and k: "(if same then act_lift (Ok r) else quote_attempts n ho qo ak nonce sl scheme h) c1
      = (Ok (att, sg, sl', pd), c')"
    by (auto simp: act_bind_Ok_iff)
  show ?case
  proof (cases same)
    case True
    then have "raced 0 ho qo ak nonce sl scheme h c c"
      and "quote_attempt ho qo ak nonce sl scheme h c = (Ok (True, att, sg, sl', pd), c')"
      using a k by (auto simp: act_lift_Ok_iff)
    then show ?thesis by blast
  next
    case False
    with k have "quote_attempts n ho qo ak nonce sl scheme h c1 = (Ok (att, sg, sl', pd), c')" by simp
    from Suc.IH [OF this] obtain i c0 where "i < n" and rc: "raced i ho qo ak nonce sl scheme h c1 c0"
      and q: "quote_attempt ho qo ak nonce sl scheme h c0 = (Ok (True, att, sg, sl', pd), c')" by blast
    moreover have "raced (Suc i) ho qo ak nonce sl scheme h c c0" using a rc False by simp
    ultimately show ?thesis by (meson Suc_mono)
  qed
qed (simp add: act_lift_def)

lemma build_pcr_list_Ok:
  assumes "build_pcr_list qo dig m h c = (Ok sl, c')"
  shows "\<exists>pcrs ca. op_build_sel qo h pcrs = Ok sl \<and> unat m < 2 ^ 24
    \<and> set pcrs = insert Slot16 {s. bit m (slot_index s)}
    \<and> op_pcr_reset qo 16 c = (Ok (), ca) \<and> op_pcr_extend qo 16 dig ca = (Ok (), c')"
proof -
  from assms obtain pcrs ca where r: "read_mask m = Ok pcrs"
    and x: "op_pcr_reset qo 16 c = (Ok (), ca)" "op_pcr_extend qo 16 dig ca = (Ok (), c')"
    and b: "op_build_sel qo h (if Slot16 \<notin> set pcrs then pcrs @ [Slot16] else pcrs) = Ok sl"
    by (auto simp: build_pcr_list_def act_bind_Ok_iff act_lift_Ok_iff act_tss_Ok_iff Let_def)
  from r have "high_bits m = []" and "pcrs = filter (\<lambda>s. bit m (slot_index s)) all_slots"
    by (auto simp: read_mask_split split: list.splits)
  then have "unat m < 2 ^ 24" and "set pcrs = {s. bit m (slot_index s)}"
    by (auto simp: high_bits_Nil_iff)
  with b x show ?thesis by (intro exI conjI) (assumption, assumption, auto)
qed

lemma quote_Ok:
  assumes "quote b64 ho qo nonce m pubkey ak h s c = (Ok q, c')"
  shows "\<exists>pcrs sl att sg pd ca cb c1 c2 nd dig k.
    pubkey_to_tpm_digest ho (op_digest_from qo) pubkey h = Ok dig
    \<and> op_pcr_reset qo 16 c = (Ok (), ca) \<and> op_pcr_extend qo 16 dig ca = (Ok (), cb)
    \<and> op_build_sel qo (hashing_from_hash h) pcrs = Ok sl
    \<and> set pcrs = insert Slot16 {s. bit m (slot_index s)} \<and> unat m < 2 ^ 24
    \<and> op_data_from qo nonce = Ok nd
    \<and> k < 5 \<and> raced k ho qo ak nd sl (to_signature_scheme s h) (hashing_from_hash h) cb c1
    \<and> op_read_all qo sl c1 = (Ok pd, c2)
    \<and> op_quote qo ak nd (to_signature_scheme s h) sl c2 = (Ok (att, sg), c')
    \<and> check_if_pcr_data_and_attestation_match ho (hashing_from_hash h) (op_data_into qo pd) att = Ok True
    \<and> encode_quote_string b64 qo att sg sl pd = Ok q"
proof -
  from assms obtain dig sl c1 nd att sg sl' pd where
    dig: "pubkey_to_tpm_digest ho (op_digest_from qo) pubkey h = Ok dig"
    and b: "build_pcr_list qo dig m (hashing_from_hash h) c = (Ok sl, c1)" and nd: "op_data_from qo nonce = Ok nd"
    and a: "quote_attempts NUM_ATTESTATION_ATTEMPTS ho qo ak nd sl (to_signature_scheme s h) (hashing_from_hash h) c1
      = (Ok (att, sg, sl', pd), c')"
    and e: "encode_quote_string b64 qo att sg sl' pd = Ok q"
    by (auto simp: quote_def perform_quote_and_pcr_read_def act_bind_Ok_iff act_lift_Ok_iff)
  from quote_attempts_Ok [OF a] obtain k c2 where "k < 5"
    and "raced k ho qo ak nd sl (to_signature_scheme s h) (hashing_from_hash h) c1 c2"
    and q: "quote_attempt ho qo ak nd sl (to_signature_scheme s h) (hashing_from_hash h) c2
      = (Ok (True, att, sg, sl', pd), c')" by (auto simp: NUM_ATTESTATION_ATTEMPTS_def)
  then show ?thesis using quote_attempt_Ok [OF q] build_pcr_list_Ok [OF b] dig nd e by blast
qed


lemma quote_attempts_raced:
  "raced k ho qo ak nd sl scheme h c c1 \<Longrightarrow>
   quote_attempts (k + n) ho qo ak nd sl scheme h c = quote_attempts n ho qo ak nd sl scheme h c1"
proof (induction k arbitrary: c)
  case (Suc k)
  then obtain r c2 where "quote_attempt ho qo ak nd sl scheme h c = (Ok (False, r), c2)"
    and "raced k ho qo ak nd sl scheme h c2 c1"
    by (auto split: prod.splits outcome.splits)
  then show ?case using Suc.IH by (simp add: act_bind_def)
qed simp

text \<open>Up to four races are tolerated: when the first \<open>k\<close> passes mismatch, \<open>k < 5\<close>, and the next
  one agrees, its quote is returned; after five mismatches the agent gives up with an error that
  says so, and makes no sixth attempt.\<close>

theorem quote_retries:
  assumes "op_data_from qo nonce = Ok nd" and "raced k ho qo ak nd sl scheme h c c1"
  shows "(k < 5 \<and> quote_attempt ho qo ak nd sl scheme h c1 = (Ok (True, r), c2) \<longrightarrow>
            perform_quote_and_pcr_read ho qo ak nonce sl scheme h c = (Ok r, c2))
    \<and> (k = 5 \<longrightarrow> perform_quote_and_pcr_read ho qo ak nonce sl scheme h c
            = (Err (TooManyAttestationMismatches 5), c1))"
proof -
  have p: "perform_quote_and_pcr_read ho qo ak nonce sl scheme h c = quote_attempts 5 ho qo ak nd sl scheme h c"
    by (simp add: perform_quote_and_pcr_read_def act_bind_def act_lift_def assms(1) NUM_ATTESTATION_ATTEMPTS_def)
  have "quote_attempts 5 ho qo ak nd sl scheme h c = (Ok r, c2)"
    if "k < 5" and a: "quote_attempt ho qo ak nd sl scheme h c1 = (Ok (True, r), c2)"
  proof -
    have "5 = k + Suc (4 - k)" using that(1) by simp
    then show ?thesis using quote_attempts_raced [OF assms(2), of "Suc (4 - k)"] a
      by (simp add: act_bind_def act_lift_def)
  qed
  moreover have "quote_attempts 5 ho qo ak nd sl scheme h c = (Err (TooManyAttestationMismatches 5), c1)" if "k = 5"
    using quote_attempts_raced [OF assms(2), of 0] that by (simp add: act_lift_def NUM_ATTESTATION_ATTEMPTS_def)
  ultimately show ?thesis using p by simp
qed

subsection \<open>A small TPM\<close>

text \<open>A hash that is the identity, and a TPM whose only PCR value is constant; the context is the
  PCR value its next quote attests to.\<close>

definition hasher_ref :: "u8 list hasher_ops" where
  "hasher_ref = \<lparr>hasher_new = \<lambda>_. Ok [], hasher_update = \<lambda>h v. Ok (h @ v), hasher_finish = Ok\<rparr>"

definition pcr_ref :: tpm2b_digest where
  "pcr_ref = \<lparr>digest_size = 32, digest_buffer = replicate 64 7\<rparr>"

definition attest_ref :: "nat \<Rightarrow> u8 list \<Rightarrow> attest" where
  "attest_ref c nd = \<lparr>attested = Quote_info (replicate 32 (word_of_nat c)), extra_data = nd\<rparr>"

definition quote_ops_ref ::
  "(nat, unit, tpml_pcr_selection, tpm2b_digest list, u8 list, u8 list) quote_ops" where
  "quote_ops_ref =
     \<lparr>op_pcr_reset = \<lambda>_ c. (Ok (), c), op_pcr_extend = \<lambda>_ _ c. (Ok (), c),
      op_build_sel = \<lambda>_ _. Ok pcrsel_ref, op_read_all = \<lambda>_ c. (Ok [pcr_ref], c),
      op_quote = \<lambda>_ nd _ _ c. (Ok (attest_ref c nd, [1]), Suc c),
      op_data_from = Ok, op_digest_from = Ok, op_data_into = data_into_ref, op_sel_into = id,
      op_marshall_attest = \<lambda>a. Ok (extra_data a), op_marshall_sig = Ok\<rparr>"

lemma quote_ops_ref_simps [simp]:
  "op_pcr_reset quote_ops_ref i c = (Ok (), c)" "op_pcr_extend quote_ops_ref i d c = (Ok (), c)"
  "op_build_sel quote_ops_ref h pcrs = Ok pcrsel_ref" "op_data_from quote_ops_ref nd = Ok nd"
  "op_digest_from quote_ops_ref = Ok" "op_marshall_attest quote_ops_ref a = Ok (extra_data a)"
  "op_marshall_sig quote_ops_ref sg = Ok sg"
  by (simp_all add: quote_ops_ref_def)

lemma quote_attempt_ref:
  "quote_attempt hasher_ref quote_ops_ref () nd pcrsel_ref scheme Hashing_Sha256 c
   = (Ok ((word_of_nat c :: u8) = 7, attest_ref c nd, [1], pcrsel_ref, [pcr_ref]), Suc c)"
proof -
  have "update_digests hasher_ref [] (hd (data_into_ref [pcr_ref])) = Ok (replicate 32 7)"
    by (simp add: update_digests_def update_digest_def data_into_ref_def pcr_ref_def index_def slice_def
        hasher_ref_def)
  then have "check_if_pcr_data_and_attestation_match hasher_ref Hashing_Sha256 (data_into_ref [pcr_ref])
      (attest_ref c nd) = Ok ((word_of_nat c :: u8) = 7)"
    by (simp add: check_if_pcr_data_and_attestation_match_def attest_ref_def hash_alg_to_message_digest_def
        data_into_ref_def hasher_ref_def memcmp_bytes_def)
  then show ?thesis
    by (simp add: quote_attempt_def make_pcr_blob_def act_bind_def act_lift_def act_tss_def quote_ops_ref_def)
qed

theorem quote_retries_witness:
  "perform_quote_and_pcr_read hasher_ref quote_ops_ref () [9] pcrsel_ref Scheme_Null Hashing_Sha256 6
     = (Ok (attest_ref 7 [9], [1], pcrsel_ref, [pcr_ref]), 8)
   \<and> perform_quote_and_pcr_read hasher_ref quote_ops_ref () [9] pcrsel_ref Scheme_Null Hashing_Sha256 8
     = (Err (TooManyAttestationMismatches 5), 13)"
proof -
  have n: "op_data_from quote_ops_ref [9] = Ok [9]" by simp
  have one: "raced (Suc 0) hasher_ref quote_ops_ref () [9] pcrsel_ref Scheme_Null Hashing_Sha256 6 7"
    and "raced (Suc (Suc (Suc (Suc (Suc 0))))) hasher_ref quote_ops_ref () [9] pcrsel_ref Scheme_Null Hashing_Sha256 8 13"
    by (simp_all add: quote_attempt_ref)
  moreover have "Suc (Suc (Suc (Suc (Suc 0)))) = 5" by simp
  ultimately have five: "raced 5 hasher_ref quote_ops_ref () [9] pcrsel_ref Scheme_Null Hashing_Sha256 8 13"
    by (simp only:)
  show ?thesis
    using quote_retries [OF n one, of "(attest_ref 7 [9], [1], pcrsel_ref, [pcr_ref])" 8]
      quote_retries [OF n five, of undefined undefined]
    by (simp add: quote_attempt_ref)
qed

definition pubkey_ref :: pubkey_view where
  "pubkey_ref = \<lparr>pkv_is_rsa = True, pkv_id_debug = ''RSA'', pkv_rsa = Ok (), pkv_rsa_pem = Ok [1, 2]\<rparr>"

lemma perform_ref:
  "perform_quote_and_pcr_read hasher_ref quote_ops_ref () nd pcrsel_ref scheme Hashing_Sha256 7
   = (Ok (attest_ref 7 nd, [1], pcrsel_ref, [pcr_ref]), 8)"
proof -
  have five: "NUM_ATTESTATION_ATTEMPTS = Suc 4" by (simp add: NUM_ATTESTATION_ATTEMPTS_def)
  show ?thesis
    unfolding perform_quote_and_pcr_read_def five quote_attempts.simps
    by (simp add: act_bind_def act_lift_def quote_attempt_ref)
qed

lemma quote_ref:
  "\<exists>q. quote hex_encode_ref hasher_ref quote_ops_ref nd 0x408000 pubkey_ref () Sha256 RsaSsa 7 = (Ok q, 8)"
proof -
  have m: "read_mask 0x408000 = Ok [Slot15, Slot22]" by code_simp
  have "pubkey_to_tpm_digest hasher_ref Ok pubkey_ref Sha256 = Ok [(Hashing_Sha256, [1, 2])]"
    by (simp add: pubkey_to_tpm_digest_def pubkey_ref_def hash_alg_to_message_digest_def hasher_ref_def)
  then show ?thesis
    by (simp add: quote_def perform_ref build_pcr_list_def m act_bind_def act_lift_def act_tss_def
        encode_quote_string_def)
qed


section \<open>The textual form\<close>

lemma quote_string_back:
  assumes "base64_codec b64 b64d"
    and "readable_blob (op_sel_into qo) (co_sel_from co) (op_data_into qo) (co_digest_from co)
      (co_digest_list_add co) (co_data_create co) sl pd"
    and "op_marshall_attest qo att = Ok att_vec" and "length att_vec \<le> co_attest_capacity co"
    and "length att_vec < 2 ^ 16"
    and "op_marshall_sig qo sg = Ok sig_vec" and "co_vec_to_sig co sig_vec = Ok sg"
  shows "\<exists>q. encode_quote_string b64 qo att sg sl pd = Ok q
    \<and> decode_quote_string b64d b64_error co q = Ok (att_vec, sg, sl, pd)"
proof -
  let ?pcr = "pcrdata_to_vec (op_sel_into qo) (op_data_into qo) sl pd"
  let ?q = "''r'' @ b64 att_vec @ '':'' @ b64 sig_vec @ '':'' @ b64 ?pcr"
  have "encode_quote_string b64 qo att sg sl pd = Ok ?q"
    using assms(3,6) by (simp add: encode_quote_string_def)
  moreover have "split CHR '':'' (drop 1 ?q) = [b64 att_vec, b64 sig_vec, b64 ?pcr]"
    by (simp add: base64_codec_no_colon [OF assms(1)])
  then have "decode_quote_string b64d b64_error co ?q = Ok (att_vec, sg, sl, pd)"
    using assms(4,5,7) vec_to_pcrdata_back [OF assms(2)]
    by (simp add: decode_quote_string_def base64_codecD [OF assms(1)] Let_def)
  ultimately show ?thesis by blast
qed


definition check_ops_ref ::
  "(nat, unit, tpml_pcr_selection, tpm2b_digest list, u8 list, tpm2b_digest) check_ops" where
  "check_ops_ref =
     \<lparr>co_vec_to_sig = Ok, co_sel_from = Ok, co_digest_from = Ok,
      co_digest_list_add = \<lambda>dl t. Ok (dl @ [t]), co_data_create = \<lambda>s ds. Ok ds, co_attest_capacity = 1024,
      co_sig_digest = \<lambda>bs. Ok \<lparr>digest_size = 0, digest_buffer = bs\<rparr>,
      co_verify_signature = \<lambda>_ d sg c. (Ok (sg = [1]), c),
      co_attest_from = \<lambda>bs. Ok (attest_ref 7 bs),
      co_pcr_bank = \<lambda>ds h. Some (\<lambda>s. if s = Slot16 then Some (replicate 32 7) else None),
      co_selections = \<lambda>s. [[Slot16]]\<rparr>"

lemma readable_ref:
  "readable_blob (op_sel_into quote_ops_ref) (co_sel_from check_ops_ref) (op_data_into quote_ops_ref)
     (co_digest_from check_ops_ref) (co_digest_list_add check_ops_ref) (co_data_create check_ops_ref)
     pcrsel_ref [pcr_ref]"
  using readable_blob_ref by (simp add: quote_ops_ref_def check_ops_ref_def pcr_ref_def)


section \<open>Checking\<close>

text \<open>\<^bold>\<open>C13\<close>: a quote that passes the checker was signed by the attestation key over the SHA-256 of the
  attestation, carries the nonce, and attests to the SHA-256 of the PCR values it comes with.\<close>

theorem check_quote_sound:
  assumes "check_quote b64d b64_error ho co ak q nonce c = (Ok (), c')"
  shows "\<exists>att sg sl pd d dig a bank v.
    decode_quote_string b64d b64_error co q = Ok (att, sg, sl, pd)
    \<and> hash_all ho md_sha256 [att] = Ok d \<and> co_sig_digest co d = Ok dig
    \<and> co_verify_signature co ak dig sg c = (Ok True, c')
    \<and> co_attest_from co att = Ok a \<and> extra_data a = nonce
    \<and> co_pcr_bank co pd Hashing_Sha256 = Some bank
    \<and> hash_all ho md_sha256 (selected_values bank (co_selections co sl)) = Ok v
    \<and> attested a = Quote_info v"
proof -
  from assms obtain att sg sl pd d dig a where
    "decode_quote_string b64d b64_error co q = Ok (att, sg, sl, pd)"
    and "hash_all ho md_sha256 [att] = Ok d"
    and "co_sig_digest co d = Ok dig"
    and "verify_quote_signature co ak dig sg c = (Ok (), c')"
    and "co_attest_from co att = Ok a"
    and "check_attested ho co nonce a sl pd = Ok ()"
    by (auto simp: check_quote_def act_bind_Ok_iff act_lift_Ok_iff)
  moreover from calculation(4) have "co_verify_signature co ak dig sg c = (Ok True, c')"
    by (auto simp: verify_quote_signature_def split: prod.splits if_splits)
  moreover from calculation(6) obtain bank x where "extra_data a = nonce"
    and "co_pcr_bank co pd Hashing_Sha256 = Some bank"
    and "hash_all ho md_sha256 (selected_values bank (co_selections co sl)) = Ok x"
    and "attested a = Quote_info x"
    by (cases "attested a") (auto simp: check_attested_def and_then_Ok_iff split: if_splits)
  ultimately show ?thesis by blast
qed

lemma check_ops_ref_simps [simp]:
  "co_vec_to_sig check_ops_ref = Ok" "co_attest_capacity check_ops_ref = 1024"
  "co_sig_digest check_ops_ref bs = Ok \<lparr>digest_size = 0, digest_buffer = bs\<rparr>"
  "co_verify_signature check_ops_ref ak d sg c = (Ok (sg = [1]), c)"
  "co_attest_from check_ops_ref bs = Ok (attest_ref 7 bs)"
  "co_pcr_bank check_ops_ref pd h = Some (\<lambda>s. if s = Slot16 then Some (replicate 32 7) else None)"
  "co_selections check_ops_ref sl = [[Slot16]]"
  by (simp_all add: check_ops_ref_def)

lemma check_quote_ref:
  "\<exists>q. check_quote hex_decode_ref id hasher_ref check_ops_ref () q [9] 0 = (Ok (), 0)"
proof -
  have "\<exists>q. decode_quote_string hex_decode_ref id check_ops_ref q = Ok ([9], [1], pcrsel_ref, [pcr_ref])"
    using quote_string_back [OF base64_codec_ref readable_ref, of "attest_ref 7 [9]" "[9]" "[1]" "[1]" id]
    by (auto simp: attest_ref_def)
  then obtain q where q: "decode_quote_string hex_decode_ref id check_ops_ref q
      = Ok ([9], [1], pcrsel_ref, [pcr_ref])" by blast
  have "hash_all hasher_ref md_sha256 vs = Ok (concat vs)" for vs
  proof -
    have "try_fold (\<lambda>h v. Ok (h @ v)) h vs = (Ok (h @ concat vs) :: (u8 list, tpm_error) outcome)" for h
      by (induction vs arbitrary: h) auto
    then show ?thesis by (simp add: hash_all_def hasher_ref_def)
  qed
  then have "check_quote hex_decode_ref id hasher_ref check_ops_ref () q [9] 0 = (Ok (), 0)"
    by (simp add: check_quote_def act_bind_def act_lift_def q verify_quote_signature_def
        check_attested_def attest_ref_def selected_values_def List.map_filter_def)
  then show ?thesis by blast
qed

theorem check_quote_sound_witness:
  "\<exists>q att sg sl pd a. decode_quote_string hex_decode_ref id check_ops_ref q = Ok (att, sg, sl, pd)
     \<and> co_attest_from check_ops_ref att = Ok a \<and> extra_data a = [9]"
proof -
  obtain q where "check_quote hex_decode_ref id hasher_ref check_ops_ref () q [9] 0 = (Ok (), 0)"
    using check_quote_ref by blast
  from check_quote_sound [OF this] show ?thesis by blast
qed

end
