(* ===== verification/Fs.thy ===== *)
theory Fs
  imports Errors
begin

text \<open>
  The file system as the agent sees it through \<open>std::fs\<close> and \<open>std::path\<close>: a map from paths to
  files (contents and mode) and directories. Any operation may also fail for a reason of the
  operating system, given by the environment; symbolic links and dot components are not resolved.
\<close>

section \<open>Paths\<close>

text \<open>\<open>Path::join\<close>: an absolute argument replaces the path.\<close>

definition path_join :: "string \<Rightarrow> string \<Rightarrow> string" where
  "path_join base p =
     (if starts_with ''/'' p then p
      else if base = [] then p
      else if last base = CHR ''/'' then base @ p
      else base @ ''/'' @ p)"

definition is_absolute :: "string \<Rightarrow> bool" where
  "is_absolute p = starts_with ''/'' p"

text \<open>Whether a path lies in the tree below a directory.\<close>

definition below :: "string \<Rightarrow> string \<Rightarrow> bool" where
  "below dir p \<longleftrightarrow> starts_with (dir @ ''/'') p"

lemma starts_with_iff: "starts_with p s \<longleftrightarrow> (\<exists>t. s = p @ t)"
  by (induction p s rule: starts_with.induct) auto

lemma starts_with_self [simp]: "starts_with p (p @ t)"
  by (auto simp: starts_with_iff)

lemma path_join_below:
  "\<not> is_absolute p \<Longrightarrow> dir \<noteq> [] \<Longrightarrow> last dir \<noteq> CHR ''/'' \<Longrightarrow> below dir (path_join dir p)"
  by (auto simp: path_join_def is_absolute_def below_def starts_with_iff)

section \<open>Nodes and operations\<close>

datatype node = Directory | Regular (contents: string) (file_mode: nat)

type_synonym fs = "string \<rightharpoonup> node"

datatype fs_op =
  Op_open | Op_create | Op_write | Op_read | Op_create_dir | Op_remove_dir_all | Op_set_permissions
| Op_remove_file | Op_new_temp | Op_persist | Op_metadata

text \<open>
  The environment: the failures of the operating system, with their text, and how many of the
  bytes offered to one \<open>write\<close> call are accepted.
\<close>

record os =
  fault :: "fs_op \<Rightarrow> string \<Rightarrow> string option"
  accepted :: "string \<Rightarrow> nat \<Rightarrow> nat"

definition no_such_file :: string where
  "no_such_file = ''No such file or directory (os error 2)''"

definition exists_path :: "fs \<Rightarrow> string \<Rightarrow> bool" where
  "exists_path f p \<longleftrightarrow> f p \<noteq> None"

definition is_dir :: "fs \<Rightarrow> string \<Rightarrow> bool" where
  "is_dir f p \<longleftrightarrow> f p = Some Directory"

definition with_fault :: "os \<Rightarrow> fs_op \<Rightarrow> string \<Rightarrow> ('a, agent_error) outcome \<Rightarrow> ('a, agent_error) outcome"
where
  "with_fault env op p r = (case fault env op p of Some e \<Rightarrow> Err (Io e) | None \<Rightarrow> r)"

definition create_dir :: "os \<Rightarrow> fs \<Rightarrow> string \<Rightarrow> (fs, agent_error) outcome" where
  "create_dir env f p =
     with_fault env Op_create_dir p
       (if f p \<noteq> None then Err (Io ''File exists (os error 17)'') else Ok (f(p \<mapsto> Directory)))"

definition remove_dir_all :: "os \<Rightarrow> fs \<Rightarrow> string \<Rightarrow> (fs, agent_error) outcome" where
  "remove_dir_all env f p =
     with_fault env Op_remove_dir_all p
       (if f p = None then Err (Io no_such_file)
        else Ok (\<lambda>q. if q = p \<or> below p q then None else f q))"

text \<open>\<open>File::create\<close> truncates an existing file and keeps its mode.\<close>

definition file_create :: "os \<Rightarrow> fs \<Rightarrow> string \<Rightarrow> (fs, agent_error) outcome" where
  "file_create env f p =
     with_fault env Op_create p
       (case f p of
          Some Directory \<Rightarrow> Err (Io ''Is a directory (os error 21)'')
        | Some (Regular _ m) \<Rightarrow> Ok (f(p \<mapsto> Regular [] m))
        | None \<Rightarrow> Ok (f(p \<mapsto> Regular [] 0x1A4)))"

text \<open>One \<open>write\<close> call on a freshly created file; it returns the number of bytes written.\<close>

definition file_write :: "os \<Rightarrow> fs \<Rightarrow> string \<Rightarrow> string \<Rightarrow> (fs \<times> nat, agent_error) outcome" where
  "file_write env f p bs =
     with_fault env Op_write p
       (case f p of
          Some (Regular c m) \<Rightarrow>
            (let n = min (accepted env p (length bs)) (length bs)
             in Ok (f(p \<mapsto> Regular (c @ take n bs) m), n))
        | _ \<Rightarrow> Err (Io no_such_file))"

definition read_file :: "os \<Rightarrow> fs \<Rightarrow> string \<Rightarrow> (string, agent_error) outcome" where
  "read_file env f p =
     with_fault env Op_read p
       (case f p of Some (Regular c _) \<Rightarrow> Ok c | Some Directory \<Rightarrow> Err (Io ''Is a directory (os error 21)'')
        | None \<Rightarrow> Err (Io no_such_file))"

definition read_to_string :: "os \<Rightarrow> fs \<Rightarrow> string \<Rightarrow> (string, agent_error) outcome" where
  "read_to_string env f p =
     and_then (read_file env f p) (\<lambda>c.
     if is_utf8 c then Ok c else Err (Io ''stream did not contain valid UTF-8''))"

definition set_permissions :: "os \<Rightarrow> fs \<Rightarrow> string \<Rightarrow> nat \<Rightarrow> (fs, agent_error) outcome" where
  "set_permissions env f p m =
     with_fault env Op_set_permissions p
       (case f p of
          Some (Regular c _) \<Rightarrow> Ok (f(p \<mapsto> Regular c m))
        | Some Directory \<Rightarrow> Ok f
        | None \<Rightarrow> Err (Io no_such_file))"

definition remove_file :: "os \<Rightarrow> fs \<Rightarrow> string \<Rightarrow> (fs, agent_error) outcome" where
  "remove_file env f p =
     with_fault env Op_remove_file p
       (case f p of
          Some (Regular _ _) \<Rightarrow> Ok (f(p := None))
        | Some Directory \<Rightarrow> Err (Io ''Is a directory (os error 21)'')
        | None \<Rightarrow> Err (Io no_such_file))"

text \<open>A step of an operation that changes the file system several times: what was done before a failure stays.\<close>

type_synonym 'a fs_act = "(fs, 'a, agent_error) act"

definition fs_step :: "(fs \<Rightarrow> (fs, agent_error) outcome) \<Rightarrow> unit fs_act" where
  "fs_step op f = (case op f of Ok f' \<Rightarrow> (Ok (), f') | Err e \<Rightarrow> (Err e, f) | Panic \<Rightarrow> (Panic, f))"

lemma fs_step_Ok_iff: "fs_step op f = (Ok (), f') \<longleftrightarrow> op f = Ok f'"
  by (auto simp: fs_step_def split: outcome.splits)

definition quiet :: os where
  "quiet = \<lparr>fault = \<lambda>_ _. None, accepted = \<lambda>_ n. n\<rparr>"

lemma with_fault_Ok_iff [outcome_simps, simp]:
  "with_fault env op p r = Ok x \<longleftrightarrow> fault env op p = None \<and> r = Ok x"
  by (auto simp: with_fault_def split: option.splits)

lemma with_fault_not_Panic [simp]: "r \<noteq> Panic \<Longrightarrow> with_fault env op p r \<noteq> Panic"
  by (auto simp: with_fault_def split: option.splits)

lemma with_fault_quiet [simp]: "with_fault quiet op p r = r"
  by (simp add: with_fault_def quiet_def)

lemma accepted_quiet [simp]: "accepted quiet p n = n"
  by (simp add: quiet_def)

lemma fs_no_panic [simp]:
  "create_dir env f p \<noteq> Panic" "remove_dir_all env f p \<noteq> Panic" "file_create env f p \<noteq> Panic"
  "file_write env f p bs \<noteq> Panic" "read_file env f p \<noteq> Panic" "set_permissions env f p m \<noteq> Panic"
  by (simp_all add: create_dir_def remove_dir_all_def file_create_def file_write_def read_file_def
      set_permissions_def Let_def split: option.split node.split)

lemma read_to_string_no_panic [simp]: "read_to_string env f p \<noteq> Panic"
  by (auto simp: read_to_string_def and_then_Panic_iff)

lemma remove_file_no_panic [simp]: "remove_file env f p \<noteq> Panic"
  by (simp add: remove_file_def split: option.split node.split)

section \<open>File names and extensions\<close>

text \<open>
  \<open>Path::file_name\<close> ignores trailing slashes and \<open>.\<close> components; there is no file name in an empty
  path, the root, or a path that ends in \<open>..\<close>. \<open>PathBuf::set_extension\<close> replaces what follows the
  last dot of the file name (a leading dot does not count) and fails without a file name.
\<close>

fun trim_tail :: "string \<Rightarrow> string" where
  "trim_tail (CHR ''/'' # s) = trim_tail s"
| "trim_tail (CHR ''.'' # CHR ''/'' # s) = trim_tail s"
| "trim_tail [CHR ''.''] = []"
| "trim_tail s = s"

definition trimmed :: "string \<Rightarrow> string" where
  "trimmed p = rev (trim_tail (rev p))"

definition file_name :: "string \<Rightarrow> string option" where
  "file_name p =
     (let n = rev (takeWhile (\<lambda>c. c \<noteq> CHR ''/'') (rev (trimmed p)))
      in if n = [] \<or> n = ''..'' then None else Some n)"

definition file_stem :: "string \<Rightarrow> string" where
  "file_stem n = (case rsplit_once CHR ''.'' n of Some (b, _) \<Rightarrow> if b = [] then n else b | None \<Rightarrow> n)"

definition set_extension :: "string \<Rightarrow> string \<Rightarrow> string option" where
  "set_extension p ext =
     map_option (\<lambda>n. take (length (trimmed p) - length n) (trimmed p) @ file_stem n
       @ (if ext = [] then [] else ''.'' @ ext)) (file_name p)"

end
