(* ===== verification/Tpm_Keys.thy ===== *)
theory Tpm_Keys
  imports Tpm_Quote Fs
begin

text \<open>
  Keys of the TPM, from \<^verbatim>\<open>keylime/src/tpm.rs\<close>: connecting, the endorsement and attestation keys,
  the templates of the device identity (IDevID) and initial attestation keys (IAK), and activation
  of a credential. The TSS calls and builders are parameters; a template is the record of the values
  the code gives to the builders.
\<close>

section \<open>Policies and templates\<close>

definition IDEVID_AUTH_POLICY_SHA512 :: "u8 list" where
  "IDEVID_AUTH_POLICY_SHA512 =
     [0x7d, 0xd7, 0x50, 0x0f, 0xd6, 0xc1, 0xb9, 0x4f, 0x97, 0xa6, 0xaf, 0x91,
      0x0d, 0xa1, 0x47, 0x30, 0x1e, 0xf2, 0x8f, 0x66, 0x2f, 0xee, 0x06, 0xf2,
      0x25, 0xa4, 0xcc, 0xad, 0xda, 0x3b, 0x4e, 0x6b, 0x38, 0xe6, 0x6b, 0x2f,
      0x3a, 0xd5, 0xde, 0xe1, 0xa0, 0x50, 0x3c, 0xd2, 0xda, 0xed, 0xb1, 0xe6,
      0x8c, 0xfe, 0x4f, 0x84, 0xb0, 0x3a, 0x8c, 0xd2, 0x2b, 0xb6, 0xa9, 0x76,
      0xf0, 0x71, 0xa7, 0x2f]"

definition IDEVID_AUTH_POLICY_SHA384 :: "u8 list" where
  "IDEVID_AUTH_POLICY_SHA384 =
     [0x4d, 0xb1, 0xaa, 0x83, 0x6d, 0x0b, 0x56, 0x15, 0xdf, 0x6e, 0xe5, 0x3a,
      0x40, 0xef, 0x70, 0xc6, 0x1c, 0x21, 0x7f, 0x43, 0x03, 0xd4, 0x46, 0x95,
      0x92, 0x59, 0x72, 0xbc, 0x92, 0x70, 0x06, 0xcf, 0xa5, 0xcb, 0xdf, 0x6d,
      0xc1, 0x8c, 0x4d, 0xbe, 0x32, 0x9b, 0x2f, 0x15, 0x42, 0xc3, 0xdd, 0x33]"

definition IDEVID_AUTH_POLICY_SHA256 :: "u8 list" where
  "IDEVID_AUTH_POLICY_SHA256 =
     [0xad, 0x6b, 0x3a, 0x22, 0x84, 0xfd, 0x69, 0x8a, 0x07, 0x10, 0xbf, 0x5c,
      0xc1, 0xb9, 0xbd, 0xf1, 0x5e, 0x25, 0x32, 0xe3, 0xf6, 0x01, 0xfa, 0x4b,
      0x93, 0xa6, 0xa8, 0xfa, 0x8d, 0xe5, 0x79, 0xea]"

definition UNIQUE_IDEVID :: "u8 list" where
  "UNIQUE_IDEVID =
     [0x49, 0x44, 0x45, 0x56, 0x49, 0x44]"

definition IAK_AUTH_POLICY_SHA512 :: "u8 list" where
  "IAK_AUTH_POLICY_SHA512 =
     [0x80, 0x60, 0xd1, 0xfb, 0x31, 0x71, 0x6a, 0x29, 0xe4, 0x8a, 0x6e, 0x5f,
      0xec, 0xe0, 0x88, 0xbc, 0xfc, 0x1b, 0x27, 0x8f, 0xc1, 0x62, 0x25, 0x5e,
      0x81, 0xc3, 0xec, 0xa3, 0x54, 0x4c, 0xd4, 0x4a, 0xf9, 0x44, 0x10, 0xc3,
      0x71, 0x5d, 0x56, 0x1c, 0xcc, 0xd9, 0xe3, 0x9a, 0x6c, 0xb2, 0x64, 0x6d,
      0x43, 0x53, 0x5b, 0xb5, 0x4e, 0xa8, 0x87, 0x10, 0xde, 0xb5, 0xf7, 0x83,
      0x6b, 0xd9, 0xb5, 0x86]"

definition IAK_AUTH_POLICY_SHA384 :: "u8 list" where
  "IAK_AUTH_POLICY_SHA384 =
     [0x12, 0x9d, 0x94, 0xeb, 0xf8, 0x45, 0x56, 0x65, 0x2c, 0x6e, 0xef, 0x43,
      0xbb, 0xb7, 0x57, 0x51, 0x2a, 0xc8, 0x7e, 0x52, 0xbe, 0x7b, 0x34, 0x9c,
      0xa6, 0xce, 0x4d, 0x82, 0x6f, 0x74, 0x9f, 0xcf, 0x67, 0x2f, 0x51, 0x71,
      0x6c, 0x5c, 0xbb, 0x60, 0x5f, 0x31, 0x3b, 0xf3, 0x45, 0xaa, 0xb3, 0x12]"

definition IAK_AUTH_POLICY_SHA256 :: "u8 list" where
  "IAK_AUTH_POLICY_SHA256 =
     [0x54, 0x37, 0x18, 0x23, 0x26, 0xe4, 0x14, 0xfc, 0xa7, 0x97, 0xd5, 0xf1,
      0x74, 0x61, 0x5a, 0x16, 0x41, 0xf6, 0x12, 0x55, 0x79, 0x7c, 0x3a, 0x2b,
      0x22, 0xc2, 0x1d, 0x12, 0x0b, 0x2d, 0x1e, 0x07]"

definition UNIQUE_IAK :: "u8 list" where
  "UNIQUE_IAK =
     [0x49, 0x41, 0x4b]"

datatype ecc_curve = NistP256 | NistP384 | NistP521 | Sm2P256

datatype rsa_key_bits = Rsa2048 | Rsa3072 | Rsa4096

datatype public_algorithm = Public_Rsa | Public_Ecc

datatype key_scheme = Scheme_None | Scheme_RsaPss_hash hashing_algorithm | Scheme_EcDsa_hash hashing_algorithm

record object_attributes =
  fixed_tpm :: bool
  st_clear :: bool
  fixed_parent :: bool
  sensitive_data_origin :: bool
  user_with_auth :: bool
  admin_with_policy :: bool
  no_da :: bool
  encrypted_duplication :: bool
  sign_encrypt :: bool
  attr_decrypt :: bool
  attr_restricted :: bool

text \<open>RSA parameters carry the key size, ECC parameters the curve.\<close>

datatype key_size = Rsa_bits rsa_key_bits | Ecc_curve ecc_curve

record key_parameters =
  kp_scheme :: key_scheme
  kp_size :: key_size
  kp_signing :: bool
  kp_decryption :: bool
  kp_restricted :: bool

record public_template =
  pt_algorithm :: public_algorithm
  pt_name_alg :: hashing_algorithm
  pt_attributes :: object_attributes
  pt_auth_policy :: "u8 list"
  pt_parameters :: key_parameters
  pt_unique :: "u8 list list"

text \<open>The conversions and builders of the TSS library.\<close>

record 'pub template_ops =
  to_attributes :: "object_attributes \<Rightarrow> (object_attributes, tss_error) outcome"
  to_digest :: "u8 list \<Rightarrow> (u8 list, tss_error) outcome"
  to_parameters :: "key_parameters \<Rightarrow> (key_parameters, tss_error) outcome"
  to_rsa_unique :: "u8 list \<Rightarrow> (u8 list, tss_error) outcome"
  to_ecc_parameter :: "u8 list \<Rightarrow> (u8 list, tss_error) outcome"
  to_public :: "public_template \<Rightarrow> ('pub, tss_error) outcome"

definition template_attributes :: "bool \<Rightarrow> object_attributes" where
  "template_attributes is_restricted =
     \<lparr>fixed_tpm = True, st_clear = False, fixed_parent = True, sensitive_data_origin = True,
      user_with_auth = True, admin_with_policy = True, no_da = False, encrypted_duplication = False,
      sign_encrypt = True, attr_decrypt = False, attr_restricted = is_restricted\<rparr>"

text \<open>Policy, RSA size and curve of a name algorithm; unknown algorithms take the SHA-256 row.\<close>

definition idevid_row :: "hashing_algorithm \<Rightarrow> u8 list \<times> rsa_key_bits \<times> ecc_curve" where
  "idevid_row name_alg =
     (case name_alg of
        Hashing_Sha256 \<Rightarrow> (IDEVID_AUTH_POLICY_SHA256, Rsa2048, NistP256)
      | Hashing_Sm3_256 \<Rightarrow> (IDEVID_AUTH_POLICY_SHA256, Rsa2048, Sm2P256)
      | Hashing_Sha384 \<Rightarrow> (IDEVID_AUTH_POLICY_SHA384, Rsa3072, NistP384)
      | Hashing_Sha512 \<Rightarrow> (IDEVID_AUTH_POLICY_SHA512, Rsa4096, NistP521)
      | _ \<Rightarrow> (IDEVID_AUTH_POLICY_SHA256, Rsa2048, NistP256))"

definition iak_row :: "hashing_algorithm \<Rightarrow> u8 list \<times> rsa_key_bits \<times> ecc_curve" where
  "iak_row name_alg =
     (case name_alg of
        Hashing_Sha256 \<Rightarrow> (IAK_AUTH_POLICY_SHA256, Rsa2048, NistP256)
      | Hashing_Sm3_256 \<Rightarrow> (IAK_AUTH_POLICY_SHA256, Rsa2048, Sm2P256)
      | Hashing_Sha384 \<Rightarrow> (IAK_AUTH_POLICY_SHA384, Rsa3072, NistP384)
      | Hashing_Sha512 \<Rightarrow> (IAK_AUTH_POLICY_SHA512, Rsa2048, NistP521)
      | _ \<Rightarrow> (IAK_AUTH_POLICY_SHA256, Rsa2048, NistP256))"

definition rsa_template ::
  "'pub template_ops \<Rightarrow> (tss_error \<Rightarrow> tpm_error) \<Rightarrow> object_attributes \<Rightarrow> hashing_algorithm \<Rightarrow> u8 list \<Rightarrow> key_scheme
   \<Rightarrow> rsa_key_bits \<Rightarrow> bool \<Rightarrow> u8 list \<Rightarrow> (public_template, tpm_error) outcome" where
  "rsa_template ops unique_err attrs name_alg policy scheme bits restricted unique =
     and_then (map_err TSSDigestFromAuthPolicyError (to_digest ops policy)) (\<lambda>pol.
     and_then (map_err TSSPublicRSAParametersBuildError (to_parameters ops
       \<lparr>kp_scheme = scheme, kp_size = Rsa_bits bits, kp_signing = sign_encrypt attrs,
        kp_decryption = attr_decrypt attrs, kp_restricted = restricted\<rparr>)) (\<lambda>params.
     and_then (map_err unique_err (to_rsa_unique ops unique)) (\<lambda>u.
     Ok \<lparr>pt_algorithm = Public_Rsa, pt_name_alg = name_alg, pt_attributes = attrs, pt_auth_policy = pol,
         pt_parameters = params, pt_unique = [u]\<rparr>)))"

definition ecc_template ::
  "'pub template_ops \<Rightarrow> (tss_error \<Rightarrow> tpm_error) \<Rightarrow> object_attributes \<Rightarrow> hashing_algorithm \<Rightarrow> u8 list
   \<Rightarrow> ecc_curve \<Rightarrow> u8 list \<Rightarrow> (public_template, tpm_error) outcome" where
  "ecc_template ops unique_err attrs name_alg policy curve unique =
     and_then (map_err TSSDigestFromAuthPolicyError (to_digest ops policy)) (\<lambda>pol.
     and_then (map_err TSSPublicECCParametersBuildError (to_parameters ops
       \<lparr>kp_scheme = Scheme_EcDsa_hash name_alg, kp_size = Ecc_curve curve, kp_signing = sign_encrypt attrs,
        kp_decryption = attr_decrypt attrs, kp_restricted = attr_restricted attrs\<rparr>)) (\<lambda>params.
     and_then (map_err unique_err (to_ecc_parameter ops unique)) (\<lambda>x.
     and_then (map_err unique_err (to_ecc_parameter ops unique)) (\<lambda>y.
     Ok \<lparr>pt_algorithm = Public_Ecc, pt_name_alg = name_alg, pt_attributes = attrs, pt_auth_policy = pol,
         pt_parameters = params, pt_unique = [x, y]\<rparr>))))"

definition create_idevid_public_from_default_template ::
  "'pub template_ops \<Rightarrow> asymmetric_algorithm \<Rightarrow> hashing_algorithm \<Rightarrow> ('pub, tpm_error) outcome" where
  "create_idevid_public_from_default_template ops asym_alg name_alg =
     and_then (map_err TSSObjectAttributesBuildError (to_attributes ops (template_attributes False))) (\<lambda>attrs.
     let (auth_policy, key_bits, curve_id) = idevid_row name_alg
     in and_then
          (case asym_alg of
             Asym_Rsa \<Rightarrow>
               rsa_template ops TSSPublicKeyFromIDevID attrs name_alg auth_policy Scheme_None key_bits
                 (attr_restricted attrs) UNIQUE_IDEVID
           | Asym_Ecc \<Rightarrow>
               ecc_template ops TSSECCParameterFromIDevIDError attrs name_alg auth_policy curve_id UNIQUE_IDEVID
           | Asym_Null \<Rightarrow>
               rsa_template ops TSSPublicKeyFromIDevID attrs Hashing_Sha256 IDEVID_AUTH_POLICY_SHA256 Scheme_None
                 Rsa2048 (attr_decrypt attrs) UNIQUE_IDEVID) (\<lambda>t.
        map_err TSSIDevIDKeyBuildError (to_public ops t)))"

definition create_iak_public_from_default_template ::
  "'pub template_ops \<Rightarrow> asymmetric_algorithm \<Rightarrow> hashing_algorithm \<Rightarrow> ('pub, tpm_error) outcome" where
  "create_iak_public_from_default_template ops asym_alg name_alg =
     and_then (map_err TSSObjectAttributesBuildError (to_attributes ops (template_attributes True))) (\<lambda>attrs.
     let (auth_policy, key_bits, curve_id) = iak_row name_alg
     in and_then
          (case asym_alg of
             Asym_Rsa \<Rightarrow>
               rsa_template ops TSSPublicKeyFromIAK attrs name_alg auth_policy (Scheme_RsaPss_hash name_alg)
                 key_bits (attr_restricted attrs) UNIQUE_IAK
           | Asym_Ecc \<Rightarrow>
               ecc_template ops TSSECCParameterFromIAKError attrs name_alg auth_policy curve_id UNIQUE_IAK
           | Asym_Null \<Rightarrow>
               rsa_template ops TSSPublicKeyFromIAK attrs Hashing_Sha256 IAK_AUTH_POLICY_SHA256 Scheme_None
                 Rsa2048 (attr_decrypt attrs) UNIQUE_IAK) (\<lambda>t.
        map_err TSSIAKKeyBuildError (to_public ops t)))"

definition get_idevid_template ::
  "string \<Rightarrow> string \<Rightarrow> string \<Rightarrow> string \<Rightarrow> (asymmetric_algorithm \<times> hashing_algorithm, tpm_error) outcome" where
  "get_idevid_template detect_str template_str asym_alg_str name_alg_str =
     (let t = (if template_str \<in> set [[], ''detect'', ''default''] then detect_str else template_str)
      in if t = ''H-1'' then Ok (Asym_Rsa, Hashing_Sha256)
         else if t = ''H-2'' then Ok (Asym_Ecc, Hashing_Sha256)
         else if t = ''H-3'' then Ok (Asym_Ecc, Hashing_Sha384)
         else if t = ''H-4'' then Ok (Asym_Ecc, Hashing_Sha512)
         else if t = ''H-5'' then Ok (Asym_Ecc, Hashing_Sm3_256)
         else
           and_then (map_err AlgorithmError (encryption_algorithm_try_from asym_alg_str)) (\<lambda>enc.
           and_then (map_err AlgorithmError (hash_algorithm_try_from name_alg_str)) (\<lambda>h.
           Ok (asymmetric_from_encryption enc, hashing_from_hash h))))"

section \<open>Keys of the TPM\<close>

record ('c, 'k, 'pub, 'priv, 's) key_ops =
  ko_create_ek :: "asymmetric_algorithm \<Rightarrow> 'c \<Rightarrow> ('k, tss_error) outcome \<times> 'c"
  ko_persistent :: "nat \<Rightarrow> (nat, tss_error) outcome"
  ko_tr_from_public :: "nat \<Rightarrow> 'c \<Rightarrow> ('k, tss_error) outcome \<times> 'c"
  ko_ek_pubcert :: "asymmetric_algorithm \<Rightarrow> 'c \<Rightarrow> (u8 list, tss_error) outcome \<times> 'c"
  ko_read_public :: "'k \<Rightarrow> 'c \<Rightarrow> ('pub, tss_error) outcome \<times> 'c"
  ko_create_ak :: "'k \<Rightarrow> hashing_algorithm \<Rightarrow> signature_scheme_algorithm \<Rightarrow> 'c \<Rightarrow> ('pub \<times> 'priv, tss_error) outcome \<times> 'c"
  ko_load_ak :: "'k \<Rightarrow> 'priv \<Rightarrow> 'pub \<Rightarrow> 'c \<Rightarrow> ('k, tss_error) outcome \<times> 'c"
  ko_build_sel :: "hashing_algorithm \<Rightarrow> pcr_slot list \<Rightarrow> (pcr_slot list, tss_error) outcome"
  ko_create_primary :: "'pub \<Rightarrow> pcr_slot list \<Rightarrow> 'c \<Rightarrow> ('pub \<times> 'k, tss_error) outcome \<times> 'c"
  ko_start_session :: "'c \<Rightarrow> ('s option, tss_error) outcome \<times> 'c"
  ko_cipher :: "(unit, tss_error) outcome"
  ko_set_attributes :: "'s \<Rightarrow> 'c \<Rightarrow> (unit, tss_error) outcome \<times> 'c"
  ko_policy_secret :: "'s \<Rightarrow> 'c \<Rightarrow> (unit, tss_error) outcome \<times> 'c"
  ko_activate :: "'s \<Rightarrow> 'k \<Rightarrow> 'k \<Rightarrow> u8 list \<Rightarrow> u8 list \<Rightarrow> 'c \<Rightarrow> (u8 list, tss_error) outcome \<times> 'c"
  ko_id_object :: "u8 list \<Rightarrow> u8 list option"
  ko_encrypted_secret :: "u8 list \<Rightarrow> u8 list option"

definition context_new ::
  "string option \<Rightarrow> fs \<Rightarrow> (string \<Rightarrow> ('tcti, tss_error) outcome) \<Rightarrow> ('tcti \<Rightarrow> ('c, tss_error) outcome)
   \<Rightarrow> ('c, tpm_error) outcome" where
  "context_new tcti_var f parse connect =
     (let tcti_path =
        (case tcti_var of
           Some v \<Rightarrow> v
         | None \<Rightarrow> if exists_path f ''/dev/tpmrm0'' then ''device:/dev/tpmrm0'' else ''device:/dev/tpm0'')
      in and_then (map_err (TctiNameError tcti_path) (parse tcti_path)) (\<lambda>tcti.
         map_err TSSTctiContextError (connect tcti)))"

record ('k, 'pub) ek_result =
  ek_key_handle :: 'k
  ek_cert :: "u8 list option"
  ek_public :: 'pub

definition ek_handle ::
  "('c, 'k, 'pub, 'priv, 's) key_ops \<Rightarrow> asymmetric_algorithm \<Rightarrow> string option \<Rightarrow> ('c, 'k) tpm_act" where
  "ek_handle ko alg handle =
     (case handle of
        Some v \<Rightarrow>
          if v = [] then act_tss TSSCreateEKError (ko_create_ek ko alg)
          else
            act_bind (act_lift (map_err (Tpm_NumParse v) (from_str_radix 32 16 (trim_start_matches ''0x'' v)))) (\<lambda>n.
            act_bind (act_lift (map_err (TSSNewPersistentHandleError v) (ko_persistent ko n))) (\<lambda>p.
            act_tss (TSSHandleFromPersistentHandleError v) (ko_tr_from_public ko p)))
      | None \<Rightarrow> act_tss TSSCreateEKError (ko_create_ek ko alg))"

definition create_ek ::
  "('c, 'k, 'pub, 'priv, 's) key_ops \<Rightarrow> encryption_algorithm \<Rightarrow> string option \<Rightarrow> ('c, ('k, 'pub) ek_result) tpm_act" where
  "create_ek ko alg handle =
     act_bind (ek_handle ko (asymmetric_from_encryption alg) handle) (\<lambda>key_handle.
     act_bind (\<lambda>c. case ko_ek_pubcert ko (asymmetric_from_encryption alg) c of
                 (Ok v, c') \<Rightarrow> (Ok (Some v), c') | (Err _, c') \<Rightarrow> (Ok None, c') | (Panic, c') \<Rightarrow> (Panic, c')) (\<lambda>cert.
     act_bind (act_tss TSSReadPublicError (ko_read_public ko key_handle)) (\<lambda>tpm_pub.
     act_lift (Ok \<lparr>ek_key_handle = key_handle, ek_cert = cert, ek_public = tpm_pub\<rparr>))))"

definition create_ak ::
  "('c, 'k, 'pub, 'priv, 's) key_ops \<Rightarrow> 'k \<Rightarrow> hash_algorithm \<Rightarrow> sign_algorithm \<Rightarrow> ('c, 'pub \<times> 'priv) tpm_act" where
  "create_ak ko handle hash_alg sign_alg =
     act_tss TSSCreateAKError
       (ko_create_ak ko handle (hashing_from_hash hash_alg) (scheme_algorithm_from_sign sign_alg))"

definition load_ak ::
  "('c, 'k, 'pub, 'priv, 's) key_ops \<Rightarrow> 'k \<Rightarrow> 'pub \<times> 'priv \<Rightarrow> ('c, 'k) tpm_act" where
  "load_ak ko handle ak = act_tss TSSLoadAKError (ko_load_ak ko handle (snd ak) (fst ak))"

definition primary_from_template ::
  "('c, 'k, 'pub, 'priv, 's) key_ops \<Rightarrow> ('pub, tpm_error) outcome \<Rightarrow> ('c, 'pub \<times> 'k) tpm_act" where
  "primary_from_template ko key_pub =
     act_bind (act_lift key_pub) (\<lambda>pub.
     act_bind (act_lift (map_err TSSPCRSelectionBuildError
       (ko_build_sel ko Hashing_Sha256 [Slot0, Slot1, Slot2, Slot3, Slot4, Slot5, Slot6, Slot7]))) (\<lambda>pcrs.
     act_tss TSSCreatePrimaryError (ko_create_primary ko pub pcrs)))"

definition create_idevid ::
  "('c, 'k, 'pub, 'priv, 's) key_ops \<Rightarrow> 'pub template_ops \<Rightarrow> asymmetric_algorithm \<Rightarrow> hashing_algorithm
   \<Rightarrow> ('c, 'pub \<times> 'k) tpm_act" where
  "create_idevid ko ops asym_alg name_alg =
     primary_from_template ko (create_idevid_public_from_default_template ops asym_alg name_alg)"

definition create_iak ::
  "('c, 'k, 'pub, 'priv, 's) key_ops \<Rightarrow> 'pub template_ops \<Rightarrow> asymmetric_algorithm \<Rightarrow> hashing_algorithm
   \<Rightarrow> ('c, 'pub \<times> 'k) tpm_act" where
  "create_iak ko ops asym_alg name_alg =
     primary_from_template ko (create_iak_public_from_default_template ops asym_alg name_alg)"

definition create_empty_session :: "('c, 'k, 'pub, 'priv, 's) key_ops \<Rightarrow> ('c, 's) tpm_act" where
  "create_empty_session ko =
     act_bind (act_lift (map_err TSSSymmetricDefinitionFromCipher (ko_cipher ko))) (\<lambda>_.
     act_bind (act_tss TSSStartAuthenticationSessionError (ko_start_session ko)) (\<lambda>session.
     case session of
       None \<Rightarrow> act_lift (Err EmptyAuthenticationSessionError)
     | Some s \<Rightarrow>
         act_bind (act_tss TSSSessionSetAttributesError (ko_set_attributes ko s)) (\<lambda>_. act_lift (Ok s))))"

definition activate_credential ::
  "('c, 'k, 'pub, 'priv, 's) key_ops \<Rightarrow> u8 list \<Rightarrow> 'k \<Rightarrow> 'k \<Rightarrow> ('c, u8 list) tpm_act" where
  "activate_credential ko blob ak ek =
     act_bind (act_lift (parse_cred_and_secret (ko_id_object ko) (ko_encrypted_secret ko) blob)) (\<lambda>(credential, secret).
     act_bind (create_empty_session ko) (\<lambda>ek_auth.
     act_bind (act_tss tpm_error_from_tss (ko_policy_secret ko ek_auth)) (\<lambda>_.
     act_tss tpm_error_from_tss (ko_activate ko ek_auth ak ek credential secret))))"

definition certify_credential_with_iak ::
  "('k \<Rightarrow> 'k \<Rightarrow> u8 list \<Rightarrow> signature_scheme \<Rightarrow> 'c \<Rightarrow> (attest \<times> 'sig, tss_error) outcome \<times> 'c)
   \<Rightarrow> u8 list \<Rightarrow> 'k \<Rightarrow> 'k \<Rightarrow> ('c, attest \<times> 'sig) tpm_act" where
  "certify_credential_with_iak certify qualifying_data ak iak =
     act_tss tpm_error_from_tss (certify ak iak qualifying_data Scheme_Null)"

section \<open>Properties of the templates\<close>

text \<open>Digest sizes of the name algorithms, after the TPM specification.\<close>

fun name_digest_size :: "hashing_algorithm \<Rightarrow> nat option" where
  "name_digest_size Hashing_Sha1 = Some 20"
| "name_digest_size Hashing_Sha256 = Some 32"
| "name_digest_size Hashing_Sha384 = Some 48"
| "name_digest_size Hashing_Sha512 = Some 64"
| "name_digest_size Hashing_Sm3_256 = Some 32"
| "name_digest_size (Hashing_Other _) = None"

text \<open>Builders that accept everything and return the template itself.\<close>

definition template_ops_id :: "public_template template_ops" where
  "template_ops_id = \<lparr>to_attributes = Ok, to_digest = Ok, to_parameters = Ok, to_rsa_unique = Ok,
     to_ecc_parameter = Ok, to_public = Ok\<rparr>"

lemma policy_lengths [simp]:
  "length IDEVID_AUTH_POLICY_SHA256 = 32" "length IDEVID_AUTH_POLICY_SHA384 = 48"
  "length IDEVID_AUTH_POLICY_SHA512 = 64" "length IAK_AUTH_POLICY_SHA256 = 32"
  "length IAK_AUTH_POLICY_SHA384 = 48" "length IAK_AUTH_POLICY_SHA512 = 64"
  by (simp_all add: IDEVID_AUTH_POLICY_SHA256_def IDEVID_AUTH_POLICY_SHA384_def
      IDEVID_AUTH_POLICY_SHA512_def IAK_AUTH_POLICY_SHA256_def IAK_AUTH_POLICY_SHA384_def
      IAK_AUTH_POLICY_SHA512_def)

text \<open>The templates of the device identity and initial attestation keys are signing keys bound to
  the TPM, an IAK restricted to TPM-made data and an IDevID not; the authorization policy has the
  digest size of the name algorithm, for every name algorithm but SHA-1, where it is 32 bytes
  instead of 20; and the parameters repeat the restriction of the attributes except when the
  asymmetric algorithm is null, where an IAK is built with unrestricted parameters.\<close>

theorem key_templates:
  "\<exists>dev iak. create_idevid_public_from_default_template template_ops_id alg name = Ok dev
    \<and> create_iak_public_from_default_template template_ops_id alg name = Ok iak
    \<and> sign_encrypt (pt_attributes dev) \<and> sign_encrypt (pt_attributes iak)
    \<and> \<not> attr_restricted (pt_attributes dev) \<and> attr_restricted (pt_attributes iak)
    \<and> (alg \<noteq> Asym_Null \<longrightarrow> pt_name_alg iak = name \<and> pt_name_alg dev = name
         \<and> kp_restricted (pt_parameters dev) = False \<and> kp_restricted (pt_parameters iak) = True)
    \<and> (alg = Asym_Null \<longrightarrow> kp_restricted (pt_parameters iak) = False)
    \<and> (\<forall>n. name_digest_size (pt_name_alg iak) = Some n \<and> name \<noteq> Hashing_Sha1 \<longrightarrow>
         length (pt_auth_policy iak) = n \<and> length (pt_auth_policy dev) = n)
    \<and> (name = Hashing_Sha1 \<longrightarrow> length (pt_auth_policy dev) = 32)"
  by (cases alg; cases name)
    (simp_all add: create_idevid_public_from_default_template_def create_iak_public_from_default_template_def
      template_ops_id_def rsa_template_def ecc_template_def template_attributes_def idevid_row_def iak_row_def)

theorem key_templates_witness:
  "\<exists>dev. create_idevid_public_from_default_template template_ops_id Asym_Ecc Hashing_Sha384 = Ok dev
     \<and> sign_encrypt (pt_attributes dev) \<and> length (pt_auth_policy dev) = 48"
  using key_templates [of Asym_Ecc Hashing_Sha384] by fastforce

end
