(* ===== verification/Http.thy ===== *)
theory Http
  imports Errors
begin

text \<open>
  JSON values (\<open>serde_json::Value\<close>), the response wrapper of \<^verbatim>\<open>keylime-agent/src/common.rs\<close>, HTTP
  responses, and the contract every REST handler of the agent keeps: the code in the body is the
  HTTP status, and a body reports success exactly when the status is 200.
\<close>

datatype json =
  JNull | JBool bool | JNum int | JStr string | JArr "json list" | JObj "(string \<times> json) list"

record json_wrapper =
  wrap_code :: nat
  wrap_status :: string
  wrap_results :: json

definition wrapper_error :: "nat \<Rightarrow> string \<Rightarrow> json_wrapper" where
  "wrapper_error c s = \<lparr>wrap_code = c, wrap_status = s, wrap_results = JObj []\<rparr>"

definition wrapper_success :: "json \<Rightarrow> json_wrapper" where
  "wrapper_success r = \<lparr>wrap_code = 200, wrap_status = ''Success'', wrap_results = r\<rparr>"

lemma wrapper_simps [simp]:
  "wrap_code (wrapper_error c s) = c" "wrap_status (wrapper_error c s) = s"
  "wrap_results (wrapper_error c s) = JObj []" "wrap_code (wrapper_success r) = 200"
  "wrap_status (wrapper_success r) = ''Success''" "wrap_results (wrapper_success r) = r"
  by (simp_all add: wrapper_error_def wrapper_success_def)

record http_response =
  http_status :: nat
  http_body :: json_wrapper

text \<open>\<open>HttpResponse::Ok().json(w)\<close>, \<open>HttpResponse::BadRequest().json(w)\<close> and so on.\<close>

definition respond :: "nat \<Rightarrow> json_wrapper \<Rightarrow> http_response" where
  "respond c w = \<lparr>http_status = c, http_body = w\<rparr>"

lemma respond_simps [simp]:
  "http_status (respond c w) = c" "http_body (respond c w) = w"
  by (simp_all add: respond_def)

definition well_formed_response :: "http_response \<Rightarrow> bool" where
  "well_formed_response r \<longleftrightarrow>
     wrap_code (http_body r) = http_status r
     \<and> (http_status r = 200 \<longleftrightarrow> wrap_status (http_body r) = ''Success'')
     \<and> (http_status r \<noteq> 200 \<longrightarrow> wrap_results (http_body r) = JObj [])"

lemma well_formed_success [simp]: "well_formed_response (respond 200 (wrapper_success r))"
  by (simp add: well_formed_response_def)

lemma well_formed_error [simp]:
  "c \<noteq> 200 \<Longrightarrow> s \<noteq> ''Success'' \<Longrightarrow> well_formed_response (respond c (wrapper_error c s))"
  by (simp add: well_formed_response_def)

text \<open>The two error responses the handlers build.\<close>

definition bad_request :: "string \<Rightarrow> http_response" where
  "bad_request s = respond 400 (wrapper_error 400 s)"

definition server_error :: "string \<Rightarrow> http_response" where
  "server_error s = respond 500 (wrapper_error 500 s)"

lemma well_formed_bad_request [simp]: "s \<noteq> ''Success'' \<Longrightarrow> well_formed_response (bad_request s)"
  by (simp add: bad_request_def)

lemma well_formed_server_error [simp]: "s \<noteq> ''Success'' \<Longrightarrow> well_formed_response (server_error s)"
  by (simp add: server_error_def)

lemma error_response_status [simp]:
  "http_status (bad_request s) = 400" "http_status (server_error s) = 500" "http_status (respond c w) = c"
  by (simp_all add: bad_request_def server_error_def respond_def)

lemma error_responses_differ [simp]:
  "bad_request s \<noteq> server_error t" "server_error t \<noteq> bad_request s"
  by (simp_all add: bad_request_def server_error_def respond_def)


section \<open>The contract of a handler\<close>

text \<open>\<open>match r { Ok(x) => x, Err(e) => return ... }\<close>, the shape of every early return.\<close>

definition or_respond ::
  "('a, 'e) outcome \<Rightarrow> ('e \<Rightarrow> 'r) \<Rightarrow> ('a \<Rightarrow> ('r, 'f) outcome) \<Rightarrow> ('r, 'f) outcome" where
  "or_respond r on_err k = (case r of Ok x \<Rightarrow> k x | Err e \<Rightarrow> Ok (on_err e) | Panic \<Rightarrow> Panic)"

lemma or_respond_simps [simp]:
  "or_respond (Ok x) f k = k x" "or_respond (Err e) f k = Ok (f e)" "or_respond Panic f k = Panic"
  by (simp_all add: or_respond_def)

lemma or_respond_Ok_iff [outcome_simps]:
  "or_respond r f k = Ok y \<longleftrightarrow> (\<exists>x. r = Ok x \<and> k x = Ok y) \<or> (\<exists>e. r = Err e \<and> f e = y)"
  by (cases r) auto

lemma or_respond_Panic_iff [outcome_simps]:
  "or_respond r f k = Panic \<longleftrightarrow> r = Panic \<or> (\<exists>x. r = Ok x \<and> k x = Panic)"
  by (cases r) auto

lemma or_respond_Err_iff [outcome_simps]:
  "or_respond r f k = Err e' \<longleftrightarrow> (\<exists>x. r = Ok x \<and> k x = Err e')"
  by (cases r) auto

text \<open>
  A handler takes the state it shares with the rest of the agent and a request; it ends with a
  response and the new state (there is no error to propagate: a failure is a response), or panics.
\<close>

locale rest_handler =
  fixes handle :: "'st \<Rightarrow> 'req \<Rightarrow> (http_response \<times> 'st, agent_error) outcome"
  assumes well_formed: "handle st q = Ok (r, st') \<Longrightarrow> well_formed_response r"
    and responds: "handle st q \<noteq> Err e"
begin

lemma body_code: "handle st q = Ok (r, st') \<Longrightarrow> wrap_code (http_body r) = http_status r"
  using well_formed [of st q r st'] by (simp add: well_formed_response_def)

lemma success_iff:
  "handle st q = Ok (r, st') \<Longrightarrow> http_status r = 200 \<longleftrightarrow> wrap_status (http_body r) = ''Success''"
  using well_formed [of st q r st'] by (simp add: well_formed_response_def)

lemma error_carries_nothing:
  "handle st q = Ok (r, st') \<Longrightarrow> http_status r \<noteq> 200 \<Longrightarrow> wrap_results (http_body r) = JObj []"
  using well_formed [of st q r st'] by (simp add: well_formed_response_def)

end

end
