(* ===== verification/Common.thy ===== *)
theory Common
  imports Http Fs Bytes "HOL-Library.Countable"
begin

text \<open>
  The shared data of \<^verbatim>\<open>keylime-agent/src/common.rs\<close>: symmetric keys and their exclusive or,
  authentication tags, encrypted data, and the persisted agent data. The TSS marshalling of keys,
  the JSON text format and the ASN.1 and OpenSSL conversions are parameters.
\<close>

unbundle bit_operations_syntax

section \<open>Constants and the API version\<close>

definition API_VERSION :: string where
  "API_VERSION = ''v2.1''"

definition AGENT_UUID_LEN :: nat where
  "AGENT_UUID_LEN = 36"

definition AUTH_TAG_LEN :: nat where
  "AUTH_TAG_LEN = 48"

definition AES_128_KEY_LEN :: nat where
  "AES_128_KEY_LEN = 16"

definition AES_256_KEY_LEN :: nat where
  "AES_256_KEY_LEN = 32"

definition AES_BLOCK_SIZE :: nat where
  "AES_BLOCK_SIZE = 16"

lemmas length_constants = AUTH_TAG_LEN_def AES_128_KEY_LEN_def AES_256_KEY_LEN_def AES_BLOCK_SIZE_def

record api_version =
  api_major :: u32
  api_minor :: u32

definition api_version_to_string :: "api_version \<Rightarrow> string" where
  "api_version_to_string v =
     ''v'' @ show_nat (unat (api_major v)) @ ''.'' @ show_nat (unat (api_minor v))"

section \<open>Keys, tags and ciphertexts\<close>

record symm_key =
  key_bytes :: "u8 list"

record auth_tag =
  tag_bytes :: "u8 list"

record encrypted_data =
  data_bytes :: "u8 list"

definition symm_key_xor :: "symm_key \<Rightarrow> symm_key \<Rightarrow> (symm_key, agent_error) outcome" where
  "symm_key_xor self other =
     (if length (key_bytes self) \<noteq> length (key_bytes other)
      then Err (Other ''cannot xor differing length slices'')
      else Ok \<lparr>key_bytes = map (\<lambda>(x, y). x XOR y) (zip (key_bytes self) (key_bytes other))\<rparr>)"

definition symm_key_try_from :: "u8 list \<Rightarrow> (symm_key, string) outcome" where
  "symm_key_try_from v =
     (if length v = AES_128_KEY_LEN \<or> length v = AES_256_KEY_LEN then Ok \<lparr>key_bytes = v\<rparr>
      else Err (''key length '' @ show_nat (length v) @ '' does not correspond to valid GCM cipher''))"

definition auth_tag_try_from :: "u8 list \<Rightarrow> (auth_tag, string) outcome" where
  "auth_tag_try_from v =
     (if length v = AUTH_TAG_LEN then Ok \<lparr>tag_bytes = v\<rparr>
      else Err (''auth tag length '' @ show_nat (length v)
             @ '' does not correspond to valid SHA-384 HMAC''))"

definition encrypted_data_from :: "u8 list \<Rightarrow> encrypted_data" where
  "encrypted_data_from v = \<lparr>data_bytes = v\<rparr>"

definition valid_key :: "symm_key \<Rightarrow> bool" where
  "valid_key k \<longleftrightarrow> length (key_bytes k) \<in> {AES_128_KEY_LEN, AES_256_KEY_LEN}"

definition valid_tag :: "auth_tag \<Rightarrow> bool" where
  "valid_tag t \<longleftrightarrow> length (tag_bytes t) = AUTH_TAG_LEN"

lemma symm_key_try_from_Ok_iff:
  "symm_key_try_from v = Ok k \<longleftrightarrow> valid_key k \<and> v = key_bytes k"
  by (cases k) (auto simp: symm_key_try_from_def valid_key_def)

lemma auth_tag_try_from_Ok_iff:
  "auth_tag_try_from v = Ok t \<longleftrightarrow> valid_tag t \<and> v = tag_bytes t"
  by (cases t) (auto simp: auth_tag_try_from_def valid_tag_def)

lemma try_from_no_panic [simp]: "symm_key_try_from v \<noteq> Panic" "auth_tag_try_from v \<noteq> Panic"
  by (simp_all add: symm_key_try_from_def auth_tag_try_from_def)

lemma symm_key_xor_no_panic [simp]: "symm_key_xor a b \<noteq> Panic"
  by (simp add: symm_key_xor_def)

lemma symm_key_xor_Ok_iff:
  "symm_key_xor a b = Ok k \<longleftrightarrow>
     length (key_bytes a) = length (key_bytes b)
     \<and> k = \<lparr>key_bytes = map2 (XOR) (key_bytes a) (key_bytes b)\<rparr>"
  by (auto simp: symm_key_xor_def)

lemma symm_key_xor_valid: "symm_key_xor a b = Ok k \<Longrightarrow> valid_key a \<Longrightarrow> valid_key k"
  by (auto simp: symm_key_xor_Ok_iff valid_key_def)

lemma xor_list_cancel:
  fixes xs :: "u8 list"
  shows "length xs = length ys \<Longrightarrow> map2 (XOR) (map2 (XOR) xs ys) ys = xs"
  by (induction xs ys rule: list_induct2) (auto simp: xor.assoc)

lemma xor_list_commute:
  fixes xs :: "u8 list"
  shows "length xs = length ys \<Longrightarrow> map2 (XOR) xs ys = map2 (XOR) ys xs"
  by (induction xs ys rule: list_induct2) (auto simp: xor.commute)

text \<open>Splitting a key into two shares by exclusive or is sound. The combination does not
  depend on the order of the shares, keeps the key length, and combining the key with one share
  gives the other share back.\<close>

theorem symm_key_xor_shares:
  assumes "symm_key_xor u v = Ok k"
  shows "symm_key_xor v u = Ok k \<and> symm_key_xor k v = Ok u \<and> symm_key_xor k u = Ok v
    \<and> length (key_bytes k) = length (key_bytes u)"
proof -
  from assms have len: "length (key_bytes u) = length (key_bytes v)"
    and k: "k = \<lparr>key_bytes = map2 (XOR) (key_bytes u) (key_bytes v)\<rparr>"
    by (auto simp: symm_key_xor_Ok_iff)
  have "map2 (XOR) (key_bytes k) (key_bytes v) = key_bytes u"
    using xor_list_cancel [OF len] k by simp
  moreover have "map2 (XOR) (key_bytes k) (key_bytes u) = key_bytes v"
    using xor_list_cancel [OF len [symmetric]] xor_list_commute [OF len] k by simp
  ultimately show ?thesis using len k xor_list_commute [OF len] by (simp add: symm_key_xor_Ok_iff)
qed

theorem symm_key_xor_shares_witness:
  "symm_key_xor \<lparr>key_bytes = [0x0f, 0xff]\<rparr> \<lparr>key_bytes = [0x31, 0x01]\<rparr> = Ok \<lparr>key_bytes = [0x3e, 0xfe]\<rparr>
   \<and> symm_key_xor \<lparr>key_bytes = [0x3e, 0xfe]\<rparr> \<lparr>key_bytes = [0x0f, 0xff]\<rparr> = Ok \<lparr>key_bytes = [0x31, 0x01]\<rparr>
   \<and> length (key_bytes \<lparr>key_bytes = [0x3e, 0xfe]\<rparr>) = length (key_bytes \<lparr>key_bytes = [0x31, 0x01]\<rparr>)"
proof -
  have "symm_key_xor \<lparr>key_bytes = [0x31, 0x01]\<rparr> \<lparr>key_bytes = [0x0f, 0xff]\<rparr> = Ok \<lparr>key_bytes = [0x3e, 0xfe]\<rparr>"
    by (simp add: symm_key_xor_def)
  from symm_key_xor_shares [OF this] show ?thesis by blast
qed

section \<open>Agent data\<close>

record agent_data =
  ak_hash_alg :: hash_algorithm
  ak_sign_alg :: sign_algorithm
  ak_public :: "u8 list"
  ak_private :: "u8 list"
  ek_hash :: "u8 list"

text \<open>\<open>tpm::AKResult\<close>, the TSS key types abstract.\<close>

record ('public, 'private) ak_result =
  ak_result_public :: 'public
  ak_result_private :: 'private

definition agent_data_create ::
  "('public \<Rightarrow> (u8 list, tss_error) outcome) \<Rightarrow> ('private \<Rightarrow> u8 list)
   \<Rightarrow> hash_algorithm \<Rightarrow> sign_algorithm \<Rightarrow> ('public, 'private) ak_result \<Rightarrow> u8 list
   \<Rightarrow> (agent_data, agent_error) outcome" where
  "agent_data_create marshall to_vec hash_alg sign_alg ak ekh =
     and_then (map_err error_from_tss (marshall (ak_result_public ak))) (\<lambda>pub.
     Ok \<lparr>ak_hash_alg = hash_alg, ak_sign_alg = sign_alg, ak_public = pub,
         ak_private = to_vec (ak_result_private ak), ek_hash = ekh\<rparr>)"

definition agent_data_get_ak ::
  "(u8 list \<Rightarrow> ('public, tss_error) outcome) \<Rightarrow> (u8 list \<Rightarrow> ('private, tss_error) outcome)
   \<Rightarrow> agent_data \<Rightarrow> (('public, 'private) ak_result, agent_error) outcome" where
  "agent_data_get_ak unmarshall of_vec d =
     and_then (map_err error_from_tss (unmarshall (ak_public d))) (\<lambda>pub.
     and_then (map_err error_from_tss (of_vec (ak_private d))) (\<lambda>priv.
     Ok \<lparr>ak_result_public = pub, ak_result_private = priv\<rparr>))"

definition agent_data_valid ::
  "agent_data \<Rightarrow> hash_algorithm \<Rightarrow> sign_algorithm \<Rightarrow> u8 list \<Rightarrow> bool" where
  "agent_data_valid d hash_alg sign_alg ekh \<longleftrightarrow>
     hash_alg = ak_hash_alg d \<and> sign_alg = ak_sign_alg d \<and> ekh = ek_hash d"

subsection \<open>The stored form\<close>

text \<open>What \<open>derive(Serialize, Deserialize)\<close> makes of the struct: an object with one member per
  field, the enums by their variant name, byte vectors as arrays of numbers.\<close>

fun hash_algorithm_variant :: "hash_algorithm \<Rightarrow> string" where
  "hash_algorithm_variant Sha1 = ''Sha1''"
| "hash_algorithm_variant Sha256 = ''Sha256''"
| "hash_algorithm_variant Sha384 = ''Sha384''"
| "hash_algorithm_variant Sha512 = ''Sha512''"
| "hash_algorithm_variant Sm3_256 = ''Sm3_256''"

fun sign_algorithm_variant :: "sign_algorithm \<Rightarrow> string" where
  "sign_algorithm_variant RsaSsa = ''RsaSsa''"
| "sign_algorithm_variant RsaPss = ''RsaPss''"
| "sign_algorithm_variant EcDsa = ''EcDsa''"
| "sign_algorithm_variant EcSchnorr = ''EcSchnorr''"

definition variant_of_json :: "('a \<Rightarrow> string) \<Rightarrow> 'a list \<Rightarrow> json \<Rightarrow> 'a option" where
  "variant_of_json name vs j = (case j of JStr s \<Rightarrow> find (\<lambda>v. name v = s) vs | _ \<Rightarrow> None)"

definition bytes_to_json :: "u8 list \<Rightarrow> json" where
  "bytes_to_json bs = JArr (map (\<lambda>b. JNum (uint b)) bs)"

fun byte_of_json :: "json \<Rightarrow> u8 option" where
  "byte_of_json (JNum i) = (if 0 \<le> i \<and> i < 256 then Some (word_of_int i) else None)"
| "byte_of_json _ = None"

fun bytes_of_json :: "json \<Rightarrow> u8 list option" where
  "bytes_of_json (JArr js) = those (map byte_of_json js)"
| "bytes_of_json _ = None"

definition field_of :: "json \<Rightarrow> string \<Rightarrow> json option" where
  "field_of j name =
     (case j of
        JObj ms \<Rightarrow> (case filter (\<lambda>m. fst m = name) ms of [m] \<Rightarrow> Some (snd m) | _ \<Rightarrow> None)
      | _ \<Rightarrow> None)"

definition agent_data_to_json :: "agent_data \<Rightarrow> json" where
  "agent_data_to_json d =
     JObj [(''ak_hash_alg'', JStr (hash_algorithm_variant (ak_hash_alg d))),
           (''ak_sign_alg'', JStr (sign_algorithm_variant (ak_sign_alg d))),
           (''ak_public'', bytes_to_json (ak_public d)),
           (''ak_private'', bytes_to_json (ak_private d)),
           (''ek_hash'', bytes_to_json (ek_hash d))]"

definition agent_data_of_json :: "json \<Rightarrow> agent_data option" where
  "agent_data_of_json j =
     Option.bind (field_of j ''ak_hash_alg'') (\<lambda>jh.
     Option.bind (variant_of_json hash_algorithm_variant [Sha1, Sha256, Sha384, Sha512, Sm3_256] jh) (\<lambda>h.
     Option.bind (field_of j ''ak_sign_alg'') (\<lambda>js.
     Option.bind (variant_of_json sign_algorithm_variant [RsaSsa, RsaPss, EcDsa, EcSchnorr] js) (\<lambda>s.
     Option.bind (Option.bind (field_of j ''ak_public'') bytes_of_json) (\<lambda>pub.
     Option.bind (Option.bind (field_of j ''ak_private'') bytes_of_json) (\<lambda>priv.
     Option.bind (Option.bind (field_of j ''ek_hash'') bytes_of_json) (\<lambda>ekh.
     Some \<lparr>ak_hash_alg = h, ak_sign_alg = s, ak_public = pub, ak_private = priv, ek_hash = ekh\<rparr>)))))))"

definition agent_data_load ::
  "os \<Rightarrow> (string \<Rightarrow> json option) \<Rightarrow> (string \<Rightarrow> string) \<Rightarrow> fs \<Rightarrow> string
   \<Rightarrow> (agent_data, agent_error) outcome" where
  "agent_data_load env parse serde_msg f path =
     and_then (read_file env f path) (\<lambda>text.
     case Option.bind (parse text) agent_data_of_json of
       Some d \<Rightarrow> Ok d
     | None \<Rightarrow> Err (Serde (serde_msg text)))"

text \<open>\<open>to_writer_pretty\<close> uses \<open>write_all\<close>: the whole text is written or an error is reported.\<close>

definition agent_data_store ::
  "os \<Rightarrow> (json \<Rightarrow> string) \<Rightarrow> agent_data \<Rightarrow> string \<Rightarrow> unit fs_act" where
  "agent_data_store env print d path =
     act_bind (fs_step (\<lambda>f. file_create env f path)) (\<lambda>_.
     fs_step (\<lambda>f1.
     case fault env Op_write path of
       Some e \<Rightarrow> Err (Serde e)
     | None \<Rightarrow>
         (case f1 path of
            Some (Regular _ m) \<Rightarrow> Ok (f1(path \<mapsto> Regular (print (agent_data_to_json d)) m))
          | _ \<Rightarrow> Err (Serde no_such_file))))"

definition json_text :: "(json \<Rightarrow> string) \<Rightarrow> (string \<Rightarrow> json option) \<Rightarrow> bool" where
  "json_text print parse \<longleftrightarrow> (\<forall>j. parse (print j) = Some j)"

lemma byte_of_json_back: "byte_of_json (JNum (uint b)) = Some (b :: u8)"
  using uint_bounded [of b] by simp

lemma bytes_of_to_json [simp]: "bytes_of_json (bytes_to_json bs) = Some bs"
  by (induction bs) (simp_all add: bytes_to_json_def byte_of_json_back del: byte_of_json.simps)

lemma variant_back [simp]:
  "variant_of_json hash_algorithm_variant [Sha1, Sha256, Sha384, Sha512, Sm3_256]
     (JStr (hash_algorithm_variant h)) = Some h"
  "variant_of_json sign_algorithm_variant [RsaSsa, RsaPss, EcDsa, EcSchnorr]
     (JStr (sign_algorithm_variant s)) = Some s"
  by (cases h; simp add: variant_of_json_def) (cases s; simp add: variant_of_json_def)

lemma agent_data_of_to_json: "agent_data_of_json (agent_data_to_json d) = Some d"
  by (simp add: agent_data_of_json_def agent_data_to_json_def field_of_def)

lemma agent_data_store_load:
  assumes "json_text print parse" and "agent_data_store env print d path f = (Ok (), f')"
    and "fault env Op_read path = None"
  shows "agent_data_load env parse serde_msg f' path = Ok d"
proof -
  from assms(2) obtain f1 c m where "f' = f1(path \<mapsto> Regular (print (agent_data_to_json d)) m)"
    by (auto simp: agent_data_store_def act_bind_Ok_iff fs_step_Ok_iff split: option.splits node.splits)
  then have "read_file env f' path = Ok (print (agent_data_to_json d))"
    using assms(3) by (simp add: read_file_def with_fault_def)
  then show ?thesis using assms(1)
    by (simp add: agent_data_load_def json_text_def agent_data_of_to_json)
qed

text \<open>A text form of JSON values with this behaviour, by enumeration.\<close>

instance json :: countable
  by countable_datatype

definition json_print_ref :: "json \<Rightarrow> string" where
  "json_print_ref j = replicate (to_nat j) CHR ''x''"

definition json_parse_ref :: "string \<Rightarrow> json option" where
  "json_parse_ref s = Some (from_nat (length s))"

lemma json_text_ref: "json_text json_print_ref json_parse_ref"
  by (simp add: json_text_def json_print_ref_def json_parse_ref_def)

text \<open>The attestation key survives a restart. Agent data created from a key and stored loads
  back, is valid for exactly the algorithms and EK hash it was created with, and yields the key,
  provided the TSS marshalling of the key parts is invertible.\<close>

theorem agent_data_persists:
  assumes "json_text print parse"
    and "marshall (ak_result_public ak) = Ok pub" and "unmarshall pub = Ok (ak_result_public ak)"
    and "of_vec (to_vec (ak_result_private ak)) = Ok (ak_result_private ak)"
    and "agent_data_create marshall to_vec h s ak ekh = Ok d"
    and "agent_data_store env print d path f = (Ok (), f')"
    and "fault env Op_read path = None"
  shows "\<exists>d'. agent_data_load env parse serde_msg f' path = Ok d'
    \<and> agent_data_get_ak unmarshall of_vec d' = Ok ak
    \<and> (\<forall>h' s' e. agent_data_valid d' h' s' e = (h' = h \<and> s' = s \<and> e = ekh))"
proof -
  have d: "d = \<lparr>ak_hash_alg = h, ak_sign_alg = s, ak_public = pub,
      ak_private = to_vec (ak_result_private ak), ek_hash = ekh\<rparr>"
    using assms(2,5) by (auto simp: agent_data_create_def)
  have "agent_data_get_ak unmarshall of_vec d = Ok ak"
    using assms(3,4) by (cases ak) (simp add: agent_data_get_ak_def d)
  then show ?thesis using agent_data_store_load [OF assms(1,6,7)] d
    by (auto simp: agent_data_valid_def)
qed

theorem agent_data_persists_witness:
  "\<exists>d f' d'. agent_data_create (\<lambda>n. Ok [word_of_nat n]) (\<lambda>b. b) Sha256 RsaSsa
       \<lparr>ak_result_public = 7 :: nat, ak_result_private = [1, 2]\<rparr> [9] = Ok d
     \<and> agent_data_store quiet json_print_ref d ''/agent_data.json'' Map.empty = (Ok (), f')
     \<and> agent_data_load quiet json_parse_ref id f' ''/agent_data.json'' = Ok d'
     \<and> agent_data_get_ak (\<lambda>bs. Ok (unat (hd bs))) Ok d'
         = Ok \<lparr>ak_result_public = 7, ak_result_private = [1, 2]\<rparr>"
proof -
  let ?ak = "\<lparr>ak_result_public = 7 :: nat, ak_result_private = [1, 2 :: u8]\<rparr>"
  obtain d where d: "agent_data_create (\<lambda>n. Ok [word_of_nat n]) (\<lambda>b. b) Sha256 RsaSsa ?ak [9] = Ok d"
    by (simp add: agent_data_create_def)
  obtain f' where f': "agent_data_store quiet json_print_ref d ''/agent_data.json'' Map.empty = (Ok (), f')"
    by (simp add: agent_data_store_def act_bind_def fs_step_def file_create_def quiet_def with_fault_def)
  show ?thesis
    using agent_data_persists [where unmarshall = "\<lambda>bs. Ok (unat (hd bs))" and of_vec = Ok
        and serde_msg = id, OF json_text_ref _ _ _ d f'] d f'
    by (auto simp: quiet_def)
qed

section \<open>The agent identity derived from the EK\<close>

definition hash_ek_pubkey ::
  "('public \<Rightarrow> ('spki, tss_error) outcome) \<Rightarrow> ('spki \<Rightarrow> (u8 list, string) outcome)
   \<Rightarrow> (u8 list \<Rightarrow> ('pkey, string) outcome) \<Rightarrow> ('pkey \<Rightarrow> (u8 list, string) outcome)
   \<Rightarrow> (message_digest \<Rightarrow> u8 list \<Rightarrow> (u8 list, string) outcome) \<Rightarrow> (u8 list \<Rightarrow> string)
   \<Rightarrow> 'public \<Rightarrow> (string, agent_error) outcome" where
  "hash_ek_pubkey spki_of der_of pkey_from_der pkey_to_pem hash hex_encode ek_pub =
     and_then (map_err error_from_tss (spki_of ek_pub)) (\<lambda>key.
     and_then (map_err PickyAsn1 (der_of key)) (\<lambda>key_der.
     and_then (map_err Crypto (pkey_from_der key_der)) (\<lambda>openssl_key.
     and_then (map_err Crypto (pkey_to_pem openssl_key)) (\<lambda>pem.
     and_then (map_err Crypto (hash md_sha256 pem)) (\<lambda>h.
     Ok (hex_encode h))))))"

end
