(* ===== verification/Crypto_Ops.thy ===== *)
theory Crypto_Ops
  imports Common
begin

text \<open>
  The cryptographic helpers of \<^verbatim>\<open>keylime-agent/src/crypto.rs\<close>. OpenSSL is a parameter: each
  definition takes the primitives it calls as functions, whose errors are the text of the OpenSSL
  error stack. The types of keys and certificates are abstract.
\<close>

section \<open>Certificates\<close>

datatype pkey_id = Id_RSA | Id_EC | Id_raw nat

definition id_rsa_pss :: pkey_id where
  "id_rsa_pss = Id_raw 912"

text \<open>The named curve; every other OpenSSL NID by its short name.\<close>

datatype nid = SECP256K1 | Nid_other string

text \<open>What the code reads of the public key of a certificate.\<close>

record cert_key =
  ck_id :: pkey_id
  ck_bits :: nat
  ck_rsa_n :: "(u8 list, string) outcome"
  ck_ec_der :: "(u8 list, string) outcome"
  ck_curve :: "(nid option, string) outcome"

definition load_x509_der ::
  "os \<Rightarrow> (string \<Rightarrow> ('cert, string) outcome) \<Rightarrow> fs \<Rightarrow> string \<Rightarrow> ('cert, agent_error) outcome" where
  "load_x509_der env from_der f path =
     and_then (read_file env f path) (\<lambda>c. map_err Crypto (from_der c))"

definition load_x509_pem ::
  "os \<Rightarrow> (string \<Rightarrow> ('cert, string) outcome) \<Rightarrow> fs \<Rightarrow> string \<Rightarrow> ('cert, agent_error) outcome" where
  "load_x509_pem env from_pem f path =
     and_then (read_file env f path) (\<lambda>c. map_err Crypto (from_pem c))"

definition load_x509_cert_chain ::
  "os \<Rightarrow> (string \<Rightarrow> ('cert list, string) outcome) \<Rightarrow> fs \<Rightarrow> string \<Rightarrow> ('cert list, agent_error) outcome" where
  "load_x509_cert_chain env stack_from_pem f path =
     and_then (read_to_string env f path) (\<lambda>c. map_err Crypto (stack_from_pem c))"

definition load_x509 ::
  "os \<Rightarrow> (string \<Rightarrow> ('cert list, string) outcome) \<Rightarrow> fs \<Rightarrow> string \<Rightarrow> ('cert, agent_error) outcome" where
  "load_x509 env stack_from_pem f path =
     and_then (load_x509_cert_chain env stack_from_pem f path) (\<lambda>chain.
     if length chain \<noteq> 1 then Err (Other ''More than one public key provided in revocation cert'')
     else (case chain of [] \<Rightarrow> Panic | _ \<Rightarrow> Ok (last chain)))"

fun load_x509_cert_list_from ::
  "os \<Rightarrow> (string \<Rightarrow> ('cert list, string) outcome) \<Rightarrow> fs \<Rightarrow> 'cert list \<Rightarrow> string list
   \<Rightarrow> ('cert list, agent_error) outcome" where
  "load_x509_cert_list_from env spem f loaded [] = Ok loaded"
| "load_x509_cert_list_from env spem f loaded (p # ps) =
     (case load_x509_cert_chain env spem f p of
        Ok s \<Rightarrow> load_x509_cert_list_from env spem f (loaded @ s) ps
      | Err e \<Rightarrow> load_x509_cert_list_from env spem f loaded ps
      | Panic \<Rightarrow> Panic)"

definition load_x509_cert_list ::
  "os \<Rightarrow> (string \<Rightarrow> ('cert list, string) outcome) \<Rightarrow> fs \<Rightarrow> string list
   \<Rightarrow> ('cert list, agent_error) outcome" where
  "load_x509_cert_list env spem f paths = load_x509_cert_list_from env spem f [] paths"

definition write_x509 ::
  "os \<Rightarrow> ('cert \<Rightarrow> (string, string) outcome) \<Rightarrow> 'cert \<Rightarrow> string \<Rightarrow> unit fs_act" where
  "write_x509 env to_pem cert path =
     act_bind (fs_step (\<lambda>f. file_create env f path)) (\<lambda>_.
     act_bind (act_lift (map_err Crypto (to_pem cert))) (\<lambda>pem.
     fs_step (\<lambda>f. and_then (file_write env f path pem) (\<lambda>(f', _). Ok f'))))"

subsection \<open>Comparing a certificate with a TPM key\<close>

text \<open>\<open>str::contains\<close>.\<close>

fun contains :: "string \<Rightarrow> string \<Rightarrow> bool" where
  "contains needle [] = (needle = [])"
| "contains needle (c # cs) = (starts_with needle (c # cs) \<or> contains needle cs)"

text \<open>\<open>String::pop\<close> drops the last character; \<open>String::remove(0)\<close> panics on an empty string.\<close>

definition strip_brackets :: "string \<Rightarrow> (string, agent_error) outcome" where
  "strip_brackets s = (case butlast s of [] \<Rightarrow> Panic | _ # cs \<Rightarrow> Ok cs)"

definition compare_key_text ::
  "('public \<Rightarrow> ('spki, tss_error) outcome) \<Rightarrow> ('spki \<Rightarrow> (u8 list, string) outcome)
   \<Rightarrow> (u8 list, agent_error) outcome \<Rightarrow> 'public \<Rightarrow> (bool, agent_error) outcome" where
  "compare_key_text spki_of der_of cert_bytes tpm_key =
     and_then cert_bytes (\<lambda>cert_n.
     and_then (strip_brackets (debug_bytes cert_n)) (\<lambda>cert_n_str.
     and_then (map_err error_from_tss (spki_of tpm_key)) (\<lambda>key.
     and_then (map_err PickyAsn1 (der_of key)) (\<lambda>key_der.
     Ok (contains cert_n_str (debug_bytes key_der))))))"

definition check_x509_key ::
  "('public \<Rightarrow> ('spki, tss_error) outcome) \<Rightarrow> ('spki \<Rightarrow> (u8 list, string) outcome)
   \<Rightarrow> (cert_key, string) outcome \<Rightarrow> 'public \<Rightarrow> (bool, agent_error) outcome" where
  "check_x509_key spki_of der_of public_key tpm_key =
     and_then (map_err Crypto public_key) (\<lambda>pk.
     if ck_id pk = Id_RSA \<or> ck_id pk = id_rsa_pss then
       compare_key_text spki_of der_of (map_err Crypto (ck_rsa_n pk)) tpm_key
     else if ck_id pk = Id_EC then
       compare_key_text spki_of der_of (map_err Crypto (ck_ec_der pk)) tpm_key
     else Err (Other ''Certificate does not seem to have an RSA or EC key''))"

definition match_cert_to_template :: "(cert_key, string) outcome \<Rightarrow> (string, agent_error) outcome" where
  "match_cert_to_template public_key =
     and_then (map_err Crypto public_key) (\<lambda>pk.
     if ck_id pk = Id_RSA \<or> ck_id pk = id_rsa_pss then
       (if ck_bits pk = 2048 then Ok ''H-1'' else Ok [])
     else if ck_id pk = Id_EC then
       (if ck_bits pk = 256 then
          and_then (map_err Crypto (ck_curve pk)) (\<lambda>curve.
          if curve = Some SECP256K1 then Ok ''H-2'' else Ok ''H-5'')
        else if ck_bits pk = 384 then Ok ''H-3''
        else if ck_bits pk = 521 then Ok ''H-4''
        else Ok [])
     else Err (Other ''Certificate does not seem to have an RSA or EC key''))"

section \<open>Key pairs\<close>

text \<open>OpenSSL on private and public keys.\<close>

record ('priv, 'pub) pkey_ops =
  pk_id :: "'priv \<Rightarrow> pkey_id"
  pk_id_debug :: "'priv \<Rightarrow> string"
  pk_rsa_components :: "'priv \<Rightarrow> (u8 list \<times> u8 list, string) outcome"
  pk_from_components :: "u8 list \<Rightarrow> u8 list \<Rightarrow> ('pub, string) outcome"
  pk_from_pem :: "string \<Rightarrow> ('priv, string) outcome"
  pk_from_pem_passphrase :: "string \<Rightarrow> string \<Rightarrow> ('priv, string) outcome"
  pk_to_pem_pkcs8 :: "'priv \<Rightarrow> (string, string) outcome"
  pk_to_pem_pkcs8_passphrase :: "'priv \<Rightarrow> string \<Rightarrow> (string, string) outcome"
  pk_generate_rsa :: "nat \<Rightarrow> ('priv, string) outcome"
  pk_pub_to_pem :: "'pub \<Rightarrow> (string, string) outcome"

definition pkey_pub_from_priv :: "('priv, 'pub) pkey_ops \<Rightarrow> 'priv \<Rightarrow> ('pub, agent_error) outcome" where
  "pkey_pub_from_priv ops k =
     (if pk_id ops k = Id_RSA then
        and_then (map_err Crypto (pk_rsa_components ops k)) (\<lambda>(n, e).
        map_err Crypto (pk_from_components ops n e))
      else Err (Other (''pkey_pub_from_priv not yet implemented for key type ''
             @ pk_id_debug ops k)))"

definition load_key_pair ::
  "os \<Rightarrow> ('priv, 'pub) pkey_ops \<Rightarrow> fs \<Rightarrow> string \<Rightarrow> string option \<Rightarrow> ('pub \<times> 'priv, agent_error) outcome" where
  "load_key_pair env ops f key_path key_password =
     and_then (read_file env f key_path) (\<lambda>pem.
     and_then
       (case key_password of
          Some pw \<Rightarrow>
            if pw = [] then map_err Crypto (pk_from_pem ops pem)
            else map_err Crypto (pk_from_pem_passphrase ops pem pw)
        | None \<Rightarrow> map_err Crypto (pk_from_pem ops pem)) (\<lambda>priv.
     and_then (pkey_pub_from_priv ops priv) (\<lambda>pub. Ok (pub, priv))))"

definition write_key_pair ::
  "os \<Rightarrow> ('priv, 'pub) pkey_ops \<Rightarrow> 'priv \<Rightarrow> string \<Rightarrow> string option \<Rightarrow> unit fs_act" where
  "write_key_pair env ops key file_path passphrase =
     act_bind (fs_step (\<lambda>f. file_create env f file_path)) (\<lambda>_.
     act_bind (act_lift
       (case passphrase of
          Some pw \<Rightarrow>
            if pw = [] then map_err Crypto (pk_to_pem_pkcs8 ops key)
            else map_err Crypto (pk_to_pem_pkcs8_passphrase ops key pw)
        | None \<Rightarrow> map_err Crypto (pk_to_pem_pkcs8 ops key))) (\<lambda>pem.
     act_bind (fs_step (\<lambda>f. and_then (file_write env f file_path pem) (\<lambda>(f', _). Ok f'))) (\<lambda>_.
     fs_step (\<lambda>f. set_permissions env f file_path 0x180))))"

definition rsa_generate :: "('priv, 'pub) pkey_ops \<Rightarrow> nat \<Rightarrow> ('priv, agent_error) outcome" where
  "rsa_generate ops key_size = map_err Crypto (pk_generate_rsa ops key_size)"

definition rsa_generate_pair ::
  "('priv, 'pub) pkey_ops \<Rightarrow> nat \<Rightarrow> ('pub \<times> 'priv, agent_error) outcome" where
  "rsa_generate_pair ops key_size =
     and_then (rsa_generate ops key_size) (\<lambda>priv.
     and_then (pkey_pub_from_priv ops priv) (\<lambda>pub. Ok (pub, priv)))"

definition pkey_pub_to_pem ::
  "(string \<Rightarrow> string) \<Rightarrow> ('priv, 'pub) pkey_ops \<Rightarrow> 'pub \<Rightarrow> (string, agent_error) outcome" where
  "pkey_pub_to_pem utf8_error ops pubkey =
     and_then (map_err Crypto (pk_pub_to_pem ops pubkey)) (\<lambda>s.
     if is_utf8 s then Ok s else Err (Utf8 (utf8_error s)))"

section \<open>Certificates and TLS contexts the agent makes\<close>

text \<open>The fields the agent sets on a certificate it builds, and the settings of an acceptor.\<close>

record ('priv) x509_fields =
  x509_version :: nat
  x509_subject_cn :: string
  x509_issuer_cn :: string
  x509_not_before_days :: nat
  x509_not_after_days :: nat
  x509_pubkey :: 'priv
  x509_signed_by :: 'priv
  x509_digest :: message_digest

definition generate_x509 ::
  "('priv x509_fields \<Rightarrow> ('cert, string) outcome) \<Rightarrow> 'priv \<Rightarrow> string \<Rightarrow> ('cert, agent_error) outcome" where
  "generate_x509 build key uuid =
     map_err Crypto (build
       \<lparr>x509_version = 2, x509_subject_cn = uuid, x509_issuer_cn = uuid,
        x509_not_before_days = 0, x509_not_after_days = 356, x509_pubkey = key,
        x509_signed_by = key, x509_digest = md_sha256\<rparr>)"

datatype ssl_verify_flag = PEER | FAIL_IF_NO_PEER_CERT

record ('cert, 'priv) ssl_acceptor =
  acc_certificate :: "'cert option"
  acc_private_key :: "'priv option"
  acc_cert_store :: "'cert list"
  acc_verify :: "ssl_verify_flag list"

text \<open>The results of \<open>set_certificate\<close> and \<open>set_private_key\<close> are dropped: when OpenSSL rejects one,
  the context is left without it.\<close>

definition generate_mtls_context ::
  "('cert \<Rightarrow> bool) \<Rightarrow> ('cert \<Rightarrow> 'priv \<Rightarrow> bool) \<Rightarrow> ('cert list \<Rightarrow> 'cert \<Rightarrow> ('cert list, string) outcome)
   \<Rightarrow> 'cert \<Rightarrow> 'priv \<Rightarrow> 'cert list \<Rightarrow> (('cert, 'priv) ssl_acceptor, agent_error) outcome" where
  "generate_mtls_context cert_accepted key_accepted add_cert mtls_cert key ca_certs =
     and_then (map_err Crypto (try_fold add_cert [] ca_certs)) (\<lambda>store.
     Ok \<lparr>acc_certificate = (if cert_accepted mtls_cert then Some mtls_cert else None),
         acc_private_key = (if key_accepted mtls_cert key then Some key else None),
         acc_cert_store = store, acc_verify = [PEER, FAIL_IF_NO_PEER_CERT]\<rparr>)"

section \<open>Key derivation, signatures and RSA\<close>

definition kdf ::
  "(string \<Rightarrow> string \<Rightarrow> nat \<Rightarrow> message_digest \<Rightarrow> nat \<Rightarrow> (u8 list, string) outcome)
   \<Rightarrow> (u8 list \<Rightarrow> string) \<Rightarrow> string \<Rightarrow> string \<Rightarrow> (string, agent_error) outcome" where
  "kdf pbkdf2_hmac hex_encode password salt =
     and_then (map_err Crypto (pbkdf2_hmac password salt 2000 md_sha1 32)) (\<lambda>key.
     Ok (hex_encode key))"

datatype rsa_padding = PKCS1_PSS | PKCS1_OAEP

text \<open>The configured verifier: digest, padding, MGF1 digest, whether the salt is of maximum length.\<close>

definition asym_verify ::
  "(message_digest \<Rightarrow> 'pub \<Rightarrow> rsa_padding \<Rightarrow> message_digest \<Rightarrow> bool
      \<Rightarrow> (string \<Rightarrow> u8 list \<Rightarrow> (bool, string) outcome, string) outcome)
   \<Rightarrow> (string \<Rightarrow> (u8 list, string) outcome)
   \<Rightarrow> 'pub \<Rightarrow> string \<Rightarrow> string \<Rightarrow> (bool, agent_error) outcome" where
  "asym_verify verifier_new base64_decode keypair message signature =
     and_then (map_err Crypto (verifier_new md_sha256 keypair PKCS1_PSS md_sha256 True)) (\<lambda>verify.
     and_then (map_err Base64 (base64_decode signature)) (\<lambda>sig_bytes.
     map_err Crypto (verify message sig_bytes)))"

text \<open>A configured \<open>Decrypter\<close>: the buffer length it asks for, and decryption into a buffer.\<close>

record decrypter =
  decrypt_len :: "u8 list \<Rightarrow> (nat, string) outcome"
  decrypt_into :: "u8 list \<Rightarrow> u8 list \<Rightarrow> (nat \<times> u8 list, string) outcome"

definition rsa_oaep_decrypt ::
  "('priv \<Rightarrow> rsa_padding \<Rightarrow> message_digest \<Rightarrow> message_digest \<Rightarrow> (decrypter, string) outcome)
   \<Rightarrow> 'priv \<Rightarrow> u8 list \<Rightarrow> (u8 list, agent_error) outcome" where
  "rsa_oaep_decrypt decrypter_new priv_key data =
     and_then (map_err Crypto (decrypter_new priv_key PKCS1_OAEP md_sha1 md_sha1)) (\<lambda>d.
     and_then (map_err Crypto (decrypt_len d data)) (\<lambda>buffer_len.
     and_then (map_err Crypto (decrypt_into d data (replicate buffer_len 0))) (\<lambda>(decrypted_len, buf).
     Ok (take decrypted_len buf))))"

text \<open>The other side, from the module \<open>testing\<close>: what the tenant and the verifier do with the public transport key.\<close>

record encrypter =
  encrypt_len :: "u8 list \<Rightarrow> (nat, string) outcome"
  encrypt_into :: "u8 list \<Rightarrow> u8 list \<Rightarrow> (nat \<times> u8 list, string) outcome"

definition rsa_oaep_encrypt ::
  "('pub \<Rightarrow> rsa_padding \<Rightarrow> message_digest \<Rightarrow> message_digest \<Rightarrow> (encrypter, string) outcome)
   \<Rightarrow> 'pub \<Rightarrow> u8 list \<Rightarrow> (u8 list, agent_error) outcome" where
  "rsa_oaep_encrypt encrypter_new pub_key data =
     and_then (map_err Crypto (encrypter_new pub_key PKCS1_OAEP md_sha1 md_sha1)) (\<lambda>e.
     and_then (map_err Crypto (encrypt_len e data)) (\<lambda>buffer_len.
     and_then (map_err Crypto (encrypt_into e data (replicate buffer_len 0))) (\<lambda>(encrypted_len, buf).
     Ok (take encrypted_len buf))))"

definition rsa_import_pair ::
  "os \<Rightarrow> ('priv, 'pub) pkey_ops \<Rightarrow> fs \<Rightarrow> string \<Rightarrow> ('pub \<times> 'priv, agent_error) outcome" where
  "rsa_import_pair env ops f path =
     and_then (read_to_string env f path) (\<lambda>contents.
     and_then (map_err Crypto (pk_from_pem ops contents)) (\<lambda>private.
     and_then (pkey_pub_from_priv ops private) (\<lambda>public. Ok (public, private))))"

definition pkey_pub_from_pem :: "(string \<Rightarrow> ('pub, string) outcome) \<Rightarrow> string \<Rightarrow> ('pub, agent_error) outcome" where
  "pkey_pub_from_pem public_key_from_pem pem = map_err Crypto (public_key_from_pem pem)"

text \<open>OpenSSL decrypts with a private key, padding and hashes what it encrypted with the public key and the same ones.\<close>

definition oaep_inverse ::
  "('pub \<Rightarrow> rsa_padding \<Rightarrow> message_digest \<Rightarrow> message_digest \<Rightarrow> (encrypter, string) outcome)
   \<Rightarrow> ('priv \<Rightarrow> rsa_padding \<Rightarrow> message_digest \<Rightarrow> message_digest \<Rightarrow> (decrypter, string) outcome) \<Rightarrow> 'pub \<Rightarrow> 'priv \<Rightarrow> bool" where
  "oaep_inverse encrypter_new decrypter_new pub priv \<longleftrightarrow>
     (\<forall>md mgf e data b n buf.
        encrypter_new pub PKCS1_OAEP md mgf = Ok e \<and> encrypt_into e data b = Ok (n, buf) \<longrightarrow>
        (\<exists>d l. decrypter_new priv PKCS1_OAEP md mgf = Ok d \<and> decrypt_len d (take n buf) = Ok l
           \<and> (\<forall>b'. length b' = l \<longrightarrow> (\<exists>buf'. decrypt_into d (take n buf) b' = Ok (length data, buf') \<and> take (length data) buf' = data))))"

lemma decrypt_encrypt_oaep:
  assumes "oaep_inverse encrypter_new decrypter_new pub priv" and "rsa_oaep_encrypt encrypter_new pub data = Ok c"
  shows "rsa_oaep_decrypt decrypter_new priv c = Ok data"
proof -
  obtain e l n buf where e: "encrypter_new pub PKCS1_OAEP md_sha1 md_sha1 = Ok e" "encrypt_into e data (replicate l 0) = Ok (n, buf)"
    and c: "c = take n buf" using assms(2) by (auto simp: rsa_oaep_encrypt_def and_then_Ok_iff)
  from assms(1) [unfolded oaep_inverse_def] e obtain d l' where "decrypter_new priv PKCS1_OAEP md_sha1 md_sha1 = Ok d"
    and "decrypt_len d c = Ok l'" and "\<And>b'. length b' = l' \<Longrightarrow> \<exists>buf'. decrypt_into d c b' = Ok (length data, buf') \<and> take (length data) buf' = data"
    unfolding c by blast
  then show ?thesis using length_replicate [of l' "0 :: u8"] by (fastforce simp: rsa_oaep_decrypt_def)
qed

section \<open>Message authentication\<close>

type_synonym hmac_fun = "u8 list \<Rightarrow> u8 list \<Rightarrow> (u8 list, string) outcome"

definition compute_hmac :: "hmac_fun \<Rightarrow> u8 list \<Rightarrow> u8 list \<Rightarrow> (u8 list, agent_error) outcome" where
  "compute_hmac hmac_sha384 key data = map_err Crypto (hmac_sha384 key data)"

text \<open>\<open>openssl::memcmp::eq\<close> asserts that both sides have the same length.\<close>

definition memcmp_eq :: "u8 list \<Rightarrow> u8 list \<Rightarrow> (bool, 'e) outcome" where
  "memcmp_eq a b = (if length a = length b then Ok (a = b) else Panic)"

definition verify_hmac ::
  "hmac_fun \<Rightarrow> u8 list \<Rightarrow> u8 list \<Rightarrow> u8 list \<Rightarrow> (unit, agent_error) outcome" where
  "verify_hmac hmac_sha384 key data hmac =
     and_then (map_err Crypto (hmac_sha384 key data)) (\<lambda>computed.
     and_then (memcmp_eq computed hmac) (\<lambda>same.
     if \<not> same then Err (Other ''hmac check failed'') else Ok ()))"

text \<open>Documented: an HMAC with SHA-384 is 48 bytes.\<close>

definition hmac_length :: "hmac_fun \<Rightarrow> bool" where
  "hmac_length hmac_sha384 \<longleftrightarrow> (\<forall>k d t. hmac_sha384 k d = Ok t \<longrightarrow> length t = AUTH_TAG_LEN)
     \<and> (\<forall>k d. hmac_sha384 k d \<noteq> Panic)"

lemma verify_hmac_Ok_iff:
  "verify_hmac hmac k d t = Ok () \<longleftrightarrow> hmac k d = Ok t"
  by (auto simp: verify_hmac_def and_then_Ok_iff memcmp_eq_def split: if_splits)

lemma verify_hmac_no_panic:
  assumes "hmac_length hmac" and "length t = AUTH_TAG_LEN"
  shows "verify_hmac hmac k d t \<noteq> Panic"
  using assms unfolding verify_hmac_def hmac_length_def
  by (cases "hmac k d") (auto simp: memcmp_eq_def)

section \<open>Authenticated encryption\<close>

datatype gcm_cipher = Aes_128_gcm | Aes_256_gcm

definition gcm_cipher_for :: "nat \<Rightarrow> (gcm_cipher, agent_error) outcome" where
  "gcm_cipher_for len =
     (if len = AES_128_KEY_LEN then Ok Aes_128_gcm
      else if len = AES_256_KEY_LEN then Ok Aes_256_gcm
      else Err (Other (''key length '' @ show_nat len @ '' does not correspond to valid GCM cipher'')))"

type_synonym gcm_decrypt_fun =
  "gcm_cipher \<Rightarrow> u8 list \<Rightarrow> u8 list \<Rightarrow> u8 list \<Rightarrow> u8 list \<Rightarrow> u8 list \<Rightarrow> (u8 list, string) outcome"

type_synonym gcm_encrypt_fun =
  "gcm_cipher \<Rightarrow> u8 list \<Rightarrow> u8 list \<Rightarrow> u8 list \<Rightarrow> u8 list \<Rightarrow> nat \<Rightarrow> (u8 list \<times> u8 list, string) outcome"

text \<open>\<open>split_at\<close> panics beyond the end.\<close>

definition split_at :: "nat \<Rightarrow> 'a list \<Rightarrow> ('a list \<times> 'a list, 'e) outcome" where
  "split_at n xs = (if n \<le> length xs then Ok (take n xs, drop n xs) else Panic)"

definition decrypt_aead ::
  "gcm_decrypt_fun \<Rightarrow> u8 list \<Rightarrow> u8 list \<Rightarrow> (u8 list, agent_error) outcome" where
  "decrypt_aead gcm_decrypt key data =
     and_then (gcm_cipher_for (length key)) (\<lambda>cipher.
     if length data < AES_BLOCK_SIZE * 2 then Err InvalidRequest
     else
       and_then (split_at AES_BLOCK_SIZE data) (\<lambda>(iv, rest).
       and_then (split_at (length rest - AES_BLOCK_SIZE) rest) (\<lambda>(ciphertext, tag).
       map_err Crypto (gcm_decrypt cipher key iv [] ciphertext tag))))"

definition encrypt_aead ::
  "gcm_encrypt_fun \<Rightarrow> u8 list \<Rightarrow> u8 list \<Rightarrow> u8 list \<Rightarrow> (u8 list, agent_error) outcome" where
  "encrypt_aead gcm_encrypt key iv data =
     and_then (gcm_cipher_for (length key)) (\<lambda>cipher.
     if length iv \<noteq> AES_BLOCK_SIZE then
       Err (Other (''IV length '' @ show_nat (length iv) @ '' does not correspond to valid GCM cipher ''
              @ show_nat AES_BLOCK_SIZE))
     else
       and_then (map_err Crypto (gcm_encrypt cipher key iv [] data AES_BLOCK_SIZE)) (\<lambda>(ciphertext, tag).
       Ok (iv @ ciphertext @ tag)))"

text \<open>Documented: the tag has the requested length and decryption inverts encryption.\<close>

definition gcm_inverse :: "gcm_encrypt_fun \<Rightarrow> gcm_decrypt_fun \<Rightarrow> bool" where
  "gcm_inverse gcm_encrypt gcm_decrypt \<longleftrightarrow>
     (\<forall>c k iv aad pt n ct tag. gcm_encrypt c k iv aad pt n = Ok (ct, tag) \<longrightarrow>
        length tag = n \<and> gcm_decrypt c k iv aad ct tag = Ok pt)"

lemma gcm_cipher_for_Ok_iff: "is_ok (gcm_cipher_for n) \<longleftrightarrow> n \<in> {AES_128_KEY_LEN, AES_256_KEY_LEN}"
  by (simp add: gcm_cipher_for_def length_constants)

lemma decrypt_aead_layout:
  assumes "gcm_cipher_for (length key) = Ok c" and "length iv = AES_BLOCK_SIZE"
    and "length tag = AES_BLOCK_SIZE"
  shows "decrypt_aead gd key (iv @ ct @ tag) = map_err Crypto (gd c key iv [] ct tag)"
  using assms by (simp add: decrypt_aead_def split_at_def length_constants)

lemma decrypt_encrypt_aead:
  assumes "gcm_inverse gcm_encrypt gcm_decrypt"
    and "encrypt_aead gcm_encrypt key iv data = Ok blob"
  shows "decrypt_aead gcm_decrypt key blob = Ok data"
proof -
  from assms(2) obtain c ct tag where "gcm_cipher_for (length key) = Ok c"
    and "length iv = AES_BLOCK_SIZE" and "gcm_encrypt c key iv [] data AES_BLOCK_SIZE = Ok (ct, tag)"
    and "blob = iv @ ct @ tag"
    by (auto simp: encrypt_aead_def and_then_Ok_iff split: if_splits)
  with assms(1) show ?thesis
    by (auto simp: gcm_inverse_def decrypt_aead_layout)
qed

text \<open>Decryption undoes encryption, for both key lengths: the layout (16-byte IV, ciphertext,
  16-byte tag) that \<open>encrypt_aead\<close> writes is the layout that \<open>decrypt_aead\<close> takes apart.\<close>

theorem aead_roundtrip:
  assumes "gcm_inverse gcm_encrypt gcm_decrypt"
    and "encrypt_aead gcm_encrypt key iv data = Ok blob"
  shows "decrypt_aead gcm_decrypt key blob = Ok data"
  by (rule decrypt_encrypt_aead [OF assms])

text \<open>A primitive with this behaviour: the identity with a constant tag.\<close>

definition gcm_encrypt_ref :: gcm_encrypt_fun where
  "gcm_encrypt_ref c k iv aad pt n = Ok (pt, replicate n 1)"

definition gcm_decrypt_ref :: gcm_decrypt_fun where
  "gcm_decrypt_ref c k iv aad ct tag =
     (if tag = replicate (length tag) 1 then Ok ct else Err ''tag mismatch'')"

lemma gcm_inverse_ref: "gcm_inverse gcm_encrypt_ref gcm_decrypt_ref"
  by (simp add: gcm_inverse_def gcm_encrypt_ref_def gcm_decrypt_ref_def)

theorem aead_roundtrip_witness:
  "\<exists>blob. encrypt_aead gcm_encrypt_ref (replicate 32 5) (replicate 16 7) [1, 2, 3] = Ok blob
     \<and> decrypt_aead gcm_decrypt_ref (replicate 32 5) blob = Ok [1, 2, 3]"
proof -
  obtain blob where "encrypt_aead gcm_encrypt_ref (replicate 32 5) (replicate 16 7) [1, 2, 3] = Ok blob"
    by (simp add: encrypt_aead_def gcm_cipher_for_def length_constants gcm_encrypt_ref_def)
  with aead_roundtrip [OF gcm_inverse_ref this] show ?thesis by blast
qed

text \<open>\<open>decrypt_aead\<close> never panics on any key and any ciphertext (its two \<open>split_at\<close> calls
  stay in range), rejects every key that is not 16 or 32 bytes long before looking at the data, and
  rejects data without room for IV and tag.\<close>

theorem decrypt_aead_total:
  assumes "\<And>c k iv aad ct tag. gcm_decrypt c k iv aad ct tag \<noteq> Panic"
  shows "decrypt_aead gcm_decrypt key data \<noteq> Panic
    \<and> (length key \<notin> {16, 32} \<longrightarrow> (\<exists>m. decrypt_aead gcm_decrypt key data = Err (Other m)))
    \<and> (length key \<in> {16, 32} \<and> length data < 32 \<longrightarrow>
         decrypt_aead gcm_decrypt key data = Err InvalidRequest)"
  using assms
  by (auto simp: decrypt_aead_def gcm_cipher_for_def split_at_def length_constants split: if_splits)

theorem decrypt_aead_total_witness:
  "decrypt_aead gcm_decrypt_ref (replicate 16 0) [1, 2, 3] = Err InvalidRequest"
  using decrypt_aead_total [of gcm_decrypt_ref "replicate 16 0" "[1, 2, 3]"]
  by (simp add: gcm_decrypt_ref_def)

section \<open>Comparing a certificate with a key\<close>

lemma contains_iff: "contains n h \<longleftrightarrow> (\<exists>a b. h = a @ n @ b)"
proof (induction h)
  case (Cons c cs)
  have "(\<exists>a b. c # cs = a @ n @ b) \<longleftrightarrow> (\<exists>b. c # cs = n @ b) \<or> (\<exists>a b. cs = a @ n @ b)"
    by (metis append_Cons append_Nil neq_Nil_conv list.inject)
  then show ?case using Cons by (simp add: starts_with_iff)
qed auto

lemma strip_brackets_debug:
  "strip_brackets (debug_bytes bs) = Ok (join '', '' (map (\<lambda>b. show_nat (unat b)) bs))"
  by (simp add: strip_brackets_def debug_bytes_def butlast_append)

lemma join_append:
  "xs \<noteq> [] \<Longrightarrow> ys \<noteq> [] \<Longrightarrow> join sep (xs @ ys) = join sep xs @ sep @ join sep ys"
proof (induction sep xs rule: join.induct)
  case (2 sep x)
  then show ?case by (cases ys) auto
qed auto

lemma join_infix: "\<exists>a b. join sep (xs @ ys @ zs) = a @ join sep ys @ b"
proof (cases "ys = []")
  case True
  then show ?thesis by (auto intro: exI [of _ "[]"])
next
  case False
  have "\<exists>b. join sep (ys @ zs) = join sep ys @ b"
    using join_append [OF False, of zs sep] by (cases "zs = []") auto
  then obtain b where b: "join sep (ys @ zs) = join sep ys @ b" by blast
  show ?thesis
  proof (cases "xs = []")
    case True
    then show ?thesis using b by (auto intro: exI [of _ "[]"])
  next
    case xs: False
    have "join sep (xs @ ys @ zs) = (join sep xs @ sep) @ join sep ys @ b"
      using join_append [OF xs, of "ys @ zs" sep] False b by simp
    then show ?thesis by blast
  qed
qed

lemma contains_join_infix:
  "contains (join sep ys) (a @ join sep (xs @ ys @ zs) @ b)"
proof -
  obtain c d where "join sep (xs @ ys @ zs) = c @ join sep ys @ d" using join_infix by blast
  then have "a @ join sep (xs @ ys @ zs) @ b = (a @ c) @ join sep ys @ (d @ b)" by simp
  then show ?thesis unfolding contains_iff by blast
qed

abbreviation decimals :: "u8 list \<Rightarrow> string list" where
  "decimals bs \<equiv> map (\<lambda>b. show_nat (unat b)) bs"

lemma compare_key_text_der:
  assumes "spki_of k = Ok spki" and "der_of spki = Ok der"
  shows "compare_key_text spki_of der_of (Ok n) k
    = Ok (contains (join '', '' (decimals n)) (''['' @ join '', '' (decimals der) @ '']''))"
  by (simp add: compare_key_text_def strip_brackets_debug assms del: contains.simps)
    (simp only: debug_bytes_def append_Cons append_Nil)

lemma compare_key_text_infix:
  assumes "spki_of k = Ok spki" and "der_of spki = Ok (pre @ n @ post)"
  shows "compare_key_text spki_of der_of (Ok n) k = Ok True"
  using contains_join_infix [of "'', ''" "decimals n" "''[''" "decimals pre" "decimals post" "'']''"]
  by (simp only: compare_key_text_der [where spki_of = spki_of and der_of = der_of, OF assms] map_append)

text \<open>A certificate whose key material occurs in the DER form of the TPM key is accepted: the
  modulus of an RSA or RSA-PSS key, or the DER form of an EC key.\<close>

theorem check_x509_key_complete:
  assumes "spki_of k = Ok spki" and "der_of spki = Ok (pre @ n @ post)"
    and "(ck_id pk \<in> {Id_RSA, id_rsa_pss} \<and> ck_rsa_n pk = Ok n) \<or> (ck_id pk = Id_EC \<and> ck_ec_der pk = Ok n)"
  shows "check_x509_key spki_of der_of (Ok pk) k = Ok True"
  using assms(3) compare_key_text_infix [where spki_of = spki_of and der_of = der_of, OF assms(1,2)]
  by (auto simp: check_x509_key_def id_rsa_pss_def)

theorem check_x509_key_complete_witness:
  "check_x509_key Ok (\<lambda>_ :: unit. Ok ([48, 3, 2, 1] @ [143, 1] @ [5]))
     (Ok \<lparr>ck_id = Id_raw 912, ck_bits = 16, ck_rsa_n = Ok [143, 1], ck_ec_der = Panic, ck_curve = Panic\<rparr>) ()
   = Ok True"
  by (rule check_x509_key_complete [where pre = "[48, 3, 2, 1]" and n = "[143, 1]" and post = "[5]"])
    (simp_all add: id_rsa_pss_def)


section \<open>Stored key pairs\<close>

text \<open>Documented: reading a PEM text gives the key it was written from, with the passphrase it was
  encrypted under.\<close>

definition pem_inverse :: "('priv, 'pub) pkey_ops \<Rightarrow> bool" where
  "pem_inverse ops \<longleftrightarrow>
     (\<forall>k pem. pk_to_pem_pkcs8 ops k = Ok pem \<longrightarrow> pk_from_pem ops pem = Ok k)
     \<and> (\<forall>k pw pem. pk_to_pem_pkcs8_passphrase ops k pw = Ok pem \<longrightarrow> pk_from_pem_passphrase ops pem pw = Ok k)"

lemma write_key_pair_file:
  assumes "write_key_pair env ops key path pw f = (Ok (), f')" and "\<And>n. accepted env path n = n"
  shows "\<exists>pem. f' path = Some (Regular pem 0x180)
    \<and> (if pw = None \<or> pw = Some [] then pk_to_pem_pkcs8 ops key = Ok pem
       else pk_to_pem_pkcs8_passphrase ops key (the pw) = Ok pem)"
proof -
  from assms(1) obtain f1 pem f2 n where c: "file_create env f path = Ok f1"
    and pem: "(case pw of Some p \<Rightarrow> if p = [] then map_err Crypto (pk_to_pem_pkcs8 ops key)
            else map_err Crypto (pk_to_pem_pkcs8_passphrase ops key p)
        | None \<Rightarrow> map_err Crypto (pk_to_pem_pkcs8 ops key)) = Ok pem"
    and w: "file_write env f1 path pem = Ok (f2, n)" and s: "set_permissions env f2 path 0x180 = Ok f'"
    by (auto simp: write_key_pair_def act_bind_Ok_iff act_lift_Ok_iff fs_step_Ok_iff and_then_Ok_iff)
  from c obtain m where "f1 path = Some (Regular [] m)"
    by (auto simp: file_create_def split: option.splits node.splits)
  with w assms(2) have "f2 path = Some (Regular pem m)"
    by (auto simp: file_write_def Let_def)
  with s have "f' path = Some (Regular pem 0x180)"
    by (auto simp: set_permissions_def)
  with pem show ?thesis by (auto split: option.splits if_splits)
qed

text \<open>A key pair written by \<open>write_key_pair\<close> is readable by its owner only, and \<open>load_key_pair\<close>
  with the same passphrase gives the key and its public half back; an empty passphrase is the same
  as none.\<close>

theorem key_pair_roundtrip:
  assumes "pem_inverse ops" and "pkey_pub_from_priv ops key = Ok pub"
    and "write_key_pair env ops key path pw f = (Ok (), f')"
    and "\<And>n. accepted env path n = n" and "fault env Op_read path = None"
    and "pw' = pw \<or> {pw, pw'} \<subseteq> {None, Some []}"
  shows "load_key_pair env ops f' path pw' = Ok (pub, key)
    \<and> (\<exists>pem. f' path = Some (Regular pem 0x180))"
proof -
  from write_key_pair_file [OF assms(3,4)] obtain pem where f': "f' path = Some (Regular pem 0x180)"
    and pem: "if pw = None \<or> pw = Some [] then pk_to_pem_pkcs8 ops key = Ok pem
       else pk_to_pem_pkcs8_passphrase ops key (the pw) = Ok pem" by blast
  have read: "read_file env f' path = Ok pem" using f' assms(5) by (simp add: read_file_def)
  show ?thesis
  proof (cases "pw = None \<or> pw = Some []")
    case True
    then have "pw' = None \<or> pw' = Some []" using assms(6) by auto
    moreover have "pk_from_pem ops pem = Ok key" using True pem assms(1) by (simp add: pem_inverse_def)
    ultimately show ?thesis using read f' assms(2) by (auto simp: load_key_pair_def)
  next
    case False
    then have "pw' = pw" and "pk_from_pem_passphrase ops pem (the pw) = Ok key"
      using pem assms(1,6) by (auto simp: pem_inverse_def)
    moreover from False obtain p where "pw = Some p" and "p \<noteq> []" by auto
    ultimately show ?thesis using read f' assms(2) by (simp add: load_key_pair_def)
  qed
qed

text \<open>Keys that are their own text.\<close>

definition pkey_ops_ref :: "(string, string) pkey_ops" where
  "pkey_ops_ref =
     \<lparr>pk_id = \<lambda>_. Id_RSA, pk_id_debug = \<lambda>_. ''RSA'', pk_rsa_components = \<lambda>k. Ok (as_bytes k, []),
      pk_from_components = \<lambda>n e. Ok ''pub'', pk_from_pem = Ok,
      pk_from_pem_passphrase = \<lambda>pem pw. Ok (drop (length pw) pem), pk_to_pem_pkcs8 = Ok,
      pk_to_pem_pkcs8_passphrase = \<lambda>k pw. Ok (pw @ k), pk_generate_rsa = \<lambda>n. Ok (show_nat n),
      pk_pub_to_pem = Ok\<rparr>"

theorem key_pair_roundtrip_witness:
  "\<exists>f'. write_key_pair quiet pkey_ops_ref ''key'' ''/k'' (Some ''pw'') Map.empty = (Ok (), f')
     \<and> load_key_pair quiet pkey_ops_ref f' ''/k'' (Some ''pw'') = Ok (''pub'', ''key'')"
proof -
  obtain f' where f': "write_key_pair quiet pkey_ops_ref ''key'' ''/k'' (Some ''pw'') Map.empty = (Ok (), f')"
    by (simp add: write_key_pair_def act_bind_def act_lift_def fs_step_def file_create_def file_write_def set_permissions_def
        pkey_ops_ref_def)
  have "pkey_pub_from_priv pkey_ops_ref ''key'' = Ok ''pub''" and "pem_inverse pkey_ops_ref"
    by (simp_all add: pkey_pub_from_priv_def pem_inverse_def pkey_ops_ref_def)
  from key_pair_roundtrip [OF this(2,1) f', of "Some ''pw''"] f' show ?thesis
    by (simp add: quiet_def)
qed

end
