(* ===== verification/Ima_Emulator.thy ===== *)
theory Ima_Emulator
  imports Measurement_List Tpm_Quote Crypto_Ops "HOL-Library.AList" "HOL-Library.Sublist"
begin

text \<open>
  The IMA emulator (\<^verbatim>\<open>keylime-ima-emulator/src/main.rs\<close>): it extends PCR 10 of a software TPM with the
  template hashes of a measurement list, as the kernel does on a machine with a TPM, and continues
  where it stopped when it is started again. The TPM context, OpenSSL and the \<open>hex\<close> crate are
  parameters; the log is the contents found by each opening.
\<close>

section \<open>Extending\<close>

datatype emulator_error =
  VarError string
| TssEsapiError tss_error
| FromHexError string
| Emulator_AlgorithmError algorithm_error
| OpenSSLError string
| IoError io_error
| ParseInt int_error_kind
| Emulator_Other string

type_synonym ('c, 'a) emulator_act = "('c, 'a, emulator_error) act"

record ('h, 'c, 'sel, 'data) emulator_ops =
  eo_hex :: "string \<Rightarrow> u8 list option"
  eo_size :: "message_digest \<Rightarrow> nat"
  eo_hash :: "message_digest \<Rightarrow> u8 list \<Rightarrow> (u8 list, string) outcome"
  eo_hasher :: "'h hasher_ops"
  eo_digest_from :: "u8 list \<Rightarrow> (u8 list, tss_error) outcome"
  eo_extend :: "hashing_algorithm \<Rightarrow> u8 list \<Rightarrow> ('c, unit, tss_error) act"
  eo_build_sel :: "hashing_algorithm \<Rightarrow> ('sel, tss_error) outcome"
  eo_read_all :: "'sel \<Rightarrow> ('c, 'data, tss_error) act"
  eo_bank_digest :: "'data \<Rightarrow> hashing_algorithm \<Rightarrow> u8 list option option"
  eo_vendor :: "('c, string, tss_error) act"

definition tpm_call :: "('c, 'a, tss_error) act \<Rightarrow> ('c, 'a) emulator_act" where
  "tpm_call f c = (case f c of (r, c') \<Rightarrow> (map_err TssEsapiError r, c'))"

lemma tpm_call_Ok_iff: "tpm_call f c = (Ok x, c') \<longleftrightarrow> f c = (Ok x, c')"
  by (auto simp: tpm_call_def split: prod.splits)

text \<open>The value that is extended for an entry: all ones for a violation, else the hash of the event, once the
  hash of the list was found to be right.\<close>

definition pcr_template_hash ::
  "('h, 'c, 'sel, 'data) emulator_ops \<Rightarrow> hash_algorithm \<Rightarrow> hash_algorithm \<Rightarrow> ima_entry \<Rightarrow> (u8 list, emulator_error) outcome" where
  "pcr_template_hash ops ima_hash_alg pcr_hash_alg entry =
     (if template_hash entry = digest_start (eo_size ops) ima_hash_alg then
        map_err TssEsapiError (eo_digest_from ops (digest_value (digest_ff (eo_size ops) pcr_hash_alg)))
      else
        and_then (map_err IoError (event_encode (event_data entry))) (\<lambda>event_data.
        and_then (map_err OpenSSLError (eo_hash ops (message_digest_from_hash pcr_hash_alg) event_data)) (\<lambda>pcr_event_hash.
        and_then (map_err OpenSSLError (eo_hash ops (message_digest_from_hash ima_hash_alg) event_data)) (\<lambda>ima_event_hash.
        if ima_event_hash \<noteq> digest_value (template_hash entry) then
          Err (Emulator_Other (''IMA template hash doesn'' @ [CHR 0x27] @ ''t match''))
        else map_err TssEsapiError (eo_digest_from ops pcr_event_hash)))))"

text \<open>The next value of a PCR: the hash of the old value and the extended one.\<close>

definition running_digest ::
  "('h, 'c, 'sel, 'data) emulator_ops \<Rightarrow> hash_algorithm \<Rightarrow> u8 list \<Rightarrow> u8 list \<Rightarrow> (ima_digest, emulator_error) outcome" where
  "running_digest ops alg running v =
     (let ho = eo_hasher ops in
      and_then (map_err OpenSSLError (hasher_new ho (message_digest_from_hash alg))) (\<lambda>h0.
      and_then (map_err OpenSSLError (hasher_update ho h0 running)) (\<lambda>h1.
      and_then (map_err OpenSSLError (hasher_update ho h1 v)) (\<lambda>h2.
      and_then (map_err OpenSSLError (hasher_finish ho h2)) (\<lambda>d.
      map_err IoError (digest_new (eo_size ops) alg d))))))"

definition not_utf8_line :: emulator_error where
  "not_utf8_line = IoError (Io_error Other_kind ''stream did not contain valid UTF-8'')"

text \<open>The loop over the lines after \<open>position\<close>; with a digest to search for, it does not extend but replays the
  list until the digest is met.\<close>

fun extend_lines ::
  "('h, 'c, 'sel, 'data) emulator_ops \<Rightarrow> hash_algorithm \<Rightarrow> hash_algorithm \<Rightarrow> u8 list option
   \<Rightarrow> string list \<Rightarrow> nat \<Rightarrow> u8 list \<Rightarrow> ('c, nat) emulator_act" where
  "extend_lines ops ima pcr search [] position running =
     (case search of
        None \<Rightarrow> act_lift (Ok position)
      | Some _ \<Rightarrow> act_lift (Err (Emulator_Other
          ''Unable to find current measurement list position, Resetting the TPM emulator may be neccesary'')))"
| "extend_lines ops ima pcr search (line # ls) position running =
     (if \<not> is_utf8 line then act_lift (Err not_utf8_line)
      else if line = [] then extend_lines ops ima pcr search ls position running
      else
        act_bind (act_lift (map_err IoError (entry_try_from (eo_hex ops) line))) (\<lambda>entry.
        act_bind (act_lift (pcr_template_hash ops ima pcr entry)) (\<lambda>v.
        case search of
          None \<Rightarrow>
            act_bind (tpm_call (eo_extend ops (hashing_from_hash pcr) v)) (\<lambda>_.
            extend_lines ops ima pcr search ls (position + 1) running)
        | Some search_hash \<Rightarrow>
            act_bind (act_lift (running_digest ops pcr running v)) (\<lambda>running'.
            act_bind (act_lift (map_err TssEsapiError (eo_digest_from ops (digest_value running')))) (\<lambda>digest.
            if digest = search_hash then act_lift (Ok (position + 1))
            else extend_lines ops ima pcr search ls (position + 1) (digest_value running'))))))"

definition ml_extend ::
  "('h, 'c, 'sel, 'data) emulator_ops \<Rightarrow> (string, io_error) outcome \<Rightarrow> nat \<Rightarrow> hash_algorithm \<Rightarrow> hash_algorithm
   \<Rightarrow> u8 list option \<Rightarrow> ('c, nat) emulator_act" where
  "ml_extend ops ml position ima_hash_alg pcr_hash_alg search_hash =
     act_bind (act_lift (map_err IoError ml)) (\<lambda>f.
     extend_lines ops ima_hash_alg pcr_hash_alg search_hash (drop position (read_lines f)) position
       (digest_value (digest_start (eo_size ops) pcr_hash_alg)))"

section \<open>The program\<close>

text \<open>The banks and their positions are a \<open>HashMap\<close>: an association list without duplicate keys, in any order.\<close>

type_synonym positions = "(hash_algorithm \<times> nat) list"

record emulator_args =
  hash_algs :: "string list"
  arg_ima_hash_alg :: string

definition initial_positions ::
  "(hash_algorithm \<times> nat) iteration_order \<Rightarrow> string list \<Rightarrow> (positions, emulator_error) outcome" where
  "initial_positions ord algs =
     and_then (try_fold (\<lambda>ps a.
         and_then (map_err Emulator_AlgorithmError (hash_algorithm_try_from a)) (\<lambda>alg. Ok (AList.update alg 0 ps))) [] algs)
       (\<lambda>ps. Ok (iterate ord ps))"

text \<open>A bank that is not empty is searched for in the list.\<close>

definition find_position ::
  "('h, 'c, 'sel, 'data) emulator_ops \<Rightarrow> (string, io_error) outcome \<Rightarrow> hash_algorithm \<Rightarrow> hash_algorithm \<times> nat
   \<Rightarrow> ('c, hash_algorithm \<times> nat) emulator_act" where
  "find_position ops ml ima_hash_alg p =
     (let alg = fst p; h = hashing_from_hash alg
      in act_bind (act_lift (map_err TssEsapiError (eo_build_sel ops h))) (\<lambda>pcr_list.
         act_bind (tpm_call (eo_read_all ops pcr_list)) (\<lambda>pcr_data.
         act_bind (act_lift (ok_or (Emulator_Other (''IMA slot does not have '' @ hash_algorithm_to_string alg @ '' bank''))
                     (eo_bank_digest ops pcr_data h))) (\<lambda>bank.
         act_bind (act_lift (ok_or (Emulator_Other ''could not read value from IMA PCR'') bank)) (\<lambda>digest.
         if digest \<noteq> replicate (eo_size ops (message_digest_from_hash alg)) 0 then
           act_bind (ml_extend ops ml (snd p) ima_hash_alg alg (Some digest)) (\<lambda>n. act_lift (Ok (alg, n)))
         else act_lift (Ok p))))))"

fun for_each :: "('a \<Rightarrow> ('c, 'a) emulator_act) \<Rightarrow> 'a list \<Rightarrow> ('c, 'a list) emulator_act" where
  "for_each f [] = act_lift (Ok [])"
| "for_each f (p # ps) = act_bind (f p) (\<lambda>q. act_bind (for_each f ps) (\<lambda>qs. act_lift (Ok (q # qs))))"

text \<open>One round of monitoring; a failure to extend is unwrapped.\<close>

definition extend_position ::
  "('h, 'c, 'sel, 'data) emulator_ops \<Rightarrow> (string, io_error) outcome \<Rightarrow> hash_algorithm \<Rightarrow> hash_algorithm \<times> nat
   \<Rightarrow> ('c, hash_algorithm \<times> nat) emulator_act" where
  "extend_position ops ml ima_hash_alg p c =
     (case ml_extend ops ml (snd p) ima_hash_alg (fst p) None c of
        (r, c') \<Rightarrow> (unwrap (and_then r (\<lambda>n. Ok (fst p, n))), c'))"

fun monitor ::
  "('h, 'c, 'sel, 'data) emulator_ops \<Rightarrow> hash_algorithm \<Rightarrow> (string, io_error) outcome list \<Rightarrow> positions
   \<Rightarrow> ('c, positions) emulator_act" where
  "monitor ops ima [] ps = act_lift (Ok ps)"
| "monitor ops ima (ml # mls) ps = act_bind (for_each (extend_position ops ml ima) ps) (monitor ops ima mls)"

text \<open>The program once it is connected: \<open>ml0\<close> is the log at the start, \<open>mls\<close> the log in each round until it is
  told to stop.\<close>

definition emulator_main ::
  "('h, 'c, 'sel, 'data) emulator_ops \<Rightarrow> (hash_algorithm \<times> nat) iteration_order \<Rightarrow> emulator_args
   \<Rightarrow> (string, io_error) outcome \<Rightarrow> (string, io_error) outcome list \<Rightarrow> ('c, positions) emulator_act" where
  "emulator_main ops ord args ml0 mls =
     act_bind (tpm_call (eo_vendor ops)) (\<lambda>vendor.
     if \<not> contains ''SW'' vendor then
       act_lift (Err (Emulator_Other ''This stub should only be used with a TPM emulator''))
     else
       act_bind (act_lift (map_err Emulator_AlgorithmError (hash_algorithm_try_from (arg_ima_hash_alg args)))) (\<lambda>ima.
       act_bind (act_lift (initial_positions ord (hash_algs args))) (\<lambda>ps.
       act_bind (for_each (find_position ops ml0 ima) ps) (\<lambda>ps'.
       monitor ops ima mls ps'))))"

section \<open>A list that grows\<close>

declare act_bind_lift [simp]

text \<open>Extending by a list in two parts, however the first part ends.\<close>

lemma extend_lines_append:
  assumes "[] \<notin> set xs"
  shows "extend_lines ops ima pcr None (xs @ ys) position running
    = act_bind (extend_lines ops ima pcr None xs position running)
        (\<lambda>p. extend_lines ops ima pcr None ys p running)"
  using assms
proof (induction xs arbitrary: position)
  case (Cons x xs)
  then have x: "x \<noteq> []" by auto
  have IH: "extend_lines ops ima pcr None (xs @ ys) p running
      = act_bind (extend_lines ops ima pcr None xs p running) (\<lambda>q. extend_lines ops ima pcr None ys q running)" for p
    using Cons by simp
  show ?case by (simp add: x IH act_bind_assoc)
qed simp

lemma extend_lines_position:
  assumes "extend_lines ops ima pcr None xs position running c = (Ok p, c')" and "[] \<notin> set xs"
  shows "p = position + length xs"
  using assms
proof (induction xs arbitrary: position c)
  case Nil
  then show ?case by (simp add: act_lift_Ok_iff)
next
  case (Cons x xs)
  then obtain c1 where "extend_lines ops ima pcr None xs (position + 1) running c1 = (Ok p, c')"
    by (auto simp: act_bind_Ok_iff act_lift_def split: if_splits)
  then show ?case using Cons by fastforce
qed

text \<open>\<^bold>\<open>C32\<close>: extending a list as it grows is the same as extending the grown list at once: when the log was read
  up to a complete line, continuing at the returned position after more was appended does exactly what
  one pass over the whole log does, failures of the TPM and lines that do not parse included. (No line
  of the first part is empty.)\<close>

theorem emulator_incremental:
  assumes "complete_lines f" and "[] \<notin> set (drop p (read_lines f))" and "p \<le> length (read_lines f)"
  shows "act_bind (ml_extend ops (Ok f) p ima pcr None) (\<lambda>q. ml_extend ops (Ok (f @ g)) q ima pcr None) c
    = ml_extend ops (Ok (f @ g)) p ima pcr None c"
proof -
  let ?zero = "digest_value (digest_start (eo_size ops) pcr)"
  have "act_bind (extend_lines ops ima pcr None (drop p (read_lines f)) p ?zero)
      (\<lambda>q. extend_lines ops ima pcr None (drop q (read_lines f @ read_lines g)) q ?zero) c
    = act_bind (extend_lines ops ima pcr None (drop p (read_lines f)) p ?zero)
      (\<lambda>q. extend_lines ops ima pcr None (read_lines g) q ?zero) c"
  proof (rule act_bind_cong_Ok)
    fix q c'
    assume "extend_lines ops ima pcr None (drop p (read_lines f)) p ?zero c = (Ok q, c')"
    then have "q = length (read_lines f)" using extend_lines_position [OF _ assms(2)] assms(3) by fastforce
    then show "extend_lines ops ima pcr None (drop q (read_lines f @ read_lines g)) q ?zero c'
      = extend_lines ops ima pcr None (read_lines g) q ?zero c'" by simp
  qed
  then show ?thesis
    using assms(3)
    by (simp add: ml_extend_def read_lines_append [OF assms(1)] extend_lines_append [OF assms(2)])
qed

section \<open>The PCR follows the log\<close>

text \<open>The value a PCR has after the kernel extended it, from \<open>h\<close>, with every entry of a log.\<close>

fun replay ::
  "('h, 'c, 'sel, 'data) emulator_ops \<Rightarrow> hash_algorithm \<Rightarrow> hash_algorithm \<Rightarrow> string list \<Rightarrow> u8 list
   \<Rightarrow> (u8 list, emulator_error) outcome" where
  "replay ops ima pcr [] h = Ok h"
| "replay ops ima pcr (line # ls) h =
     and_then (map_err IoError (entry_try_from (eo_hex ops) line)) (\<lambda>entry.
     and_then (pcr_template_hash ops ima pcr entry) (\<lambda>v.
     and_then (running_digest ops pcr h v) (\<lambda>d. replay ops ima pcr ls (digest_value d))))"

text \<open>What is documented of the TPM: extending hashes the old value with the new one, reading and asking for the
  vendor change nothing, and \<open>Digest::try_from\<close> keeps the bytes. \<open>val\<close> is the value of PCR 10 in the bank.\<close>

definition tpm_laws :: "('h, 'c, 'sel, 'data) emulator_ops \<Rightarrow> hash_algorithm \<Rightarrow> ('c \<Rightarrow> u8 list) \<Rightarrow> bool" where
  "tpm_laws ops alg val \<longleftrightarrow>
     (\<forall>v c c'. eo_extend ops (hashing_from_hash alg) v c = (Ok (), c')
        \<longrightarrow> (\<exists>d. running_digest ops alg (val c) v = Ok d \<and> digest_value d = val c'))
     \<and> (\<forall>sel c data c'. eo_read_all ops sel c = (Ok data, c')
        \<longrightarrow> val c' = val c \<and> (\<forall>d. eo_bank_digest ops data (hashing_from_hash alg) = Some (Some d) \<longrightarrow> d = val c))
     \<and> (\<forall>c r c'. eo_vendor ops c = (r, c') \<longrightarrow> val c' = val c)
     \<and> (\<forall>v w. eo_digest_from ops v = Ok w \<longrightarrow> w = v)"

lemma replay_append:
  "replay ops ima pcr (xs @ ys) h = and_then (replay ops ima pcr xs h) (replay ops ima pcr ys)"
proof (induction xs arbitrary: h)
  case (Cons x xs)
  have assoc: "and_then (and_then r f) g = and_then r (\<lambda>x. and_then (f x) g)" for r f g
    by (cases r) auto
  show ?case by (simp add: Cons assoc)
qed simp

lemma extend_lines_replay:
  assumes "tpm_laws ops alg val" and "[] \<notin> set xs"
    and "extend_lines ops ima alg None xs position running c = (Ok p, c')"
  shows "replay ops ima alg xs (val c) = Ok (val c')"
  using assms(2,3)
proof (induction xs arbitrary: position c)
  case Nil
  then show ?case by (simp add: act_lift_Ok_iff)
next
  case (Cons x xs)
  then obtain entry v c1 where "entry_try_from (eo_hex ops) x = Ok entry"
    and "pcr_template_hash ops ima alg entry = Ok v" and e: "eo_extend ops (hashing_from_hash alg) v c = (Ok (), c1)"
    and "extend_lines ops ima alg None xs (position + 1) running c1 = (Ok p, c')"
    by (auto simp: act_bind_Ok_iff act_lift_Ok_iff tpm_call_Ok_iff split: if_splits)
  moreover obtain d where "running_digest ops alg (val c) v = Ok d" and "digest_value d = val c1"
    using assms(1) e unfolding tpm_laws_def by blast
  ultimately show ?case using Cons by auto
qed

lemma search_lines_replay:
  assumes "tpm_laws ops alg val" and "[] \<notin> set xs"
    and "extend_lines ops ima alg (Some s) xs position running c = (Ok p, c')"
  shows "c' = c \<and> position \<le> p \<and> p \<le> position + length xs
    \<and> replay ops ima alg (take (p - position) xs) running = Ok s"
  using assms(2,3)
proof (induction xs arbitrary: position running)
  case Nil
  then show ?case by (simp add: act_lift_Ok_iff)
next
  case (Cons x xs)
  then obtain entry v r d where x: "entry_try_from (eo_hex ops) x = Ok entry"
    "pcr_template_hash ops ima alg entry = Ok v" "running_digest ops alg running v = Ok r"
    and d: "eo_digest_from ops (digest_value r) = Ok d"
    and k: "(if d = s then act_lift (Ok (position + 1))
       else extend_lines ops ima alg (Some s) xs (position + 1) (digest_value r)) c = (Ok p, c')"
    by (auto simp: act_bind_Ok_iff act_lift_Ok_iff split: if_splits)
  have d': "d = digest_value r" using assms(1) d unfolding tpm_laws_def by blast
  show ?case
  proof (cases "d = s")
    case True
    then have "p = Suc position" "c' = c" using k by (simp_all add: act_lift_Ok_iff)
    then show ?thesis using x d' True by simp
  next
    case False
    then have IH: "c' = c" "position + 1 \<le> p" "p \<le> position + 1 + length xs"
      "replay ops ima alg (take (p - (position + 1)) xs) (digest_value r) = Ok s"
      using Cons.IH [of "position + 1" "digest_value r"] Cons.prems(1) k by auto
    moreover have "take (p - position) (x # xs) = x # take (p - (position + 1)) xs"
      using IH(2) Suc_diff_Suc [of position p] by (simp flip: Suc_diff_Suc)
    ultimately show ?thesis using x by simp
  qed
qed

text \<open>A bank is in step with a log when its value is the replay of the log and the position is its end.\<close>

definition in_step ::
  "('h, 'c, 'sel, 'data) emulator_ops \<Rightarrow> hash_algorithm \<Rightarrow> hash_algorithm \<Rightarrow> ('c \<Rightarrow> u8 list) \<Rightarrow> string list \<Rightarrow> nat \<Rightarrow> 'c \<Rightarrow> bool" where
  "in_step ops ima alg val ls p c \<longleftrightarrow>
     p \<le> length ls \<and> replay ops ima alg (take p ls) (digest_value (digest_start (eo_size ops) alg)) = Ok (val c)"

lemma find_position_in_step:
  assumes "tpm_laws ops alg val" and "[] \<notin> set (read_lines f)"
    and "find_position ops (Ok f) ima (alg, 0) c = (Ok q, c')"
  shows "\<exists>p. q = (alg, p) \<and> in_step ops ima alg val (read_lines f) p c'"
proof -
  let ?zero = "digest_value (digest_start (eo_size ops) alg)"
  from assms(3) obtain sel data d c1 where r: "eo_read_all ops sel c = (Ok data, c1)"
    and d: "eo_bank_digest ops data (hashing_from_hash alg) = Some (Some d)"
    and k: "(if d \<noteq> ?zero then act_bind (ml_extend ops (Ok f) 0 ima alg (Some d)) (\<lambda>n. act_lift (Ok (alg, n)))
         else act_lift (Ok (alg, 0))) c1 = (Ok q, c')"
    by (auto simp: find_position_def act_bind_Ok_iff act_lift_Ok_iff tpm_call_Ok_iff digest_start_def Let_def
        cong del: if_weak_cong)
  have v: "d = val c" "val c1 = val c" using assms(1) r d unfolding tpm_laws_def by blast+
  show ?thesis
  proof (cases "d = ?zero")
    case True
    then show ?thesis using k v by (auto simp: act_lift_Ok_iff in_step_def)
  next
    case False
    then obtain p where p: "extend_lines ops ima alg (Some d) (read_lines f) 0 ?zero c1 = (Ok p, c')" and "q = (alg, p)"
      using k by (auto simp: act_bind_Ok_iff act_lift_Ok_iff ml_extend_def)
    then show ?thesis using search_lines_replay [OF assms(1,2) p] v by (simp add: in_step_def)
  qed
qed

lemma ml_extend_in_step:
  assumes "tpm_laws ops alg val" and "[] \<notin> set (read_lines g)" and "prefix f g" and "complete_lines f"
    and "in_step ops ima alg val (read_lines f) p c"
    and "ml_extend ops (Ok g) p ima alg None c = (Ok q, c')"
  shows "q = length (read_lines g) \<and> in_step ops ima alg val (read_lines g) q c'"
proof -
  let ?zero = "digest_value (digest_start (eo_size ops) alg)"
  from assms(3) obtain h where "g = f @ h" by (auto simp: prefix_def)
  then have g: "read_lines g = read_lines f @ read_lines h" by (simp add: read_lines_append [OF assms(4)])
  have ne: "[] \<notin> set (drop p (read_lines g))" using assms(2) in_set_dropD by metis
  from assms(6) have e: "extend_lines ops ima alg None (drop p (read_lines g)) p ?zero c = (Ok q, c')"
    by (simp add: ml_extend_def)
  have p: "p \<le> length (read_lines f)" "replay ops ima alg (take p (read_lines g)) ?zero = Ok (val c)"
    using assms(5) g by (auto simp: in_step_def)
  have q: "q = length (read_lines g)" using extend_lines_position [OF e ne] p g by simp
  have "replay ops ima alg (take p (read_lines g) @ drop p (read_lines g)) ?zero = Ok (val c')"
    using extend_lines_replay [OF assms(1) ne e] p by (simp only: replay_append) simp
  then show ?thesis using q by (simp add: in_step_def)
qed

lemma monitor_in_step:
  assumes "tpm_laws ops alg val" and "in_step ops ima alg val (read_lines f) p c"
    and "sorted_wrt prefix (f # fs)" and "list_all complete_lines (f # fs)" and "[] \<notin> set (read_lines (last (f # fs)))"
    and "monitor ops ima (map Ok fs) [(alg, p)] c = (Ok ps, c')" and "fs \<noteq> []"
  shows "ps = [(alg, length (read_lines (last fs)))] \<and> in_step ops ima alg val (read_lines (last fs)) (length (read_lines (last fs))) c'"
  using assms(2-7)
proof (induction fs arbitrary: f p c)
  case (Cons g fs)
  from Cons.prems(5) obtain q c1 where q: "ml_extend ops (Ok g) p ima alg None c = (Ok q, c1)"
    and m: "monitor ops ima (map Ok fs) [(alg, q)] c1 = (Ok ps, c')"
    by (auto simp: act_bind_Ok_iff act_lift_Ok_iff extend_position_def and_then_Ok_iff split: prod.splits)
  have "prefix g (last (g # fs))" using Cons.prems(2) by (cases fs rule: rev_cases) auto
  then have ne: "[] \<notin> set (read_lines g)"
    using Cons.prems(3,4) by (auto simp: prefix_def read_lines_append)
  have step: "q = length (read_lines g) \<and> in_step ops ima alg val (read_lines g) q c1"
    by (rule ml_extend_in_step [OF assms(1) ne _ _ Cons.prems(1) q]) (use Cons.prems(2,3) in auto)
  show ?case
  proof (cases "fs = []")
    case True
    then show ?thesis using step m by (auto simp: act_lift_Ok_iff)
  next
    case False
    then show ?thesis using Cons.IH [OF conjunct2 [OF step] _ _ _ m] Cons.prems(2-4) by simp
  qed
qed simp


section \<open>What the emulator gets wrong\<close>

text \<open>An empty line is skipped without being counted, although the position counts lines: the entry after an
  empty line is extended again by the next call.\<close>

theorem empty_line_extends_twice:
  assumes "entry_try_from (eo_hex ops) l = Ok e" and "pcr_template_hash ops ima alg e = Ok v"
    and "newline \<notin> set l" and "l \<noteq> []" and "last l \<noteq> CHR 0x0D" and "is_utf8 l"
    and "\<And>c. fst (eo_extend ops (hashing_from_hash alg) v c) = Ok ()"
  shows "ml_extend ops (Ok (newline # l @ [newline])) 0 ima alg None c
      = (Ok 1, snd (eo_extend ops (hashing_from_hash alg) v c))
    \<and> ml_extend ops (Ok (newline # l @ [newline])) 1 ima alg None c
      = (Ok 2, snd (eo_extend ops (hashing_from_hash alg) v c))"
proof -
  have "read_lines (newline # l @ [newline]) = [[], l]"
    using assms(3-5) by (simp add: read_lines_def strip_cr_def)
  moreover have "tpm_call (eo_extend ops (hashing_from_hash alg) v) c
      = (Ok (), snd (eo_extend ops (hashing_from_hash alg) v c))" for c
    using assms(7) [of c] by (cases "eo_extend ops (hashing_from_hash alg) v c") (simp add: tpm_call_def)
  ultimately show ?thesis
    using assms(1,2,4,6) by (simp add: ml_extend_def act_bind_def act_lift_def is_utf8_def)
qed

text \<open>The parser labels every template hash as SHA-1, so with another IMA hash algorithm a violation is never
  recognised.\<close>

lemma violation_needs_sha1:
  assumes "entry_try_from hex line = Ok e" and "ima \<noteq> Sha1"
  shows "template_hash e \<noteq> digest_start md_size ima"
  using assms
  by (auto simp: entry_try_from_def digest_start_def and_then_Ok_iff Let_def split: list.splits if_splits)

section \<open>An emulator\<close>

text \<open>A TPM with one PCR, hashes of 20 bytes that add up their input, and a log of two entries.\<close>

definition emulator_ops_ref :: "(u8 list, u8 list, unit, u8 list) emulator_ops" where
  "emulator_ops_ref =
     (let h = \<lparr>hasher_new = \<lambda>_. Ok [], hasher_update = \<lambda>h v. Ok (h @ v),
               hasher_finish = \<lambda>h. Ok (replicate 20 (sum_list h))\<rparr>
      in \<lparr>eo_hex = \<lambda>_. Some (replicate 20 7), eo_size = \<lambda>_. 20, eo_hash = \<lambda>_ _. Ok (replicate 20 7),
          eo_hasher = h, eo_digest_from = Ok,
          eo_extend = \<lambda>_ v c. (Ok (), replicate 20 (sum_list (c @ v))),
          eo_build_sel = \<lambda>_. Ok (), eo_read_all = \<lambda>_ c. (Ok c, c), eo_bank_digest = \<lambda>d _. Some (Some d),
          eo_vendor = \<lambda>c. (Ok ''SW'', c)\<rparr>)"

definition log_line_ref :: string where
  "log_line_ref = ''10 a ima-ng b /init''"

definition log_ref :: "nat \<Rightarrow> string" where
  "log_ref n = concat (replicate n (log_line_ref @ [newline]))"

lemma emulator_ops_ref_laws: "tpm_laws emulator_ops_ref Sha1 (\<lambda>c. c)"
  by (simp add: tpm_laws_def emulator_ops_ref_def running_digest_def digest_new_def Let_def)

lemma emulator_main_ref:
  "emulator_main emulator_ops_ref insertion_order \<lparr>hash_algs = [''sha1''], arg_ima_hash_alg = ''sha1''\<rparr>
     (Ok (log_ref 1)) (map Ok [log_ref 1, log_ref 2]) (replicate 20 140) = (Ok [(Sha1, 2)], replicate 20 124)"
  by code_simp

lemma log_ref_lines:
  "read_lines (log_ref 1) = [log_line_ref]" "read_lines (log_ref 2) = [log_line_ref, log_line_ref]"
  "log_line_ref \<noteq> []" "complete_lines (log_ref 1)" "complete_lines (log_ref 2)" "prefix (log_ref 1) (log_ref 2)"
  by code_simp+

theorem emulator_incremental_witness:
  "act_bind (ml_extend emulator_ops_ref (Ok (log_ref 1)) 0 Sha1 Sha1 None)
     (\<lambda>q. ml_extend emulator_ops_ref (Ok (log_ref 1 @ log_ref 1)) q Sha1 Sha1 None) (replicate 20 0)
   = ml_extend emulator_ops_ref (Ok (log_ref 1 @ log_ref 1)) 0 Sha1 Sha1 None (replicate 20 0)
   \<and> [] \<notin> set (read_lines (log_ref 1))"
  using emulator_incremental [OF log_ref_lines(4), of 0] log_ref_lines by simp


theorem empty_line_extends_twice_witness:
  "ml_extend emulator_ops_ref (Ok (newline # log_line_ref @ [newline])) 0 Sha1 Sha1 None (replicate 20 0) = (Ok 1, replicate 20 140)
   \<and> ml_extend emulator_ops_ref (Ok (newline # log_line_ref @ [newline])) 1 Sha1 Sha1 None (replicate 20 140) = (Ok 2, replicate 20 124)"
proof -
  obtain e where e: "entry_try_from (eo_hex emulator_ops_ref) log_line_ref = Ok e"
    and v: "pcr_template_hash emulator_ops_ref Sha1 Sha1 e = Ok (replicate 20 7)"
  proof -
    have "and_then (entry_try_from (eo_hex emulator_ops_ref) log_line_ref) (\<lambda>e.
      map_err (\<lambda>_. Io_error NotFound []) (pcr_template_hash emulator_ops_ref Sha1 Sha1 e)) = Ok (replicate 20 7)" by code_simp
    then show thesis using that by (auto simp: and_then_Ok_iff)
  qed
  have l: "newline \<notin> set log_line_ref" "log_line_ref \<noteq> []" "last log_line_ref \<noteq> CHR 0x0D" "is_utf8 log_line_ref"
    by code_simp+
  have x: "eo_extend emulator_ops_ref h w c = (Ok (), replicate 20 (sum_list c + sum_list w))" for h w c
    by (simp add: emulator_ops_ref_def Let_def)
  have "sum_list (replicate 20 7 :: u8 list) = 140" "sum_list (replicate 20 140 :: u8 list) + 140 = 124"
    "sum_list (replicate 20 0 :: u8 list) = 0" by code_simp+
  then show ?thesis
    using empty_line_extends_twice [OF e v l, where c = "replicate 20 0"]
      empty_line_extends_twice [OF e v l, where c = "replicate 20 140"] by (simp add: x)
qed

end
