(* ===== verification/List_Parser.thy ===== *)
theory List_Parser
  imports Errors
begin

text \<open>
  The parser of string lists (\<^verbatim>\<open>keylime/src/list_parser.rs\<close> with its grammar \<^verbatim>\<open>list.pest\<close>), used for
  the revocation actions and the trusted certificates. The grammar is a parsing expression grammar:
  ordered choice, greedy repetition without backtracking, and white space skipped between the parts
  of a rule that is not atomic. Each rule is a function from the remaining input to the pair it
  produces and the rest. Texts are UTF-8 bytes; every character the grammar tests for is ASCII, so
  that taking bytes and taking characters agree.
\<close>

section \<open>Pairs\<close>

datatype grammar_rule =
  R_list | R_bracketed | R_unbracketed | R_single_content | R_single | R_double_content | R_double
  | R_unquoted | R_not_closer | R_bracketed_unquoted | R_name | R_bracketed_name | R_separator | R_EOI

datatype pair = Pair (as_rule: grammar_rule) (as_str: string) (into_inner: "pair list")

type_synonym parser = "string \<Rightarrow> (pair \<times> string) option"

section \<open>The grammar\<close>

definition is_whitespace :: "char \<Rightarrow> bool" where
  "is_whitespace c \<longleftrightarrow> c \<in> {CHR '' '', CHR 0x0A, CHR 0x0D, CHR 0x09}"

definition is_separator :: "char \<Rightarrow> bool" where
  "is_separator c \<longleftrightarrow> c = CHR '','' \<or> is_whitespace c"

definition skip :: "string \<Rightarrow> string" where
  "skip s = dropWhile is_whitespace s"

abbreviation single_quote :: char where "single_quote \<equiv> CHR 0x27"
abbreviation double_quote :: char where "double_quote \<equiv> CHR 0x22"

text \<open>\<open>single\<close> and \<open>double\<close>: everything up to the next quote, which must be there.\<close>

definition quoted :: "char \<Rightarrow> grammar_rule \<Rightarrow> grammar_rule \<Rightarrow> parser" where
  "quoted q rule content s =
     (case s of
        [] \<Rightarrow> None
      | c # r \<Rightarrow>
          if c \<noteq> q then None
          else
            let body = takeWhile (\<lambda>x. x \<noteq> q) r
            in case dropWhile (\<lambda>x. x \<noteq> q) r of
                 [] \<Rightarrow> None
               | _ # t \<Rightarrow> Some (Pair rule (q # body @ [q]) [Pair content body []], t))"

definition single :: parser where
  "single = quoted single_quote R_single R_single_content"

definition double :: parser where
  "double = quoted double_quote R_double R_double_content"

text \<open>\<open>unquoted\<close> and \<open>bracketed_unquoted\<close>: one or more characters up to a stop character.\<close>

definition run_of :: "(char \<Rightarrow> bool) \<Rightarrow> grammar_rule \<Rightarrow> parser" where
  "run_of stop rule s =
     (let body = takeWhile (\<lambda>c. \<not> stop c) s
      in if body = [] then None else Some (Pair rule body [], dropWhile (\<lambda>c. \<not> stop c) s))"

definition unquoted :: parser where
  "unquoted = run_of is_separator R_unquoted"

definition bracketed_unquoted :: parser where
  "bracketed_unquoted = run_of (\<lambda>c. is_separator c \<or> c = CHR '']'') R_bracketed_unquoted"

definition choice :: "parser \<Rightarrow> parser \<Rightarrow> parser" where
  "choice p q s = (case p s of Some r \<Rightarrow> Some r | None \<Rightarrow> q s)"

definition wrap :: "grammar_rule \<Rightarrow> parser \<Rightarrow> parser" where
  "wrap rule p s = map_option (\<lambda>(x, t). (Pair rule (as_str x) [x], t)) (p s)"

definition name :: parser where
  "name = wrap R_name (choice single (choice double unquoted))"

definition bracketed_name :: parser where
  "bracketed_name = wrap R_bracketed_name (choice single (choice double bracketed_unquoted))"

text \<open>\<open>"," ~ p\<close>.\<close>

definition after_comma :: "parser \<Rightarrow> parser" where
  "after_comma p s = (case s of c # r \<Rightarrow> if c = CHR '','' then p (skip r) else None | [] \<Rightarrow> None)"

text \<open>
  \<open>p*\<close>: as long as \<open>p\<close> matches, with white space skipped in between; the position before the white
  space is restored when no further match follows. A match that consumes nothing ends the loop (no
  rule of the grammar does that).
\<close>

function repeat_from :: "parser \<Rightarrow> string \<Rightarrow> pair list \<times> string" where
  "repeat_from p s =
     (case p (skip s) of
        None \<Rightarrow> ([], s)
      | Some (x, t) \<Rightarrow>
          if length t < length s then (let (xs, u) = repeat_from p t in (x # xs, u)) else ([x], t))"
  by pat_completeness auto
termination
  by (relation "measure (\<lambda>(p, s). length s)") auto

declare repeat_from.simps [simp del]

definition repeat :: "parser \<Rightarrow> string \<Rightarrow> pair list \<times> string" where
  "repeat p s =
     (case p s of
        None \<Rightarrow> ([], s)
      | Some (x, t) \<Rightarrow> (let (xs, u) = repeat_from p t in (x # xs, u)))"

definition optional_comma :: "string \<Rightarrow> string" where
  "optional_comma s = (case s of c # r \<Rightarrow> if c = CHR '','' then r else s | [] \<Rightarrow> s)"

text \<open>\<open>p* ~ ("," ~ p)* ~ ","?\<close>, the body of both forms of a list.\<close>

definition names :: "parser \<Rightarrow> string \<Rightarrow> pair list \<times> string" where
  "names p s =
     (let (xs, t) = repeat p s;
          (ys, u) = repeat (after_comma p) (skip t)
      in (xs @ ys, optional_comma (skip u)))"

definition consumed :: "string \<Rightarrow> string \<Rightarrow> string" where
  "consumed s t = take (length s - length t) s"

definition bracketed :: parser where
  "bracketed s =
     (case s of
        [] \<Rightarrow> None
      | c # r \<Rightarrow>
          if c \<noteq> CHR ''['' then None
          else
            let (xs, t) = names bracketed_name (skip r)
            in case skip t of
                 [] \<Rightarrow> None
               | d # u \<Rightarrow> if d = CHR '']'' then Some (Pair R_bracketed (consumed s u) xs, u) else None)"

definition unbracketed :: parser where
  "unbracketed s = (let (xs, t) = names name s in Some (Pair R_unbracketed (consumed s t) xs, t))"

definition list_rule :: "string \<Rightarrow> pair option" where
  "list_rule s =
     (case choice bracketed unbracketed (skip s) of
        None \<Rightarrow> None
      | Some (x, t) \<Rightarrow> if skip t = [] then Some (Pair R_list s [x, Pair R_EOI [] []]) else None)"

section \<open>The strings of a list\<close>

text \<open>The loop over the inner pairs; \<open>unreachable!\<close> is a panic.\<close>

fun get_inner_str :: "pair \<Rightarrow> (string list, agent_error) outcome"
and get_inner_strs :: "pair list \<Rightarrow> (string list, agent_error) outcome" where
  "get_inner_str (Pair r s inner) = get_inner_strs inner"
| "get_inner_strs [] = Ok []"
| "get_inner_strs (Pair r s inner # items) =
     (if r \<in> {R_list, R_bracketed, R_unbracketed, R_name, R_bracketed_name} then
        and_then (get_inner_str (Pair r s inner)) (\<lambda>l.
        and_then (get_inner_strs items) (\<lambda>ls. Ok (l @ ls)))
      else if r \<in> {R_single, R_double} then
        and_then (get_inner_str (Pair r s inner)) (\<lambda>c.
        and_then (get_inner_strs items) (\<lambda>ls. Ok (if c \<noteq> [] then s # ls else ls)))
      else if r \<in> {R_single_content, R_double_content, R_unquoted, R_bracketed_unquoted} then
        and_then (get_inner_strs items) (\<lambda>ls. Ok (if s \<noteq> [] then s # ls else ls))
      else if r = R_EOI then Ok []
      else Panic)"

text \<open>A text that does not match is an error; its description is a parameter.\<close>

definition parse_list :: "(string \<Rightarrow> string) \<Rightarrow> string \<Rightarrow> (string list, string) outcome" where
  "parse_list parse_error s =
     (case list_rule s of
        None \<Rightarrow> Err (''Parsing error: '' @ parse_error s)
      | Some p \<Rightarrow> (case get_inner_str p of Ok l \<Rightarrow> Ok l | _ \<Rightarrow> Panic))"

section \<open>Parsing never gets stuck\<close>

text \<open>A pair of one of the two name rules, whose strings can be collected.\<close>

definition name_pair :: "pair \<Rightarrow> bool" where
  "name_pair x \<longleftrightarrow> as_rule x \<in> {R_name, R_bracketed_name} \<and> (\<exists>l. get_inner_str x = Ok l)"

lemma quoted_inner:
  "quoted q rule content s = Some (x, t) \<Longrightarrow> rule \<in> {R_single, R_double} \<Longrightarrow>
     content \<in> {R_single_content, R_double_content} \<Longrightarrow> \<exists>l. get_inner_strs [x] = Ok l"
  by (auto simp: quoted_def Let_def split: list.splits if_splits)

lemma run_of_inner:
  "run_of stop rule s = Some (x, t) \<Longrightarrow> rule \<in> {R_unquoted, R_bracketed_unquoted} \<Longrightarrow>
     \<exists>l. get_inner_strs [x] = Ok l"
  by (auto simp: run_of_def Let_def split: if_splits)

lemma name_is_name_pair: "name s = Some (x, t) \<Longrightarrow> name_pair x"
  by (auto simp: name_def wrap_def choice_def single_def double_def unquoted_def name_pair_def
      dest: quoted_inner run_of_inner split: option.splits)

lemma bracketed_name_is_name_pair: "bracketed_name s = Some (x, t) \<Longrightarrow> name_pair x"
  by (auto simp: bracketed_name_def wrap_def choice_def single_def double_def bracketed_unquoted_def
      name_pair_def dest: quoted_inner run_of_inner split: option.splits)

lemma repeat_from_all:
  "(\<And>s x t. p s = Some (x, t) \<Longrightarrow> P x) \<Longrightarrow> repeat_from p s = (xs, u) \<Longrightarrow> list_all P xs"
proof (induction p s arbitrary: xs u rule: repeat_from.induct)
  case (1 p s)
  show ?case
  proof (cases "p (skip s)")
    case None
    then show ?thesis using "1.prems"(2) by (simp add: repeat_from.simps [of p s])
  next
    case (Some r)
    obtain x t where r: "r = (x, t)" by (cases r)
    obtain ys v where t: "repeat_from p t = (ys, v)" by force
    have "P x" using "1.prems"(1) Some r by blast
    moreover have "list_all P ys" if "length t < length s"
      using "1.IH" [OF Some r [symmetric] that _ t] "1.prems"(1) by blast
    ultimately show ?thesis
      using "1.prems"(2) Some r t by (auto simp: repeat_from.simps [of p s] split: if_splits)
  qed
qed

lemma repeat_all:
  assumes "\<And>s x t. p s = Some (x, t) \<Longrightarrow> P x" and "repeat p s = (xs, u)"
  shows "list_all P xs"
  using assms repeat_from_all [of p P, OF assms(1)]
  by (fastforce simp: repeat_def split: option.splits prod.splits)

lemma names_all:
  assumes "\<And>s x t. p s = Some (x, t) \<Longrightarrow> P x" and "names p s = (xs, u)"
  shows "list_all P xs"
proof -
  have "after_comma p s = Some (x, t) \<Longrightarrow> P x" for s x t
    using assms(1) by (auto simp: after_comma_def split: list.splits if_splits)
  from repeat_all [of "after_comma p" P, OF this] repeat_all [of p P, OF assms(1)] assms(2)
  show ?thesis by (fastforce simp: names_def split: prod.splits)
qed

lemma get_inner_strs_names:
  "list_all name_pair xs \<Longrightarrow> \<exists>l. get_inner_strs xs = Ok l"
proof (induction xs)
  case (Cons x xs)
  then show ?case by (cases x) (auto simp: name_pair_def)
qed simp

lemma names_inner:
  assumes "\<And>s x t. p s = Some (x, t) \<Longrightarrow> name_pair x" and "names p s = (xs, u)"
  shows "\<exists>l. get_inner_strs xs = Ok l"
  using get_inner_strs_names [OF names_all [OF assms]] .

lemma bracketed_inner:
  "bracketed s = Some (x, t) \<Longrightarrow> \<exists>xs l. x = Pair R_bracketed (as_str x) xs \<and> get_inner_strs xs = Ok l"
  using names_inner [of bracketed_name, OF bracketed_name_is_name_pair]
  by (auto simp: bracketed_def Let_def split: list.splits if_splits prod.splits)

lemma unbracketed_inner:
  "unbracketed s = Some (x, t) \<Longrightarrow> \<exists>xs l. x = Pair R_unbracketed (as_str x) xs \<and> get_inner_strs xs = Ok l"
  using names_inner [of name, OF name_is_name_pair]
  by (auto simp: unbracketed_def Let_def split: prod.splits)

lemma list_rule_inner: "list_rule s = Some x \<Longrightarrow> \<exists>l. get_inner_str x = Ok l"
proof -
  assume "list_rule s = Some x"
  then obtain y t where y: "choice bracketed unbracketed (skip s) = Some (y, t)"
    and x: "x = Pair R_list s [y, Pair R_EOI [] []]"
    by (auto simp: list_rule_def split: option.splits if_splits)
  have "\<exists>r u xs l. y = Pair r u xs \<and> r \<in> {R_bracketed, R_unbracketed} \<and> get_inner_strs xs = Ok l"
    using y bracketed_inner [of "skip s" y t] unbracketed_inner [of "skip s" y t]
    by (cases y) (auto simp: choice_def split: option.splits)
  then show ?thesis by (auto simp: x)
qed

section \<open>Lists of plain names\<close>

text \<open>
  A plain name is a non-empty text without stop characters that does not start with a quote; it ends
  where the text ends or a stop character follows.
\<close>

definition plain :: "(char \<Rightarrow> bool) \<Rightarrow> string \<Rightarrow> bool" where
  "plain stop n \<longleftrightarrow> n \<noteq> [] \<and> list_all (\<lambda>c. \<not> stop c) n \<and> hd n \<notin> {single_quote, double_quote}"

definition ends :: "(char \<Rightarrow> bool) \<Rightarrow> string \<Rightarrow> bool" where
  "ends stop s \<longleftrightarrow> s = [] \<or> stop (hd s)"

text \<open>The end of a list: nothing more, or a stop character that is not a separator.\<close>

definition closes :: "(char \<Rightarrow> bool) \<Rightarrow> string \<Rightarrow> bool" where
  "closes stop s \<longleftrightarrow> s = [] \<or> (stop (hd s) \<and> \<not> is_separator (hd s))"

definition leaf_pair :: "grammar_rule \<Rightarrow> grammar_rule \<Rightarrow> string \<Rightarrow> pair" where
  "leaf_pair rule leaf n = Pair rule n [Pair leaf n []]"

locale item_parser =
  fixes p :: parser and stop :: "char \<Rightarrow> bool" and rule leaf :: grammar_rule
  assumes item: "plain stop n \<Longrightarrow> ends stop s \<Longrightarrow> p (n @ s) = Some (leaf_pair rule leaf n, s)"
    and no_item: "ends stop s \<Longrightarrow> p s = None"
    and separator_stops: "is_separator c \<Longrightarrow> stop c"
begin

lemma closes_ends: "closes stop s \<Longrightarrow> ends stop s"
  by (auto simp: closes_def ends_def)

lemma skip_closes: "closes stop s \<Longrightarrow> skip s = s"
  by (cases s) (auto simp: closes_def skip_def is_separator_def)

lemma skip_plain: "plain stop n \<Longrightarrow> skip (n @ s) = n @ s"
  using separator_stops by (cases n) (auto simp: plain_def skip_def is_separator_def)

lemma skip_comma [simp]: "skip (CHR '','' # s) = CHR '','' # s"
  by (simp add: skip_def is_whitespace_def)

lemma skip_space [simp]: "skip (CHR '' '' # s) = skip s"
  by (simp add: skip_def is_whitespace_def)

lemma ends_comma [simp]: "ends stop (CHR '','' # s)" and ends_space [simp]: "ends stop (CHR '' '' # s)"
  using separator_stops by (auto simp: ends_def is_separator_def is_whitespace_def)

lemma comma_tail:
  assumes "list_all (plain stop) ns" and "closes stop s"
  shows "repeat_from (after_comma p) (concat (map (\<lambda>n. '', '' @ n) ns) @ s) = (map (leaf_pair rule leaf) ns, s)"
  using assms(1)
proof (induction ns)
  case Nil
  have "after_comma p s = None"
    using assms(2) by (cases s) (auto simp: after_comma_def closes_def is_separator_def)
  then show ?case using assms(2) by (simp add: repeat_from.simps skip_closes)
next
  case (Cons n ns)
  let ?r = "concat (map (\<lambda>n. '', '' @ n) ns) @ s"
  have "ends stop ?r" using closes_ends [OF assms(2)] by (cases ns) simp_all
  then have "p (n @ ?r) = Some (leaf_pair rule leaf n, ?r)" using item Cons.prems by simp
  then have "after_comma p ('', '' @ n @ ?r) = Some (leaf_pair rule leaf n, ?r)"
    using Cons.prems by (simp add: after_comma_def skip_plain)
  then show ?case using Cons by (simp add: repeat_from.simps [of _ "CHR '','' # _"])
qed

lemma space_tail:
  assumes "list_all (plain stop) ns" and "closes stop s"
  shows "repeat_from p (concat (map (\<lambda>n. '' '' @ n) ns) @ s) = (map (leaf_pair rule leaf) ns, s)"
  using assms(1)
proof (induction ns)
  case Nil
  then show ?case using assms(2) by (simp add: repeat_from.simps skip_closes no_item closes_ends)
next
  case (Cons n ns)
  let ?r = "concat (map (\<lambda>n. '' '' @ n) ns) @ s"
  have "ends stop ?r" using closes_ends [OF assms(2)] by (cases ns) simp_all
  then have "p (n @ ?r) = Some (leaf_pair rule leaf n, ?r)" using item Cons.prems by simp
  then show ?case using Cons by (simp add: repeat_from.simps [of _ "CHR '' '' # _"] skip_plain)
qed

lemma repeat_skipped:
  assumes "skip s = s" and "\<And>x t. q s = Some (x, t) \<Longrightarrow> length t < length s"
  shows "repeat q s = repeat_from q s"
  using assms by (cases "q s") (auto simp: repeat_def repeat_from.simps [of q s])

lemma names_commas:
  assumes "list_all (plain stop) ns" and "closes stop s"
  shows "names p (join '', '' ns @ s) = (map (leaf_pair rule leaf) ns, s)"
proof -
  have closed: "after_comma p s = None" "optional_comma s = s"
    using assms(2) by (cases s; auto simp: after_comma_def optional_comma_def closes_def is_separator_def)+
  have none: "repeat p s = ([], s)" "repeat (after_comma p) s = ([], s)"
    using closed no_item [OF closes_ends [OF assms(2)]] by (simp_all add: repeat_def)
  show ?thesis
  proof (cases ns)
    case Nil
    then show ?thesis using none closed by (simp add: names_def skip_closes [OF assms(2)])
  next
    case (Cons n ms)
    let ?r = "concat (map (\<lambda>n. '', '' @ n) ms) @ s"
    have joined: "join '', '' ns @ s = n @ ?r"
      unfolding Cons by (induction ms arbitrary: n) simp_all
    have e: "ends stop ?r" using closes_ends [OF assms(2)] by (cases ms) simp_all
    have skip: "skip ?r = ?r" using skip_closes [OF assms(2)] by (cases ms) simp_all
    have "repeat_from p ?r = ([], ?r)" using no_item [OF e] by (subst repeat_from.simps) (simp only: skip option.case)
    then have first: "repeat p (n @ ?r) = ([leaf_pair rule leaf n], ?r)"
      using item [OF _ e, of n] assms(1) Cons by (simp add: repeat_def)
    have "length t < length ?r" if a: "after_comma p ?r = Some (x, t)" for x t
    proof (cases ms)
      case Nil
      then show ?thesis using a closed by simp
    next
      case (Cons k ks)
      let ?u = "concat (map (\<lambda>n. '', '' @ n) ks) @ s"
      have "ends stop ?u" using closes_ends [OF assms(2)] by (cases ks) simp_all
      moreover have "plain stop k" using assms(1) \<open>ns = n # ms\<close> Cons by simp
      ultimately have "p (skip (CHR '' '' # k @ ?u)) = Some (leaf_pair rule leaf k, ?u)"
        using item by (simp add: skip_plain)
      then show ?thesis using a Cons by (simp add: after_comma_def)
    qed
    then have "repeat (after_comma p) ?r = (map (leaf_pair rule leaf) ms, s)"
      using repeat_skipped [OF skip] comma_tail [OF _ assms(2), of ms] assms(1) Cons by simp
    then have "names p (n @ ?r) = (map (leaf_pair rule leaf) ns, s)"
      using first skip closed skip_closes [OF assms(2)] Cons by (simp add: names_def)
    then show ?thesis by (simp only: joined)
  qed
qed

lemma names_spaces:
  assumes "list_all (plain stop) ns" and "closes stop s"
  shows "names p (join '' '' ns @ s) = (map (leaf_pair rule leaf) ns, s)"
proof -
  have closed: "after_comma p s = None" "optional_comma s = s"
    using assms(2) by (cases s; auto simp: after_comma_def optional_comma_def closes_def is_separator_def)+
  have none: "repeat p s = ([], s)" "repeat (after_comma p) s = ([], s)"
    using closed no_item [OF closes_ends [OF assms(2)]] by (simp_all add: repeat_def)
  show ?thesis
  proof (cases ns)
    case Nil
    then show ?thesis using none closed by (simp add: names_def skip_closes [OF assms(2)])
  next
    case (Cons n ms)
    let ?r = "concat (map (\<lambda>n. '' '' @ n) ms) @ s"
    have joined: "join '' '' ns @ s = n @ ?r"
      unfolding Cons by (induction ms arbitrary: n) simp_all
    have "ends stop ?r" using closes_ends [OF assms(2)] by (cases ms) simp_all
    then have "repeat p (n @ ?r) = (map (leaf_pair rule leaf) ns, s)"
      using item [of n ?r] assms(1) Cons space_tail [OF _ assms(2), of ms] by (simp add: repeat_def)
    then have "names p (n @ ?r) = (map (leaf_pair rule leaf) ns, s)"
      using none closed skip_closes [OF assms(2)] by (simp add: names_def)
    then show ?thesis by (simp only: joined)
  qed
qed

end

interpretation plain_names: item_parser name is_separator R_name R_unquoted
proof
  fix n s
  assume n: "plain is_separator n" and s: "ends is_separator s"
  then obtain c m where c: "n = c # m" "\<not> is_separator c" "c \<noteq> single_quote" "c \<noteq> double_quote"
    by (cases n) (auto simp: plain_def)
  have "takeWhile (\<lambda>c. \<not> is_separator c) (n @ s) = n" and "dropWhile (\<lambda>c. \<not> is_separator c) (n @ s) = s"
    using n s by (auto simp: plain_def ends_def list_all_iff takeWhile_append2 dropWhile_append2
        takeWhile_eq_Nil_iff dropWhile_eq_self_iff)
  then show "name (n @ s) = Some (leaf_pair R_name R_unquoted n, s)"
    using c by (simp add: name_def wrap_def choice_def single_def double_def quoted_def unquoted_def
        run_of_def leaf_pair_def)
next
  fix s
  assume "ends is_separator s"
  then show "name s = None"
    by (cases s) (auto simp: name_def wrap_def choice_def single_def double_def quoted_def unquoted_def
        run_of_def ends_def is_separator_def is_whitespace_def)
qed

abbreviation closes_bracket :: "char \<Rightarrow> bool" where
  "closes_bracket c \<equiv> is_separator c \<or> c = CHR '']''"

interpretation bracketed_names: item_parser bracketed_name closes_bracket R_bracketed_name R_bracketed_unquoted
proof
  fix n s
  assume n: "plain closes_bracket n" and s: "ends closes_bracket s"
  then obtain c m where c: "n = c # m" "\<not> closes_bracket c" "c \<noteq> single_quote" "c \<noteq> double_quote"
    by (cases n) (auto simp: plain_def)
  have "takeWhile (\<lambda>c. \<not> closes_bracket c) (n @ s) = n" and "dropWhile (\<lambda>c. \<not> closes_bracket c) (n @ s) = s"
    using n s by (auto simp: plain_def ends_def list_all_iff takeWhile_append2 dropWhile_append2
        takeWhile_eq_Nil_iff dropWhile_eq_self_iff)
  then show "bracketed_name (n @ s) = Some (leaf_pair R_bracketed_name R_bracketed_unquoted n, s)"
    using c by (simp add: bracketed_name_def wrap_def choice_def single_def double_def quoted_def
        bracketed_unquoted_def run_of_def leaf_pair_def)
next
  fix s
  assume "ends closes_bracket s"
  then show "bracketed_name s = None"
    by (cases s) (auto simp: bracketed_name_def wrap_def choice_def single_def double_def quoted_def
        bracketed_unquoted_def run_of_def ends_def is_separator_def is_whitespace_def)
qed simp

lemma get_inner_strs_leaves:
  "list_all (\<lambda>n. n \<noteq> []) ns \<Longrightarrow> rule \<in> {R_name, R_bracketed_name} \<Longrightarrow> leaf \<in> {R_unquoted, R_bracketed_unquoted}
     \<Longrightarrow> get_inner_strs (map (leaf_pair rule leaf) ns) = Ok ns"
  by (induction ns) (auto simp: leaf_pair_def)

text \<open>Names that can be written without quotes in both forms.\<close>

definition plain_name :: "string \<Rightarrow> bool" where
  "plain_name n \<longleftrightarrow> plain closes_bracket n \<and> hd n \<noteq> CHR ''[''"

lemma plain_nameD:
  assumes "list_all plain_name ns"
  shows "list_all (plain closes_bracket) ns" and "list_all (plain is_separator) ns"
    and "list_all (\<lambda>n. n \<noteq> []) ns"
  using assms by (auto simp: plain_name_def plain_def list_all_iff)

lemma parse_unbracketed:
  assumes "list_all plain_name ns" and "sep \<in> {'' '', '', ''}"
  shows "parse_list pe (join sep ns) = Ok ns"
proof -
  have names: "names name (join sep ns) = (map (leaf_pair R_name R_unquoted) ns, [])"
    using assms(2) plain_names.names_commas [OF plain_nameD(2) [OF assms(1)], of "[]"]
      plain_names.names_spaces [OF plain_nameD(2) [OF assms(1)], of "[]"]
    by (auto simp: closes_def)
  have skip: "skip (join sep ns) = join sep ns \<and> bracketed (join sep ns) = None"
  proof (cases ns)
    case (Cons n ms)
    then obtain c m where n: "n = c # m" and c: "\<not> is_separator c" "c \<noteq> CHR ''[''"
      using assms(1) by (cases n) (auto simp: plain_name_def plain_def)
    have "\<exists>t. join sep ns = c # t" unfolding Cons n by (cases ms) simp_all
    then show ?thesis using c by (auto simp: skip_def is_separator_def bracketed_def)
  qed (simp add: skip_def bracketed_def)
  have "list_rule (join sep ns) = Some (Pair R_list (join sep ns)
      [Pair R_unbracketed (join sep ns) (map (leaf_pair R_name R_unquoted) ns), Pair R_EOI [] []])"
    using skip by (simp add: list_rule_def choice_def unbracketed_def names consumed_def) (simp add: skip_def)
  then show ?thesis
    using get_inner_strs_leaves [OF plain_nameD(3) [OF assms(1)], of R_name R_unquoted]
    by (simp add: parse_list_def)
qed

lemma parse_bracketed:
  assumes "list_all plain_name ns" and "sep \<in> {'' '', '', ''}"
  shows "parse_list pe (''['' @ join sep ns @ '']'') = Ok ns"
proof -
  let ?s = "''['' @ join sep ns @ '']''"
  have c: "closes closes_bracket '']''" by (simp add: closes_def is_separator_def is_whitespace_def)
  have names: "names bracketed_name (join sep ns @ '']'') = (map (leaf_pair R_bracketed_name R_bracketed_unquoted) ns, '']'')"
    using assms(2) bracketed_names.names_commas [OF plain_nameD(1) [OF assms(1)] c]
      bracketed_names.names_spaces [OF plain_nameD(1) [OF assms(1)] c] by auto
  have close: "skip '']'' = '']''" by (simp add: skip_def is_whitespace_def)
  have skip: "skip (join sep ns @ '']'') = join sep ns @ '']''"
  proof (cases ns)
    case (Cons n ms)
    then obtain d m where n: "n = d # m" and d: "\<not> is_separator d"
      using assms(1) by (cases n) (auto simp: plain_name_def plain_def)
    have "\<exists>t. join sep ns = d # t" unfolding Cons n by (cases ms) simp_all
    then show ?thesis using d by (auto simp: skip_def is_separator_def)
  qed (use close in simp)
  have "skip ?s = ?s" by (simp add: skip_def is_whitespace_def)
  moreover have "bracketed ?s = Some (Pair R_bracketed (consumed ?s [])
      (map (leaf_pair R_bracketed_name R_bracketed_unquoted) ns), [])"
    using skip names close by (simp add: bracketed_def)
  ultimately have "\<exists>t. list_rule ?s = Some (Pair R_list ?s
      [Pair R_bracketed t (map (leaf_pair R_bracketed_name R_bracketed_unquoted) ns), Pair R_EOI [] []])"
    by (simp add: list_rule_def choice_def) (simp add: skip_def)
  then show ?thesis
    using get_inner_strs_leaves [OF plain_nameD(3) [OF assms(1)], of R_bracketed_name R_bracketed_unquoted]
    by (auto simp: parse_list_def)
qed

text \<open>\<^bold>\<open>C30\<close>: the list parser always returns, with the strings or with a parse error. A list of plain
  names (non-empty, without separators and closing brackets, not starting with a quote or an opening
  bracket) is read back from each of its four written forms: separated by spaces or by a comma and a
  space, with or without brackets.\<close>

theorem parse_list_roundtrip:
  assumes "list_all plain_name ns" and "sep \<in> {'' '', '', ''}"
  shows "parse_list pe (join sep ns) = Ok ns \<and> parse_list pe (''['' @ join sep ns @ '']'') = Ok ns
    \<and> parse_list pe s \<noteq> Panic"
  using parse_unbracketed [OF assms] parse_bracketed [OF assms] list_rule_inner [of s]
  by (auto simp: parse_list_def split: option.splits)

theorem parse_list_roundtrip_witness:
  "parse_list (\<lambda>s. s) ''a/b.crt, c'' = Ok [''a/b.crt'', ''c'']
   \<and> parse_list (\<lambda>s. s) ''[a/b.crt, c]'' = Ok [''a/b.crt'', ''c'']"
proof -
  have "list_all plain_name [''a/b.crt'', ''c'']"
    by (simp add: plain_name_def plain_def is_separator_def is_whitespace_def)
  from parse_list_roundtrip [OF this, of "'', ''" "\<lambda>s. s"] show ?thesis by simp
qed

lemmas grammar_defs = list_rule_def choice_def bracketed_def unbracketed_def names_def repeat_def name_def
  wrap_def single_def double_def quoted_def unquoted_def run_of_def after_comma_def optional_comma_def
  skip_def is_separator_def is_whitespace_def

text \<open>Commas and white space cannot be mixed freely: after the first comma, every further name
  needs a comma, so that \<open>a b, c\<close> is a list and \<open>a, b c\<close> is a parse error.\<close>

theorem parse_list_mixed_separators:
  "parse_list pe ''a b, c'' = Ok [''a'', ''b'', ''c''] \<and> is_err (parse_list pe ''a, b c'')"
  by (simp add: parse_list_def grammar_defs repeat_from.simps)

end
