(* ===== verification/Config.thy ===== *)
theory Config
  imports List_Parser Fs
begin

text \<open>
  The configuration of the agent (\<^verbatim>\<open>keylime-agent/src/config.rs\<close>): the options, their defaults, the
  layers they are collected from (defaults, files, environment variables), and the translation of
  keywords and relative paths into final values. The \<open>config\<close> crate that reads and merges the
  layers, \<open>uuid\<close> and the operating system are parameters.
\<close>

section \<open>Options\<close>

text \<open>A value of the \<open>config\<close> crate, as far as the agent builds one.\<close>

datatype cfg_value = VStr string | VInt u32 | VBool bool

type_synonym cfg_map = "string \<rightharpoonup> cfg_value"

record env_config =
  env_version :: "string option"
  env_uuid :: "string option"
  env_ip :: "string option"
  env_port :: "u32 option"
  env_contact_ip :: "string option"
  env_contact_port :: "u32 option"
  env_registrar_ip :: "string option"
  env_registrar_port :: "u32 option"
  env_enable_agent_mtls :: "bool option"
  env_keylime_dir :: "string option"
  env_server_key :: "string option"
  env_server_cert :: "string option"
  env_iak_cert :: "string option"
  env_idevid_cert :: "string option"
  env_server_key_password :: "string option"
  env_trusted_client_ca :: "string option"
  env_enc_keyname :: "string option"
  env_dec_payload_file :: "string option"
  env_secure_size :: "string option"
  env_tpm_ownerpassword :: "string option"
  env_extract_payload_zip :: "bool option"
  env_enable_revocation_notifications :: "bool option"
  env_revocation_actions_dir :: "string option"
  env_revocation_notification_ip :: "string option"
  env_revocation_notification_port :: "u32 option"
  env_revocation_cert :: "string option"
  env_revocation_actions :: "string option"
  env_payload_script :: "string option"
  env_enable_insecure_payload :: "bool option"
  env_allow_payload_revocation_actions :: "bool option"
  env_tpm_hash_alg :: "string option"
  env_tpm_encryption_alg :: "string option"
  env_tpm_signing_alg :: "string option"
  env_ek_handle :: "string option"
  env_enable_iak_idevid :: "bool option"
  env_iak_idevid_asymmetric_alg :: "string option"
  env_iak_idevid_name_alg :: "string option"
  env_iak_idevid_template :: "string option"
  env_run_as :: "string option"
  env_agent_data_path :: "string option"
  env_ima_ml_path :: "string option"
  env_measuredboot_ml_path :: "string option"

record agent_config =
  ac_version :: string
  ac_uuid :: string
  ac_ip :: string
  ac_port :: u32
  ac_contact_ip :: string
  ac_contact_port :: u32
  ac_registrar_ip :: string
  ac_registrar_port :: u32
  ac_enable_agent_mtls :: bool
  ac_keylime_dir :: string
  ac_server_key :: string
  ac_server_cert :: string
  ac_iak_cert :: string
  ac_idevid_cert :: string
  ac_server_key_password :: string
  ac_trusted_client_ca :: string
  ac_enc_keyname :: string
  ac_dec_payload_file :: string
  ac_secure_size :: string
  ac_tpm_ownerpassword :: string
  ac_extract_payload_zip :: bool
  ac_enable_revocation_notifications :: bool
  ac_revocation_actions_dir :: string
  ac_revocation_notification_ip :: string
  ac_revocation_notification_port :: u32
  ac_revocation_cert :: string
  ac_revocation_actions :: string
  ac_payload_script :: string
  ac_enable_insecure_payload :: bool
  ac_allow_payload_revocation_actions :: bool
  ac_tpm_hash_alg :: string
  ac_tpm_encryption_alg :: string
  ac_tpm_signing_alg :: string
  ac_ek_handle :: string
  ac_enable_iak_idevid :: bool
  ac_iak_idevid_asymmetric_alg :: string
  ac_iak_idevid_name_alg :: string
  ac_iak_idevid_template :: string
  ac_run_as :: string
  ac_agent_data_path :: string
  ac_ima_ml_path :: string
  ac_measuredboot_ml_path :: string

text \<open>\<open>EnvConfig::get_map\<close>: the options that are set. A \<open>Map\<close> is unordered, and every key occurs once.\<close>

definition get_map :: "env_config \<Rightarrow> cfg_map" where
  "get_map e =
     map_of (optional_field ''version'' VStr (env_version e)
      @ optional_field ''uuid'' VStr (env_uuid e)
      @ optional_field ''ip'' VStr (env_ip e)
      @ optional_field ''port'' VInt (env_port e)
      @ optional_field ''contact_ip'' VStr (env_contact_ip e)
      @ optional_field ''contact_port'' VInt (env_contact_port e)
      @ optional_field ''registrar_ip'' VStr (env_registrar_ip e)
      @ optional_field ''registrar_port'' VInt (env_registrar_port e)
      @ optional_field ''enable_agent_mtls'' VBool (env_enable_agent_mtls e)
      @ optional_field ''keylime_dir'' VStr (env_keylime_dir e)
      @ optional_field ''server_key'' VStr (env_server_key e)
      @ optional_field ''server_key_password'' VStr (env_server_key_password e)
      @ optional_field ''server_cert'' VStr (env_server_cert e)
      @ optional_field ''iak_cert'' VStr (env_iak_cert e)
      @ optional_field ''idevid_cert'' VStr (env_idevid_cert e)
      @ optional_field ''trusted_client_ca'' VStr (env_trusted_client_ca e)
      @ optional_field ''enc_keyname'' VStr (env_enc_keyname e)
      @ optional_field ''dec_payload_file'' VStr (env_dec_payload_file e)
      @ optional_field ''secure_size'' VStr (env_secure_size e)
      @ optional_field ''tpm_ownerpassword'' VStr (env_tpm_ownerpassword e)
      @ optional_field ''extract_payload_zip'' VBool (env_extract_payload_zip e)
      @ optional_field ''enable_revocation_notifications'' VBool (env_enable_revocation_notifications e)
      @ optional_field ''revocation_actions_dir'' VStr (env_revocation_actions_dir e)
      @ optional_field ''revocation_notification_ip'' VStr (env_revocation_notification_ip e)
      @ optional_field ''revocation_notification_port'' VInt (env_revocation_notification_port e)
      @ optional_field ''revocation_cert'' VStr (env_revocation_cert e)
      @ optional_field ''revocation_actions'' VStr (env_revocation_actions e)
      @ optional_field ''payload_script'' VStr (env_payload_script e)
      @ optional_field ''enable_insecure_payload'' VBool (env_enable_insecure_payload e)
      @ optional_field ''allow_payload_revocation_actions'' VBool (env_allow_payload_revocation_actions e)
      @ optional_field ''tpm_hash_alg'' VStr (env_tpm_hash_alg e)
      @ optional_field ''tpm_encryption_alg'' VStr (env_tpm_encryption_alg e)
      @ optional_field ''tpm_signing_alg'' VStr (env_tpm_signing_alg e)
      @ optional_field ''ek_handle'' VStr (env_ek_handle e)
      @ optional_field ''enable_iak_idevid'' VBool (env_enable_iak_idevid e)
      @ optional_field ''iak_idevid_asymmetric_alg'' VStr (env_iak_idevid_asymmetric_alg e)
      @ optional_field ''iak_idevid_name_alg'' VStr (env_iak_idevid_name_alg e)
      @ optional_field ''iak_idevid_template'' VStr (env_iak_idevid_template e)
      @ optional_field ''run_as'' VStr (env_run_as e)
      @ optional_field ''agent_data_path'' VStr (env_agent_data_path e)
      @ optional_field ''ima_ml_path'' VStr (env_ima_ml_path e)
      @ optional_field ''measuredboot_ml_path'' VStr (env_measuredboot_ml_path e))"

text \<open>\<open>impl Source for KeylimeConfig\<close>: two of the switches are stored as text.\<close>

definition show_bool :: "bool \<Rightarrow> string" where
  "show_bool b = (if b then ''true'' else ''false'')"

definition keylime_config_collect :: "agent_config \<Rightarrow> cfg_map" where
  "keylime_config_collect c =
     map_of [(''version'', VStr (ac_version c)),
      (''uuid'', VStr (ac_uuid c)),
      (''ip'', VStr (ac_ip c)),
      (''port'', VInt (ac_port c)),
      (''contact_ip'', VStr (ac_contact_ip c)),
      (''contact_port'', VInt (ac_contact_port c)),
      (''registrar_ip'', VStr (ac_registrar_ip c)),
      (''registrar_port'', VInt (ac_registrar_port c)),
      (''enable_agent_mtls'', VBool (ac_enable_agent_mtls c)),
      (''keylime_dir'', VStr (ac_keylime_dir c)),
      (''server_key'', VStr (ac_server_key c)),
      (''server_key_password'', VStr (ac_server_key_password c)),
      (''server_cert'', VStr (ac_server_cert c)),
      (''iak_cert'', VStr (ac_iak_cert c)),
      (''idevid_cert'', VStr (ac_idevid_cert c)),
      (''trusted_client_ca'', VStr (ac_trusted_client_ca c)),
      (''enc_keyname'', VStr (ac_enc_keyname c)),
      (''dec_payload_file'', VStr (ac_dec_payload_file c)),
      (''secure_size'', VStr (ac_secure_size c)),
      (''tpm_ownerpassword'', VStr (ac_tpm_ownerpassword c)),
      (''extract_payload_zip'', VStr (show_bool (ac_extract_payload_zip c))),
      (''enable_revocation_notifications'', VStr (show_bool (ac_enable_revocation_notifications c))),
      (''revocation_actions_dir'', VStr (ac_revocation_actions_dir c)),
      (''revocation_notification_ip'', VStr (ac_revocation_notification_ip c)),
      (''revocation_notification_port'', VInt (ac_revocation_notification_port c)),
      (''revocation_cert'', VStr (ac_revocation_cert c)),
      (''revocation_actions'', VStr (ac_revocation_actions c)),
      (''payload_script'', VStr (ac_payload_script c)),
      (''enable_insecure_payload'', VBool (ac_enable_insecure_payload c)),
      (''allow_payload_revocation_actions'', VBool (ac_allow_payload_revocation_actions c)),
      (''tpm_hash_alg'', VStr (ac_tpm_hash_alg c)),
      (''tpm_encryption_alg'', VStr (ac_tpm_encryption_alg c)),
      (''tpm_signing_alg'', VStr (ac_tpm_signing_alg c)),
      (''ek_handle'', VStr (ac_ek_handle c)),
      (''enable_iak_idevid'', VBool (ac_enable_iak_idevid c)),
      (''iak_idevid_asymmetric_alg'', VStr (ac_iak_idevid_asymmetric_alg c)),
      (''iak_idevid_name_alg'', VStr (ac_iak_idevid_name_alg c)),
      (''iak_idevid_template'', VStr (ac_iak_idevid_template c)),
      (''run_as'', VStr (ac_run_as c)),
      (''agent_data_path'', VStr (ac_agent_data_path c)),
      (''ima_ml_path'', VStr (ac_ima_ml_path c)),
      (''measuredboot_ml_path'', VStr (ac_measuredboot_ml_path c))]"

section \<open>Reading a configuration back\<close>

text \<open>The conversions of the \<open>config\<close> crate that the derived deserialization uses.\<close>

record cfg_conv =
  as_string :: "cfg_value \<Rightarrow> string option"
  as_u32 :: "cfg_value \<Rightarrow> u32 option"
  as_bool :: "cfg_value \<Rightarrow> bool option"

definition get_with :: "(cfg_value \<Rightarrow> 'a option) \<Rightarrow> cfg_map \<Rightarrow> string \<Rightarrow> 'a option" where
  "get_with f m k = Option.bind (m k) f"

definition complete :: "cfg_conv \<Rightarrow> cfg_map \<Rightarrow> bool" where
  "complete cv m \<longleftrightarrow>
     list_all (\<lambda>k. get_with (as_string cv) m k \<noteq> None)
       [''version'', ''uuid'', ''ip'', ''contact_ip'', ''registrar_ip'', ''keylime_dir'',
        ''server_key'', ''server_cert'', ''iak_cert'', ''idevid_cert'',
        ''server_key_password'', ''trusted_client_ca'', ''enc_keyname'', ''dec_payload_file'',
        ''secure_size'', ''tpm_ownerpassword'', ''revocation_actions_dir'',
        ''revocation_notification_ip'', ''revocation_cert'', ''revocation_actions'',
        ''payload_script'', ''tpm_hash_alg'', ''tpm_encryption_alg'', ''tpm_signing_alg'',
        ''ek_handle'', ''iak_idevid_asymmetric_alg'', ''iak_idevid_name_alg'',
        ''iak_idevid_template'', ''run_as'', ''agent_data_path'', ''ima_ml_path'',
        ''measuredboot_ml_path'']
     \<and> list_all (\<lambda>k. get_with (as_u32 cv) m k \<noteq> None)
       [''port'', ''contact_port'', ''registrar_port'', ''revocation_notification_port'']
     \<and> list_all (\<lambda>k. get_with (as_bool cv) m k \<noteq> None)
       [''enable_agent_mtls'', ''extract_payload_zip'', ''enable_revocation_notifications'',
        ''enable_insecure_payload'', ''allow_payload_revocation_actions'', ''enable_iak_idevid'']"

text \<open>The derived \<open>Deserialize\<close>: every option has to be there, with a value of its type.\<close>

definition try_deserialize :: "cfg_conv \<Rightarrow> (cfg_map \<Rightarrow> string) \<Rightarrow> cfg_map \<Rightarrow> (agent_config, string) outcome" where
  "try_deserialize cv de_error m =
     (if \<not> complete cv m then Err (de_error m)
      else Ok \<lparr>ac_version = the (get_with (as_string cv) m ''version''),
        ac_uuid = the (get_with (as_string cv) m ''uuid''),
        ac_ip = the (get_with (as_string cv) m ''ip''),
        ac_port = the (get_with (as_u32 cv) m ''port''),
        ac_contact_ip = the (get_with (as_string cv) m ''contact_ip''),
        ac_contact_port = the (get_with (as_u32 cv) m ''contact_port''),
        ac_registrar_ip = the (get_with (as_string cv) m ''registrar_ip''),
        ac_registrar_port = the (get_with (as_u32 cv) m ''registrar_port''),
        ac_enable_agent_mtls = the (get_with (as_bool cv) m ''enable_agent_mtls''),
        ac_keylime_dir = the (get_with (as_string cv) m ''keylime_dir''),
        ac_server_key = the (get_with (as_string cv) m ''server_key''),
        ac_server_cert = the (get_with (as_string cv) m ''server_cert''),
        ac_iak_cert = the (get_with (as_string cv) m ''iak_cert''),
        ac_idevid_cert = the (get_with (as_string cv) m ''idevid_cert''),
        ac_server_key_password = the (get_with (as_string cv) m ''server_key_password''),
        ac_trusted_client_ca = the (get_with (as_string cv) m ''trusted_client_ca''),
        ac_enc_keyname = the (get_with (as_string cv) m ''enc_keyname''),
        ac_dec_payload_file = the (get_with (as_string cv) m ''dec_payload_file''),
        ac_secure_size = the (get_with (as_string cv) m ''secure_size''),
        ac_tpm_ownerpassword = the (get_with (as_string cv) m ''tpm_ownerpassword''),
        ac_extract_payload_zip = the (get_with (as_bool cv) m ''extract_payload_zip''),
        ac_enable_revocation_notifications = the (get_with (as_bool cv) m ''enable_revocation_notifications''),
        ac_revocation_actions_dir = the (get_with (as_string cv) m ''revocation_actions_dir''),
        ac_revocation_notification_ip = the (get_with (as_string cv) m ''revocation_notification_ip''),
        ac_revocation_notification_port = the (get_with (as_u32 cv) m ''revocation_notification_port''),
        ac_revocation_cert = the (get_with (as_string cv) m ''revocation_cert''),
        ac_revocation_actions = the (get_with (as_string cv) m ''revocation_actions''),
        ac_payload_script = the (get_with (as_string cv) m ''payload_script''),
        ac_enable_insecure_payload = the (get_with (as_bool cv) m ''enable_insecure_payload''),
        ac_allow_payload_revocation_actions = the (get_with (as_bool cv) m ''allow_payload_revocation_actions''),
        ac_tpm_hash_alg = the (get_with (as_string cv) m ''tpm_hash_alg''),
        ac_tpm_encryption_alg = the (get_with (as_string cv) m ''tpm_encryption_alg''),
        ac_tpm_signing_alg = the (get_with (as_string cv) m ''tpm_signing_alg''),
        ac_ek_handle = the (get_with (as_string cv) m ''ek_handle''),
        ac_enable_iak_idevid = the (get_with (as_bool cv) m ''enable_iak_idevid''),
        ac_iak_idevid_asymmetric_alg = the (get_with (as_string cv) m ''iak_idevid_asymmetric_alg''),
        ac_iak_idevid_name_alg = the (get_with (as_string cv) m ''iak_idevid_name_alg''),
        ac_iak_idevid_template = the (get_with (as_string cv) m ''iak_idevid_template''),
        ac_run_as = the (get_with (as_string cv) m ''run_as''),
        ac_agent_data_path = the (get_with (as_string cv) m ''agent_data_path''),
        ac_ima_ml_path = the (get_with (as_string cv) m ''ima_ml_path''),
        ac_measuredboot_ml_path = the (get_with (as_string cv) m ''measuredboot_ml_path'')\<rparr>)"

section \<open>Defaults\<close>

definition CONFIG_VERSION :: string where
  "CONFIG_VERSION = ''2.0''"

definition DEFAULT_UUID :: string where
  "DEFAULT_UUID = ''d432fbb3-d2f1-4a97-9ef7-75bd81c00000''"

definition DEFAULT_IP :: string where
  "DEFAULT_IP = ''127.0.0.1''"

definition DEFAULT_PORT :: u32 where
  "DEFAULT_PORT = 9002"

definition DEFAULT_CONTACT_IP :: string where
  "DEFAULT_CONTACT_IP = ''127.0.0.1''"

definition DEFAULT_CONTACT_PORT :: u32 where
  "DEFAULT_CONTACT_PORT = 9002"

definition DEFAULT_REGISTRAR_IP :: string where
  "DEFAULT_REGISTRAR_IP = ''127.0.0.1''"

definition DEFAULT_REGISTRAR_PORT :: u32 where
  "DEFAULT_REGISTRAR_PORT = 8890"

definition DEFAULT_ENABLE_AGENT_MTLS :: bool where
  "DEFAULT_ENABLE_AGENT_MTLS = True"

definition DEFAULT_KEYLIME_DIR :: string where
  "DEFAULT_KEYLIME_DIR = ''/var/lib/keylime''"

definition DEFAULT_SERVER_KEY :: string where
  "DEFAULT_SERVER_KEY = ''server-private.pem''"

definition DEFAULT_SERVER_CERT :: string where
  "DEFAULT_SERVER_CERT = ''server-cert.crt''"

definition DEFAULT_IAK_CERT :: string where
  "DEFAULT_IAK_CERT = ''iak-cert.crt''"

definition DEFAULT_IDEVID_CERT :: string where
  "DEFAULT_IDEVID_CERT = ''idevid-cert.crt''"

definition DEFAULT_SERVER_KEY_PASSWORD :: string where
  "DEFAULT_SERVER_KEY_PASSWORD = []"

definition DEFAULT_TRUSTED_CLIENT_CA :: string where
  "DEFAULT_TRUSTED_CLIENT_CA = ''cv_ca/cacert.crt''"

definition DEFAULT_ENC_KEYNAME :: string where
  "DEFAULT_ENC_KEYNAME = ''derived_tci_key''"

definition DEFAULT_DEC_PAYLOAD_FILE :: string where
  "DEFAULT_DEC_PAYLOAD_FILE = ''decrypted_payload''"

definition DEFAULT_SECURE_SIZE :: string where
  "DEFAULT_SECURE_SIZE = ''1m''"

definition DEFAULT_TPM_OWNERPASSWORD :: string where
  "DEFAULT_TPM_OWNERPASSWORD = []"

definition DEFAULT_EXTRACT_PAYLOAD_ZIP :: bool where
  "DEFAULT_EXTRACT_PAYLOAD_ZIP = True"

definition DEFAULT_ENABLE_REVOCATION_NOTIFICATIONS :: bool where
  "DEFAULT_ENABLE_REVOCATION_NOTIFICATIONS = False"

definition DEFAULT_REVOCATION_ACTIONS_DIR :: string where
  "DEFAULT_REVOCATION_ACTIONS_DIR = ''/usr/libexec/keylime''"

definition DEFAULT_REVOCATION_NOTIFICATION_IP :: string where
  "DEFAULT_REVOCATION_NOTIFICATION_IP = ''127.0.0.1''"

definition DEFAULT_REVOCATION_NOTIFICATION_PORT :: u32 where
  "DEFAULT_REVOCATION_NOTIFICATION_PORT = 8992"

definition DEFAULT_REVOCATION_CERT :: string where
  "DEFAULT_REVOCATION_CERT = ''RevocationNotifier-cert.crt''"

definition DEFAULT_REVOCATION_ACTIONS :: string where
  "DEFAULT_REVOCATION_ACTIONS = []"

definition DEFAULT_PAYLOAD_SCRIPT :: string where
  "DEFAULT_PAYLOAD_SCRIPT = ''autorun.sh''"

definition DEFAULT_ENABLE_INSECURE_PAYLOAD :: bool where
  "DEFAULT_ENABLE_INSECURE_PAYLOAD = False"

definition DEFAULT_ALLOW_PAYLOAD_REVOCATION_ACTIONS :: bool where
  "DEFAULT_ALLOW_PAYLOAD_REVOCATION_ACTIONS = True"

definition DEFAULT_TPM_HASH_ALG :: string where
  "DEFAULT_TPM_HASH_ALG = ''sha256''"

definition DEFAULT_TPM_ENCRYPTION_ALG :: string where
  "DEFAULT_TPM_ENCRYPTION_ALG = ''rsa''"

definition DEFAULT_TPM_SIGNING_ALG :: string where
  "DEFAULT_TPM_SIGNING_ALG = ''rsassa''"

definition DEFAULT_EK_HANDLE :: string where
  "DEFAULT_EK_HANDLE = ''generate''"

definition DEFAULT_ENABLE_IAK_IDEVID :: bool where
  "DEFAULT_ENABLE_IAK_IDEVID = False"

definition DEFAULT_IAK_IDEVID_ASYMMETRIC_ALG :: string where
  "DEFAULT_IAK_IDEVID_ASYMMETRIC_ALG = ''rsa''"

definition DEFAULT_IAK_IDEVID_NAME_ALG :: string where
  "DEFAULT_IAK_IDEVID_NAME_ALG = ''sha256''"

definition DEFAULT_IAK_IDEVID_TEMPLATE :: string where
  "DEFAULT_IAK_IDEVID_TEMPLATE = ''H-1''"

definition DEFAULT_RUN_AS :: string where
  "DEFAULT_RUN_AS = ''keylime:tss''"

definition DEFAULT_AGENT_DATA_PATH :: string where
  "DEFAULT_AGENT_DATA_PATH = ''agent_data.json''"

definition DEFAULT_IMA_ML_PATH :: string where
  "DEFAULT_IMA_ML_PATH = ''/sys/kernel/security/ima/ascii_runtime_measurements''"

definition DEFAULT_MEASUREDBOOT_ML_PATH :: string where
  "DEFAULT_MEASUREDBOOT_ML_PATH = ''/sys/kernel/security/tpm0/binary_boot_measurements''"

definition DEFAULT_CONFIG :: string where
  "DEFAULT_CONFIG = ''/etc/keylime/agent.conf''"

definition DEFAULT_CONFIG_SYS :: string where
  "DEFAULT_CONFIG_SYS = ''/usr/etc/keylime/agent.conf''"

lemmas config_defaults =
  CONFIG_VERSION_def DEFAULT_UUID_def DEFAULT_IP_def
  DEFAULT_PORT_def DEFAULT_CONTACT_IP_def DEFAULT_CONTACT_PORT_def
  DEFAULT_REGISTRAR_IP_def DEFAULT_REGISTRAR_PORT_def DEFAULT_ENABLE_AGENT_MTLS_def
  DEFAULT_KEYLIME_DIR_def DEFAULT_SERVER_KEY_def DEFAULT_SERVER_CERT_def
  DEFAULT_IAK_CERT_def DEFAULT_IDEVID_CERT_def DEFAULT_SERVER_KEY_PASSWORD_def
  DEFAULT_TRUSTED_CLIENT_CA_def DEFAULT_ENC_KEYNAME_def DEFAULT_DEC_PAYLOAD_FILE_def
  DEFAULT_SECURE_SIZE_def DEFAULT_TPM_OWNERPASSWORD_def DEFAULT_EXTRACT_PAYLOAD_ZIP_def
  DEFAULT_ENABLE_REVOCATION_NOTIFICATIONS_def DEFAULT_REVOCATION_ACTIONS_DIR_def DEFAULT_REVOCATION_NOTIFICATION_IP_def
  DEFAULT_REVOCATION_NOTIFICATION_PORT_def DEFAULT_REVOCATION_CERT_def DEFAULT_REVOCATION_ACTIONS_def
  DEFAULT_PAYLOAD_SCRIPT_def DEFAULT_ENABLE_INSECURE_PAYLOAD_def DEFAULT_ALLOW_PAYLOAD_REVOCATION_ACTIONS_def
  DEFAULT_TPM_HASH_ALG_def DEFAULT_TPM_ENCRYPTION_ALG_def DEFAULT_TPM_SIGNING_ALG_def
  DEFAULT_EK_HANDLE_def DEFAULT_ENABLE_IAK_IDEVID_def DEFAULT_IAK_IDEVID_ASYMMETRIC_ALG_def
  DEFAULT_IAK_IDEVID_NAME_ALG_def DEFAULT_IAK_IDEVID_TEMPLATE_def DEFAULT_RUN_AS_def
  DEFAULT_AGENT_DATA_PATH_def DEFAULT_IMA_ML_PATH_def DEFAULT_MEASUREDBOOT_ML_PATH_def
  DEFAULT_CONFIG_def DEFAULT_CONFIG_SYS_def

definition agent_config_default :: "nat \<Rightarrow> agent_config" where
  "agent_config_default euid =
     \<lparr>ac_version = CONFIG_VERSION,
      ac_uuid = DEFAULT_UUID,
      ac_ip = DEFAULT_IP,
      ac_port = DEFAULT_PORT,
      ac_contact_ip = DEFAULT_CONTACT_IP,
      ac_contact_port = DEFAULT_CONTACT_PORT,
      ac_registrar_ip = DEFAULT_REGISTRAR_IP,
      ac_registrar_port = DEFAULT_REGISTRAR_PORT,
      ac_enable_agent_mtls = DEFAULT_ENABLE_AGENT_MTLS,
      ac_keylime_dir = DEFAULT_KEYLIME_DIR,
      ac_server_key = ''default'',
      ac_server_cert = ''default'',
      ac_iak_cert = ''default'',
      ac_idevid_cert = ''default'',
      ac_server_key_password = DEFAULT_SERVER_KEY_PASSWORD,
      ac_trusted_client_ca = ''default'',
      ac_enc_keyname = DEFAULT_ENC_KEYNAME,
      ac_dec_payload_file = DEFAULT_DEC_PAYLOAD_FILE,
      ac_secure_size = DEFAULT_SECURE_SIZE,
      ac_tpm_ownerpassword = DEFAULT_TPM_OWNERPASSWORD,
      ac_extract_payload_zip = DEFAULT_EXTRACT_PAYLOAD_ZIP,
      ac_enable_revocation_notifications = DEFAULT_ENABLE_REVOCATION_NOTIFICATIONS,
      ac_revocation_actions_dir = DEFAULT_REVOCATION_ACTIONS_DIR,
      ac_revocation_notification_ip = DEFAULT_REVOCATION_NOTIFICATION_IP,
      ac_revocation_notification_port = DEFAULT_REVOCATION_NOTIFICATION_PORT,
      ac_revocation_cert = ''default'',
      ac_revocation_actions = DEFAULT_REVOCATION_ACTIONS,
      ac_payload_script = DEFAULT_PAYLOAD_SCRIPT,
      ac_enable_insecure_payload = DEFAULT_ENABLE_INSECURE_PAYLOAD,
      ac_allow_payload_revocation_actions = DEFAULT_ALLOW_PAYLOAD_REVOCATION_ACTIONS,
      ac_tpm_hash_alg = DEFAULT_TPM_HASH_ALG,
      ac_tpm_encryption_alg = DEFAULT_TPM_ENCRYPTION_ALG,
      ac_tpm_signing_alg = DEFAULT_TPM_SIGNING_ALG,
      ac_ek_handle = DEFAULT_EK_HANDLE,
      ac_enable_iak_idevid = DEFAULT_ENABLE_IAK_IDEVID,
      ac_iak_idevid_asymmetric_alg = DEFAULT_IAK_IDEVID_ASYMMETRIC_ALG,
      ac_iak_idevid_name_alg = DEFAULT_IAK_IDEVID_NAME_ALG,
      ac_iak_idevid_template = DEFAULT_IAK_IDEVID_TEMPLATE,
      ac_run_as = (if euid = 0 then DEFAULT_RUN_AS else []),
      ac_agent_data_path = ''default'',
      ac_ima_ml_path = ''default'',
      ac_measuredboot_ml_path = ''default''\<rparr>"

section \<open>Translation\<close>

text \<open>
  What the translation and the loading use of the outside: environment variables, the effective
  user, \<open>Path::canonicalize\<close>, \<open>Uuid::new_v4\<close> and \<open>Uuid::parse_str\<close>, the description of a list that
  does not parse; then the files (\<open>None\<close> for an absent one), the glob patterns and the environment
  source, and the merging and conversions of the \<open>config\<close> crate.
\<close>

record cfg_world =
  env_var :: "string \<rightharpoonup> string"
  geteuid :: nat
  canonicalize :: "string \<Rightarrow> (string, string) outcome"
  new_v4 :: string
  parse_uuid :: "string \<rightharpoonup> string"
  list_error :: "string \<Rightarrow> string"
  path_exists :: "string \<Rightarrow> bool"
  toml_file :: "string \<Rightarrow> (cfg_map option, string) outcome"
  glob_paths :: "string \<Rightarrow> (string list, string) outcome"
  env_source :: "(env_config, string) outcome"
  merge_maps :: "cfg_map list \<Rightarrow> cfg_map"
  conversions :: cfg_conv
  de_error :: "cfg_map \<Rightarrow> string"

definition config_get_file_path :: "string \<Rightarrow> string \<Rightarrow> string \<Rightarrow> string" where
  "config_get_file_path path work_dir dflt =
     (if path = ''default'' then path_join work_dir dflt
      else if path = [] then path_join work_dir dflt
      else if \<not> is_absolute path then path_join work_dir path
      else path)"

definition get_uuid :: "cfg_world \<Rightarrow> string \<Rightarrow> string" where
  "get_uuid w agent_uuid_config =
     (if agent_uuid_config = ''hash_ek'' then ''hash_ek''
      else if agent_uuid_config = ''generate'' then new_v4 w
      else (case parse_uuid w agent_uuid_config of Some u \<Rightarrow> u | None \<Rightarrow> new_v4 w))"

text \<open>The working directory: \<open>KEYLIME_DIR\<close> when it is set and not empty, else the option.\<close>

definition selected_dir :: "cfg_world \<Rightarrow> agent_config \<Rightarrow> string" where
  "selected_dir w c =
     (case env_var w ''KEYLIME_DIR'' of
        Some dir \<Rightarrow> if dir = [] then ac_keylime_dir c else dir
      | None \<Rightarrow> ac_keylime_dir c)"

text \<open>What revocation notifications need.\<close>

definition check_revocation :: "agent_config \<Rightarrow> (unit, agent_error) outcome" where
  "check_revocation c =
     (let msg = (\<lambda>opt. ''The option '' @ [CHR 0x27] @ ''enable_revocation_notifications'' @ [CHR 0x27]
            @ '' is set as '' @ [CHR 0x27] @ ''true'' @ [CHR 0x27] @ '' but '' @ [CHR 0x27] @ opt @ [CHR 0x27]
            @ '' was set as empty'')
      in if \<not> ac_enable_revocation_notifications c then Ok ()
         else if ac_revocation_notification_ip c = [] then
           Err (Configuration (msg ''revocation_notification_ip''))
         else if ac_revocation_cert c = [] then
           Err (Configuration (msg ''revocation_notification_cert''))
         else if ac_revocation_actions_dir c = [] then
           Err (Configuration (msg ''revocation_actions_dir''))
         else Ok ())"

definition config_translate_keywords :: "cfg_world \<Rightarrow> agent_config \<Rightarrow> (agent_config, agent_error) outcome" where
  "config_translate_keywords w c =
     (let uuid = get_uuid w (ac_uuid c);
          dir = selected_dir w c
      in and_then (map_err (\<lambda>e. Configuration (''Path '' @ dir
             @ '' set in keylime_dir configuration option not found: '' @ e)) (canonicalize w dir)) (\<lambda>keylime_dir.
         and_then (map_err ListParser (parse_list (list_error w) (ac_trusted_client_ca c))) (\<lambda>cas.
         and_then (check_revocation c) (\<lambda>_.
         Ok (c\<lparr>ac_keylime_dir := keylime_dir,
               ac_uuid := uuid,
               ac_server_key := config_get_file_path (ac_server_key c) keylime_dir DEFAULT_SERVER_KEY,
               ac_server_cert := config_get_file_path (ac_server_cert c) keylime_dir DEFAULT_SERVER_CERT,
               ac_iak_cert := config_get_file_path (ac_iak_cert c) keylime_dir DEFAULT_IAK_CERT,
               ac_idevid_cert := config_get_file_path (ac_idevid_cert c) keylime_dir DEFAULT_IDEVID_CERT,
               ac_trusted_client_ca :=
                 join '', '' (map (\<lambda>t. config_get_file_path t keylime_dir DEFAULT_TRUSTED_CLIENT_CA) cas),
               ac_ek_handle := (if ac_ek_handle c = ''generate'' then [] else ac_ek_handle c),
               ac_agent_data_path := config_get_file_path (ac_agent_data_path c) keylime_dir DEFAULT_AGENT_DATA_PATH,
               ac_ima_ml_path := config_get_file_path (ac_ima_ml_path c) ''/'' DEFAULT_IMA_ML_PATH,
               ac_measuredboot_ml_path :=
                 config_get_file_path (ac_measuredboot_ml_path c) ''/'' DEFAULT_MEASUREDBOOT_ML_PATH,
               ac_revocation_cert :=
                 config_get_file_path (ac_revocation_cert c) keylime_dir
                   (''secure/unzipped/'' @ DEFAULT_REVOCATION_CERT)\<rparr>)))))"

text \<open>The default configuration; the translation is unwrapped.\<close>

definition keylime_config_default :: "cfg_world \<Rightarrow> (agent_config, agent_error) outcome" where
  "keylime_config_default w = unwrap (config_translate_keywords w (agent_config_default (geteuid w)))"

section \<open>Layers\<close>

datatype cfg_source =
  Source_config agent_config
| Source_file string bool
| Source_env env_config

fun source_collect :: "cfg_world \<Rightarrow> cfg_source \<Rightarrow> (cfg_map, agent_error) outcome" where
  "source_collect w (Source_config c) = Ok (keylime_config_collect c)"
| "source_collect w (Source_file p required) =
     (case toml_file w p of
        Ok (Some m) \<Rightarrow> Ok m
      | Ok None \<Rightarrow>
          if required then Err (Config_error (''configuration file '' @ p @ '' not found'')) else Ok Map.empty
      | Err e \<Rightarrow> Err (Config_error e)
      | Panic \<Rightarrow> Panic)"
| "source_collect w (Source_env e) = Ok (get_map e)"

definition config_get_env_setting :: "cfg_world \<Rightarrow> (env_config, agent_error) outcome" where
  "config_get_env_setting w = map_err Config_error (env_source w)"

definition glob_sources :: "cfg_world \<Rightarrow> string \<Rightarrow> (cfg_source list, agent_error) outcome" where
  "glob_sources w pat =
     and_then (map_err GlobPattern (glob_paths w pat)) (\<lambda>ps. Ok (map (\<lambda>p. Source_file p False) ps))"

definition config_get_file_setting :: "cfg_world \<Rightarrow> (cfg_source list, agent_error) outcome" where
  "config_get_file_setting w =
     and_then (keylime_config_default w) (\<lambda>default_config.
     and_then (glob_sources w ''/usr/etc/keylime/agent.conf.d/*'') (\<lambda>sys.
     and_then (glob_sources w ''/etc/keylime/agent.conf.d/*'') (\<lambda>user.
     and_then (config_get_env_setting w) (\<lambda>env.
     Ok ([Source_config default_config, Source_file DEFAULT_CONFIG_SYS False] @ sys
         @ [Source_file DEFAULT_CONFIG False] @ user @ [Source_env env])))))"

definition config_get_setting :: "cfg_world \<Rightarrow> (cfg_source list, agent_error) outcome" where
  "config_get_setting w =
     (case env_var w ''KEYLIME_AGENT_CONFIG'' of
        None \<Rightarrow> config_get_file_setting w
      | Some env_cfg \<Rightarrow>
          if env_cfg = [] then config_get_file_setting w
          else if path_exists w env_cfg then
            and_then (config_get_env_setting w) (\<lambda>env. Ok [Source_file env_cfg True, Source_env env])
          else Err (Configuration
            ''Configuration set in KEYLIME_AGENT_CONFIG environment variable not found''))"

definition builder_build :: "cfg_world \<Rightarrow> cfg_source list \<Rightarrow> (cfg_map, agent_error) outcome" where
  "builder_build w ss =
     and_then (try_fold (\<lambda>ms s. and_then (source_collect w s) (\<lambda>m. Ok (ms @ [m]))) [] ss) (\<lambda>ms.
     Ok (merge_maps w ms))"

definition keylime_config_new :: "cfg_world \<Rightarrow> (agent_config, agent_error) outcome" where
  "keylime_config_new w =
     and_then (config_get_setting w) (\<lambda>ss.
     and_then (builder_build w ss) (\<lambda>m.
     and_then (map_err Config_error (try_deserialize (conversions w) (de_error w) m)) (\<lambda>c.
     config_translate_keywords w c)))"

section \<open>The layers are faithful\<close>

text \<open>What is assumed of the \<open>config\<close> crate: a value converts to its own type, the texts of the two
  truth values to a truth value, and a later layer overrides an earlier one, option by option.\<close>

definition conv_ok :: "cfg_conv \<Rightarrow> bool" where
  "conv_ok cv \<longleftrightarrow> (\<forall>s. as_string cv (VStr s) = Some s) \<and> (\<forall>n. as_u32 cv (VInt n) = Some n)
     \<and> (\<forall>b. as_bool cv (VBool b) = Some b) \<and> (\<forall>b. as_bool cv (VStr (show_bool b)) = Some b)"

definition layered :: "(cfg_map list \<Rightarrow> cfg_map) \<Rightarrow> bool" where
  "layered f \<longleftrightarrow> f [] = Map.empty \<and> (\<forall>ms m. f (ms @ [m]) = f ms ++ m)"

lemma collect_lookup:
  "keylime_config_collect c ''version'' = Some (VStr (ac_version c))"
  "keylime_config_collect c ''uuid'' = Some (VStr (ac_uuid c))"
  "keylime_config_collect c ''ip'' = Some (VStr (ac_ip c))"
  "keylime_config_collect c ''port'' = Some (VInt (ac_port c))"
  "keylime_config_collect c ''contact_ip'' = Some (VStr (ac_contact_ip c))"
  "keylime_config_collect c ''contact_port'' = Some (VInt (ac_contact_port c))"
  "keylime_config_collect c ''registrar_ip'' = Some (VStr (ac_registrar_ip c))"
  "keylime_config_collect c ''registrar_port'' = Some (VInt (ac_registrar_port c))"
  "keylime_config_collect c ''enable_agent_mtls'' = Some (VBool (ac_enable_agent_mtls c))"
  "keylime_config_collect c ''keylime_dir'' = Some (VStr (ac_keylime_dir c))"
  "keylime_config_collect c ''server_key'' = Some (VStr (ac_server_key c))"
  "keylime_config_collect c ''server_key_password'' = Some (VStr (ac_server_key_password c))"
  "keylime_config_collect c ''server_cert'' = Some (VStr (ac_server_cert c))"
  "keylime_config_collect c ''iak_cert'' = Some (VStr (ac_iak_cert c))"
  "keylime_config_collect c ''idevid_cert'' = Some (VStr (ac_idevid_cert c))"
  "keylime_config_collect c ''trusted_client_ca'' = Some (VStr (ac_trusted_client_ca c))"
  "keylime_config_collect c ''enc_keyname'' = Some (VStr (ac_enc_keyname c))"
  "keylime_config_collect c ''dec_payload_file'' = Some (VStr (ac_dec_payload_file c))"
  "keylime_config_collect c ''secure_size'' = Some (VStr (ac_secure_size c))"
  "keylime_config_collect c ''tpm_ownerpassword'' = Some (VStr (ac_tpm_ownerpassword c))"
  "keylime_config_collect c ''extract_payload_zip'' = Some (VStr (show_bool (ac_extract_payload_zip c)))"
  "keylime_config_collect c ''enable_revocation_notifications'' = Some (VStr (show_bool (ac_enable_revocation_notifications c)))"
  "keylime_config_collect c ''revocation_actions_dir'' = Some (VStr (ac_revocation_actions_dir c))"
  "keylime_config_collect c ''revocation_notification_ip'' = Some (VStr (ac_revocation_notification_ip c))"
  "keylime_config_collect c ''revocation_notification_port'' = Some (VInt (ac_revocation_notification_port c))"
  "keylime_config_collect c ''revocation_cert'' = Some (VStr (ac_revocation_cert c))"
  "keylime_config_collect c ''revocation_actions'' = Some (VStr (ac_revocation_actions c))"
  "keylime_config_collect c ''payload_script'' = Some (VStr (ac_payload_script c))"
  "keylime_config_collect c ''enable_insecure_payload'' = Some (VBool (ac_enable_insecure_payload c))"
  "keylime_config_collect c ''allow_payload_revocation_actions'' = Some (VBool (ac_allow_payload_revocation_actions c))"
  "keylime_config_collect c ''tpm_hash_alg'' = Some (VStr (ac_tpm_hash_alg c))"
  "keylime_config_collect c ''tpm_encryption_alg'' = Some (VStr (ac_tpm_encryption_alg c))"
  "keylime_config_collect c ''tpm_signing_alg'' = Some (VStr (ac_tpm_signing_alg c))"
  "keylime_config_collect c ''ek_handle'' = Some (VStr (ac_ek_handle c))"
  "keylime_config_collect c ''enable_iak_idevid'' = Some (VBool (ac_enable_iak_idevid c))"
  "keylime_config_collect c ''iak_idevid_asymmetric_alg'' = Some (VStr (ac_iak_idevid_asymmetric_alg c))"
  "keylime_config_collect c ''iak_idevid_name_alg'' = Some (VStr (ac_iak_idevid_name_alg c))"
  "keylime_config_collect c ''iak_idevid_template'' = Some (VStr (ac_iak_idevid_template c))"
  "keylime_config_collect c ''run_as'' = Some (VStr (ac_run_as c))"
  "keylime_config_collect c ''agent_data_path'' = Some (VStr (ac_agent_data_path c))"
  "keylime_config_collect c ''ima_ml_path'' = Some (VStr (ac_ima_ml_path c))"
  "keylime_config_collect c ''measuredboot_ml_path'' = Some (VStr (ac_measuredboot_ml_path c))"
  by (simp_all add: keylime_config_collect_def)

lemma collect_deserialize:
  assumes "conv_ok cv"
  shows "try_deserialize cv de (keylime_config_collect c) = Ok c"
proof -
  have "as_string cv (VStr s) = Some s" "as_u32 cv (VInt n) = Some n" "as_bool cv (VBool b) = Some b"
    "as_bool cv (VStr (show_bool b)) = Some b" for s n b
    using assms by (simp_all add: conv_ok_def)
  then show ?thesis by (simp add: try_deserialize_def complete_def get_with_def collect_lookup)
qed

lemma layered_append:
  "layered f \<Longrightarrow> f (ms @ ns) = f ms ++ f ns"
proof (induction ns rule: rev_induct)
  case (snoc n ns)
  have "f (ms @ ns @ [n]) = f (ms @ ns) ++ n" and "f (ns @ [n]) = f ns ++ n"
    using snoc.prems unfolding layered_def by (metis append.assoc)+
  then show ?case using snoc by simp
qed (simp add: layered_def)

lemma layered_single: "layered f \<Longrightarrow> f [m] = m"
  unfolding layered_def by (metis append_Nil empty_map_add)

lemma collect_all:
  "try_fold (\<lambda>ms s. and_then (source_collect w s) (\<lambda>m. Ok (ms @ [m]))) acc ss = Ok ms \<Longrightarrow>
     \<exists>ns. ms = acc @ ns \<and> list_all2 (\<lambda>s n. source_collect w s = Ok n) ss ns"
proof (induction ss arbitrary: acc)
  case (Cons s ss)
  then obtain m where m: "source_collect w s = Ok m"
    and r: "try_fold (\<lambda>ms s. and_then (source_collect w s) (\<lambda>m. Ok (ms @ [m]))) (acc @ [m]) ss = Ok ms"
    by (auto simp: and_then_Ok_iff)
  from Cons.IH [OF r] obtain ns where "ms = (acc @ [m]) @ ns"
    and "list_all2 (\<lambda>s n. source_collect w s = Ok n) ss ns" by blast
  then show ?case using m by (intro exI [of _ "m # ns"]) simp
qed simp

lemma builder_buildD:
  "builder_build w ss = Ok m \<Longrightarrow>
     \<exists>ns. m = merge_maps w ns \<and> list_all2 (\<lambda>s n. source_collect w s = Ok n) ss ns"
  by (auto simp: builder_build_def and_then_Ok_iff dest!: collect_all)

lemma list_all2_right: "list_all2 P xs ys \<Longrightarrow> y \<in> set ys \<Longrightarrow> \<exists>x \<in> set xs. P x y"
  by (induction rule: list_all2_induct) auto

lemma layered_none:
  assumes "layered f" and "\<forall>n \<in> set ns. n k = None"
  shows "f ns k = None"
  using assms(2)
proof (induction ns rule: rev_induct)
  case (snoc n ns)
  then show ?case
    using layered_append [OF assms(1), of ns "[n]"] layered_single [OF assms(1), of n]
    by (simp add: map_add_def)
qed (use assms(1) in \<open>simp add: layered_def\<close>)


section \<open>Translated configurations\<close>

lemma path_join_absolute: "is_absolute dir \<Longrightarrow> is_absolute (path_join dir p)"
  by (auto simp: path_join_def is_absolute_def starts_with_iff)

lemma config_get_file_path_absolute:
  "is_absolute dir \<Longrightarrow> is_absolute (config_get_file_path p dir d)"
  by (simp add: config_get_file_path_def path_join_absolute)

lemma config_get_file_path_fixed:
  "is_absolute p \<Longrightarrow> config_get_file_path p dir d = p"
  by (auto simp: config_get_file_path_def is_absolute_def)

definition path_options :: "agent_config \<Rightarrow> string list" where
  "path_options c = [ac_server_key c, ac_server_cert c, ac_iak_cert c, ac_idevid_cert c, ac_agent_data_path c,
     ac_ima_ml_path c, ac_measuredboot_ml_path c, ac_revocation_cert c]"

lemma translate_Ok:
  assumes "config_translate_keywords w c = Ok c'"
  obtains dir cas where "canonicalize w (selected_dir w c) = Ok dir" and "check_revocation c = Ok ()"
    and "parse_list (list_error w) (ac_trusted_client_ca c) = Ok cas"
    and "c' = c\<lparr>ac_keylime_dir := dir, ac_uuid := get_uuid w (ac_uuid c),
      ac_server_key := config_get_file_path (ac_server_key c) dir DEFAULT_SERVER_KEY,
      ac_server_cert := config_get_file_path (ac_server_cert c) dir DEFAULT_SERVER_CERT,
      ac_iak_cert := config_get_file_path (ac_iak_cert c) dir DEFAULT_IAK_CERT,
      ac_idevid_cert := config_get_file_path (ac_idevid_cert c) dir DEFAULT_IDEVID_CERT,
      ac_trusted_client_ca := join '', '' (map (\<lambda>t. config_get_file_path t dir DEFAULT_TRUSTED_CLIENT_CA) cas),
      ac_ek_handle := (if ac_ek_handle c = ''generate'' then [] else ac_ek_handle c),
      ac_agent_data_path := config_get_file_path (ac_agent_data_path c) dir DEFAULT_AGENT_DATA_PATH,
      ac_ima_ml_path := config_get_file_path (ac_ima_ml_path c) ''/'' DEFAULT_IMA_ML_PATH,
      ac_measuredboot_ml_path := config_get_file_path (ac_measuredboot_ml_path c) ''/'' DEFAULT_MEASUREDBOOT_ML_PATH,
      ac_revocation_cert := config_get_file_path (ac_revocation_cert c) dir
        (''secure/unzipped/'' @ DEFAULT_REVOCATION_CERT)\<rparr>"
  using assms by (auto simp: config_translate_keywords_def Let_def and_then_Ok_iff)


section \<open>Two defects of the layering\<close>

text \<open>
  The defaults are translated before they become the lowest layer. Two consequences: loading panics
  when the default directory does not exist, whatever the files say, and the default paths are
  already absolute when another layer changes the directory.
\<close>

text \<open>Without the default working directory the agent panics while loading its configuration,
  even when a configuration file or an option in the environment names a directory that exists.\<close>

theorem config_default_dir_needed:
  assumes "canonicalize w DEFAULT_KEYLIME_DIR = Err e" and "env_var w ''KEYLIME_DIR'' = None"
    and "env_var w ''KEYLIME_AGENT_CONFIG'' = None"
  shows "keylime_config_new w = Panic"
  using assms
  by (simp add: keylime_config_new_def config_get_setting_def config_get_file_setting_def
      keylime_config_default_def config_translate_keywords_def selected_dir_def agent_config_default_def)

lemma deserialize_override_dir:
  assumes "conv_ok cv"
  shows "try_deserialize cv de (keylime_config_collect c ++ [''keylime_dir'' \<mapsto> VStr dir]) = Ok (c\<lparr>ac_keylime_dir := dir\<rparr>)"
proof -
  have "as_string cv (VStr s) = Some s" "as_u32 cv (VInt n) = Some n" "as_bool cv (VBool b) = Some b"
    "as_bool cv (VStr (show_bool b)) = Some b" for s n b
    using assms by (simp_all add: conv_ok_def)
  then show ?thesis by (simp add: try_deserialize_def complete_def get_with_def collect_lookup map_add_def)
qed


lemma parse_default_ca: "parse_list pe ''default'' = Ok [''default'']"
  using parse_unbracketed [of "[''default'']" "'', ''" pe]
  by (simp add: plain_name_def plain_def is_separator_def is_whitespace_def)

lemma parse_one_name: "plain_name n \<Longrightarrow> parse_list pe n = Ok [n]"
  using parse_unbracketed [of "[n]" "'', ''" pe] by simp

text \<open>The default configuration in the default directory.\<close>

lemma default_config_Ok:
  assumes "env_var w ''KEYLIME_DIR'' = None" and "canonicalize w DEFAULT_KEYLIME_DIR = Ok old"
  obtains d where "keylime_config_default w = Ok d" and "config_translate_keywords w (agent_config_default (geteuid w)) = Ok d"
proof -
  have s: "selected_dir w (agent_config_default u) = DEFAULT_KEYLIME_DIR" for u
    using assms(1) by (simp add: selected_dir_def agent_config_default_def)
  have "check_revocation (agent_config_default u) = Ok ()" for u
    by (simp add: check_revocation_def agent_config_default_def DEFAULT_ENABLE_REVOCATION_NOTIFICATIONS_def)
  moreover have "parse_list (list_error w) (ac_trusted_client_ca (agent_config_default u)) = Ok [''default'']" for u
    by (simp add: agent_config_default_def parse_default_ca)
  ultimately have "\<exists>d. config_translate_keywords w (agent_config_default (geteuid w)) = Ok d"
    using assms(2) s by (simp add: config_translate_keywords_def)
  then show thesis using that by (auto simp: keylime_config_default_def)
qed

lemma default_config_paths:
  assumes "config_translate_keywords w (agent_config_default u) = Ok d"
    and "canonicalize w (selected_dir w (agent_config_default u)) = Ok old"
  shows "ac_server_key d = path_join old DEFAULT_SERVER_KEY" "ac_agent_data_path d = path_join old DEFAULT_AGENT_DATA_PATH"
    "ac_revocation_cert d = path_join old (''secure/unzipped/'' @ DEFAULT_REVOCATION_CERT)"
    "ac_trusted_client_ca d = path_join old DEFAULT_TRUSTED_CLIENT_CA"
    "ac_enable_revocation_notifications d = False"
proof -
  have "parse_list (list_error w) (ac_trusted_client_ca (agent_config_default u)) = Ok [''default'']"
    by (simp add: agent_config_default_def parse_default_ca)
  then have d: "d = the_ok (config_translate_keywords w (agent_config_default u))"
    and "config_translate_keywords w (agent_config_default u) \<noteq> Panic"
    using assms(1) by simp_all
  have "check_revocation (agent_config_default u) = Ok ()"
    by (simp add: check_revocation_def agent_config_default_def DEFAULT_ENABLE_REVOCATION_NOTIFICATIONS_def)
  then show "ac_server_key d = path_join old DEFAULT_SERVER_KEY" "ac_agent_data_path d = path_join old DEFAULT_AGENT_DATA_PATH"
    "ac_revocation_cert d = path_join old (''secure/unzipped/'' @ DEFAULT_REVOCATION_CERT)"
    "ac_trusted_client_ca d = path_join old DEFAULT_TRUSTED_CLIENT_CA"
    "ac_enable_revocation_notifications d = False"
    using assms(2) \<open>parse_list _ _ = _\<close>
    by (simp_all add: d config_translate_keywords_def config_get_file_path_def)
      (simp_all add: agent_config_default_def DEFAULT_ENABLE_REVOCATION_NOTIFICATIONS_def)
qed

text \<open>No file exists, and the environment sets the working directory to \<open>new\<close> and nothing else.\<close>

definition only_dir_set :: "cfg_world \<Rightarrow> string \<Rightarrow> bool" where
  "only_dir_set w new \<longleftrightarrow> env_var w ''KEYLIME_DIR'' = None \<and> env_var w ''KEYLIME_AGENT_CONFIG'' = None
     \<and> toml_file w = (\<lambda>_. Ok None) \<and> glob_paths w = (\<lambda>_. Ok [])
     \<and> (\<exists>env. env_source w = Ok env \<and> get_map env = [''keylime_dir'' \<mapsto> VStr new])"

lemma new_config_only_dir:
  assumes "layered (merge_maps w)" and "conv_ok (conversions w)" and "only_dir_set w new"
    and "keylime_config_default w = Ok d"
  shows "keylime_config_new w = config_translate_keywords w (d\<lparr>ac_keylime_dir := new\<rparr>)"
proof -
  from assms(3) obtain env where e: "env_source w = Ok env" "get_map env = [''keylime_dir'' \<mapsto> VStr new]"
    by (auto simp: only_dir_set_def)
  have "merge_maps w ([keylime_config_collect d] @ [Map.empty] @ [Map.empty] @ [get_map env])
      = keylime_config_collect d ++ [''keylime_dir'' \<mapsto> VStr new]"
    by (simp only: layered_append [OF assms(1)] layered_single [OF assms(1)] e(2)) simp
  then show ?thesis
    using assms(3,4) e deserialize_override_dir [OF assms(2), of "de_error w" d new]
    by (simp add: only_dir_set_def keylime_config_new_def config_get_setting_def config_get_file_setting_def
        glob_sources_def config_get_env_setting_def builder_build_def)
qed

lemma config_dir_kept:
  assumes "layered (merge_maps w)" and "conv_ok (conversions w)" and "only_dir_set w new"
    and "canonicalize w DEFAULT_KEYLIME_DIR = Ok old" and "is_absolute old"
    and "plain_name (path_join old DEFAULT_TRUSTED_CLIENT_CA)" and "canonicalize w new = Ok dir"
  shows "\<exists>c. keylime_config_new w = Ok c \<and> ac_keylime_dir c = dir
    \<and> ac_server_key c = path_join old DEFAULT_SERVER_KEY
    \<and> ac_agent_data_path c = path_join old DEFAULT_AGENT_DATA_PATH
    \<and> ac_revocation_cert c = path_join old (''secure/unzipped/'' @ DEFAULT_REVOCATION_CERT)"
proof -
  have k: "env_var w ''KEYLIME_DIR'' = None" using assms(3) by (simp add: only_dir_set_def)
  obtain d where d: "keylime_config_default w = Ok d"
    and t: "config_translate_keywords w (agent_config_default (geteuid w)) = Ok d"
    using default_config_Ok [OF k assms(4)] by blast
  have s: "canonicalize w (selected_dir w (agent_config_default (geteuid w))) = Ok old"
    using k assms(4) by (simp add: selected_dir_def agent_config_default_def)
  note paths = default_config_paths [OF t s]
  have "check_revocation (d\<lparr>ac_keylime_dir := new\<rparr>) = Ok ()" by (simp add: check_revocation_def paths)
  then show ?thesis
    unfolding new_config_only_dir [OF assms(1-3) d]
    using k assms(5,7) parse_one_name [OF assms(6), of "list_error w"]
    by (simp add: config_translate_keywords_def selected_dir_def paths config_get_file_path_fixed path_join_absolute)
qed

text \<open>An agent whose working directory is set by \<open>KEYLIME_AGENT_KEYLIME_DIR\<close> alone uses the new
  directory as its working directory, but keeps its server key, its agent data and the revocation
  certificate it looks for in the default directory, although the defaults of these options are
  documented as relative to the working directory.\<close>

theorem config_dir_override_ignored:
  assumes "layered (merge_maps w)" and "conv_ok (conversions w)" and "only_dir_set w new"
    and "canonicalize w DEFAULT_KEYLIME_DIR = Ok old" and "is_absolute old"
    and "plain_name (path_join old DEFAULT_TRUSTED_CLIENT_CA)" and "canonicalize w new = Ok dir"
  shows "\<exists>c. keylime_config_new w = Ok c \<and> ac_keylime_dir c = dir
    \<and> ac_server_key c = path_join old DEFAULT_SERVER_KEY
    \<and> ac_agent_data_path c = path_join old DEFAULT_AGENT_DATA_PATH
    \<and> ac_revocation_cert c = path_join old (''secure/unzipped/'' @ DEFAULT_REVOCATION_CERT)"
  by (rule config_dir_kept [OF assms])

subsection \<open>A small world\<close>

definition env_config_ref :: "string \<Rightarrow> env_config" where
  "env_config_ref dir =
     \<lparr>env_version = None,
      env_uuid = None,
      env_ip = None,
      env_port = None,
      env_contact_ip = None,
      env_contact_port = None,
      env_registrar_ip = None,
      env_registrar_port = None,
      env_enable_agent_mtls = None,
      env_keylime_dir = Some dir,
      env_server_key = None,
      env_server_cert = None,
      env_iak_cert = None,
      env_idevid_cert = None,
      env_server_key_password = None,
      env_trusted_client_ca = None,
      env_enc_keyname = None,
      env_dec_payload_file = None,
      env_secure_size = None,
      env_tpm_ownerpassword = None,
      env_extract_payload_zip = None,
      env_enable_revocation_notifications = None,
      env_revocation_actions_dir = None,
      env_revocation_notification_ip = None,
      env_revocation_notification_port = None,
      env_revocation_cert = None,
      env_revocation_actions = None,
      env_payload_script = None,
      env_enable_insecure_payload = None,
      env_allow_payload_revocation_actions = None,
      env_tpm_hash_alg = None,
      env_tpm_encryption_alg = None,
      env_tpm_signing_alg = None,
      env_ek_handle = None,
      env_enable_iak_idevid = None,
      env_iak_idevid_asymmetric_alg = None,
      env_iak_idevid_name_alg = None,
      env_iak_idevid_template = None,
      env_run_as = None,
      env_agent_data_path = None,
      env_ima_ml_path = None,
      env_measuredboot_ml_path = None\<rparr>"

definition cfg_conv_ref :: cfg_conv where
  "cfg_conv_ref =
     \<lparr>as_string = \<lambda>v. case v of VStr s \<Rightarrow> Some s | _ \<Rightarrow> None,
      as_u32 = \<lambda>v. case v of VInt n \<Rightarrow> Some n | _ \<Rightarrow> None,
      as_bool = \<lambda>v. case v of VBool b \<Rightarrow> Some b
        | VStr s \<Rightarrow> if s = ''true'' then Some True else if s = ''false'' then Some False else None
        | VInt _ \<Rightarrow> None\<rparr>"

definition cfg_world_ref :: "string \<Rightarrow> cfg_world" where
  "cfg_world_ref dir =
     \<lparr>env_var = Map.empty, geteuid = 0,
      canonicalize = \<lambda>p. if is_absolute p then Ok p else Err ''No such file or directory'',
      new_v4 = ''7a04a8b4-0000-4000-8000-000000000000'', parse_uuid = Some, list_error = \<lambda>s. s,
      path_exists = \<lambda>_. False, toml_file = \<lambda>_. Ok None, glob_paths = \<lambda>_. Ok [],
      env_source = Ok (env_config_ref dir), merge_maps = foldl (++) Map.empty,
      conversions = cfg_conv_ref, de_error = \<lambda>_. ''missing field''\<rparr>"

lemma cfg_world_ref_ok:
  "layered (merge_maps (cfg_world_ref dir))" "conv_ok (conversions (cfg_world_ref dir))"
  "only_dir_set (cfg_world_ref dir) dir"
  "canonicalize (cfg_world_ref dir) p = Ok q \<Longrightarrow> is_absolute q"
  by (auto simp: cfg_world_ref_def layered_def conv_ok_def cfg_conv_ref_def show_bool_def only_dir_set_def
      get_map_def env_config_ref_def split: if_splits)

lemma config_ref:
  "\<exists>c. keylime_config_new (cfg_world_ref ''/srv'') = Ok c \<and> ac_keylime_dir c = ''/srv''
     \<and> ac_server_key c = ''/var/lib/keylime/server-private.pem''"
proof -
  have "\<exists>c. keylime_config_new (cfg_world_ref ''/srv'') = Ok c \<and> ac_keylime_dir c = ''/srv''
    \<and> ac_server_key c = path_join DEFAULT_KEYLIME_DIR DEFAULT_SERVER_KEY
    \<and> ac_agent_data_path c = path_join DEFAULT_KEYLIME_DIR DEFAULT_AGENT_DATA_PATH
    \<and> ac_revocation_cert c = path_join DEFAULT_KEYLIME_DIR (''secure/unzipped/'' @ DEFAULT_REVOCATION_CERT)"
    by (rule config_dir_kept [OF cfg_world_ref_ok(1-3)])
      (simp_all add: cfg_world_ref_def is_absolute_def DEFAULT_KEYLIME_DIR_def DEFAULT_TRUSTED_CLIENT_CA_def
        path_join_def plain_name_def plain_def is_separator_def is_whitespace_def)
  then show ?thesis
    by (auto simp: path_join_def DEFAULT_KEYLIME_DIR_def DEFAULT_SERVER_KEY_def)
qed

theorem config_dir_override_ignored_witness:
  "\<exists>c. keylime_config_new (cfg_world_ref ''/srv'') = Ok c \<and> ac_keylime_dir c = ''/srv''
     \<and> ac_server_key c = ''/var/lib/keylime/server-private.pem''"
proof -
  have "\<exists>c. keylime_config_new (cfg_world_ref ''/srv'') = Ok c \<and> ac_keylime_dir c = ''/srv''
    \<and> ac_server_key c = path_join DEFAULT_KEYLIME_DIR DEFAULT_SERVER_KEY
    \<and> ac_agent_data_path c = path_join DEFAULT_KEYLIME_DIR DEFAULT_AGENT_DATA_PATH
    \<and> ac_revocation_cert c = path_join DEFAULT_KEYLIME_DIR (''secure/unzipped/'' @ DEFAULT_REVOCATION_CERT)"
    by (rule config_dir_override_ignored [OF cfg_world_ref_ok(1-3)])
      (simp_all add: cfg_world_ref_def is_absolute_def DEFAULT_KEYLIME_DIR_def DEFAULT_TRUSTED_CLIENT_CA_def
        path_join_def plain_name_def plain_def is_separator_def is_whitespace_def)
  then show ?thesis
    by (auto simp: path_join_def DEFAULT_KEYLIME_DIR_def DEFAULT_SERVER_KEY_def)
qed

lemma config_default_ref:
  obtains d where "keylime_config_default (cfg_world_ref dir) = Ok d"
proof (rule default_config_Ok [of "cfg_world_ref dir" DEFAULT_KEYLIME_DIR])
  show "env_var (cfg_world_ref dir) ''KEYLIME_DIR'' = None"
    and "canonicalize (cfg_world_ref dir) DEFAULT_KEYLIME_DIR = Ok DEFAULT_KEYLIME_DIR"
    by (simp_all add: cfg_world_ref_def is_absolute_def DEFAULT_KEYLIME_DIR_def)
qed (rule that)



theorem config_default_dir_needed_witness:
  "keylime_config_new ((cfg_world_ref ''/srv'')
     \<lparr>canonicalize := \<lambda>p. if p = ''/srv'' then Ok p else Err ''No such file or directory''\<rparr>) = Panic"
  by (rule config_default_dir_needed) (simp_all add: cfg_world_ref_def DEFAULT_KEYLIME_DIR_def)

end
