(* ===== verification/Machine.thy ===== *)
theory Machine
  imports Fs
begin

text \<open>
  Running programs (\<open>std::process::Command\<close>): the machine is the file system together with the
  commands that were run, in order. What a program answers and does to the file system is given by
  the environment, as are the names of temporary files.
\<close>

record command =
  cmd_program :: string
  cmd_args :: "string list"
  cmd_dir :: string
  cmd_env :: "(string \<times> string) list"

datatype proc_result = Spawn_failed string | Wait_failed string | Exited process_output

record machine =
  disk :: fs
  executed :: "command list"

record machine_env =
  sys :: os
  proc :: "command \<Rightarrow> fs \<Rightarrow> proc_result \<times> fs"
  temp_path :: "fs \<Rightarrow> string \<Rightarrow> string"
  bad_utf8 :: "string \<Rightarrow> string"

type_synonym 'a machine_act = "(machine, 'a, agent_error) act"

text \<open>A program that could not be started has not run.\<close>

definition run_command :: "machine_env \<Rightarrow> command \<Rightarrow> machine \<Rightarrow> proc_result \<times> machine" where
  "run_command env cmd m =
     (case proc env cmd (disk m) of
        (Spawn_failed e, _) \<Rightarrow> (Spawn_failed e, m)
      | (r, f) \<Rightarrow> (r, m\<lparr>disk := f, executed := executed m @ [cmd]\<rparr>))"

text \<open>An operation on the file system as an operation on the machine.\<close>

definition on_disk :: "(fs \<Rightarrow> (fs, agent_error) outcome) \<Rightarrow> unit machine_act" where
  "on_disk op m =
     (case op (disk m) of Ok f \<Rightarrow> (Ok (), m\<lparr>disk := f\<rparr>) | Err e \<Rightarrow> (Err e, m) | Panic \<Rightarrow> (Panic, m))"

definition from_disk :: "(fs \<Rightarrow> ('a, agent_error) outcome) \<Rightarrow> 'a machine_act" where
  "from_disk op m = (op (disk m), m)"

text \<open>\<open>NamedTempFile::new_in\<close>: a new empty file that only its owner can use.\<close>

definition new_temp_in :: "machine_env \<Rightarrow> string \<Rightarrow> string machine_act" where
  "new_temp_in env dir m =
     (let p = temp_path env (disk m) dir
      in case fault (sys env) Op_new_temp p of
           Some e \<Rightarrow> (Err (Io e), m)
         | None \<Rightarrow> (Ok p, m\<lparr>disk := (disk m)(p \<mapsto> Regular [] 0x180)\<rparr>))"

text \<open>The commands run since a state all satisfy a predicate.\<close>

definition runs_only :: "(command \<Rightarrow> bool) \<Rightarrow> machine \<Rightarrow> machine \<Rightarrow> bool" where
  "runs_only P m m' \<longleftrightarrow> (\<exists>cs. executed m' = executed m @ cs \<and> list_all P cs)"

lemma runs_only_refl: "reflp (runs_only P)"
  by (auto simp: runs_only_def reflp_def)

lemma runs_only_trans: "transp (runs_only P)"
  unfolding transp_def runs_only_def by (metis append.assoc list_all_append)

lemma runs_only_mono: "runs_only P m m' \<Longrightarrow> (\<And>c. P c \<Longrightarrow> Q c) \<Longrightarrow> runs_only Q m m'"
  by (auto simp: runs_only_def list_all_iff)

lemma runs_only_same: "executed m' = executed m \<Longrightarrow> runs_only P m m'"
  by (simp add: runs_only_def)

lemmas runs_only_lift = act_within_lift [OF runs_only_refl]
lemmas runs_only_bind = act_within_bind [OF runs_only_trans]

text \<open>The continuation only has to be well-behaved on what the first part can return.\<close>

lemma runs_only_bind_Ok:
  assumes "act_within (runs_only P) f" and "\<And>x m m'. f m = (Ok x, m') \<Longrightarrow> act_within (runs_only P) (g x)"
  shows "act_within (runs_only P) (act_bind f g)"
  unfolding act_within_def
proof
  fix m
  obtain r m' where f: "f m = (r, m')" by force
  have "runs_only P m m'" using act_withinD [OF assms(1) f] .
  moreover have "runs_only P m' (snd (g x m'))" if "r = Ok x" for x
    using act_within_apply [OF assms(2)] f that by blast
  ultimately show "runs_only P m (snd (act_bind f g m))"
    using f transpD [OF runs_only_trans] by (cases r) (auto simp: act_bind_def)
qed

lemma runs_only_disk: "act_within (runs_only P) (on_disk op)"
  by (auto simp: act_within_def on_disk_def runs_only_def split: outcome.split)

lemma runs_only_from_disk: "act_within (runs_only P) (from_disk op)"
  by (auto simp: act_within_def from_disk_def runs_only_def)

lemma runs_only_temp: "act_within (runs_only P) (new_temp_in env dir)"
  by (auto simp: act_within_def new_temp_in_def runs_only_def Let_def split: option.split)

lemma runs_only_command: "P cmd \<Longrightarrow> runs_only P m (snd (run_command env cmd m))"
  by (auto simp: run_command_def runs_only_def split: prod.split proc_result.split)

end
