(* ===== verification/Secure_Mount.thy ===== *)
theory Secure_Mount
  imports Machine
begin

text \<open>
  The secure mount (\<^verbatim>\<open>keylime-agent/src/secure_mount.rs\<close>): the directory \<open>secure\<close> of the work directory is
  to be a tmpfs. The mounted file systems are read from \<open>/proc/self/mountinfo\<close>; if the directory is not
  among them it is created and the program \<open>mount\<close> is run.
\<close>

definition MOUNTINFO :: string where
  "MOUNTINFO = ''/proc/self/mountinfo''"

section \<open>Comparing paths\<close>

text \<open>Paths are compared by their components: repeated and trailing slashes and inner dots do not count.\<close>

definition components :: "string \<Rightarrow> bool \<times> bool \<times> string list" where
  "components p =
     (let cs = split CHR ''/'' p
      in (is_absolute p, hd cs = ''.'', filter (\<lambda>c. c \<noteq> [] \<and> c \<noteq> ''.'') cs))"

definition same_path :: "string \<Rightarrow> string \<Rightarrow> bool" where
  "same_path p q \<longleftrightarrow> components p = components q"

section \<open>The mounted file systems\<close>

text \<open>The file system type of a line: the first field after the separator, among the fields that follow the mount
  point.\<close>

definition line_status :: "string \<Rightarrow> string list \<Rightarrow> (bool, agent_error) outcome" where
  "line_status secure_dir columns =
     (case dropWhile (\<lambda>x. x \<noteq> ''-'') columns of
        [] \<Rightarrow> Err (SecureMount ''Separator field not found. Information line cannot be parsed'')
      | [_] \<Rightarrow> Err (SecureMount ''Mount information parsing error: missing file system type'')
      | _ # fs_type # _ \<Rightarrow>
          if fs_type = ''tmpfs'' then Ok True
          else Err (SecureMount (''Secure storage location '' @ secure_dir
             @ '' already mounted on wrong file system type: '' @ fs_type @ ''. Unmount to continue.'')))"

fun check_lines :: "string \<Rightarrow> string list \<Rightarrow> (bool, agent_error) outcome" where
  "check_lines secure_dir [] = Ok False"
| "check_lines secure_dir (line # ls) =
     (let columns = split CHR '' '' line
      in if length columns < 5 then Err (SecureMount ''Mount information parsing error: not enough elements'')
         else if same_path (columns ! 4) secure_dir then line_status secure_dir (drop 5 columns)
         else check_lines secure_dir ls)"

text \<open>Lines that are not UTF-8 are passed over.\<close>

definition check_mount :: "os \<Rightarrow> fs \<Rightarrow> string \<Rightarrow> (bool, agent_error) outcome" where
  "check_mount env f secure_dir =
     and_then (with_fault env Op_open MOUNTINFO (read_file env f MOUNTINFO)) (\<lambda>info.
     check_lines secure_dir (filter is_utf8 (read_lines info)))"

section \<open>Mounting\<close>

text \<open>The texts of the standard library: \<open>{:?}\<close> of an I/O error and \<open>{}\<close> of an exit status.\<close>

record mount_texts =
  io_debug :: "agent_error \<Rightarrow> string"
  exit_status :: "process_output \<Rightarrow> string"

definition mount_command :: "string \<Rightarrow> string \<Rightarrow> command" where
  "mount_command secure_size secure_dir_path =
     \<lparr>cmd_program = ''mount'',
      cmd_args = [''-t'', ''tmpfs'', ''-o'', ''size='' @ secure_size @ '',mode=0700'', ''tmpfs'', secure_dir_path],
      cmd_dir = [], cmd_env = []\<rparr>"

text \<open>The mode that is set belongs to a copy of the permissions, so the directory keeps the one it was created with.\<close>

definition ensure_dir :: "machine_env \<Rightarrow> mount_texts \<Rightarrow> string \<Rightarrow> unit machine_act" where
  "ensure_dir env texts p =
     act_bind (from_disk (\<lambda>f. Ok (exists_path f p))) (\<lambda>there.
     if there then act_lift (Ok ())
     else
       act_bind (on_disk (\<lambda>f. map_err (\<lambda>e. SecureMount (''unable to create secure dir path: '' @ io_debug texts e))
           (create_dir (sys env) f p))) (\<lambda>_.
       act_lift (map_err (\<lambda>e. SecureMount (''unable to get metadata for secure dir path: '' @ io_debug texts e))
           (with_fault (sys env) Op_metadata p (Ok ())))))"

definition run_mount :: "machine_env \<Rightarrow> mount_texts \<Rightarrow> command \<Rightarrow> unit machine_act" where
  "run_mount env texts cmd m =
     (case run_command env cmd m of
        (Exited out, m') \<Rightarrow>
          if status_code out = Some 0 then (Ok (), m')
          else (Err (SecureMount (''unable to mount tmpfs with secure dir: exit status code '' @ exit_status texts out)), m')
      | (Spawn_failed e, m') \<Rightarrow> (Err (SecureMount (''unable to mount tmpfs with secure dir: '' @ e)), m')
      | (Wait_failed e, m') \<Rightarrow> (Err (SecureMount (''unable to mount tmpfs with secure dir: '' @ e)), m'))"

definition mount :: "machine_env \<Rightarrow> mount_texts \<Rightarrow> string \<Rightarrow> string \<Rightarrow> string machine_act" where
  "mount env texts work_dir secure_size =
     (let secure_dir_path = path_join work_dir ''secure''
      in act_bind (from_disk (\<lambda>f. check_mount (sys env) f secure_dir_path)) (\<lambda>mounted.
         act_bind (if mounted then act_lift (Ok ())
                   else act_bind (ensure_dir env texts secure_dir_path) (\<lambda>_.
                        run_mount env texts (mount_command secure_size secure_dir_path))) (\<lambda>_.
         act_lift (Ok secure_dir_path))))"

section \<open>What a mount means\<close>

text \<open>A line of \<open>mountinfo\<close> with its fields: four, the mount point, optional fields, the separator, the type.\<close>

definition mounts_at :: "string \<Rightarrow> string \<Rightarrow> string \<Rightarrow> bool" where
  "mounts_at line dir fs_type \<longleftrightarrow> (\<exists>pre point optional rest.
     split CHR '' '' line = pre @ point # optional @ ''-'' # fs_type # rest
     \<and> length pre = 4 \<and> same_path point dir \<and> ''-'' \<notin> set optional)"

lemma line_status_tmpfs:
  assumes "line_status dir columns = Ok b"
  shows "b \<and> (\<exists>optional rest. columns = optional @ ''-'' # ''tmpfs'' # rest \<and> ''-'' \<notin> set optional)"
proof -
  let ?o = "takeWhile (\<lambda>x. x \<noteq> ''-'') columns" and ?d = "dropWhile (\<lambda>x. x \<noteq> ''-'') columns"
  from assms obtain x rest where d: "?d = x # ''tmpfs'' # rest" and b: "b"
    by (auto simp: line_status_def split: list.splits if_splits)
  have "x = ''-''" using hd_dropWhile [of "\<lambda>x. x \<noteq> ''-''" columns] d by auto
  moreover have "columns = ?o @ ?d" by simp
  moreover have "''-'' \<notin> set ?o" by (auto dest: set_takeWhileD)
  ultimately show ?thesis using b d by metis
qed

lemma check_lines_True:
  assumes "check_lines dir ls = Ok True"
  shows "\<exists>before line after. ls = before @ line # after \<and> mounts_at line dir ''tmpfs''
    \<and> (\<forall>l \<in> set before. \<not> same_path (split CHR '' '' l ! 4) dir)"
  using assms
proof (induction ls)
  case (Cons l ls)
  let ?f = "split CHR '' '' l"
  have len: "5 \<le> length ?f" using Cons.prems by (auto simp: Let_def not_less split: if_splits)
  show ?case
  proof (cases "same_path (?f ! 4) dir")
    case True
    then have "line_status dir (drop 5 ?f) = Ok True" using Cons.prems len by (simp add: Let_def)
    then obtain optional rest where o: "drop 5 ?f = optional @ ''-'' # ''tmpfs'' # rest" "''-'' \<notin> set optional"
      using line_status_tmpfs by blast
    have "?f = take 4 ?f @ ?f ! 4 # drop 5 ?f" "length (take 4 ?f) = 4"
      using len id_take_nth_drop [of 4 ?f] by simp_all
    then have "mounts_at l dir ''tmpfs''" unfolding mounts_at_def using o True by metis
    then have "l # ls = [] @ l # ls \<and> mounts_at l dir ''tmpfs'' \<and> (\<forall>k \<in> set []. \<not> same_path (split CHR '' '' k ! 4) dir)"
      by simp
    then show ?thesis by blast
  next
    case False
    then obtain before line after where "ls = before @ line # after" "mounts_at line dir ''tmpfs''"
      "\<forall>l \<in> set before. \<not> same_path (split CHR '' '' l ! 4) dir"
      using Cons len by (auto simp: Let_def)
    then have "l # ls = (l # before) @ line # after \<and> mounts_at line dir ''tmpfs''
        \<and> (\<forall>k \<in> set (l # before). \<not> same_path (split CHR '' '' k ! 4) dir)"
      using False by simp
    then show ?thesis by blast
  qed
qed simp

lemma run_mount_Ok:
  assumes "run_mount env texts cmd m = (Ok (), m')"
  shows "\<exists>out f. proc env cmd (disk m) = (Exited out, f) \<and> status_code out = Some 0
    \<and> m' = m\<lparr>disk := f, executed := executed m @ [cmd]\<rparr>"
  using assms by (auto simp: run_mount_def run_command_def split: prod.splits proc_result.splits if_splits)

lemma ensure_dir_Ok:
  assumes "ensure_dir env texts p m = (Ok (), m')"
  shows "exists_path (disk m') p \<and> executed m' = executed m"
  using assms
  by (auto simp: ensure_dir_def act_bind_Ok_iff act_lift_Ok_iff from_disk_def on_disk_def create_dir_def exists_path_def
      split: if_splits outcome.splits)

text \<open>\<^bold>\<open>C33\<close>: when the secure mount is reported as ready, it is the directory \<open>secure\<close> of the work directory, and
  either the first line about it in \<open>mountinfo\<close> says tmpfs and nothing was changed, or the directory was
  there when one program was run, \<open>mount\<close> with the type tmpfs, mode 0700 and the configured size, and that
  program succeeded.\<close>

theorem mount_ready:
  assumes "mount env texts work_dir secure_size m = (Ok dir, m')"
  shows "dir = path_join work_dir ''secure''
    \<and> (m' = m \<and> (\<exists>info before line after. read_file (sys env) (disk m) MOUNTINFO = Ok info
          \<and> filter is_utf8 (read_lines info) = before @ line # after \<and> mounts_at line dir ''tmpfs''
          \<and> (\<forall>l \<in> set before. \<not> same_path (split CHR '' '' l ! 4) dir))
       \<or> (\<exists>m1 out f. exists_path (disk m1) dir \<and> executed m1 = executed m
          \<and> proc env (mount_command secure_size dir) (disk m1) = (Exited out, f) \<and> status_code out = Some 0
          \<and> m' = m1\<lparr>disk := f, executed := executed m1 @ [mount_command secure_size dir]\<rparr>))"
proof -
  from assms obtain b where dir: "dir = path_join work_dir ''secure''"
    and c: "check_mount (sys env) (disk m) dir = Ok b"
    and k: "(if b then act_lift (Ok ())
       else act_bind (ensure_dir env texts dir) (\<lambda>_. run_mount env texts (mount_command secure_size dir))) m = (Ok (), m')"
    by (auto simp: mount_def Let_def act_bind_Ok_iff act_lift_Ok_iff from_disk_def)
  show ?thesis
  proof (cases b)
    case True
    then obtain info where "read_file (sys env) (disk m) MOUNTINFO = Ok info"
      and "check_lines dir (filter is_utf8 (read_lines info)) = Ok True"
      using c by (auto simp: check_mount_def and_then_Ok_iff)
    then show ?thesis using check_lines_True [of dir] dir k True by (auto simp: act_lift_Ok_iff)
  next
    case False
    then obtain m1 where "ensure_dir env texts dir m = (Ok (), m1)"
      and "run_mount env texts (mount_command secure_size dir) m1 = (Ok (), m')"
      using k by (auto simp: act_bind_Ok_iff)
    then show ?thesis using ensure_dir_Ok run_mount_Ok dir by metis
  qed
qed

text \<open>Only the first line about the directory is looked at, although a later one is the file system on top.\<close>

lemma later_mount_ignored:
  assumes "check_lines dir ls = Ok True"
  shows "check_lines dir (ls @ [line]) = Ok True"
  using assms by (induction ls) (auto simp: Let_def split: if_splits)

text \<open>The kernel writes a space in a mount point as \<open>\040\<close>; the line is compared as it is written, so a directory with
  a space in its name is never found to be mounted.\<close>

lemma components_chars: "x \<in> set (snd (snd (components p))) \<Longrightarrow> set x \<subseteq> set p"
proof -
  have "x \<in> set (split c p) \<Longrightarrow> set x \<subseteq> set p" for c
    by (induction p arbitrary: x) (fastforce split: list.splits if_splits)+
  then show "x \<in> set (snd (snd (components p))) \<Longrightarrow> set x \<subseteq> set p" by (auto simp: components_def Let_def)
qed

lemma space_never_mounted:
  assumes "x \<in> set (snd (snd (components dir)))" and "CHR '' '' \<in> set x"
  shows "check_lines dir ls \<noteq> Ok True"
proof
  assume "check_lines dir ls = Ok True"
  then obtain line where "mounts_at line dir ''tmpfs''" using check_lines_True by blast
  then obtain point where "point \<in> set (split CHR '' '' line)" and "same_path point dir"
    unfolding mounts_at_def by (metis in_set_conv_decomp)
  then have "CHR '' '' \<notin> set point" and "x \<in> set (snd (snd (components point)))"
    using split_no_sep assms(1) by (auto simp: same_path_def)
  then show False using components_chars assms(2) by blast
qed

subsection \<open>A mount\<close>

definition mount_texts_ref :: mount_texts where
  "mount_texts_ref = \<lparr>io_debug = \<lambda>_. ''error'', exit_status = \<lambda>_. ''exit status: 1''\<rparr>"

definition mount_env_ref :: machine_env where
  "mount_env_ref =
     \<lparr>sys = quiet, proc = \<lambda>_ f. (Exited \<lparr>status_code = Some 0, stdout_bytes = [], stderr_bytes = []\<rparr>, f),
      temp_path = \<lambda>_ dir. dir, bad_utf8 = \<lambda>s. s\<rparr>"

definition mount_machine_ref :: machine where
  "mount_machine_ref =
     \<lparr>disk = [MOUNTINFO \<mapsto> Regular ''36 35 98:0 / /w/secure rw master:1 - tmpfs tmpfs rw'' 0x124, ''/w'' \<mapsto> Directory],
      executed = []\<rparr>"

lemma mountinfo_ref:
  "read_lines ''36 35 98:0 / /w/secure rw master:1 - tmpfs tmpfs rw'' = [''36 35 98:0 / /w/secure rw master:1 - tmpfs tmpfs rw'']"
  "is_utf8 ''36 35 98:0 / /w/secure rw master:1 - tmpfs tmpfs rw''"
  "check_lines ''/w/secure'' [''36 35 98:0 / /w/secure rw master:1 - tmpfs tmpfs rw''] = Ok True"
  "read_file quiet (disk mount_machine_ref) MOUNTINFO = Ok ''36 35 98:0 / /w/secure rw master:1 - tmpfs tmpfs rw''"
  by code_simp+

lemma mount_ref:
  "mount mount_env_ref mount_texts_ref ''/w'' secure_size mount_machine_ref = (Ok ''/w/secure'', mount_machine_ref)"
  using mountinfo_ref
  by (simp add: mount_def path_join_def act_bind_def act_lift_def from_disk_def check_mount_def mount_env_ref_def Let_def)

theorem mount_ready_witness:
  "mount mount_env_ref mount_texts_ref ''/w'' ''1m'' mount_machine_ref = (Ok ''/w/secure'', mount_machine_ref)
   \<and> mounts_at ''36 35 98:0 / /w/secure rw master:1 - tmpfs tmpfs rw'' ''/w/secure'' ''tmpfs''"
proof -
  have run: False if "executed m1 = executed mount_machine_ref"
      "mount_machine_ref = m1\<lparr>disk := f, executed := executed m1 @ [c]\<rparr>" for m1 f c
    using arg_cong [OF that(2), of executed] that(1) by simp
  have "sys mount_env_ref = quiet" by (simp add: mount_env_ref_def)
  then obtain before line after where
      "filter is_utf8 [''36 35 98:0 / /w/secure rw master:1 - tmpfs tmpfs rw''] = before @ line # after"
      and "mounts_at line ''/w/secure'' ''tmpfs''"
    using mount_ready [OF mount_ref, of "''1m''"] run mountinfo_ref(1,4) by fastforce
  then show ?thesis using mount_ref mountinfo_ref(2) by (auto simp: Cons_eq_append_conv)
qed

end
