(* ===== verification/Permissions.thy ===== *)
theory Permissions
  imports Errors
begin

text \<open>
  Dropping privileges (\<^verbatim>\<open>keylime-agent/src/permissions.rs\<close>). The process is its user, groups and the owners of
  files; the calls of the C library are parameters for what they find and whether they fail, and have the
  documented effect when they succeed. Reading past the end of an array has no meaning: \<open>None\<close>.
\<close>

section \<open>The process and the C library\<close>

record process =
  p_uid :: nat
  p_euid :: nat
  p_gid :: nat
  p_groups :: "nat list"
  p_owner :: "string \<rightharpoonup> nat \<times> nat"

record passwd =
  pw_name :: string
  pw_uid :: nat

datatype libc_call = Setgid nat | Setgroups "nat list" | Setuid nat | Chown string nat nat

record libc =
  getgrnam :: "string \<Rightarrow> (nat, string) outcome"
  getpwnam :: "string \<Rightarrow> (passwd, string) outcome"
  grouplist :: "string \<Rightarrow> nat \<Rightarrow> nat list"
  call_fails :: "libc_call \<Rightarrow> process \<Rightarrow> bool"

fun call_effect :: "libc_call \<Rightarrow> process \<Rightarrow> process" where
  "call_effect (Setgid g) p = p\<lparr>p_gid := g\<rparr>"
| "call_effect (Setgroups gs) p = p\<lparr>p_groups := gs\<rparr>"
| "call_effect (Setuid u) p = p\<lparr>p_uid := u, p_euid := u\<rparr>"
| "call_effect (Chown path u g) p = p\<lparr>p_owner := (p_owner p)(path \<mapsto> (u, g))\<rparr>"

definition libc_call :: "libc \<Rightarrow> libc_call \<Rightarrow> (process, unit, agent_error) act" where
  "libc_call lc call p = (if call_fails lc call p then (Err Permission, p) else (Ok (), call_effect call p))"

section \<open>Users and groups\<close>

record user_ids =
  passwd :: passwd
  group_gid :: nat

definition c_string :: "string \<Rightarrow> string option" where
  "c_string s = (if CHR 0x00 \<in> set s then None else Some s)"

text \<open>\<open>user:group\<close>; the group is looked up first.\<close>

definition user_ids_try_from :: "libc \<Rightarrow> string \<Rightarrow> (user_ids, agent_error) outcome" where
  "user_ids_try_from lc v =
     (case split CHR '':'' v of
        [user, grp] \<Rightarrow>
          (case c_string grp of
             None \<Rightarrow> Err (Conversion (''Failed to convert '' @ grp @ '' to CString''))
           | Some g \<Rightarrow>
               and_then (map_err Conversion (getgrnam lc g)) (\<lambda>gid.
               case c_string user of
                 None \<Rightarrow> Err (Conversion (''Failed to convert '' @ user @ '' to CString''))
               | Some u \<Rightarrow>
                   and_then (map_err Conversion (getpwnam lc u)) (\<lambda>pw.
                   Ok \<lparr>passwd = pw, group_gid = gid\<rparr>)))
      | _ \<Rightarrow> Err (Conversion (''Invalid parameter format: '' @ v @ '' cannot be parsed as '' @ [CHR 0x27]
               @ ''user:group'' @ [CHR 0x27])))"

section \<open>Running as another user\<close>

text \<open>
  \<open>getgrouplist\<close> on an array of 32: when there are more groups it stores as many as fit, sets the count to the
  number of groups and fails. The second attempt fills a vector that shadows the array, so what is passed
  on is the count of all groups with the array of 32.
\<close>

definition supplementary_groups :: "libc \<Rightarrow> string \<Rightarrow> nat \<Rightarrow> nat list \<times> nat" where
  "supplementary_groups lc name gid =
     (let gs = grouplist lc name gid in (take 32 (gs @ replicate 32 0), length gs))"

definition read_array :: "nat \<Rightarrow> 'a list \<Rightarrow> 'a list option" where
  "read_array n xs = (if n \<le> length xs then Some (take n xs) else None)"

definition run_as :: "libc \<Rightarrow> string \<Rightarrow> process \<Rightarrow> ((unit, agent_error) outcome \<times> process) option" where
  "run_as lc user_group p =
     (case user_ids_try_from lc user_group of
        Err e \<Rightarrow> Some (Err e, p)
      | Panic \<Rightarrow> Some (Panic, p)
      | Ok ids \<Rightarrow>
          (case libc_call lc (Setgid (group_gid ids)) p of
             (Ok _, p1) \<Rightarrow>
               (let (sup_groups, ngroups) = supplementary_groups lc (pw_name (passwd ids)) (group_gid ids)
                in case read_array ngroups sup_groups of
                     None \<Rightarrow> None
                   | Some gs \<Rightarrow>
                       Some (act_bind (libc_call lc (Setgroups gs)) (\<lambda>_.
                             libc_call lc (Setuid (pw_uid (passwd ids)))) p1))
           | (r, p1) \<Rightarrow> Some (r, p1)))"

definition chown :: "libc \<Rightarrow> (string \<Rightarrow> string) \<Rightarrow> string \<Rightarrow> string \<Rightarrow> (process, unit, agent_error) act" where
  "chown lc nul_error user_group path p =
     (case user_ids_try_from lc user_group of
        Ok ids \<Rightarrow>
          if p_euid p \<noteq> 0 then (Err Permission, p)
          else
            (case c_string path of
               None \<Rightarrow> (Err (Nul (nul_error path)), p)
             | Some c_path \<Rightarrow> libc_call lc (Chown c_path (pw_uid (passwd ids)) (group_gid ids)) p)
      | Err e \<Rightarrow> (Err e, p)
      | Panic \<Rightarrow> (Panic, p))"

section \<open>What is dropped\<close>

lemma user_ids_Ok:
  assumes "user_ids_try_from lc v = Ok ids"
  shows "\<exists>user grp. v = user @ '':'' @ grp \<and> CHR '':'' \<notin> set user \<and> CHR '':'' \<notin> set grp
    \<and> getpwnam lc user = Ok (passwd ids) \<and> getgrnam lc grp = Ok (group_gid ids)"
proof -
  from assms obtain user grp where s: "split CHR '':'' v = [user, grp]"
    and l: "getpwnam lc user = Ok (passwd ids)" "getgrnam lc grp = Ok (group_gid ids)"
    by (auto simp: user_ids_try_from_def c_string_def and_then_Ok_iff split: list.splits if_splits option.splits)
  have "v = user @ '':'' @ grp" using join_split [of "CHR '':''" v] s by simp
  moreover have "CHR '':'' \<notin> set user" "CHR '':'' \<notin> set grp" using split_no_sep [of _ "CHR '':''" v] s by auto
  ultimately show ?thesis using l by blast
qed

text \<open>When privileges are reported as dropped, the process has exactly the user and the group that the option
  \<open>user:group\<close> names and the supplementary groups of that user. When it fails, the user is unchanged: the process never runs as the
  new user with groups of the old one.\<close>

theorem run_as_drops:
  assumes "run_as lc user_group p = Some (r, p')"
  shows "(r = Ok () \<longrightarrow> (\<exists>user grp pw gid. user_group = user @ '':'' @ grp
            \<and> getpwnam lc user = Ok pw \<and> getgrnam lc grp = Ok gid
            \<and> p' = p\<lparr>p_uid := pw_uid pw, p_euid := pw_uid pw, p_gid := gid, p_groups := grouplist lc (pw_name pw) gid\<rparr>))
    \<and> (r \<noteq> Ok () \<longrightarrow> p_uid p' = p_uid p \<and> p_euid p' = p_euid p)"
proof (cases "user_ids_try_from lc user_group")
  case (Ok ids)
  let ?gs = "grouplist lc (pw_name (passwd ids)) (group_gid ids)"
  obtain user grp where "user_group = user @ '':'' @ grp" and "getpwnam lc user = Ok (passwd ids)"
    and "getgrnam lc grp = Ok (group_gid ids)" using user_ids_Ok [OF Ok] by blast
  moreover have "r = Ok () \<longrightarrow> p' = p\<lparr>p_uid := pw_uid (passwd ids), p_euid := pw_uid (passwd ids), p_gid := group_gid ids, p_groups := ?gs\<rparr>"
    and "r \<noteq> Ok () \<longrightarrow> p_uid p' = p_uid p \<and> p_euid p' = p_euid p"
    using assms Ok
    by (auto simp: run_as_def supplementary_groups_def read_array_def libc_call_def act_bind_def Let_def
        split: if_splits)
  ultimately show ?thesis by blast
qed (use assms in \<open>auto simp: run_as_def\<close>)

text \<open>\<^bold>\<open>C34\<close>: for a user with more than 32 groups the call has no meaning: after the group id was changed, the
  count of all groups is passed to \<open>setgroups\<close> together with the array of 32.\<close>

theorem run_as_overflow:
  assumes "user_ids_try_from lc user_group = Ok ids"
    and "\<not> call_fails lc (Setgid (group_gid ids)) p"
  shows "run_as lc user_group p = None \<longleftrightarrow> 32 < length (grouplist lc (pw_name (passwd ids)) (group_gid ids))"
  using assms
  by (auto simp: run_as_def supplementary_groups_def read_array_def libc_call_def Let_def)

text \<open>Changing the owner needs the effective user to be root, and touches one file only.\<close>

lemma chown_Ok:
  assumes "chown lc nul_error user_group path p = (Ok (), p')"
  shows "p_euid p = 0 \<and> (\<exists>ids. user_ids_try_from lc user_group = Ok ids
    \<and> p' = p\<lparr>p_owner := (p_owner p)(path \<mapsto> (pw_uid (passwd ids), group_gid ids))\<rparr>)"
  using assms
  by (auto simp: chown_def libc_call_def c_string_def split: outcome.splits if_splits option.splits)

subsection \<open>A library\<close>

definition libc_ref :: "nat \<Rightarrow> libc" where
  "libc_ref n =
     \<lparr>getgrnam = \<lambda>_. Ok 50, getpwnam = \<lambda>u. Ok \<lparr>pw_name = u, pw_uid = 100\<rparr>, grouplist = \<lambda>_ g. g # replicate n 7,
      call_fails = \<lambda>_ _. False\<rparr>"

lemma libc_ref_simps [simp]:
  "grouplist (libc_ref n) u g = g # replicate n 7" "\<not> call_fails (libc_ref n) call p"
  "getgrnam (libc_ref n) grp = Ok 50" "getpwnam (libc_ref n) u = Ok \<lparr>pw_name = u, pw_uid = 100\<rparr>"
  by (simp_all add: libc_ref_def)

definition root_ref :: process where
  "root_ref = \<lparr>p_uid = 0, p_euid = 0, p_gid = 0, p_groups = [0], p_owner = Map.empty\<rparr>"

lemma user_ids_ref:
  "user_ids_try_from (libc_ref n) ''keylime:tss'' = Ok \<lparr>passwd = \<lparr>pw_name = ''keylime'', pw_uid = 100\<rparr>, group_gid = 50\<rparr>"
  by (simp add: user_ids_try_from_def c_string_def)

lemma run_as_ref:
  "run_as (libc_ref 1) ''keylime:tss'' p = Some (Ok (), p\<lparr>p_uid := 100, p_euid := 100, p_gid := 50, p_groups := [50, 7]\<rparr>)"
  by (simp add: run_as_def user_ids_ref supplementary_groups_def read_array_def libc_call_def act_bind_def Let_def)

lemma chown_ref:
  "chown (libc_ref n) nul ''keylime:tss'' ''/w/secure'' root_ref = (Ok (), root_ref\<lparr>p_owner := [''/w/secure'' \<mapsto> (100, 50)]\<rparr>)"
  by (simp add: chown_def user_ids_ref c_string_def libc_call_def root_ref_def)

theorem run_as_drops_witness:
  "\<exists>p'. run_as (libc_ref 1) ''keylime:tss'' root_ref = Some (Ok (), p') \<and> p_uid p' = 100 \<and> p_groups p' = [50, 7]"
proof -
  obtain p' where r: "run_as (libc_ref 1) ''keylime:tss'' root_ref = Some (Ok (), p')"
    by (simp add: run_as_def user_ids_ref supplementary_groups_def read_array_def libc_call_def act_bind_def Let_def)
  then show ?thesis using run_as_drops [OF r] by auto
qed

theorem run_as_overflow_witness:
  "run_as (libc_ref 32) ''keylime:tss'' root_ref = None \<and> run_as (libc_ref 31) ''keylime:tss'' root_ref \<noteq> None"
  using run_as_overflow [OF user_ids_ref, of 32 root_ref] run_as_overflow [OF user_ids_ref, of 31 root_ref]
  by simp

end
