(* ===== verification/Registrar.thy ===== *)
theory Registrar
  imports Common Http
begin

text \<open>
  The client of the registrar (\<^verbatim>\<open>keylime-agent/src/registrar_agent.rs\<close>) and the serializers of byte fields it
  uses (\<^verbatim>\<open>keylime-agent/src/serialization.rs\<close>). The state is the list of requests that were issued; what comes
  back is given by the environment, as are base64, the encodings of certificates and the texts of errors.
\<close>

section \<open>Byte fields\<close>

record b64_codec =
  b64_encode :: "u8 list \<Rightarrow> string"
  b64_decode :: "string \<Rightarrow> (u8 list, string) outcome"

definition serialize_as_base64 :: "b64_codec \<Rightarrow> u8 list \<Rightarrow> json" where
  "serialize_as_base64 b bytes = JStr (b64_encode b bytes)"

definition deserialize_as_base64 :: "b64_codec \<Rightarrow> json \<Rightarrow> u8 list option" where
  "deserialize_as_base64 b j =
     (case j of JStr s \<Rightarrow> (case b64_decode b s of Ok bytes \<Rightarrow> Some bytes | _ \<Rightarrow> None) | _ \<Rightarrow> None)"

definition serialize_maybe_base64 :: "b64_codec \<Rightarrow> u8 list option \<Rightarrow> json" where
  "serialize_maybe_base64 b v = (case v of Some bytes \<Rightarrow> JStr (b64_encode b bytes) | None \<Rightarrow> JNull)"

definition serialize_option_base64 :: "b64_codec \<Rightarrow> u8 list option \<Rightarrow> json" where
  "serialize_option_base64 b v = (case v of Some bytes \<Rightarrow> JStr (b64_encode b bytes) | None \<Rightarrow> JNull)"

text \<open>\<open>Option::<WrappedBase64Encoded>::deserialize\<close>: null is \<open>None\<close>, everything else has to be a base64 string.\<close>

definition deserialize_maybe_base64 :: "b64_codec \<Rightarrow> json \<Rightarrow> u8 list option option" where
  "deserialize_maybe_base64 b j =
     (if j = JNull then Some None else map_option Some (deserialize_as_base64 b j))"

section \<open>Requests and responses\<close>

record register =
  reg_ekcert :: "u8 list option"
  reg_ek_tpm :: "u8 list"
  reg_aik_tpm :: "u8 list"
  reg_iak_tpm :: "u8 list option"
  reg_idevid_tpm :: "u8 list option"
  reg_idevid_cert :: "u8 list option"
  reg_iak_cert :: "u8 list option"
  reg_iak_attest :: "u8 list option"
  reg_iak_sign :: "u8 list option"
  reg_mtls_cert :: "string option"
  reg_ip :: "string option"
  reg_port :: "nat option"

text \<open>\<open>skip_serializing_if\<close> leaves a member out; without it, an absent value is null.\<close>

definition skip_if :: "('a \<Rightarrow> bool) \<Rightarrow> string \<Rightarrow> ('a \<Rightarrow> json) \<Rightarrow> 'a \<Rightarrow> (string \<times> json) list" where
  "skip_if absent name f v = (if absent v then [] else [(name, f v)])"

definition register_to_json :: "b64_codec \<Rightarrow> register \<Rightarrow> json" where
  "register_to_json b r =
     JObj ([(''ekcert'', serialize_maybe_base64 b (reg_ekcert r))]
       @ skip_if (\<lambda>v. v = []) ''ek_tpm'' (serialize_as_base64 b) (reg_ek_tpm r)
       @ [(''aik_tpm'', serialize_as_base64 b (reg_aik_tpm r))]
       @ skip_if Option.is_none ''iak_tpm'' (serialize_option_base64 b) (reg_iak_tpm r)
       @ skip_if Option.is_none ''idevid_tpm'' (serialize_option_base64 b) (reg_idevid_tpm r)
       @ [(''idevid_cert'', serialize_maybe_base64 b (reg_idevid_cert r)),
          (''iak_cert'', serialize_maybe_base64 b (reg_iak_cert r))]
       @ skip_if Option.is_none ''iak_attest'' (serialize_maybe_base64 b) (reg_iak_attest r)
       @ skip_if Option.is_none ''iak_sign'' (serialize_maybe_base64 b) (reg_iak_sign r)
       @ optional_field ''mtls_cert'' JStr (reg_mtls_cert r)
       @ optional_field ''ip'' JStr (reg_ip r)
       @ optional_field ''port'' (\<lambda>n. JNum (int n)) (reg_port r))"

definition activate_to_json :: "string \<Rightarrow> json" where
  "activate_to_json auth_tag = JObj [(''auth_tag'', JStr auth_tag)]"

text \<open>
  A derived deserializer takes a struct from an object, where a known member may occur once and unknown ones are
  passed over, or from an array with one element per field.
\<close>

definition struct_members :: "string list \<Rightarrow> json \<Rightarrow> json option list option" where
  "struct_members names j =
     (case j of
        JObj ms \<Rightarrow>
          if list_all (\<lambda>n. length (filter (\<lambda>m. fst m = n) ms) \<le> 1) names then Some (map (map_of ms) names) else None
      | JArr js \<Rightarrow> if length js = length names then Some (map Some js) else None
      | _ \<Rightarrow> None)"

definition response_of_json :: "(json \<Rightarrow> 'a option) \<Rightarrow> json \<Rightarrow> 'a option" where
  "response_of_json results_of j =
     (case struct_members [''code'', ''status'', ''results''] j of
        Some [Some (JNum _), Some (JStr _), Some r] \<Rightarrow> results_of r
      | _ \<Rightarrow> None)"

definition register_results :: "b64_codec \<Rightarrow> json \<Rightarrow> u8 list option option" where
  "register_results b j =
     (case struct_members [''blob''] j of Some [Some v] \<Rightarrow> deserialize_maybe_base64 b v | _ \<Rightarrow> None)"

definition activate_results :: "json \<Rightarrow> unit option" where
  "activate_results j = map_option (\<lambda>_. ()) (struct_members [] j)"

section \<open>The client\<close>

record net_request =
  rq_method :: string
  rq_url :: string
  rq_body :: json

text \<open>An answer has a status and a body that is JSON, or text with the error of the JSON parser.\<close>

datatype net_reply = Net_failed string | Replied nat "(json, string) outcome"

type_synonym 'a net_act = "(net_request list, 'a, agent_error) act"

record 'cert registrar_env =
  re_answer :: "net_request list \<Rightarrow> net_request \<Rightarrow> net_reply"
  re_shape_error :: "json \<Rightarrow> string"
  re_codec :: b64_codec
  re_to_pem :: "'cert \<Rightarrow> (string, string) outcome"
  re_to_der :: "'cert \<Rightarrow> (u8 list, string) outcome"
  re_utf8_error :: "string \<Rightarrow> string"

definition send_request :: "'cert registrar_env \<Rightarrow> net_request \<Rightarrow> (nat \<times> (json, string) outcome) net_act" where
  "send_request env rq sent =
     (case re_answer env sent rq of
        Net_failed e \<Rightarrow> (Err (Reqwest e), sent @ [rq])
      | Replied c body \<Rightarrow> (Ok (c, body), sent @ [rq]))"

definition is_success :: "nat \<Rightarrow> bool" where
  "is_success c \<longleftrightarrow> 200 \<le> c \<and> c < 300"

text \<open>\<open>resp.json()\<close>.\<close>

definition decode_body ::
  "'cert registrar_env \<Rightarrow> (json \<Rightarrow> 'a option) \<Rightarrow> (json, string) outcome \<Rightarrow> ('a, agent_error) outcome" where
  "decode_body env results_of body =
     and_then (map_err Reqwest body) (\<lambda>j. ok_or (Reqwest (re_shape_error env j)) (response_of_json results_of j))"

definition agents_url :: "string \<Rightarrow> nat \<Rightarrow> string \<Rightarrow> string" where
  "agents_url registrar_ip registrar_port agent_uuid =
     ''http://'' @ registrar_ip @ '':'' @ show_nat registrar_port @ ''/'' @ API_VERSION @ ''/agents/'' @ agent_uuid"

definition do_activate_agent ::
  "'cert registrar_env \<Rightarrow> string \<Rightarrow> nat \<Rightarrow> string \<Rightarrow> string \<Rightarrow> unit net_act" where
  "do_activate_agent env registrar_ip registrar_port agent_uuid auth_tag =
     (let addr = agents_url registrar_ip registrar_port agent_uuid
      in act_bind (send_request env \<lparr>rq_method = ''PUT'', rq_url = addr, rq_body = activate_to_json auth_tag\<rparr>) (\<lambda>(c, body).
         if \<not> is_success c then act_lift (Err (Registrar addr c))
         else act_bind (act_lift (decode_body env activate_results body)) (\<lambda>_. act_lift (Ok ()))))"

text \<open>The keys and certificates of a registration as the caller has them.\<close>

record 'cert registration =
  rn_ek_tpm :: "u8 list"
  rn_ekcert :: "u8 list option"
  rn_aik_tpm :: "u8 list"
  rn_iak_tpm :: "u8 list option"
  rn_idevid_tpm :: "u8 list option"
  rn_idevid_cert :: "'cert option"
  rn_iak_cert :: "'cert option"
  rn_iak_attest :: "u8 list option"
  rn_iak_sign :: "u8 list option"
  rn_mtls_cert :: "'cert option"
  rn_ip :: string
  rn_port :: nat

definition optional_der :: "'cert registrar_env \<Rightarrow> 'cert option \<Rightarrow> (u8 list option, agent_error) outcome" where
  "optional_der env cert =
     (case cert of Some c \<Rightarrow> and_then (map_err Crypto (re_to_der env c)) (\<lambda>d. Ok (Some d)) | None \<Rightarrow> Ok None)"

definition register_data :: "'cert registrar_env \<Rightarrow> 'cert registration \<Rightarrow> (register, agent_error) outcome" where
  "register_data env rn =
     and_then
       (case rn_mtls_cert rn of
          Some cert \<Rightarrow>
            and_then (map_err Crypto (re_to_pem env cert)) (\<lambda>pem.
            if is_utf8 pem then Ok (Some pem) else Err (Utf8 (re_utf8_error env pem)))
        | None \<Rightarrow> Ok (Some ''disabled'')) (\<lambda>mtls_cert.
     and_then (optional_der env (rn_idevid_cert rn)) (\<lambda>idevid_cert.
     and_then (optional_der env (rn_iak_cert rn)) (\<lambda>iak_cert.
     Ok \<lparr>reg_ekcert = rn_ekcert rn, reg_ek_tpm = rn_ek_tpm rn, reg_aik_tpm = rn_aik_tpm rn,
         reg_iak_tpm = rn_iak_tpm rn, reg_idevid_tpm = rn_idevid_tpm rn, reg_idevid_cert = idevid_cert,
         reg_iak_cert = iak_cert, reg_iak_attest = rn_iak_attest rn, reg_iak_sign = rn_iak_sign rn,
         reg_mtls_cert = mtls_cert, reg_ip = (if rn_ip rn = [] then None else Some (rn_ip rn)),
         reg_port = Some (rn_port rn)\<rparr>)))"

definition do_register_agent ::
  "'cert registrar_env \<Rightarrow> string \<Rightarrow> nat \<Rightarrow> string \<Rightarrow> 'cert registration \<Rightarrow> u8 list net_act" where
  "do_register_agent env registrar_ip registrar_port agent_uuid rn =
     act_bind (act_lift (register_data env rn)) (\<lambda>data.
     let addr = agents_url registrar_ip registrar_port agent_uuid
     in act_bind (send_request env
            \<lparr>rq_method = ''POST'', rq_url = addr, rq_body = register_to_json (re_codec env) data\<rparr>) (\<lambda>(c, body).
        if \<not> is_success c then act_lift (Err (Registrar addr c))
        else
          act_bind (act_lift (decode_body env (register_results (re_codec env)) body)) (\<lambda>blob.
          act_lift (Ok (case blob of Some bytes \<Rightarrow> bytes | None \<Rightarrow> [])))))"

section \<open>What the registrar reads\<close>

text \<open>Documented: decoding inverts encoding.\<close>

definition base64_inverse :: "b64_codec \<Rightarrow> bool" where
  "base64_inverse b \<longleftrightarrow> (\<forall>bytes. b64_decode b (b64_encode b bytes) = Ok bytes)"

text \<open>A reader that takes a missing member and null alike.\<close>

definition read_bytes :: "b64_codec \<Rightarrow> json \<Rightarrow> string \<Rightarrow> u8 list option" where
  "read_bytes b j name = Option.bind (field_of j name) (deserialize_as_base64 b)"

definition read_text :: "json \<Rightarrow> string \<Rightarrow> string option" where
  "read_text j name = (case field_of j name of Some (JStr s) \<Rightarrow> Some s | _ \<Rightarrow> None)"

definition read_number :: "json \<Rightarrow> string \<Rightarrow> nat option" where
  "read_number j name = (case field_of j name of Some (JNum i) \<Rightarrow> Some (nat i) | _ \<Rightarrow> None)"

definition read_register :: "b64_codec \<Rightarrow> json \<Rightarrow> register" where
  "read_register b j =
     \<lparr>reg_ekcert = read_bytes b j ''ekcert'', reg_ek_tpm = (case read_bytes b j ''ek_tpm'' of Some v \<Rightarrow> v | None \<Rightarrow> []),
      reg_aik_tpm = (case read_bytes b j ''aik_tpm'' of Some v \<Rightarrow> v | None \<Rightarrow> []),
      reg_iak_tpm = read_bytes b j ''iak_tpm'', reg_idevid_tpm = read_bytes b j ''idevid_tpm'',
      reg_idevid_cert = read_bytes b j ''idevid_cert'', reg_iak_cert = read_bytes b j ''iak_cert'',
      reg_iak_attest = read_bytes b j ''iak_attest'', reg_iak_sign = read_bytes b j ''iak_sign'',
      reg_mtls_cert = read_text j ''mtls_cert'', reg_ip = read_text j ''ip'', reg_port = read_number j ''port''\<rparr>"

lemma deserialize_serialize [simp]:
  assumes "base64_inverse b"
  shows "deserialize_as_base64 b (serialize_as_base64 b bytes) = Some bytes"
    and "deserialize_as_base64 b (serialize_maybe_base64 b v) = v"
    and "deserialize_as_base64 b (serialize_option_base64 b v) = v"
    and "deserialize_maybe_base64 b (serialize_maybe_base64 b v) = Some v"
  using assms
  by (simp_all add: base64_inverse_def deserialize_as_base64_def serialize_as_base64_def serialize_maybe_base64_def
      serialize_option_base64_def deserialize_maybe_base64_def split: option.split)

text \<open>Finding a member in the parts of an object.\<close>

lemma members_parts [simp]:
  "filter (\<lambda>m. fst m = n) (skip_if absent name f v) = (if name = n then skip_if absent name f v else [])"
  "filter (\<lambda>m. fst m = n) (optional_field name g w) = (if name = n then optional_field name g w else [])"
  by (simp_all add: skip_if_def optional_field_def split: option.split)

lemma field_of_skip [simp]:
  "(case skip_if absent name f v of [m] \<Rightarrow> Some (snd m) | _ \<Rightarrow> None) = (if absent v then None else Some (f v))"
  "(case optional_field name g w of [m] \<Rightarrow> Some (snd m) | _ \<Rightarrow> None) = map_option g w"
  by (simp_all add: skip_if_def optional_field_def split: option.split)

lemma register_fields [simp]:
  fixes b r
  defines "j \<equiv> register_to_json b r"
  shows "field_of j ''ekcert'' = Some (serialize_maybe_base64 b (reg_ekcert r))"
    and "field_of j ''ek_tpm'' = (if reg_ek_tpm r = [] then None else Some (serialize_as_base64 b (reg_ek_tpm r)))"
    and "field_of j ''aik_tpm'' = Some (serialize_as_base64 b (reg_aik_tpm r))"
    and "field_of j ''iak_tpm'' = (if Option.is_none (reg_iak_tpm r) then None
           else Some (serialize_option_base64 b (reg_iak_tpm r)))"
    and "field_of j ''idevid_tpm'' = (if Option.is_none (reg_idevid_tpm r) then None
           else Some (serialize_option_base64 b (reg_idevid_tpm r)))"
    and "field_of j ''idevid_cert'' = Some (serialize_maybe_base64 b (reg_idevid_cert r))"
    and "field_of j ''iak_cert'' = Some (serialize_maybe_base64 b (reg_iak_cert r))"
    and "field_of j ''iak_attest'' = (if Option.is_none (reg_iak_attest r) then None
           else Some (serialize_maybe_base64 b (reg_iak_attest r)))"
    and "field_of j ''iak_sign'' = (if Option.is_none (reg_iak_sign r) then None
           else Some (serialize_maybe_base64 b (reg_iak_sign r)))"
    and "field_of j ''mtls_cert'' = map_option JStr (reg_mtls_cert r)"
    and "field_of j ''ip'' = map_option JStr (reg_ip r)"
    and "field_of j ''port'' = map_option (\<lambda>n. JNum (int n)) (reg_port r)"
  by (simp_all add: j_def register_to_json_def field_of_def)

lemma read_text_simps:
  "field_of j n = map_option JStr v \<Longrightarrow> read_text j n = v"
  "field_of j n = map_option (\<lambda>n. JNum (int n)) w \<Longrightarrow> read_number j n = w"
  by (cases v; simp add: read_text_def) (cases w; simp add: read_number_def)

text \<open>Nothing is lost on the wire: a reader that takes a missing member and null alike gets the registration back.\<close>

lemma read_register_back:
  "base64_inverse b \<Longrightarrow> read_register b (register_to_json b r) = r"
  by (cases r) (auto simp: read_register_def read_bytes_def read_text_simps Option.is_none_def)

section \<open>What the answer means\<close>

definition register_request :: "'cert registrar_env \<Rightarrow> string \<Rightarrow> nat \<Rightarrow> string \<Rightarrow> register \<Rightarrow> net_request" where
  "register_request env ip port uuid d =
     \<lparr>rq_method = ''POST'', rq_url = agents_url ip port uuid, rq_body = register_to_json (re_codec env) d\<rparr>"

definition activate_request :: "string \<Rightarrow> nat \<Rightarrow> string \<Rightarrow> string \<Rightarrow> net_request" where
  "activate_request ip port uuid auth_tag =
     \<lparr>rq_method = ''PUT'', rq_url = agents_url ip port uuid, rq_body = activate_to_json auth_tag\<rparr>"

text \<open>What the client makes of an answer.\<close>

definition verdict ::
  "'cert registrar_env \<Rightarrow> (json \<Rightarrow> 'a option) \<Rightarrow> string \<Rightarrow> net_reply \<Rightarrow> ('a, agent_error) outcome" where
  "verdict env results_of addr reply =
     (case reply of
        Net_failed e \<Rightarrow> Err (Reqwest e)
      | Replied c body \<Rightarrow> if is_success c then decode_body env results_of body else Err (Registrar addr c))"

lemma do_register_agent_alt:
  "do_register_agent env ip port uuid rn sent =
     (case register_data env rn of
        Ok d \<Rightarrow>
          (and_then (verdict env (register_results (re_codec env)) (agents_url ip port uuid)
               (re_answer env sent (register_request env ip port uuid d)))
             (\<lambda>blob. Ok (case blob of Some bytes \<Rightarrow> bytes | None \<Rightarrow> [])),
           sent @ [register_request env ip port uuid d])
      | Err e \<Rightarrow> (Err e, sent) | Panic \<Rightarrow> (Panic, sent))"
  by (auto simp: do_register_agent_def act_bind_def act_lift_def send_request_def verdict_def register_request_def
      Let_def split: outcome.split net_reply.split)

lemma do_activate_agent_alt:
  "do_activate_agent env ip port uuid tag sent =
     (verdict env activate_results (agents_url ip port uuid) (re_answer env sent (activate_request ip port uuid tag)),
      sent @ [activate_request ip port uuid tag])"
  by (auto simp: do_activate_agent_def act_bind_def act_lift_def send_request_def verdict_def activate_request_def
      Let_def split: outcome.split net_reply.split)

lemma decode_body_not_Registrar: "decode_body env f body \<noteq> Err (Registrar a c)"
  by (cases body) (auto simp: decode_body_def)

lemma verdict_Registrar_iff:
  "verdict env f addr reply = Err (Registrar a c) \<longleftrightarrow> a = addr \<and> \<not> is_success c \<and> (\<exists>body. reply = Replied c body)"
  by (auto simp: verdict_def decode_body_not_Registrar split: net_reply.split)

lemma map_err_not_Registrar: "map_err Crypto x \<noteq> Err (Registrar a c)"
  by (cases x) auto

lemma register_data_not_Registrar: "register_data env rn \<noteq> Err (Registrar a c)"
  by (auto simp: register_data_def optional_der_def and_then_Err_iff map_err_not_Registrar split: option.splits if_splits)

text \<open>A refusal is reported as such. Registration and activation fail with a registrar error exactly when the
  registrar answered with a status outside 2xx; the error has that status as its code and the address that was asked, and
  the one request that was issued is the one refused.\<close>

theorem registrar_refusal:
  "(do_register_agent env ip port uuid rn sent = (Err (Registrar a c), sent') \<longleftrightarrow>
      (\<exists>d body. register_data env rn = Ok d \<and> sent' = sent @ [register_request env ip port uuid d]
         \<and> re_answer env sent (register_request env ip port uuid d) = Replied c body
         \<and> \<not> is_success c \<and> a = agents_url ip port uuid))
   \<and> (do_activate_agent env ip port uuid tag sent = (Err (Registrar a c), sent') \<longleftrightarrow>
        (\<exists>body. sent' = sent @ [activate_request ip port uuid tag]
           \<and> re_answer env sent (activate_request ip port uuid tag) = Replied c body
           \<and> \<not> is_success c \<and> a = agents_url ip port uuid))"
  by (auto simp: do_register_agent_alt do_activate_agent_alt and_then_Err_iff verdict_Registrar_iff
      register_data_not_Registrar split: outcome.split)

text \<open>The body of an answer of the registrar.\<close>

definition wrapped_results :: "int \<Rightarrow> string \<Rightarrow> json \<Rightarrow> json" where
  "wrapped_results code status r = JObj [(''code'', JNum code), (''status'', JStr status), (''results'', r)]"

lemma response_of_wrapped [simp]: "response_of_json f (wrapped_results n s r) = f r"
  by (simp add: response_of_json_def wrapped_results_def struct_members_def)

lemma register_results_blob [simp]: "register_results b (JObj [(''blob'', v)]) = deserialize_maybe_base64 b v"
  by (simp add: register_results_def struct_members_def)

text \<open>\<^bold>\<open>C38\<close>: the exchange with a registrar that accepts. One request is issued, its body reads back as the
  registration, and the credential blob in the answer is what the caller gets; a null blob becomes an empty one.\<close>

theorem registration_exchange:
  assumes "base64_inverse (re_codec env)" and "register_data env rn = Ok d"
    and "re_answer env sent (register_request env ip port uuid d)
      = Replied c (Ok (wrapped_results n s (JObj [(''blob'', serialize_maybe_base64 (re_codec env) blob)])))"
    and "is_success c"
  shows "do_register_agent env ip port uuid rn sent
      = (Ok (case blob of Some bytes \<Rightarrow> bytes | None \<Rightarrow> []), sent @ [register_request env ip port uuid d])
    \<and> read_register (re_codec env) (rq_body (register_request env ip port uuid d)) = d"
proof -
  have "decode_body env (register_results (re_codec env))
      (Ok (wrapped_results n s (JObj [(''blob'', serialize_maybe_base64 (re_codec env) blob)]))) = Ok blob"
    using deserialize_serialize(4) [OF assms(1)] by (simp add: decode_body_def)
  moreover have "read_register (re_codec env) (register_to_json (re_codec env) d) = d"
    using assms(1) by (rule read_register_back)
  ultimately show ?thesis using assms(2-4) by (simp add: do_register_agent_alt verdict_def register_request_def)
qed

subsection \<open>A registrar\<close>

definition codec_ref :: b64_codec where
  "codec_ref = \<lparr>b64_encode = map (\<lambda>w. char_of (unat w)), b64_decode = \<lambda>s. Ok (as_bytes s)\<rparr>"

lemma base64_inverse_ref: "base64_inverse codec_ref"
proof -
  have "word_of_nat (unat w mod 256) = (w :: u8)" for w
    using unat_lt_pow [of w] by simp
  then show ?thesis by (simp add: base64_inverse_def codec_ref_def as_bytes_def comp_def)
qed

definition registrar_ref :: "nat \<Rightarrow> json \<Rightarrow> string registrar_env" where
  "registrar_ref c results =
     \<lparr>re_answer = \<lambda>_ _. Replied c (Ok (wrapped_results 200 ''Success'' results)), re_shape_error = \<lambda>_. ''error'',
      re_codec = codec_ref, re_to_pem = Ok, re_to_der = \<lambda>s. Ok (as_bytes s), re_utf8_error = \<lambda>_. ''error''\<rparr>"

definition registration_ref :: "string registration" where
  "registration_ref =
     \<lparr>rn_ek_tpm = [1, 2], rn_ekcert = None, rn_aik_tpm = [3], rn_iak_tpm = None, rn_idevid_tpm = None,
      rn_idevid_cert = None, rn_iak_cert = Some ''iak'', rn_iak_attest = None, rn_iak_sign = None,
      rn_mtls_cert = None, rn_ip = [], rn_port = 9002\<rparr>"

definition registered_ref :: register where
  "registered_ref =
     \<lparr>reg_ekcert = None, reg_ek_tpm = [1, 2], reg_aik_tpm = [3], reg_iak_tpm = None, reg_idevid_tpm = None,
      reg_idevid_cert = None, reg_iak_cert = Some (as_bytes ''iak''), reg_iak_attest = None, reg_iak_sign = None,
      reg_mtls_cert = Some ''disabled'', reg_ip = None, reg_port = Some 9002\<rparr>"

lemma register_data_ref: "register_data (registrar_ref c r) registration_ref = Ok registered_ref"
  by (simp add: register_data_def registration_ref_def optional_der_def registrar_ref_def registered_ref_def)

theorem registration_exchange_witness:
  "\<exists>sent'. do_register_agent (registrar_ref 200 (JObj [(''blob'', serialize_maybe_base64 codec_ref (Some [7, 8]))]))
     ''127.0.0.1'' 8890 ''u'' registration_ref [] = (Ok [7, 8], sent') \<and> length sent' = 1"
  using registration_exchange [OF _ register_data_ref, of _ _ "[]" "''127.0.0.1''" 8890 "''u''" 200 200 "''Success''" "Some [7, 8]"]
    base64_inverse_ref
  by (simp add: registrar_ref_def is_success_def)

end
