(* ===== verification/Startup_Host.thy ===== *)
theory Startup_Host
  imports Config Secure_Mount Permissions Registrar
begin

text \<open>
  The start of \<open>main\<close> in \<^verbatim>\<open>keylime-agent/src/main.rs\<close>, up to the point where the agent runs as its own user: the log
  files, the check that payloads are not run unprotected, the secure mount and dropping privileges. The host is the
  machine, the process and the requests sent to the registrar.
\<close>

section \<open>The host\<close>

record host =
  h_machine :: machine
  h_process :: process
  h_sent :: "net_request list"

text \<open>An operation on one part of the host, here and when the host has a TPM connection as well.\<close>

definition in_machine :: "'a machine_act \<Rightarrow> ('x host_scheme, 'a, agent_error) act" where
  "in_machine f h = (case f (h_machine h) of (r, m) \<Rightarrow> (r, h\<lparr>h_machine := m\<rparr>))"

definition in_process :: "(process, 'a, agent_error) act \<Rightarrow> ('x host_scheme, 'a, agent_error) act" where
  "in_process f h = (case f (h_process h) of (r, p) \<Rightarrow> (r, h\<lparr>h_process := p\<rparr>))"

definition in_net :: "'a net_act \<Rightarrow> ('x host_scheme, 'a, agent_error) act" where
  "in_net f h = (case f (h_sent h) of (r, s) \<Rightarrow> (r, h\<lparr>h_sent := s\<rparr>))"

text \<open>An operation on the file system that keeps what it did before a failure.\<close>

definition in_disk :: "'a fs_act \<Rightarrow> 'a machine_act" where
  "in_disk f m = (case f (disk m) of (r, d) \<Rightarrow> (r, m\<lparr>disk := d\<rparr>))"

definition from_host :: "(fs \<Rightarrow> ('a, agent_error) outcome) \<Rightarrow> ('x host_scheme, 'a, agent_error) act" where
  "from_host f = in_machine (from_disk f)"

lemma from_host_apply: "from_host f h = (f (disk (h_machine h)), h)"
  by (simp add: from_host_def in_machine_def from_disk_def)

section \<open>Before privileges are dropped\<close>

text \<open>A log that is missing or cannot be opened is left out with a warning.\<close>

definition open_log :: "os \<Rightarrow> fs \<Rightarrow> string \<Rightarrow> string option" where
  "open_log env f path =
     (if exists_path f path then (case fault env Op_open path of None \<Rightarrow> Some path | Some _ \<Rightarrow> None) else None)"

text \<open>The helper of \<open>main.rs\<close> that reads a whole file.\<close>

definition read_in_file :: "os \<Rightarrow> fs \<Rightarrow> string \<Rightarrow> (string, agent_error) outcome" where
  "read_in_file env f path = with_fault env Op_open path (read_to_string env f path)"

definition payload_guard :: "agent_config \<Rightarrow> (unit, agent_error) outcome" where
  "payload_guard cfg =
     (if \<not> ac_enable_agent_mtls cfg \<and> \<not> ac_enable_insecure_payload cfg \<and> ac_payload_script cfg \<noteq> [] then
        Err (Configuration (''The agent mTLS is disabled and '' @ [CHR 0x27] @ ''payload_script'' @ [CHR 0x27]
          @ '' is not empty. To allow the agent to run, '' @ [CHR 0x27] @ ''enable_insecure_payload'' @ [CHR 0x27]
          @ '' has to be set to '' @ [CHR 0x27] @ ''True'' @ [CHR 0x27]))
      else Ok ())"

definition run_as_option :: "agent_config \<Rightarrow> process \<Rightarrow> (string option, agent_error) outcome" where
  "run_as_option cfg p =
     (if p_euid p = 0 then Ok (if ac_run_as cfg = [] then None else Some (ac_run_as cfg))
      else Err (Configuration ''Cannot drop privileges: not enough permission''))"

record host_env =
  he_machine :: machine_env
  he_texts :: mount_texts
  he_libc :: libc
  he_nul_error :: "string \<Rightarrow> string"

text \<open>The error of \<open>run_as\<close> itself is replaced. \<open>None\<close>: the call of the C library has no meaning.\<close>

definition drop_privileges ::
  "host_env \<Rightarrow> string option \<Rightarrow> string \<Rightarrow> host \<Rightarrow> ((unit, agent_error) outcome \<times> host) option" where
  "drop_privileges env user mnt h =
     (case user of
        None \<Rightarrow> Some (Ok (), h)
      | Some user_group \<Rightarrow>
          (case in_process (chown (he_libc env) (he_nul_error env) user_group mnt) h of
             (Ok _, h1) \<Rightarrow>
               map_option (\<lambda>(r, p).
                 (map_err (\<lambda>_. Configuration (''The user running the Keylime agent should be set in keylime-agent.conf, ''
                    @ ''using the parameter `run_as`, with the format `user:group`'')) r, h1\<lparr>h_process := p\<rparr>))
                 (run_as (he_libc env) user_group (h_process h1))
           | (r, h1) \<Rightarrow> Some (r, h1)))"

text \<open>The directory of the mount, when everything up to dropping privileges went well.\<close>

definition prepare_host :: "host_env \<Rightarrow> agent_config \<Rightarrow> host \<Rightarrow> ((string, agent_error) outcome \<times> host) option" where
  "prepare_host env cfg h =
     (case act_bind (act_lift (payload_guard cfg)) (\<lambda>_.
           act_bind (in_machine (mount (he_machine env) (he_texts env) (ac_keylime_dir cfg) (ac_secure_size cfg))) (\<lambda>mnt.
           act_bind (\<lambda>h'. (run_as_option cfg (h_process h'), h')) (\<lambda>user.
           act_lift (Ok (mnt, user))))) h of
        (Ok (mnt, user), h1) \<Rightarrow>
          map_option (\<lambda>(r, h2). (and_then r (\<lambda>_. Ok mnt), h2)) (drop_privileges env user mnt h1)
      | (Err e, h1) \<Rightarrow> Some (Err e, h1)
      | (Panic, h1) \<Rightarrow> Some (Panic, h1))"

section \<open>What holds once the host is prepared\<close>

text \<open>Payloads are protected, switched off, or the operator accepted the risk.\<close>

definition payload_protected :: "agent_config \<Rightarrow> bool" where
  "payload_protected cfg \<longleftrightarrow>
     ac_enable_agent_mtls cfg \<or> ac_enable_insecure_payload cfg \<or> ac_payload_script cfg = []"

lemma payload_guard_Ok_iff: "payload_guard cfg = Ok () \<longleftrightarrow> payload_protected cfg"
  by (auto simp: payload_guard_def payload_protected_def)

text \<open>The process runs as the user and group of the option, with that user's groups, and the mount belongs to them.\<close>

definition dropped_to :: "libc \<Rightarrow> string \<Rightarrow> string \<Rightarrow> process \<Rightarrow> bool" where
  "dropped_to lc user_group mnt p \<longleftrightarrow> (\<exists>ids. user_ids_try_from lc user_group = Ok ids
     \<and> p_uid p = pw_uid (passwd ids) \<and> p_euid p = pw_uid (passwd ids) \<and> p_gid p = group_gid ids
     \<and> p_groups p = grouplist lc (pw_name (passwd ids)) (group_gid ids)
     \<and> p_owner p mnt = Some (pw_uid (passwd ids), group_gid ids))"

lemma run_as_Ok:
  assumes "run_as lc user_group p = Some (Ok (), p')"
  shows "\<exists>ids. user_ids_try_from lc user_group = Ok ids
    \<and> p' = p\<lparr>p_uid := pw_uid (passwd ids), p_euid := pw_uid (passwd ids), p_gid := group_gid ids,
              p_groups := grouplist lc (pw_name (passwd ids)) (group_gid ids)\<rparr>"
  using assms
  by (auto simp: run_as_def supplementary_groups_def read_array_def libc_call_def act_bind_def Let_def
      split: if_splits outcome.splits)

lemma drop_privileges_Ok:
  assumes "drop_privileges env user mnt h = Some (Ok (), h')"
  shows "h_machine h' = h_machine h \<and> h_sent h' = h_sent h
    \<and> (case user of None \<Rightarrow> h_process h' = h_process h | Some user_group \<Rightarrow> dropped_to (he_libc env) user_group mnt (h_process h'))"
proof (cases user)
  case (Some user_group)
  obtain r1 p1 where c: "chown (he_libc env) (he_nul_error env) user_group mnt (h_process h) = (r1, p1)" by force
  with assms Some obtain p2 where "r1 = Ok ()" and r: "run_as (he_libc env) user_group p1 = Some (Ok (), p2)"
    and h': "h' = h\<lparr>h_process := p2\<rparr>"
    by (auto simp: drop_privileges_def in_process_def split: outcome.splits)
  from chown_Ok [OF c [unfolded \<open>r1 = Ok ()\<close>]] obtain ids where ids: "user_ids_try_from (he_libc env) user_group = Ok ids"
    and p1: "p1 = (h_process h)\<lparr>p_owner := (p_owner (h_process h))(mnt \<mapsto> (pw_uid (passwd ids), group_gid ids))\<rparr>" by auto
  from run_as_Ok [OF r] ids p1 have "dropped_to (he_libc env) user_group mnt p2" by (auto simp: dropped_to_def)
  then show ?thesis using h' Some by simp
qed (use assms in \<open>simp add: drop_privileges_def\<close>)

lemma mount_path:
  assumes "mount env texts work_dir secure_size m = (Ok mnt, m')"
  shows "mnt = path_join work_dir ''secure''"
  using assms by (auto simp: mount_def Let_def act_bind_Ok_iff act_lift_Ok_iff split: if_splits)

lemma prepare_host_Ok:
  assumes "prepare_host env cfg h = Some (Ok mnt, h')"
  shows "payload_protected cfg \<and> p_euid (h_process h) = 0 \<and> h_sent h' = h_sent h
    \<and> mount (he_machine env) (he_texts env) (ac_keylime_dir cfg) (ac_secure_size cfg) (h_machine h) = (Ok mnt, h_machine h')
    \<and> (if ac_run_as cfg = [] then h_process h' = h_process h
       else dropped_to (he_libc env) (ac_run_as cfg) mnt (h_process h'))"
proof -
  obtain r m where m: "mount (he_machine env) (he_texts env) (ac_keylime_dir cfg) (ac_secure_size cfg) (h_machine h) = (r, m)"
    by force
  let ?h1 = "h\<lparr>h_machine := m\<rparr>"
  from assms m obtain user where g: "payload_guard cfg = Ok ()" and r: "r = Ok mnt"
    and u: "run_as_option cfg (h_process h) = Ok user" and d: "drop_privileges env user mnt ?h1 = Some (Ok (), h')"
    by (auto simp: prepare_host_def act_bind_def act_lift_def in_machine_def and_then_Ok_iff split: outcome.splits)
  from g have "payload_protected cfg" by (simp add: payload_guard_Ok_iff)
  moreover have "p_euid (h_process h) = 0" and "user = (if ac_run_as cfg = [] then None else Some (ac_run_as cfg))"
    using u by (auto simp: run_as_option_def split: if_splits)
  ultimately show ?thesis using drop_privileges_Ok [OF d] m r by auto
qed

end
