(* ===== verification/Startup_Keys.thy ===== *)
theory Startup_Keys
  imports Startup_Host Tpm_Keys Crypto_Ops List_Parser
begin

text \<open>
  The keys of the agent, as \<open>main\<close> in \<^verbatim>\<open>keylime-agent/src/main.rs\<close> loads or makes them once privileges are dropped:
  device identity keys and their certificates, endorsement key, attestation key with its stored copy, the server key
  pair, and the TLS context. The TSS, OpenSSL and JSON libraries are parameters.
\<close>

section \<open>State and libraries\<close>

record 'c agent_world = host +
  tpm_ctx :: 'c

type_synonym ('c, 'a) world_act = "('c agent_world, 'a, agent_error) act"

text \<open>A call of \<open>tpm::Context\<close> and a direct call of the TSS, with the conversion of \<open>?\<close>.\<close>

definition in_tpm :: "('c, 'a) tpm_act \<Rightarrow> ('c, 'a) world_act" where
  "in_tpm f w = (case f (tpm_ctx w) of (r, c) \<Rightarrow> (map_err Tpm r, w\<lparr>tpm_ctx := c\<rparr>))"

definition in_tss :: "('c \<Rightarrow> ('a, tss_error) outcome \<times> 'c) \<Rightarrow> ('c, 'a) world_act" where
  "in_tss f w = (case f (tpm_ctx w) of (r, c) \<Rightarrow> (map_err error_from_tss r, w\<lparr>tpm_ctx := c\<rparr>))"

text \<open>A result that the code does not look at.\<close>

definition act_ignore :: "('c, 'a, 'e) act \<Rightarrow> ('c, unit, 'e) act" where
  "act_ignore f c = (case f c of (Panic, c') \<Rightarrow> (Panic, c') | (_, c') \<Rightarrow> (Ok (), c'))"

text \<open>A failure that is only logged.\<close>

definition act_try :: "('c, 'a, 'e) act \<Rightarrow> ('c, 'a option, 'e) act" where
  "act_try f c =
     (case f c of (Ok x, c') \<Rightarrow> (Ok (Some x), c') | (Err _, c') \<Rightarrow> (Ok None, c') | (Panic, c') \<Rightarrow> (Panic, c'))"

lemma act_try_Some_iff: "act_try f c = (Ok (Some x), c') \<longleftrightarrow> f c = (Ok x, c')"
  by (auto simp: act_try_def split: prod.splits outcome.splits)

record ('c, 'k, 'pub, 'priv, 's, 'sig) tpm_libs =
  tl_keys :: "('c, 'k, 'pub, 'priv, 's) key_ops"
  tl_templates :: "'pub template_ops"
  tl_vendor :: "'c \<Rightarrow> (string, tss_error) outcome \<times> 'c"
  tl_auth :: "u8 list \<Rightarrow> (u8 list, tss_error) outcome"
  tl_set_auth :: "u8 list \<Rightarrow> 'c \<Rightarrow> (unit, tss_error) outcome \<times> 'c"
  tl_flush :: "'k \<Rightarrow> 'c \<Rightarrow> (unit, tss_error) outcome \<times> 'c"
  tl_data :: "u8 list \<Rightarrow> (u8 list, tss_error) outcome"
  tl_certify :: "'k \<Rightarrow> 'k \<Rightarrow> u8 list \<Rightarrow> signature_scheme \<Rightarrow> 'c \<Rightarrow> (attest \<times> 'sig, tss_error) outcome \<times> 'c"
  tl_marshall :: "'pub \<Rightarrow> (u8 list, tss_error) outcome"
  tl_unmarshall :: "u8 list \<Rightarrow> ('pub, tss_error) outcome"
  tl_to_vec :: "'priv \<Rightarrow> u8 list"
  tl_of_vec :: "u8 list \<Rightarrow> ('priv, tss_error) outcome"
  tl_marshall_attest :: "attest \<Rightarrow> (u8 list, tss_error) outcome"
  tl_marshall_signature :: "'sig \<Rightarrow> (u8 list, tss_error) outcome"

text \<open>OpenSSL and the ASN.1 library.\<close>

record ('pub, 'spki, 'pkey, 'cert, 'sk, 'spub) ssl_libs =
  sl_spki :: "'pub \<Rightarrow> ('spki, tss_error) outcome"
  sl_der :: "'spki \<Rightarrow> (u8 list, string) outcome"
  sl_pkey_from_der :: "u8 list \<Rightarrow> ('pkey, string) outcome"
  sl_pkey_to_pem :: "'pkey \<Rightarrow> (u8 list, string) outcome"
  sl_hash :: "message_digest \<Rightarrow> u8 list \<Rightarrow> (u8 list, string) outcome"
  sl_hex :: "u8 list \<Rightarrow> string"
  sl_hmac :: hmac_fun
  sl_cert_from_der :: "string \<Rightarrow> ('cert, string) outcome"
  sl_cert_from_pem :: "string \<Rightarrow> ('cert, string) outcome"
  sl_cert_stack :: "string \<Rightarrow> ('cert list, string) outcome"
  sl_cert_to_pem :: "'cert \<Rightarrow> (string, string) outcome"
  sl_cert_key :: "'cert \<Rightarrow> (cert_key, string) outcome"
  sl_build :: "'sk x509_fields \<Rightarrow> ('cert, string) outcome"
  sl_accepts_cert :: "'cert \<Rightarrow> bool"
  sl_accepts_key :: "'cert \<Rightarrow> 'sk \<Rightarrow> bool"
  sl_add_cert :: "'cert list \<Rightarrow> 'cert \<Rightarrow> ('cert list, string) outcome"
  sl_pkey :: "('sk, 'spub) pkey_ops"

text \<open>JSON text and the texts of errors.\<close>

record text_libs =
  xl_parse :: "string \<Rightarrow> json option"
  xl_print :: "json \<Rightarrow> string"
  xl_serde_msg :: "string \<Rightarrow> string"
  xl_list_error :: "string \<Rightarrow> string"

section \<open>Owner password and algorithms\<close>

definition set_owner_password ::
  "('c, 'k, 'pub, 'priv, 's, 'sig) tpm_libs \<Rightarrow> agent_config \<Rightarrow> ('c, unit) world_act" where
  "set_owner_password tp cfg =
     (if ac_tpm_ownerpassword cfg = [] then act_lift (Ok ())
      else
        act_bind (act_lift (map_err error_from_tss (tl_auth tp (as_bytes (ac_tpm_ownerpassword cfg))))) (\<lambda>auth w.
        case tl_set_auth tp auth (tpm_ctx w) of
          (r, c) \<Rightarrow>
            (map_err (\<lambda>e. Configuration (''Failed to set TPM context password for Endorsement Hierarchy: '' @ tss_display e)) r,
             w\<lparr>tpm_ctx := c\<rparr>)))"

definition configured_algorithms ::
  "agent_config \<Rightarrow> (encryption_algorithm \<times> hash_algorithm \<times> sign_algorithm, agent_error) outcome" where
  "configured_algorithms cfg =
     and_then (map_err Algorithm (encryption_algorithm_try_from (ac_tpm_encryption_alg cfg))) (\<lambda>enc.
     and_then (map_err Algorithm (hash_algorithm_try_from (ac_tpm_hash_alg cfg))) (\<lambda>hash.
     and_then (map_err Algorithm (sign_algorithm_try_from (ac_tpm_signing_alg cfg))) (\<lambda>sign.
     Ok (enc, hash, sign))))"

section \<open>Device identity\<close>

text \<open>A certificate is tried as DER and then as PEM; a file that is missing is no error here.\<close>

definition load_identity_cert ::
  "os \<Rightarrow> ('pub, 'spki, 'pkey, 'cert, 'sk, 'spub) ssl_libs \<Rightarrow> string \<Rightarrow> fs \<Rightarrow> ('cert option, agent_error) outcome" where
  "load_identity_cert env sl path f =
     (if path = [] then Ok None
      else if exists_path f path then
        and_then (case load_x509_der env (sl_cert_from_der sl) f path of
                    Err _ \<Rightarrow> load_x509_pem env (sl_cert_from_pem sl) f path
                  | r \<Rightarrow> r) (\<lambda>cert. Ok (Some cert))
      else Ok None)"

definition identity_certs ::
  "os \<Rightarrow> ('pub, 'spki, 'pkey, 'cert, 'sk, 'spub) ssl_libs \<Rightarrow> agent_config \<Rightarrow> fs
   \<Rightarrow> ('cert option \<times> 'cert option, agent_error) outcome" where
  "identity_certs env sl cfg f =
     (if ac_enable_iak_idevid cfg then
        and_then (load_identity_cert env sl (ac_iak_cert cfg) f) (\<lambda>iak_cert.
        and_then (load_identity_cert env sl (ac_idevid_cert cfg) f) (\<lambda>idevid_cert.
        Ok (iak_cert, idevid_cert)))
      else Ok (None, None))"

definition no_cert :: agent_error where
  "no_cert = Other ''IAK/IDevID enabled but cert could not be used''"

definition template_mismatch :: "string \<Rightarrow> agent_error" where
  "template_mismatch key =
     Configuration (key @ '' template does not match certificate. Check template in configuration.'')"

definition cert_matches ::
  "('pub, 'spki, 'pkey, 'cert, 'sk, 'spub) ssl_libs \<Rightarrow> 'cert option \<Rightarrow> 'pub \<Rightarrow> (bool, agent_error) outcome" where
  "cert_matches sl cert public =
     and_then (ok_or no_cert cert) (\<lambda>c. check_x509_key (sl_spki sl) (sl_der sl) (sl_cert_key sl c) public)"

text \<open>The keys are made again and compared with the certificates; the IDevID is flushed to make room.\<close>

definition device_identity ::
  "('c, 'k, 'pub, 'priv, 's, 'sig) tpm_libs \<Rightarrow> ('pub, 'spki, 'pkey, 'cert, 'sk, 'spub) ssl_libs \<Rightarrow> agent_config
   \<Rightarrow> 'cert option \<Rightarrow> 'cert option \<Rightarrow> ('c, (('pub \<times> 'k) \<times> 'pub \<times> 'k) option) world_act" where
  "device_identity tp sl cfg iak_cert idevid_cert =
     (if \<not> ac_enable_iak_idevid cfg then act_lift (Ok None)
      else
        act_bind (act_lift (
          and_then (ok_or no_cert iak_cert) (\<lambda>c.
          and_then (match_cert_to_template (sl_cert_key sl c)) (\<lambda>detected.
          map_err Tpm (get_idevid_template detected (ac_iak_idevid_template cfg) (ac_iak_idevid_asymmetric_alg cfg)
            (ac_iak_idevid_name_alg cfg)))))) (\<lambda>(asym_alg, name_alg).
        act_bind (in_tpm (create_idevid (tl_keys tp) (tl_templates tp) asym_alg name_alg)) (\<lambda>idevid.
        act_bind (in_tss (tl_flush tp (snd idevid))) (\<lambda>_.
        act_bind (act_lift (cert_matches sl idevid_cert (fst idevid))) (\<lambda>same.
        if \<not> same then act_lift (Err (template_mismatch ''IDevID''))
        else
          act_bind (in_tpm (create_iak (tl_keys tp) (tl_templates tp) asym_alg name_alg)) (\<lambda>iak.
          act_bind (act_lift (cert_matches sl iak_cert (fst iak))) (\<lambda>same.
          if \<not> same then act_lift (Err (template_mismatch ''IAK''))
          else act_lift (Ok (Some (iak, idevid))))))))))"

section \<open>Endorsement and attestation keys\<close>

definition endorsement_key ::
  "('c, 'k, 'pub, 'priv, 's, 'sig) tpm_libs \<Rightarrow> agent_config \<Rightarrow> encryption_algorithm \<Rightarrow> ('c, ('k, 'pub) ek_result) world_act" where
  "endorsement_key tp cfg enc =
     in_tpm (create_ek (tl_keys tp) enc (if ac_ek_handle cfg = [] then None else Some (ac_ek_handle cfg)))"

definition ek_identity ::
  "('pub, 'spki, 'pkey, 'cert, 'sk, 'spub) ssl_libs \<Rightarrow> 'pub \<Rightarrow> (string, agent_error) outcome" where
  "ek_identity sl public =
     hash_ek_pubkey (sl_spki sl) (sl_der sl) (sl_pkey_from_der sl) (sl_pkey_to_pem sl) (sl_hash sl) (sl_hex sl) public"

definition agent_uuid :: "agent_config \<Rightarrow> string \<Rightarrow> string" where
  "agent_uuid cfg ekh = (if ac_uuid cfg = ''hash_ek'' then ekh else ac_uuid cfg)"

text \<open>
  Stored agent data that is missing, unreadable, made for other algorithms or another endorsement key, or refused by
  the TPM is passed over; data that is valid but does not unmarshall is an error.
\<close>

definition old_ak ::
  "os \<Rightarrow> text_libs \<Rightarrow> ('c, 'k, 'pub, 'priv, 's, 'sig) tpm_libs \<Rightarrow> agent_config \<Rightarrow> hash_algorithm \<Rightarrow> sign_algorithm
   \<Rightarrow> string \<Rightarrow> 'k \<Rightarrow> ('c, ('k \<times> ('pub, 'priv) ak_result) option) world_act" where
  "old_ak env xl tp cfg hash sign ekh ek_h w =
     (let path = ac_agent_data_path cfg; f = disk (h_machine w)
      in if path = [] \<or> \<not> exists_path f path then (Ok None, w)
         else
           (case agent_data_load env (xl_parse xl) (xl_serde_msg xl) f path of
              Panic \<Rightarrow> (Panic, w)
            | Err _ \<Rightarrow> (Ok None, w)
            | Ok data \<Rightarrow>
                if \<not> agent_data_valid data hash sign (as_bytes ekh) then (Ok None, w)
                else
                  act_bind (act_lift (agent_data_get_ak (tl_unmarshall tp) (tl_of_vec tp) data)) (\<lambda>ak.
                  act_bind (act_try (in_tpm (load_ak (tl_keys tp) ek_h (ak_result_public ak, ak_result_private ak)))) (\<lambda>loaded.
                  act_lift (Ok (map_option (\<lambda>ak_handle. (ak_handle, ak)) loaded)))) w))"

definition attestation_key ::
  "('c, 'k, 'pub, 'priv, 's, 'sig) tpm_libs \<Rightarrow> hash_algorithm \<Rightarrow> sign_algorithm \<Rightarrow> 'k
   \<Rightarrow> ('k \<times> ('pub, 'priv) ak_result) option \<Rightarrow> ('c, 'k \<times> ('pub, 'priv) ak_result) world_act" where
  "attestation_key tp hash sign ek_h old =
     (case old of
        Some x \<Rightarrow> act_lift (Ok x)
      | None \<Rightarrow>
          act_bind (in_tpm (create_ak (tl_keys tp) ek_h hash sign)) (\<lambda>new_ak.
          act_bind (in_tpm (load_ak (tl_keys tp) ek_h new_ak)) (\<lambda>ak_handle.
          act_lift (Ok (ak_handle, \<lparr>ak_result_public = fst new_ak, ak_result_private = snd new_ak\<rparr>)))))"

definition store_agent_data ::
  "os \<Rightarrow> text_libs \<Rightarrow> ('c, 'k, 'pub, 'priv, 's, 'sig) tpm_libs \<Rightarrow> agent_config \<Rightarrow> hash_algorithm \<Rightarrow> sign_algorithm
   \<Rightarrow> string \<Rightarrow> ('pub, 'priv) ak_result \<Rightarrow> ('c, unit) world_act" where
  "store_agent_data env xl tp cfg hash sign ekh ak =
     act_bind (act_lift (agent_data_create (tl_marshall tp) (tl_to_vec tp) hash sign ak (as_bytes ekh))) (\<lambda>data.
     if ac_agent_data_path cfg = [] then act_lift (Ok ())
     else in_machine (in_disk (agent_data_store env (xl_print xl) data (ac_agent_data_path cfg))))"

text \<open>The attestation key certified with the IAK; \<open>Data::try_from(..).unwrap()\<close> panics on a long identity.\<close>

definition certify_ak ::
  "('c, 'k, 'pub, 'priv, 's, 'sig) tpm_libs \<Rightarrow> string \<Rightarrow> 'k \<Rightarrow> (('pub \<times> 'k) \<times> 'pub \<times> 'k) option
   \<Rightarrow> ('c, (attest \<times> 'sig) option) world_act" where
  "certify_ak tp uuid ak_handle ids =
     (case ids of
        None \<Rightarrow> act_lift (Ok None)
      | Some (iak, _) \<Rightarrow>
          act_bind (act_lift (unwrap (tl_data tp (as_bytes uuid)))) (\<lambda>qualifying_data.
          act_bind (in_tpm (certify_credential_with_iak (tl_certify tp) qualifying_data ak_handle (snd iak))) (\<lambda>r.
          act_lift (Ok (Some r)))))"

section \<open>Server key and TLS\<close>

text \<open>The result of writing a new key pair is not looked at.\<close>

definition server_key_pair ::
  "os \<Rightarrow> ('pub, 'spki, 'pkey, 'cert, 'sk, 'spub) ssl_libs \<Rightarrow> agent_config \<Rightarrow> ('spub \<times> 'sk) fs_act" where
  "server_key_pair env sl cfg f =
     (let path = ac_server_key cfg
      in if path = [] then (rsa_generate_pair (sl_pkey sl) 2048, f)
         else if exists_path f path then
           (load_key_pair env (sl_pkey sl) f path (Some (ac_server_key_password cfg)), f)
         else
           act_bind (act_lift (rsa_generate_pair (sl_pkey sl) 2048)) (\<lambda>(public, private).
           act_bind (act_ignore (write_key_pair env (sl_pkey sl) private path (Some (ac_server_key_password cfg)))) (\<lambda>_.
           act_lift (Ok (public, private)))) f)"

definition server_certificate ::
  "os \<Rightarrow> ('pub, 'spki, 'pkey, 'cert, 'sk, 'spub) ssl_libs \<Rightarrow> agent_config \<Rightarrow> string \<Rightarrow> 'sk \<Rightarrow> 'cert fs_act" where
  "server_certificate env sl cfg uuid private f =
     (let path = ac_server_cert cfg
      in if path = [] then (generate_x509 (sl_build sl) private uuid, f)
         else if exists_path f path then (load_x509 env (sl_cert_stack sl) f path, f)
         else
           act_bind (act_lift (generate_x509 (sl_build sl) private uuid)) (\<lambda>cert.
           act_bind (write_x509 env (sl_cert_to_pem sl) cert path) (\<lambda>_.
           act_lift (Ok cert))) f)"

definition trusted_cas ::
  "os \<Rightarrow> text_libs \<Rightarrow> ('pub, 'spki, 'pkey, 'cert, 'sk, 'spub) ssl_libs \<Rightarrow> agent_config \<Rightarrow> fs
   \<Rightarrow> ('cert list, agent_error) outcome" where
  "trusted_cas env xl sl cfg f =
     (if ac_trusted_client_ca cfg = [] then
        Err (Configuration ''Agent mTLS is enabled, but trusted_client_ca option was not provided'')
      else
        and_then (map_err ListParser (parse_list (xl_list_error xl) (ac_trusted_client_ca cfg))) (\<lambda>certs_list.
        if certs_list = [] then
          Err (Configuration ''Trusted client CA certificate list is empty: could not load any certificate'')
        else load_x509_cert_list env (sl_cert_stack sl) f certs_list))"

definition tls_setup ::
  "os \<Rightarrow> text_libs \<Rightarrow> ('pub, 'spki, 'pkey, 'cert, 'sk, 'spub) ssl_libs \<Rightarrow> agent_config \<Rightarrow> string \<Rightarrow> 'sk
   \<Rightarrow> ('cert \<times> ('cert, 'sk) ssl_acceptor) option fs_act" where
  "tls_setup env xl sl cfg uuid private =
     (if \<not> ac_enable_agent_mtls cfg then act_lift (Ok None)
      else
        act_bind (server_certificate env sl cfg uuid private) (\<lambda>cert.
        act_bind (\<lambda>f. (trusted_cas env xl sl cfg f, f)) (\<lambda>ca_certs.
        act_bind (act_lift (generate_mtls_context (sl_accepts_cert sl) (sl_accepts_key sl) (sl_add_cert sl) cert private ca_certs))
          (\<lambda>ssl_context. act_lift (Ok (Some (cert, ssl_context)))))))"

section \<open>What the keys are bound to\<close>

lemmas world_acts = act_bind_Ok_iff act_lift_Ok_iff and_then_Ok_iff

lemma in_tpm_Ok_iff: "in_tpm f w = (Ok x, w') \<longleftrightarrow> (\<exists>c. f (tpm_ctx w) = (Ok x, c) \<and> w' = w\<lparr>tpm_ctx := c\<rparr>)"
  by (auto simp: in_tpm_def split: prod.splits)

lemma in_tss_Ok_iff: "in_tss f w = (Ok x, w') \<longleftrightarrow> (\<exists>c. f (tpm_ctx w) = (Ok x, c) \<and> w' = w\<lparr>tpm_ctx := c\<rparr>)"
  by (auto simp: in_tss_def split: prod.splits)

lemma in_disk_Ok_iff:
  "in_machine (in_disk f) w = (Ok x, w') \<longleftrightarrow>
     (\<exists>d. f (disk (h_machine w)) = (Ok x, d) \<and> w' = w\<lparr>h_machine := (h_machine w)\<lparr>disk := d\<rparr>\<rparr>)"
  by (auto simp: in_machine_def in_disk_def split: prod.splits)

text \<open>The keys of an identity are those the certificates were issued for.\<close>

definition identity_proved ::
  "('pub, 'spki, 'pkey, 'cert, 'sk, 'spub) ssl_libs \<Rightarrow> 'cert option \<Rightarrow> 'cert option \<Rightarrow> 'pub \<Rightarrow> 'pub \<Rightarrow> bool" where
  "identity_proved sl iak_cert idevid_cert iak idevid \<longleftrightarrow> (\<exists>ic dc. iak_cert = Some ic \<and> idevid_cert = Some dc
     \<and> check_x509_key (sl_spki sl) (sl_der sl) (sl_cert_key sl ic) iak = Ok True
     \<and> check_x509_key (sl_spki sl) (sl_der sl) (sl_cert_key sl dc) idevid = Ok True)"

lemma device_identity_Ok:
  assumes "device_identity tp sl cfg iak_cert idevid_cert w = (Ok ids, w')"
  shows "host.truncate w' = host.truncate w
    \<and> (case ids of None \<Rightarrow> \<not> ac_enable_iak_idevid cfg
       | Some (iak, idevid) \<Rightarrow> ac_enable_iak_idevid cfg \<and> identity_proved sl iak_cert idevid_cert (fst iak) (fst idevid))"
proof (cases "ac_enable_iak_idevid cfg")
  case True
  with assms obtain iak idevid where ids: "ids = Some (iak, idevid)"
    and m: "cert_matches sl idevid_cert (fst idevid) = Ok True" "cert_matches sl iak_cert (fst iak) = Ok True"
    and w': "host.truncate w' = host.truncate w"
    by (auto simp: device_identity_def world_acts in_tpm_Ok_iff in_tss_Ok_iff host.truncate_def split: prod.splits if_splits)
  from m have "identity_proved sl iak_cert idevid_cert (fst iak) (fst idevid)"
    by (auto simp: cert_matches_def and_then_Ok_iff identity_proved_def)
  then show ?thesis using True ids w' by simp
qed (use assms in \<open>auto simp: device_identity_def act_lift_def\<close>)

subsection \<open>The attestation key over restarts\<close>

text \<open>The encodings of a key read back.\<close>

definition ak_storable ::
  "('c, 'k, 'pub, 'priv, 's, 'sig) tpm_libs \<Rightarrow> ('pub, 'priv) ak_result \<Rightarrow> bool" where
  "ak_storable tp ak \<longleftrightarrow>
     (\<exists>pub. tl_marshall tp (ak_result_public ak) = Ok pub \<and> tl_unmarshall tp pub = Ok (ak_result_public ak))
     \<and> tl_of_vec tp (tl_to_vec tp (ak_result_private ak)) = Ok (ak_result_private ak)"

lemma store_agent_data_Ok:
  assumes "store_agent_data env xl tp cfg hash sign ekh ak w = (Ok (), w')"
    and "ac_agent_data_path cfg \<noteq> []" and "ak_storable tp ak" and "json_text (xl_print xl) (xl_parse xl)"
    and "fault env Op_read (ac_agent_data_path cfg) = None"
  shows "\<exists>d. agent_data_load env (xl_parse xl) (xl_serde_msg xl) (disk (h_machine w')) (ac_agent_data_path cfg) = Ok d
    \<and> agent_data_get_ak (tl_unmarshall tp) (tl_of_vec tp) d = Ok ak
    \<and> (\<forall>h s e. agent_data_valid d h s e \<longleftrightarrow> h = hash \<and> s = sign \<and> e = as_bytes ekh)
    \<and> exists_path (disk (h_machine w')) (ac_agent_data_path cfg)"
proof -
  from assms(1,2) obtain d f' where d: "agent_data_create (tl_marshall tp) (tl_to_vec tp) hash sign ak (as_bytes ekh) = Ok d"
    and s: "agent_data_store env (xl_print xl) d (ac_agent_data_path cfg) (disk (h_machine w)) = (Ok (), f')"
    and f': "disk (h_machine w') = f'"
    by (auto simp: store_agent_data_def world_acts in_disk_Ok_iff)
  have "exists_path f' (ac_agent_data_path cfg)"
    using s by (auto simp: agent_data_store_def act_bind_Ok_iff fs_step_Ok_iff exists_path_def split: option.splits node.splits)
  moreover have "agent_data_load env (xl_parse xl) (xl_serde_msg xl) f' (ac_agent_data_path cfg) = Ok d"
    using agent_data_store_load [OF assms(4) s assms(5)] .
  moreover have "agent_data_get_ak (tl_unmarshall tp) (tl_of_vec tp) d = Ok ak"
    and "agent_data_valid d h s e \<longleftrightarrow> h = hash \<and> s = sign \<and> e = as_bytes ekh" for h s e
    using d assms(3) by (auto simp: agent_data_create_def and_then_Ok_iff ak_storable_def agent_data_get_ak_def agent_data_valid_def)
  ultimately show ?thesis using f' by blast
qed

text \<open>\<^bold>\<open>C36\<close>: the attestation key survives a restart. Once the agent data was stored, a later start on the same disk with
  the same algorithms and endorsement key tries the stored key, and keeps it when the TPM loads it; with another
  algorithm or endorsement key the stored key is not offered to the TPM at all.\<close>

theorem restart_keeps_ak:
  assumes "store_agent_data env xl tp cfg hash sign ekh ak w = (Ok (), w')"
    and "ac_agent_data_path cfg \<noteq> []" and "ak_storable tp ak" and "json_text (xl_print xl) (xl_parse xl)"
    and "fault env Op_read (ac_agent_data_path cfg) = None"
    and "disk (h_machine w2) = disk (h_machine w')"
  shows "(in_tpm (load_ak (tl_keys tp) ek_h (ak_result_public ak, ak_result_private ak)) w2 = (Ok h, w3) \<longrightarrow>
           act_bind (old_ak env xl tp cfg hash sign ekh ek_h) (attestation_key tp hash sign ek_h) w2 = (Ok (h, ak), w3))
    \<and> ((hash', sign', as_bytes ekh') \<noteq> (hash, sign, as_bytes ekh) \<longrightarrow>
           old_ak env xl tp cfg hash' sign' ekh' ek_h w2 = (Ok None, w2))"
proof -
  from store_agent_data_Ok [OF assms(1-5)] obtain d
    where "agent_data_load env (xl_parse xl) (xl_serde_msg xl) (disk (h_machine w2)) (ac_agent_data_path cfg) = Ok d"
      and "agent_data_get_ak (tl_unmarshall tp) (tl_of_vec tp) d = Ok ak"
      and "\<And>h s e. agent_data_valid d h s e \<longleftrightarrow> h = hash \<and> s = sign \<and> e = as_bytes ekh"
      and "exists_path (disk (h_machine w2)) (ac_agent_data_path cfg)"
    using assms(6) by auto
  then show ?thesis using assms(2)
    by (auto simp: old_ak_def Let_def act_bind_def act_lift_def act_try_def attestation_key_def)
qed

subsection \<open>The server key over restarts\<close>

lemma rsa_generate_pair_pub:
  "rsa_generate_pair ops n = Ok (pub, sk) \<Longrightarrow> pkey_pub_from_priv ops sk = Ok pub"
  by (auto simp: rsa_generate_pair_def and_then_Ok_iff)

text \<open>\<^bold>\<open>C37\<close>: what becomes of a new server key. When the key was written completely, the next start with the same
  passphrase uses the same key pair. When the write fails after the file was created, the agent starts all the same with a key that
  is nowhere stored; it leaves an empty key file, on which the next start fails when OpenSSL does not read a key from
  an empty text.\<close>

theorem server_key_over_restarts:
  assumes "ac_server_key cfg = path" and "path \<noteq> []" and "f path = None" and "fault env Op_create path = None"
    and "rsa_generate_pair (sl_pkey sl) 2048 = Ok (pub, sk)" and "pk_to_pem_pkcs8 (sl_pkey sl) sk = Ok pem"
    and "ac_server_key_password cfg = []" and "pem_inverse (sl_pkey sl)" and "pk_from_pem (sl_pkey sl) [] = Err e"
  shows "(fault env Op_write path = None \<and> fault env Op_set_permissions path = None \<and> fault env Op_read path = None
            \<and> (\<forall>n. accepted env path n = n) \<longrightarrow>
          (\<exists>f'. server_key_pair env sl cfg f = (Ok (pub, sk), f') \<and> server_key_pair env sl cfg f' = (Ok (pub, sk), f')))
    \<and> (fault env Op_write path \<noteq> None \<longrightarrow>
          (\<exists>f'. server_key_pair env sl cfg f = (Ok (pub, sk), f') \<and> f' = f(path \<mapsto> Regular [] 0x1A4)
             \<and> server_key_pair quiet sl cfg f' = (Err (Crypto e), f')))"
proof (intro conjI impI)
  assume ok: "fault env Op_write path = None \<and> fault env Op_set_permissions path = None \<and> fault env Op_read path = None
            \<and> (\<forall>n. accepted env path n = n)"
  let ?f = "f(path \<mapsto> Regular pem 0x180)"
  have "server_key_pair env sl cfg f = (Ok (pub, sk), ?f)"
    using assms ok
    by (auto simp: server_key_pair_def exists_path_def act_bind_def act_lift_def act_ignore_def write_key_pair_def
        fs_step_def file_create_def file_write_def set_permissions_def with_fault_def Let_def)
  moreover have "load_key_pair env (sl_pkey sl) ?f path (Some []) = Ok (pub, sk)"
    using assms ok rsa_generate_pair_pub [OF assms(5)]
    by (simp add: load_key_pair_def read_file_def with_fault_def pem_inverse_def)
  ultimately show "\<exists>f'. server_key_pair env sl cfg f = (Ok (pub, sk), f') \<and> server_key_pair env sl cfg f' = (Ok (pub, sk), f')"
    using assms(1,2,7) by (auto simp: server_key_pair_def exists_path_def Let_def)
next
  assume bad: "fault env Op_write path \<noteq> None"
  let ?f = "f(path \<mapsto> Regular [] 0x1A4)"
  have "server_key_pair env sl cfg f = (Ok (pub, sk), ?f)"
    using assms bad
    by (auto simp: server_key_pair_def exists_path_def act_bind_def act_lift_def act_ignore_def write_key_pair_def
        fs_step_def file_create_def file_write_def with_fault_def Let_def)
  moreover have "server_key_pair quiet sl cfg ?f = (Err (Crypto e), ?f)"
    using assms by (simp add: server_key_pair_def exists_path_def load_key_pair_def read_file_def Let_def)
  ultimately show "\<exists>f'. server_key_pair env sl cfg f = (Ok (pub, sk), f') \<and> f' = f(path \<mapsto> Regular [] 0x1A4)
             \<and> server_key_pair quiet sl cfg f' = (Err (Crypto e), f')" by blast
qed

subsection \<open>Libraries\<close>

definition key_ops_ref :: "(unit, nat, nat, nat, unit) key_ops" where
  "key_ops_ref =
     \<lparr>ko_create_ek = \<lambda>_ c. (Ok 1, c), ko_persistent = Ok, ko_tr_from_public = \<lambda>n c. (Ok n, c),
      ko_ek_pubcert = \<lambda>_ c. (Err (WrapperError [] []), c), ko_read_public = \<lambda>k c. (Ok 10, c),
      ko_create_ak = \<lambda>_ _ _ c. (Ok (20, 21), c), ko_load_ak = \<lambda>_ _ _ c. (Ok 2, c), ko_build_sel = \<lambda>_ sel. Ok sel,
      ko_create_primary = \<lambda>p _ c. (Ok (p, 3), c), ko_start_session = \<lambda>c. (Ok (Some ()), c), ko_cipher = Ok (),
      ko_set_attributes = \<lambda>_ c. (Ok (), c), ko_policy_secret = \<lambda>_ c. (Ok (), c),
      ko_activate = \<lambda>_ _ _ _ _ c. (Ok [9], c), ko_id_object = Some, ko_encrypted_secret = Some\<rparr>"

definition tpm_libs_ref :: "(unit, nat, nat, nat, unit, unit) tpm_libs" where
  "tpm_libs_ref =
     \<lparr>tl_keys = key_ops_ref,
      tl_templates = \<lparr>to_attributes = Ok, to_digest = Ok, to_parameters = Ok, to_rsa_unique = Ok, to_ecc_parameter = Ok,
        to_public = \<lambda>_. Ok 30\<rparr>,
      tl_vendor = \<lambda>c. (Ok ''STM'', c), tl_auth = Ok, tl_set_auth = \<lambda>_ c. (Ok (), c), tl_flush = \<lambda>_ c. (Ok (), c),
      tl_data = Ok, tl_certify = \<lambda>_ _ d _ c. (Ok (\<lparr>attested = Other_info (Attest_Other ''Certify''), extra_data = d\<rparr>, ()), c),
      tl_marshall = \<lambda>n. Ok [word_of_nat n], tl_unmarshall = \<lambda>bs. Ok (unat (hd bs)), tl_to_vec = \<lambda>n. [word_of_nat n],
      tl_of_vec = \<lambda>bs. Ok (unat (hd bs)), tl_marshall_attest = \<lambda>a. Ok (extra_data a), tl_marshall_signature = \<lambda>_. Ok []\<rparr>"

definition ssl_libs_ref :: "(nat, nat, unit, string, string, string) ssl_libs" where
  "ssl_libs_ref =
     \<lparr>sl_spki = Ok, sl_der = \<lambda>n. Ok [word_of_nat n], sl_pkey_from_der = \<lambda>_. Ok (), sl_pkey_to_pem = \<lambda>_. Ok [],
      sl_hash = \<lambda>_ _. Ok [5], sl_hex = \<lambda>bs. replicate (length bs) CHR ''0'', sl_hmac = \<lambda>_ _. Ok (replicate 48 0),
      sl_cert_from_der = Ok, sl_cert_from_pem = Ok, sl_cert_stack = \<lambda>c. Ok [c], sl_cert_to_pem = Ok,
      sl_cert_key = \<lambda>_. Ok \<lparr>ck_id = Id_RSA, ck_bits = 2048, ck_rsa_n = Ok [30], ck_ec_der = Err [], ck_curve = Err []\<rparr>,
      sl_build = \<lambda>x. Ok (x509_subject_cn x), sl_accepts_cert = \<lambda>_. True, sl_accepts_key = \<lambda>_ _. True,
      sl_add_cert = \<lambda>cs c. Ok (cs @ [c]), sl_pkey = pkey_ops_ref\<rparr>"

definition restart_cfg :: agent_config where
  "restart_cfg = (agent_config_default 0)\<lparr>ac_agent_data_path := ''/d'', ac_server_key := ''/k'', ac_server_key_password := []\<rparr>"

definition restart_world :: "unit agent_world" where
  "restart_world =
     \<lparr>h_machine = \<lparr>disk = Map.empty, executed = []\<rparr>, h_process = root_ref, h_sent = [], tpm_ctx = ()\<rparr>"

definition text_ref :: text_libs where
  "text_ref = \<lparr>xl_parse = json_parse_ref, xl_print = json_print_ref, xl_serde_msg = id, xl_list_error = id\<rparr>"

theorem restart_keeps_ak_witness:
  "\<exists>w' w3. store_agent_data quiet text_ref tpm_libs_ref restart_cfg Sha256 RsaSsa ''e''
       \<lparr>ak_result_public = 20, ak_result_private = 21\<rparr> restart_world = (Ok (), w')
     \<and> act_bind (old_ak quiet text_ref tpm_libs_ref restart_cfg Sha256 RsaSsa ''e'' 1)
         (attestation_key tpm_libs_ref Sha256 RsaSsa 1) w' = (Ok (2, \<lparr>ak_result_public = 20, ak_result_private = 21\<rparr>), w3)"
proof -
  let ?ak = "\<lparr>ak_result_public = 20 :: nat, ak_result_private = 21 :: nat\<rparr>"
  have path: "ac_agent_data_path restart_cfg = ''/d''" by (simp add: restart_cfg_def)
  obtain w' where s: "store_agent_data quiet text_ref tpm_libs_ref restart_cfg Sha256 RsaSsa ''e'' ?ak restart_world = (Ok (), w')"
    by (simp add: store_agent_data_def path act_bind_def act_lift_def agent_data_create_def tpm_libs_ref_def in_machine_def in_disk_def
        agent_data_store_def fs_step_def file_create_def quiet_def with_fault_def restart_world_def)
  have st: "ak_storable tpm_libs_ref ?ak" by (simp add: ak_storable_def tpm_libs_ref_def)
  have js: "json_text (xl_print text_ref) (xl_parse text_ref)" using json_text_ref by (simp add: text_ref_def)
  have l: "in_tpm (load_ak (tl_keys tpm_libs_ref) 1 (ak_result_public ?ak, ak_result_private ?ak)) w' = (Ok 2, w')"
    by (simp add: in_tpm_def load_ak_def act_tss_def tpm_libs_ref_def key_ops_ref_def)
  from restart_keeps_ak [OF s _ st js _ refl, of 1 2 w'] l path s show ?thesis by (auto simp: quiet_def)
qed

definition pkey_ops_strict :: "(string, string) pkey_ops" where
  "pkey_ops_strict = pkey_ops_ref\<lparr>pk_to_pem_pkcs8 := \<lambda>k. Ok (''-'' @ k),
     pk_from_pem := \<lambda>pem. (case pem of [] \<Rightarrow> Err ''no start line'' | _ # k \<Rightarrow> Ok k)\<rparr>"

theorem server_key_over_restarts_witness:
  "\<exists>f'. server_key_pair (quiet\<lparr>fault := \<lambda>op _. if op = Op_write then Some ''No space left on device'' else None\<rparr>)
       (ssl_libs_ref\<lparr>sl_pkey := pkey_ops_strict\<rparr>) restart_cfg Map.empty = (Ok (''pub'', ''2048''), f')
     \<and> server_key_pair quiet (ssl_libs_ref\<lparr>sl_pkey := pkey_ops_strict\<rparr>) restart_cfg f' = (Err (Crypto ''no start line''), f')"
proof -
  let ?env = "quiet\<lparr>fault := \<lambda>op _. if op = Op_write then Some ''No space left on device'' else None\<rparr>"
    and ?sl = "ssl_libs_ref\<lparr>sl_pkey := pkey_ops_strict\<rparr>"
  have g: "rsa_generate_pair (sl_pkey ?sl) 2048 = Ok (''pub'', ''2048'')" "pk_to_pem_pkcs8 (sl_pkey ?sl) ''2048'' = Ok ''-2048''"
    by (simp_all add: rsa_generate_pair_def rsa_generate_def pkey_pub_from_priv_def pkey_ops_strict_def pkey_ops_ref_def) code_simp
  have i: "pem_inverse (sl_pkey ?sl)" "pk_from_pem (sl_pkey ?sl) [] = Err ''no start line''"
    by (auto simp: pem_inverse_def pkey_ops_strict_def pkey_ops_ref_def)
  have c: "ac_server_key restart_cfg = ''/k''" "ac_server_key_password restart_cfg = []" by (simp_all add: restart_cfg_def)
  from server_key_over_restarts [OF c(1) _ _ _ g c(2) i, of Map.empty ?env] show ?thesis by auto
qed

end
