(* ===== verification/Quotes_Handler.thy ===== *)
theory Quotes_Handler
  imports Crypto_Ops Tpm_Quote Measurement_List Http
begin

text \<open>
  The attestation requests of \<^verbatim>\<open>keylime-agent/src/quotes_handler.rs\<close>: the identity quote of the
  tenant and the integrity quote of the verifier, which comes with the measured boot log and the
  IMA measurement list. The state the handlers share (\<open>QuoteData\<close> of \<^verbatim>\<open>main.rs\<close>) is the TPM
  context, the cache of the measurement list and the two files. The mutexes around them are not
  modelled: a handler holds the TPM for its whole run, and a lock can be poisoned by a panic only,
  which ends a run of the model.
\<close>

section \<open>Requests and answers\<close>

record ident =
  ident_nonce :: string

record integ =
  integ_nonce :: string
  integ_mask :: string
  integ_partial :: string
  ima_ml_entry :: "string option"

record keylime_quote =
  kq_quote :: string
  kq_hash_alg :: string
  kq_enc_alg :: string
  kq_sign_alg :: string
  kq_pubkey :: "string option"
  kq_ima_measurement_list :: "string option"
  kq_mb_measurement_list :: "string option"
  kq_ima_measurement_list_entry :: "nat option"

text \<open>The derived serialization skips absent optional fields.\<close>

definition keylime_quote_to_json :: "keylime_quote \<Rightarrow> json" where
  "keylime_quote_to_json kq =
     JObj ([(''quote'', JStr (kq_quote kq)), (''hash_alg'', JStr (kq_hash_alg kq)),
            (''enc_alg'', JStr (kq_enc_alg kq)), (''sign_alg'', JStr (kq_sign_alg kq))]
       @ optional_field ''pubkey'' JStr (kq_pubkey kq)
       @ optional_field ''ima_measurement_list'' JStr (kq_ima_measurement_list kq)
       @ optional_field ''mb_measurement_list'' JStr (kq_mb_measurement_list kq)
       @ optional_field ''ima_measurement_list_entry'' (\<lambda>n. JNum (int n)) (kq_ima_measurement_list_entry kq))"

definition MAX_NONCE_SIZE :: nat where
  "MAX_NONCE_SIZE = 64"

section \<open>Shared state\<close>

text \<open>A log file: whether it can be rewound, and what reading it to the end gives.\<close>

record log_file =
  rewind_error :: "string option"
  read_to_end :: "(u8 list, string) outcome"

record 'c quote_state =
  tpmcontext :: 'c
  ima_ml :: measurement_list
  ima_ml_file :: "string option"
  measuredboot_ml_file :: "log_file option"

text \<open>The constant part of \<open>QuoteData\<close>.\<close>

record ('pub, 'key) quote_data =
  qd_pub_key :: 'pub
  qd_ak_handle :: 'key
  qd_hash_alg :: hash_algorithm
  qd_enc_alg :: encryption_algorithm
  qd_sign_alg :: sign_algorithm

text \<open>The libraries: base64, the hasher, the TPM operations, the OpenSSL key operations and view
  of a public key, and the alphanumeric characters beyond ASCII.\<close>

record ('h, 'c, 'key, 'sel, 'data, 'sig, 'dig, 'priv, 'pub) quote_libs =
  ql_b64 :: "u8 list \<Rightarrow> string"
  ql_hasher :: "'h hasher_ops"
  ql_tpm :: "('c, 'key, 'sel, 'data, 'sig, 'dig) quote_ops"
  ql_pkey :: "('priv, 'pub) pkey_ops"
  ql_view :: "'pub \<Rightarrow> pubkey_view"
  ql_utf8_error :: "string \<Rightarrow> string"
  ql_alphanumeric :: "nat \<Rightarrow> bool"

definition context_quote ::
  "('h, 'c, 'key, 'sel, 'data, 'sig, 'dig, 'priv, 'pub) quote_libs \<Rightarrow> ('pub, 'key) quote_data
   \<Rightarrow> string \<Rightarrow> u32 \<Rightarrow> ('c, string) tpm_act" where
  "context_quote libs data nonce m =
     quote (ql_b64 libs) (ql_hasher libs) (ql_tpm libs) (as_bytes nonce) m
       (ql_view libs (qd_pub_key data)) (qd_ak_handle data) (qd_hash_alg data) (qd_sign_alg data)"

definition id_quote :: "('pub, 'key) quote_data \<Rightarrow> string \<Rightarrow> keylime_quote" where
  "id_quote data tpm_quote =
     \<lparr>kq_quote = tpm_quote, kq_hash_alg = hash_algorithm_to_string (qd_hash_alg data),
      kq_enc_alg = encryption_algorithm_to_string (qd_enc_alg data),
      kq_sign_alg = sign_algorithm_to_string (qd_sign_alg data), kq_pubkey = None,
      kq_ima_measurement_list = None, kq_mb_measurement_list = None,
      kq_ima_measurement_list_entry = None\<rparr>"

section \<open>The identity quote\<close>

definition identity ::
  "('h, 'c, 'key, 'sel, 'data, 'sig, 'dig, 'priv, 'pub) quote_libs \<Rightarrow> ('pub, 'key) quote_data
   \<Rightarrow> 'c quote_state \<Rightarrow> ident \<Rightarrow> (http_response \<times> 'c quote_state, agent_error) outcome" where
  "identity libs data st param =
     (let nonce = ident_nonce param
      in if \<not> all_alphanumeric (ql_alphanumeric libs) nonce then
           Ok (bad_request (''Parameters should be strictly alphanumeric: '' @ nonce), st)
         else if MAX_NONCE_SIZE < length nonce then
           Ok (bad_request (''Nonce is too long (max size '' @ show_nat MAX_NONCE_SIZE @ ''): '' @ nonce), st)
         else
           (case context_quote libs data nonce 0 (tpmcontext st) of
              (r, c) \<Rightarrow>
                let st' = st\<lparr>tpmcontext := c\<rparr>
                in or_respond r (\<lambda>e. (server_error ''Unable to retrieve quote'', st')) (\<lambda>tpm_quote.
                   or_respond (pkey_pub_to_pem (ql_utf8_error libs) (ql_pkey libs) (qd_pub_key data))
                     (\<lambda>e. (server_error ''Unable to retrieve quote'', st')) (\<lambda>pem.
                   Ok (respond 200 (wrapper_success
                         (keylime_quote_to_json ((id_quote data tpm_quote)\<lparr>kq_pubkey := Some pem\<rparr>))), st')))))"

section \<open>The integrity quote\<close>

text \<open>\<open>u32::from_str_radix(param.mask.trim_start_matches("0x"), 16)\<close>.\<close>

definition parse_mask :: "string \<Rightarrow> (u32, int_error_kind) outcome" where
  "parse_mask s =
     and_then (from_str_radix 32 16 (trim_start_matches ''0x'' s)) (\<lambda>n. Ok (word_of_nat n))"

text \<open>The first requested entry: the whole list when there is no index or it is not a number.\<close>

definition requested_entry :: "integ \<Rightarrow> nat" where
  "requested_entry param =
     (case ima_ml_entry param of
        None \<Rightarrow> 0
      | Some idx \<Rightarrow> (case from_str_radix 64 10 idx of Ok n \<Rightarrow> n | _ \<Rightarrow> 0))"

text \<open>The measured boot log, included when PCR 0 is selected; an unreadable log is left out.\<close>

definition measured_boot_list ::
  "(u8 list \<Rightarrow> string) \<Rightarrow> u32 \<Rightarrow> log_file option \<Rightarrow> (string option, string) outcome" where
  "measured_boot_list b64 m file =
     (case check_mask m Slot0 of
        Ok True \<Rightarrow>
          (case file of
             None \<Rightarrow> Ok None
           | Some f \<Rightarrow>
               (case rewind_error f of
                  Some e \<Rightarrow> Err e
                | None \<Rightarrow>
                    (case read_to_end f of
                       Ok ml \<Rightarrow> Ok (Some (b64 ml)) | Err e \<Rightarrow> Ok None | Panic \<Rightarrow> Panic)))
      | Ok False \<Rightarrow> Ok None
      | Err e \<Rightarrow> Err (tpm_error_to_string e)
      | Panic \<Rightarrow> Panic)"

definition partial_message :: string where
  "partial_message =
     ''uri must contain key '' @ [CHR 0x27] @ ''partial'' @ [CHR 0x27] @ '' and value '' @ [CHR 0x27] @ ''0''
     @ [CHR 0x27] @ '' or '' @ [CHR 0x27] @ ''1'' @ [CHR 0x27]"

definition partial_pubkey ::
  "(string \<Rightarrow> string) \<Rightarrow> ('priv, 'pub) pkey_ops \<Rightarrow> 'pub \<Rightarrow> string \<Rightarrow> (string option, http_response) outcome" where
  "partial_pubkey utf8_error ops pub p =
     (if p = ''0'' then
        (case pkey_pub_to_pem utf8_error ops pub of
           Ok pem \<Rightarrow> Ok (Some pem)
         | Err e \<Rightarrow> Err (server_error ''Unable to retrieve public key'')
         | Panic \<Rightarrow> Panic)
      else if p = ''1'' then Ok None
      else Err (bad_request partial_message))"

text \<open>The reading of the measurement list, with the cache it leaves behind.\<close>

definition read_ima_list ::
  "(nat \<times> nat) iteration_order \<Rightarrow> 'c quote_state \<Rightarrow> nat
   \<Rightarrow> ((string \<times> nat) option, io_error) outcome \<times> 'c quote_state" where
  "read_ima_list ord st nth_entry =
     (case ima_ml_file st of
        None \<Rightarrow> (Ok None, st)
      | Some file \<Rightarrow>
          (case ml_read ord file (ima_ml st) nth_entry of
             (Ok (ml, entry, num_entries), cache) \<Rightarrow> (Ok (Some (ml, entry)), st\<lparr>ima_ml := cache\<rparr>)
           | (Err e, cache) \<Rightarrow> (Err e, st\<lparr>ima_ml := cache\<rparr>)
           | (Panic, cache) \<Rightarrow> (Panic, st\<lparr>ima_ml := cache\<rparr>)))"

text \<open>The part of \<open>integrity\<close> after the parameters were accepted.\<close>

definition integrity_answer ::
  "('h, 'c, 'key, 'sel, 'data, 'sig, 'dig, 'priv, 'pub) quote_libs \<Rightarrow> (nat \<times> nat) iteration_order
   \<Rightarrow> ('pub, 'key) quote_data \<Rightarrow> 'c quote_state \<Rightarrow> integ \<Rightarrow> u32 \<Rightarrow> string option
   \<Rightarrow> (http_response \<times> 'c quote_state, agent_error) outcome" where
  "integrity_answer libs ord data st param m pubkey =
     (case context_quote libs data (integ_nonce param) m (tpmcontext st) of
        (r, c) \<Rightarrow>
          let st1 = st\<lparr>tpmcontext := c\<rparr>;
              unable = server_error ''Unable to retrieve quote''
          in or_respond r (\<lambda>e. (unable, st1)) (\<lambda>tpm_quote.
             or_respond (measured_boot_list (ql_b64 libs) m (measuredboot_ml_file st1))
               (\<lambda>e. (unable, st1)) (\<lambda>mb.
             case read_ima_list ord st1 (requested_entry param) of
               (l, st2) \<Rightarrow>
                 or_respond l (\<lambda>e. (unable, st2)) (\<lambda>ima.
                 Ok (respond 200 (wrapper_success (keylime_quote_to_json
                       ((id_quote data tpm_quote)
                         \<lparr>kq_pubkey := pubkey, kq_ima_measurement_list := map_option fst ima,
                          kq_mb_measurement_list := mb,
                          kq_ima_measurement_list_entry := map_option snd ima\<rparr>))), st2)))))"

definition integrity ::
  "('h, 'c, 'key, 'sel, 'data, 'sig, 'dig, 'priv, 'pub) quote_libs \<Rightarrow> (nat \<times> nat) iteration_order
   \<Rightarrow> ('pub, 'key) quote_data \<Rightarrow> 'c quote_state \<Rightarrow> integ
   \<Rightarrow> (http_response \<times> 'c quote_state, agent_error) outcome" where
  "integrity libs ord data st param =
     (let nonce = integ_nonce param
      in if \<not> all_alphanumeric (ql_alphanumeric libs) nonce then
           Ok (bad_request (''nonce should be strictly alphanumeric: '' @ nonce), st)
         else if \<not> all_alphanumeric (ql_alphanumeric libs) (integ_mask param) then
           Ok (bad_request (''mask should be strictly alphanumeric: '' @ integ_mask param), st)
         else
           or_respond (parse_mask (integ_mask param))
             (\<lambda>e. (bad_request (''mask should be a hex encoded 32-bit integer: '' @ integ_mask param), st)) (\<lambda>m.
           if MAX_NONCE_SIZE < length nonce then
             Ok (bad_request (''Nonce is too long (max size: '' @ show_nat MAX_NONCE_SIZE @ ''): ''
                   @ show_nat (length nonce)), st)
           else
             or_respond (partial_pubkey (ql_utf8_error libs) (ql_pkey libs) (qd_pub_key data) (integ_partial param))
               (\<lambda>resp. (resp, st)) (\<lambda>pubkey.
             integrity_answer libs ord data st param m pubkey)))"

section \<open>Case analysis\<close>

definition valid_ident :: "(nat \<Rightarrow> bool) \<Rightarrow> ident \<Rightarrow> bool" where
  "valid_ident uni q \<longleftrightarrow> all_alphanumeric uni (ident_nonce q) \<and> length (ident_nonce q) \<le> 64"

definition valid_integ :: "(nat \<Rightarrow> bool) \<Rightarrow> integ \<Rightarrow> bool" where
  "valid_integ uni q \<longleftrightarrow>
     all_alphanumeric uni (integ_nonce q) \<and> length (integ_nonce q) \<le> 64
     \<and> all_alphanumeric uni (integ_mask q) \<and> is_ok (parse_mask (integ_mask q))
     \<and> integ_partial q \<in> {''0'', ''1''}"

lemma partial_pubkey_Err:
  "partial_pubkey ue ops pub p = Err r \<Longrightarrow>
     r = bad_request partial_message \<and> p \<notin> {''0'', ''1''}
     \<or> r = server_error ''Unable to retrieve public key'' \<and> p = ''0''"
  by (auto simp: partial_pubkey_def split: if_splits outcome.splits)

lemma partial_pubkey_Ok:
  "partial_pubkey ue ops pub p = Ok x \<Longrightarrow> p \<in> {''0'', ''1''} \<and> (x \<noteq> None \<longleftrightarrow> p = ''0'')
     \<and> (\<forall>pem. x = Some pem \<longrightarrow> pkey_pub_to_pem ue ops pub = Ok pem)"
  by (auto simp: partial_pubkey_def split: if_splits outcome.splits)

lemma partial_message_text [simp]: "partial_message \<noteq> ''Success''"
  by (simp add: partial_message_def)

lemma integrity_cases:
  assumes "integrity libs ord data st q = Ok (r, st')"
  obtains
    (rejected) "http_status r = 400" and "well_formed_response r" and "st' = st"
      and "\<not> valid_integ (ql_alphanumeric libs) q"
  | (no_pem) "r = server_error ''Unable to retrieve public key''" and "st' = st"
      and "valid_integ (ql_alphanumeric libs) q"
  | (answer) m pubkey where "valid_integ (ql_alphanumeric libs) q" and "parse_mask (integ_mask q) = Ok m"
      and "partial_pubkey (ql_utf8_error libs) (ql_pkey libs) (qd_pub_key data) (integ_partial q) = Ok pubkey"
      and "integrity_answer libs ord data st q m pubkey = Ok (r, st')"
proof (cases "valid_integ (ql_alphanumeric libs) q")
  case False
  then have "http_status r = 400 \<and> well_formed_response r \<and> st' = st"
    using assms
    by (auto simp: integrity_def Let_def or_respond_Ok_iff valid_integ_def MAX_NONCE_SIZE_def is_ok_iff
        dest!: partial_pubkey_Err dest: partial_pubkey_Ok split: if_splits)
  then show thesis using rejected False by blast
next
  case True
  then obtain m where m: "parse_mask (integ_mask q) = Ok m" by (auto simp: valid_integ_def is_ok_iff)
  then have "or_respond (partial_pubkey (ql_utf8_error libs) (ql_pkey libs) (qd_pub_key data) (integ_partial q))
      (\<lambda>resp. (resp, st)) (integrity_answer libs ord data st q m) = Ok (r, st')"
    using assms True by (simp add: integrity_def valid_integ_def MAX_NONCE_SIZE_def)
  then show thesis
    using no_pem answer True m by (auto simp: or_respond_Ok_iff valid_integ_def dest!: partial_pubkey_Err)
qed

lemma integrity_answer_cases:
  assumes "integrity_answer libs ord data st q m pubkey = Ok (r, st')"
  obtains
    (unable) c cache where "r = server_error ''Unable to retrieve quote''"
      and "st' = st\<lparr>tpmcontext := c\<rparr>
         \<or> read_ima_list ord (st\<lparr>tpmcontext := c\<rparr>) (requested_entry q) = (cache, st')"
  | (answered) tq c mb ima where
      "context_quote libs data (integ_nonce q) m (tpmcontext st) = (Ok tq, c)"
      and "measured_boot_list (ql_b64 libs) m (measuredboot_ml_file st) = Ok mb"
      and "read_ima_list ord (st\<lparr>tpmcontext := c\<rparr>) (requested_entry q) = (Ok ima, st')"
      and "r = respond 200 (wrapper_success (keylime_quote_to_json
            ((id_quote data tq)\<lparr>kq_pubkey := pubkey, kq_ima_measurement_list := map_option fst ima,
              kq_mb_measurement_list := mb, kq_ima_measurement_list_entry := map_option snd ima\<rparr>)))"
proof -
  obtain t c where q: "context_quote libs data (integ_nonce q) m (tpmcontext st) = (t, c)" by force
  obtain l st2 where l: "read_ima_list ord (st\<lparr>tpmcontext := c\<rparr>) (requested_entry q) = (l, st2)" by force
  show thesis
    using assms that q l by (auto simp: integrity_answer_def Let_def or_respond_Ok_iff)
qed

section \<open>The contract of the two handlers\<close>

interpretation identity_rest: rest_handler "identity libs data" for libs data
  by unfold_locales
    (auto simp: identity_def Let_def or_respond_Ok_iff or_respond_Err_iff split: if_splits prod.splits)

lemma well_formed_integrity_answer:
  "integrity_answer libs ord data st q m pubkey = Ok (r, st') \<Longrightarrow> well_formed_response r"
  by (erule integrity_answer_cases) simp_all

lemma integrity_responds: "integrity libs ord data st q \<noteq> Err e"
  by (auto simp: integrity_def integrity_answer_def Let_def or_respond_Err_iff split: if_splits prod.splits)

interpretation integrity_rest: rest_handler "integrity libs ord data" for libs ord data
proof
  fix st q r st'
  assume "integrity libs ord data st q = Ok (r, st')"
  then show "well_formed_response r"
    by (rule integrity_cases) (auto intro: well_formed_integrity_answer)
qed (rule integrity_responds)

section \<open>Malformed requests\<close>

lemma identity_statuses:
  assumes "identity libs data st q = Ok (r, st')"
  shows "http_status r \<in> {200, 400, 500} \<and> (http_status r = 400 \<longleftrightarrow> \<not> valid_ident (ql_alphanumeric libs) q)
    \<and> (http_status r = 400 \<longrightarrow> st' = st)"
  using assms
  by (auto simp: identity_def Let_def or_respond_Ok_iff valid_ident_def MAX_NONCE_SIZE_def
      split: if_splits prod.splits)

lemma integrity_answer_statuses:
  "integrity_answer libs ord data st q m pubkey = Ok (r, st') \<Longrightarrow> http_status r \<in> {200, 500}"
  by (erule integrity_answer_cases) (simp_all add: respond_def)

lemma integrity_statuses:
  assumes "integrity libs ord data st q = Ok (r, st')"
  shows "http_status r \<in> {200, 400, 500} \<and> (http_status r = 400 \<longleftrightarrow> \<not> valid_integ (ql_alphanumeric libs) q)
    \<and> (http_status r = 400 \<longrightarrow> st' = st)"
  using assms by (rule integrity_cases) (auto dest: integrity_answer_statuses)

section \<open>Runs of the agent\<close>

text \<open>
  What happens to the shared state: requests are answered, with any iteration order of the cache,
  the kernel appends to the measurement list, and the TPM and the boot log change.
\<close>

inductive quotes_step ::
  "('h, 'c, 'key, 'sel, 'data, 'sig, 'dig, 'priv, 'pub) quote_libs \<Rightarrow> ('pub, 'key) quote_data
   \<Rightarrow> 'c quote_state \<Rightarrow> 'c quote_state \<Rightarrow> bool"
  for libs data where
  identity_request: "identity libs data st q = Ok (r, st') \<Longrightarrow> quotes_step libs data st st'"
| integrity_request: "integrity libs ord data st q = Ok (r, st') \<Longrightarrow> quotes_step libs data st st'"
| measurement: "ima_ml_file st = Some s \<Longrightarrow> quotes_step libs data st (st\<lparr>ima_ml_file := Some (s @ t)\<rparr>)"
| tpm_activity: "quotes_step libs data st (st\<lparr>tpmcontext := c\<rparr>)"
| boot_log: "quotes_step libs data st (st\<lparr>measuredboot_ml_file := f\<rparr>)"

inductive quotes_reach ::
  "('h, 'c, 'key, 'sel, 'data, 'sig, 'dig, 'priv, 'pub) quote_libs \<Rightarrow> ('pub, 'key) quote_data
   \<Rightarrow> 'c quote_state \<Rightarrow> bool"
  for libs data where
  start: "ima_ml st = ml_new \<Longrightarrow> quotes_reach libs data st"
| step: "quotes_reach libs data st \<Longrightarrow> quotes_step libs data st st' \<Longrightarrow> quotes_reach libs data st'"

definition cache_ok :: "'c quote_state \<Rightarrow> bool" where
  "cache_ok st = (case ima_ml_file st of None \<Rightarrow> True | Some s \<Rightarrow> ml_consistent s (ima_ml st))"

lemma cache_ok_simps [simp]:
  "cache_ok (st\<lparr>tpmcontext := c\<rparr>) = cache_ok st" "cache_ok (st\<lparr>measuredboot_ml_file := f\<rparr>) = cache_ok st"
  by (simp_all add: cache_ok_def split: option.split)

definition listed :: "'c quote_state \<Rightarrow> nat \<Rightarrow> (string \<times> nat) option" where
  "listed st n = map_option (\<lambda>s. case ml_read_spec s n of (ml, entry, _) \<Rightarrow> (ml, entry)) (ima_ml_file st)"

lemma read_ima_list_cache:
  assumes "read_ima_list ord st n = (l, st')" and "cache_ok st"
  shows "cache_ok st'" and "l = Ok ima \<Longrightarrow> ima = listed st n" and "tpmcontext st' = tpmcontext st"
proof -
  have "cache_ok st' \<and> (l = Ok ima \<longrightarrow> ima = listed st n) \<and> tpmcontext st' = tpmcontext st"
  proof (cases "ima_ml_file st")
    case None
    then show ?thesis using assms by (auto simp: read_ima_list_def listed_def)
  next
    case (Some s)
    obtain x cache where r: "ml_read ord s (ima_ml st) n = (x, cache)" by force
    have c: "ml_consistent s (ima_ml st)" using assms(2) Some by (simp add: cache_ok_def)
    have cache: "ml_consistent s cache" using ml_read_consistent [OF r c] .
    show ?thesis
    proof (cases x)
      case (Ok y)
      then have "y = ml_read_spec s n" using ml_read_Ok [OF c] r by blast
      then show ?thesis using assms Some r Ok cache
        by (cases "ml_read_spec s n") (auto simp: read_ima_list_def listed_def cache_ok_def)
    qed (use assms Some r cache in \<open>auto simp: read_ima_list_def cache_ok_def\<close>)
  qed
  then show "cache_ok st'" and "l = Ok ima \<Longrightarrow> ima = listed st n" and "tpmcontext st' = tpmcontext st"
    by blast+
qed

lemma identity_cache: "identity libs data st q = Ok (r, st') \<Longrightarrow> \<exists>c. st' = st\<lparr>tpmcontext := c\<rparr>"
  by (auto simp: identity_def Let_def or_respond_Ok_iff split: if_splits prod.splits)
    (metis quote_state.surjective quote_state.update_convs(1))+

lemma integrity_answer_cache:
  assumes "integrity_answer libs ord data st q m pubkey = Ok (r, st')" and "cache_ok st"
  shows "cache_ok st'"
  using assms(1)
proof (rule integrity_answer_cases)
  fix c cache
  assume "st' = st\<lparr>tpmcontext := c\<rparr> \<or> read_ima_list ord (st\<lparr>tpmcontext := c\<rparr>) (requested_entry q) = (cache, st')"
  then show ?thesis using assms(2) read_ima_list_cache(1) [of ord "st\<lparr>tpmcontext := c\<rparr>"] by auto
next
  fix tq c mb ima
  assume "read_ima_list ord (st\<lparr>tpmcontext := c\<rparr>) (requested_entry q) = (Ok ima, st')"
  then show ?thesis using assms(2) read_ima_list_cache(1) by fastforce
qed

lemma quotes_reach_cache: "quotes_reach libs data st \<Longrightarrow> cache_ok st"
proof (induction rule: quotes_reach.induct)
  case (start st)
  then show ?case by (simp add: cache_ok_def ml_new_def ml_consistent_def split: option.split)
next
  case (step st st')
  from step.hyps(2) show ?case
  proof cases
    case (identity_request q r)
    then show ?thesis using identity_cache step.IH by fastforce
  next
    case (integrity_request ord q r)
    then show ?thesis using step.IH by (auto elim!: integrity_cases intro: integrity_answer_cache)
  next
    case (measurement s t)
    then show ?thesis using step.IH by (simp add: cache_ok_def ml_consistent_append)
  qed (use step.IH in simp_all)
qed

section \<open>What the verifier gets\<close>

lemma check_mask_True: "check_mask m s = Ok True \<Longrightarrow> bit m (slot_index s)"
  by (auto simp: check_mask_def and_then_Ok_iff read_mask_split split: list.splits)

lemma measured_boot_list_selected:
  "measured_boot_list b64 m f = Ok (Some x) \<Longrightarrow> bit m 0"
  using check_mask_True [of m Slot0]
  by (auto simp: measured_boot_list_def split: outcome.splits option.splits bool.splits)



subsection \<open>A run on the small TPM\<close>

definition quote_libs_ref ::
  "(u8 list, nat, unit, tpml_pcr_selection, tpm2b_digest list, u8 list, u8 list, string, string) quote_libs" where
  "quote_libs_ref =
     \<lparr>ql_b64 = hex_encode_ref, ql_hasher = hasher_ref, ql_tpm = quote_ops_ref, ql_pkey = pkey_ops_ref,
      ql_view = \<lambda>_. pubkey_ref, ql_utf8_error = \<lambda>s. s, ql_alphanumeric = \<lambda>_. False\<rparr>"

definition quote_data_ref :: "(string, unit) quote_data" where
  "quote_data_ref =
     \<lparr>qd_pub_key = ''k'', qd_ak_handle = (), qd_hash_alg = Sha256, qd_enc_alg = Rsa, qd_sign_alg = RsaSsa\<rparr>"

definition quote_state_ref :: "nat quote_state" where
  "quote_state_ref =
     \<lparr>tpmcontext = 7, ima_ml = ml_new, ima_ml_file = Some (''a'' @ [newline] @ ''b'' @ [newline]),
      measuredboot_ml_file = None\<rparr>"

definition integ_ref :: integ where
  "integ_ref = \<lparr>integ_nonce = ''ab'', integ_mask = ''0x408000'', integ_partial = ''1'', ima_ml_entry = Some ''1''\<rparr>"

lemma parse_mask_ref: "parse_mask ''0x408000'' = Ok 0x408000"
  by (simp add: parse_mask_def trim_start_matches.simps from_str_radix_def to_digit_def)

lemma integ_ref_parameters:
  "all_alphanumeric (\<lambda>_. False) ''ab''" "all_alphanumeric (\<lambda>_. False) ''0x408000''"
  "requested_entry integ_ref = 1"
  by (simp_all add: all_alphanumeric_def chars_def is_alphanumeric_def requested_entry_def integ_ref_def
      from_str_radix_def to_digit_def)

lemma measured_boot_ref: "measured_boot_list b64 0x408000 None = Ok None"
proof -
  have "check_mask 0x408000 Slot0 = Ok False" by code_simp
  then show ?thesis by (simp add: measured_boot_list_def)
qed

lemma read_ima_list_ref:
  "\<exists>ima st'. read_ima_list insertion_order (quote_state_ref\<lparr>tpmcontext := c\<rparr>) 1 = (Ok (Some ima), st')"
proof -
  let ?s = "''a'' @ [newline] @ ''b'' @ [newline]"
  have "is_utf8 ?s" by (simp add: is_utf8_def utf8_valid.simps)
  then obtain ml' where "ml_read insertion_order ?s ml_new 1 = (Ok (ml_read_spec ?s 1), ml')"
    using ml_read_refines [of ?s ml_new insertion_order 1]
    by (auto simp: ml_consistent_def ml_new_def)
  then show ?thesis
    by (cases "ml_read_spec ?s 1") (simp add: read_ima_list_def quote_state_ref_def)
qed

lemma integrity_ref:
  "\<exists>r st'. integrity quote_libs_ref insertion_order quote_data_ref quote_state_ref integ_ref = Ok (r, st')
     \<and> http_status r = 200"
proof -
  obtain tq where "quote hex_encode_ref hasher_ref quote_ops_ref (as_bytes ''ab'') 0x408000 pubkey_ref () Sha256 RsaSsa 7
      = (Ok tq, 8)" using quote_ref by blast
  then have "context_quote quote_libs_ref quote_data_ref (integ_nonce integ_ref) 0x408000 (tpmcontext quote_state_ref)
      = (Ok tq, 8)"
    by (simp add: context_quote_def quote_libs_ref_def quote_data_ref_def integ_ref_def quote_state_ref_def)
  moreover obtain ima st' where
    "read_ima_list insertion_order (quote_state_ref\<lparr>tpmcontext := 8\<rparr>) 1 = (Ok (Some ima), st')"
    using read_ima_list_ref by blast
  moreover have "measuredboot_ml_file quote_state_ref = None" by (simp add: quote_state_ref_def)
  ultimately have "\<exists>r st'. integrity_answer quote_libs_ref insertion_order quote_data_ref quote_state_ref
      integ_ref 0x408000 None = Ok (r, st') \<and> http_status r = 200"
    by (simp add: integrity_answer_def integ_ref_parameters measured_boot_ref)
  then show ?thesis
    by (simp add: integrity_def integ_ref_def quote_libs_ref_def integ_ref_parameters parse_mask_ref
        MAX_NONCE_SIZE_def partial_pubkey_def)
qed

lemma quotes_reach_ref: "quotes_reach quote_libs_ref quote_data_ref quote_state_ref"
  by (rule quotes_reach.start) (simp add: quote_state_ref_def)



end
