(* ===== verification/Channels.thy ===== *)
theory Channels
  imports Errors
begin

text \<open>
  The message channels of the agent (\<open>tokio::sync::mpsc\<close>) and the loop every worker runs:
  receive a message, handle it, and on the shutdown message close the receiver. A closed channel
  refuses new messages; those already queued are still delivered, and the loop ends when none is
  left. Waiting for capacity is not modelled: a \<open>send\<close> that waits ends when the worker receives.
\<close>

section \<open>Channels\<close>

record 'm chan =
  queue :: "'m list"
  closed :: bool

definition open_chan :: "'m chan" where
  "open_chan = \<lparr>queue = [], closed = False\<rparr>"

definition mpsc_send :: "'m chan \<Rightarrow> 'm \<Rightarrow> 'm chan option" where
  "mpsc_send ch m = (if closed ch then None else Some (ch\<lparr>queue := queue ch @ [m]\<rparr>))"

lemma mpsc_send_Some_iff:
  "mpsc_send ch m = Some ch' \<longleftrightarrow> \<not> closed ch \<and> ch' = ch\<lparr>queue := queue ch @ [m]\<rparr>"
  by (auto simp: mpsc_send_def)

section \<open>A worker and its mailbox\<close>

text \<open>
  The handler of a worker takes its state and a message; it ends with the new state and whether
  the receiver is closed, or panics. Other tasks post messages that satisfy \<open>allowed\<close>, and
  change the parts of the state they share (\<open>other\<close>).
\<close>

type_synonym ('s, 'm) handler = "'s \<Rightarrow> 'm \<Rightarrow> ('s \<times> bool, agent_error) outcome"

inductive worker_step ::
  "('s, 'm) handler \<Rightarrow> ('m \<Rightarrow> bool) \<Rightarrow> ('s \<Rightarrow> 's \<Rightarrow> bool) \<Rightarrow> 's \<times> 'm chan \<Rightarrow> 's \<times> 'm chan \<Rightarrow> bool"
  for handle allowed other where
  post: "allowed m \<Longrightarrow> mpsc_send ch m = Some ch' \<Longrightarrow> worker_step handle allowed other (s, ch) (s, ch')"
| receive: "queue ch = m # ms \<Longrightarrow> handle s m = Ok (s', c)
    \<Longrightarrow> worker_step handle allowed other (s, ch) (s', \<lparr>queue = ms, closed = closed ch \<or> c\<rparr>)"
| environment: "other s s' \<Longrightarrow> worker_step handle allowed other (s, ch) (s', ch)"

inductive worker_reach ::
  "('s, 'm) handler \<Rightarrow> ('m \<Rightarrow> bool) \<Rightarrow> ('s \<Rightarrow> 's \<Rightarrow> bool) \<Rightarrow> 's \<Rightarrow> 's \<times> 'm chan \<Rightarrow> bool"
  for handle allowed other s0 where
  start: "worker_reach handle allowed other s0 (s0, open_chan)"
| step: "worker_reach handle allowed other s0 c \<Longrightarrow> worker_step handle allowed other c c'
    \<Longrightarrow> worker_reach handle allowed other s0 c'"

inductive_cases worker_stepE: "worker_step handle allowed other (s, ch) (s', ch')"

section \<open>Running a worker on a sequence of messages\<close>

fun run_worker :: "('s, 'm) handler \<Rightarrow> 's \<Rightarrow> 'm list \<Rightarrow> ('s, agent_error) outcome" where
  "run_worker handle s [] = Ok s"
| "run_worker handle s (m # ms) = and_then (handle s m) (\<lambda>(s', c). run_worker handle s' ms)"

lemma run_worker_append:
  "run_worker handle s (ms @ ns) = and_then (run_worker handle s ms) (\<lambda>s'. run_worker handle s' ns)"
proof (induction ms arbitrary: s)
  case (Cons m ms)
  then show ?case by (cases "handle s m") auto
qed simp

locale worker =
  fixes handle :: "('s, 'm) handler"
    and allowed :: "'m \<Rightarrow> bool"
    and other :: "'s \<Rightarrow> 's \<Rightarrow> bool"
    and inv :: "'s \<Rightarrow> bool"
    and s0 :: 's
  assumes inv_start: "inv s0"
    and inv_handle: "inv s \<Longrightarrow> allowed m \<Longrightarrow> handle s m = Ok (s', c) \<Longrightarrow> inv s'"
    and inv_other: "inv s \<Longrightarrow> other s s' \<Longrightarrow> inv s'"
begin

lemma reach_inv:
  "worker_reach handle allowed other s0 c \<Longrightarrow> inv (fst c) \<and> list_all allowed (queue (snd c))"
proof (induction rule: worker_reach.induct)
  case start
  then show ?case by (simp add: inv_start open_chan_def)
next
  case (step c c')
  from step.hyps(2) step.IH show ?case
    by (cases rule: worker_step.cases)
      (auto simp: mpsc_send_Some_iff intro: inv_handle inv_other)
qed

lemma closed_drains:
  assumes "worker_step handle allowed other (s, ch) (s', ch')" and "closed ch"
  shows "closed ch' \<and> (ch' = ch \<or> (\<exists>m. queue ch = m # queue ch'))"
  using assms(1) by (rule worker_stepE) (use assms(2) in \<open>auto simp: mpsc_send_Some_iff\<close>)

end

text \<open>A worker whose handler never panics cannot get stuck on a queued message.\<close>

locale total_worker = worker +
  assumes handle_total: "inv s \<Longrightarrow> allowed m \<Longrightarrow> \<exists>s' c. handle s m = Ok (s', c)"
begin

lemma progress:
  assumes "worker_reach handle allowed other s0 (s, ch)" and "queue ch = m # ms"
  shows "\<exists>s' c. handle s m = Ok (s', c)
    \<and> worker_step handle allowed other (s, ch) (s', \<lparr>queue = ms, closed = closed ch \<or> c\<rparr>)"
proof -
  from reach_inv [OF assms(1)] assms(2) have "inv s" and "allowed m" by auto
  then obtain s' c where "handle s m = Ok (s', c)" using handle_total by blast
  then show ?thesis using assms(2) by (auto intro: worker_step.receive)
qed

lemma run_total:
  "inv s \<Longrightarrow> list_all allowed ms \<Longrightarrow> \<exists>s'. run_worker handle s ms = Ok s' \<and> inv s'"
proof (induction ms arbitrary: s)
  case (Cons m ms)
  then obtain s1 c where "handle s m = Ok (s1, c)" and "inv s1"
    using handle_total [of s m] inv_handle [of s m] by auto
  then show ?case using Cons.IH [of s1] Cons.prems by auto
qed simp

end

text \<open>After the shutdown message the loop still handles what is queued, in order, and then ends.\<close>

lemma drain_reaches:
  "run_worker handle s (queue ch) = Ok s' \<Longrightarrow>
     \<exists>c. (worker_step handle allowed other)\<^sup>*\<^sup>* (s, ch) (s', \<lparr>queue = [], closed = c\<rparr>) \<and> (closed ch \<longrightarrow> c)"
proof (induction "queue ch" arbitrary: s ch)
  case Nil
  then have "ch = \<lparr>queue = [], closed = closed ch\<rparr>" by simp
  then show ?case using Nil by (metis rtranclp.rtrancl_refl run_worker.simps(1) outcome.inject(1))
next
  case (Cons m ms)
  then obtain s1 c where h: "handle s m = Ok (s1, c)" and r: "run_worker handle s1 ms = Ok s'"
    by (cases "handle s m") (auto simp flip: Cons.hyps(2))
  have "worker_step handle allowed other (s, ch) (s1, \<lparr>queue = ms, closed = closed ch \<or> c\<rparr>)"
    using worker_step.receive [OF Cons.hyps(2) [symmetric], of handle s s1 c] h by simp
  moreover obtain c' where "(worker_step handle allowed other)\<^sup>*\<^sup>* (s1, \<lparr>queue = ms, closed = closed ch \<or> c\<rparr>)
      (s', \<lparr>queue = [], closed = c'\<rparr>)" and "closed ch \<or> c \<longrightarrow> c'"
    using Cons.hyps(1) [of "\<lparr>queue = ms, closed = closed ch \<or> c\<rparr>" s1] r by auto
  ultimately show ?case by (meson converse_rtranclp_into_rtranclp)
qed

end
