(* ===== verification/Keys_Handler.thy ===== *)
theory Keys_Handler
  imports Crypto_Ops Channels
begin

text \<open>
  The key exchange of \<^verbatim>\<open>keylime-agent/src/keys_handler.rs\<close>: the REST handlers that receive the two
  shares of the payload key, and the worker that combines them. The tenant sends the U share with
  an authentication tag and optionally the encrypted payload, the verifier sends the V share; the
  worker looks for a pair whose exclusive or authenticates the agent's UUID.
\<close>

section \<open>Messages\<close>

record keylime_ukey =
  uk_auth_tag :: string
  uk_encrypted_key :: string
  uk_payload :: "string option"

record keylime_vkey =
  vk_encrypted_key :: string

record u_key_data =
  u_decrypted_key :: symm_key
  u_auth_tag :: auth_tag
  u_payload :: "encrypted_data option"

record v_key_data =
  v_decrypted_key :: symm_key

text \<open>\<open>Payload\<close> and \<open>PayloadMessage\<close> of \<^verbatim>\<open>payloads.rs\<close>.\<close>

record payload =
  payload_symm_key :: symm_key
  encrypted_payload :: encrypted_data

datatype payload_message = RunPayload payload | Payload_Shutdown

fun payload_message_to_string :: "payload_message \<Rightarrow> string" where
  "payload_message_to_string (RunPayload _) = ''RunPayload''"
| "payload_message_to_string Payload_Shutdown = ''Shutdown''"

datatype key_message = UKey u_key_data | VKey v_key_data | Keys_Shutdown | GetSymmKey

datatype symm_key_message = SymmKey "symm_key option"

text \<open>A message travels with an optional one-shot reply channel, here its identifier.\<close>

type_synonym key_envelope = "key_message \<times> nat option"

section \<open>Combining the shares\<close>

fun combine_vkeys ::
  "hmac_fun \<Rightarrow> u8 list \<Rightarrow> u_key_data \<Rightarrow> v_key_data list
   \<Rightarrow> ((symm_key \<times> payload option) option, agent_error) outcome" where
  "combine_vkeys hmac uuid ukey [] = Ok None"
| "combine_vkeys hmac uuid ukey (vkey # vkeys) =
     (case symm_key_xor (u_decrypted_key ukey) (v_decrypted_key vkey) of
        Err e \<Rightarrow> combine_vkeys hmac uuid ukey vkeys
      | Panic \<Rightarrow> Panic
      | Ok symm_key \<Rightarrow>
          (case verify_hmac hmac (key_bytes symm_key) uuid (tag_bytes (u_auth_tag ukey)) of
             Panic \<Rightarrow> Panic
           | Err e \<Rightarrow> combine_vkeys hmac uuid ukey vkeys
           | Ok _ \<Rightarrow>
               Ok (Some (symm_key,
                 map_option (\<lambda>d. \<lparr>payload_symm_key = symm_key, encrypted_payload = d\<rparr>)
                   (u_payload ukey)))))"

fun combine_ukeys ::
  "hmac_fun \<Rightarrow> u8 list \<Rightarrow> u_key_data list \<Rightarrow> v_key_data list
   \<Rightarrow> ((symm_key \<times> payload option) option, agent_error) outcome" where
  "combine_ukeys hmac uuid [] vkeys = Ok None"
| "combine_ukeys hmac uuid (ukey # ukeys) vkeys =
     and_then (combine_vkeys hmac uuid ukey vkeys) (\<lambda>r.
     case r of Some x \<Rightarrow> Ok (Some x) | None \<Rightarrow> combine_ukeys hmac uuid ukeys vkeys)"

text \<open>Success clears both lists.\<close>

definition try_combine_keys ::
  "hmac_fun \<Rightarrow> u_key_data list \<Rightarrow> v_key_data list \<Rightarrow> u8 list
   \<Rightarrow> ((symm_key \<times> payload option) option \<times> u_key_data list \<times> v_key_data list, agent_error) outcome" where
  "try_combine_keys hmac ukeys vkeys uuid =
     (if ukeys = [] \<or> vkeys = [] then Ok (None, ukeys, vkeys)
      else
        and_then (combine_ukeys hmac uuid ukeys vkeys) (\<lambda>r.
        case r of Some x \<Rightarrow> Ok (Some x, [], []) | None \<Rightarrow> Ok (None, ukeys, vkeys)))"

section \<open>The worker\<close>

text \<open>
  The locals of the worker, the replies it has sent, and the channel to the payload worker.
\<close>

record keys_worker =
  ukeys :: "u_key_data list"
  vkeys :: "v_key_data list"
  symm_key :: "symm_key option"
  replies :: "(nat \<times> symm_key_message) list"
  payloads_chan :: "payload_message chan"

definition request_run_payload ::
  "payload_message chan \<Rightarrow> payload \<Rightarrow> (payload_message chan, agent_error) outcome" where
  "request_run_payload payloads_tx p =
     (case mpsc_send payloads_tx (RunPayload p) of
        None \<Rightarrow> Err (Sender ''Failed to send RunPayload message to payloads worker'')
      | Some ch \<Rightarrow> Ok ch)"

definition process_keys ::
  "hmac_fun \<Rightarrow> string \<Rightarrow> bool \<Rightarrow> keys_worker \<Rightarrow> (symm_key option \<times> keys_worker, agent_error) outcome" where
  "process_keys hmac uuid run_payload w =
     and_then (try_combine_keys hmac (ukeys w) (vkeys w) (as_bytes uuid)) (\<lambda>(r, us, vs).
     let w' = w\<lparr>ukeys := us, vkeys := vs\<rparr>
     in case r of
          None \<Rightarrow> Ok (None, w')
        | Some (key, p) \<Rightarrow>
            Ok (Some key,
              (case p of
                 Some payload \<Rightarrow>
                   if run_payload then
                     (case request_run_payload (payloads_chan w') payload of
                        Ok ch \<Rightarrow> w'\<lparr>payloads_chan := ch\<rparr>
                      | _ \<Rightarrow> w')
                   else w'
               | None \<Rightarrow> w')))"

definition process_and_store ::
  "hmac_fun \<Rightarrow> string \<Rightarrow> bool \<Rightarrow> keys_worker \<Rightarrow> (keys_worker \<times> bool, agent_error) outcome" where
  "process_and_store hmac uuid run_payload w =
     and_then (process_keys hmac uuid run_payload w) (\<lambda>(r, w').
     case r of Some key \<Rightarrow> Ok (w'\<lparr>symm_key := Some key\<rparr>, False) | None \<Rightarrow> Ok (w', False))"

fun keys_handle ::
  "hmac_fun \<Rightarrow> string \<Rightarrow> bool \<Rightarrow> keys_worker \<Rightarrow> key_envelope \<Rightarrow> (keys_worker \<times> bool, agent_error) outcome" where
  "keys_handle hmac uuid run_payload w (GetSymmKey, resp_tx) =
     (case resp_tx of
        Some r \<Rightarrow> Ok (w\<lparr>replies := replies w @ [(r, SymmKey (symm_key w))]\<rparr>, False)
      | None \<Rightarrow> Ok (w, False))"
| "keys_handle hmac uuid run_payload w (Keys_Shutdown, resp_tx) = Ok (w, True)"
| "keys_handle hmac uuid run_payload w (UKey ukey, resp_tx) =
     process_and_store hmac uuid run_payload (w\<lparr>ukeys := ukeys w @ [ukey]\<rparr>)"
| "keys_handle hmac uuid run_payload w (VKey vkey, resp_tx) =
     process_and_store hmac uuid run_payload (w\<lparr>vkeys := vkeys w @ [vkey]\<rparr>)"

definition keys_start :: keys_worker where
  "keys_start = \<lparr>ukeys = [], vkeys = [], symm_key = None, replies = [], payloads_chan = open_chan\<rparr>"

section \<open>The REST handlers\<close>

text \<open>The third-party functions the handlers call, and the transport key of the agent.\<close>

record 'priv key_crypto =
  kc_base64 :: "string \<Rightarrow> (u8 list, string) outcome"
  kc_hex :: "string \<Rightarrow> (u8 list, string) outcome"
  kc_hex_encode :: "u8 list \<Rightarrow> string"
  kc_decrypter :: "'priv \<Rightarrow> rsa_padding \<Rightarrow> message_digest \<Rightarrow> message_digest \<Rightarrow> (decrypter, string) outcome"
  kc_hmac :: hmac_fun
  kc_priv_key :: 'priv

definition u_key ::
  "'priv key_crypto \<Rightarrow> key_envelope chan \<Rightarrow> keylime_ukey
   \<Rightarrow> (http_response \<times> key_envelope chan, agent_error) outcome" where
  "u_key kc keys_tx body =
     or_respond (map_err Base64 (kc_base64 kc (uk_encrypted_key body)))
       (\<lambda>e. (bad_request (''Invalid base64 encoding in encrypted_key: '' @ error_to_string e), keys_tx))
       (\<lambda>encrypted_key.
     or_respond (rsa_oaep_decrypt (kc_decrypter kc) (kc_priv_key kc) encrypted_key)
       (\<lambda>e. (bad_request (''Failed to decrypt encrypted_key: '' @ error_to_string e), keys_tx))
       (\<lambda>decrypted.
     or_respond (symm_key_try_from decrypted)
       (\<lambda>e. (bad_request (''Invalid decrypted key: '' @ e), keys_tx))
       (\<lambda>decrypted_key.
     or_respond (map_err FromHex (kc_hex kc (uk_auth_tag body)))
       (\<lambda>e. (bad_request (''Invalid hex encoding in auth_tag: '' @ error_to_string e), keys_tx))
       (\<lambda>tag.
     or_respond (auth_tag_try_from tag)
       (\<lambda>e. (bad_request e, keys_tx))
       (\<lambda>auth_tag.
     or_respond
       (case uk_payload body of
          Some d \<Rightarrow> and_then (map_err Base64 (kc_base64 kc d)) (\<lambda>bs. Ok (Some (encrypted_data_from bs)))
        | None \<Rightarrow> Ok None)
       (\<lambda>e. (bad_request (''Invalid base64 encoding in payload: '' @ error_to_string e), keys_tx))
       (\<lambda>payload.
     (case mpsc_send keys_tx
             (UKey \<lparr>u_decrypted_key = decrypted_key, u_auth_tag = auth_tag, u_payload = payload\<rparr>, None) of
        None \<Rightarrow> Ok (server_error ''Failed to send UKey message to keys worker'', keys_tx)
      | Some ch \<Rightarrow> Ok (respond 200 (wrapper_success JNull), ch))))))))"

definition v_key ::
  "'priv key_crypto \<Rightarrow> key_envelope chan \<Rightarrow> keylime_vkey
   \<Rightarrow> (http_response \<times> key_envelope chan, agent_error) outcome" where
  "v_key kc keys_tx body =
     or_respond (map_err Base64 (kc_base64 kc (vk_encrypted_key body)))
       (\<lambda>e. (bad_request (''Invalid base64 encoding in encrypted_key: '' @ error_to_string e), keys_tx))
       (\<lambda>encrypted_key.
     or_respond (rsa_oaep_decrypt (kc_decrypter kc) (kc_priv_key kc) encrypted_key)
       (\<lambda>e. (bad_request (''Failed to decrypt encrypted_key: '' @ error_to_string e), keys_tx))
       (\<lambda>decrypted.
     or_respond (symm_key_try_from decrypted)
       (\<lambda>e. (bad_request (''Decrypted key is invalid: '' @ e), keys_tx))
       (\<lambda>decrypted_key.
     (case mpsc_send keys_tx (VKey \<lparr>v_decrypted_key = decrypted_key\<rparr>, None) of
        None \<Rightarrow> Ok (server_error ''Failed to send VKey message to keys worker'', keys_tx)
      | Some ch \<Rightarrow> Ok (respond 200 (wrapper_success JNull), ch)))))"

text \<open>\<open>pubkey\<close>: the transport key of the agent in PEM form.\<close>

definition pubkey ::
  "(string \<Rightarrow> string) \<Rightarrow> ('priv, 'pub) pkey_ops \<Rightarrow> 'st \<Rightarrow> 'pub
   \<Rightarrow> (http_response \<times> 'st, agent_error) outcome" where
  "pubkey utf8_error ops st pub_key =
     or_respond (pkey_pub_to_pem utf8_error ops pub_key)
       (\<lambda>e. (server_error ''Unable to retrieve public key'', st))
       (\<lambda>pem. Ok (respond 200 (wrapper_success (JObj [(''pubkey'', JStr pem)])), st))"

text \<open>\<open>get_symm_key\<close> posts a request and waits for the reply; \<open>None\<close> is a dropped reply channel.\<close>

definition get_symm_key ::
  "key_envelope chan \<Rightarrow> nat \<Rightarrow> symm_key_message option \<Rightarrow> (symm_key option, agent_error) outcome \<times> key_envelope chan"
where
  "get_symm_key keys_tx resp_tx reply =
     (case mpsc_send keys_tx (GetSymmKey, Some resp_tx) of
        None \<Rightarrow> (Err (Sender ''Failed to send GetSymmKey message: channel closed''), keys_tx)
      | Some ch \<Rightarrow>
          (case reply of
             Some (SymmKey k) \<Rightarrow> (Ok k, ch)
           | None \<Rightarrow> (Err (Receiver ''Failed to receive SymmKey message: channel closed''), ch)))"

record key_challenge =
  challenge :: string
  challenge_resp :: nat
  challenge_reply :: "symm_key_message option"

text \<open>\<open>verify\<close> up to the request for the key: a challenge that is refused at once.\<close>

definition verify_refusal :: "(nat \<Rightarrow> bool) \<Rightarrow> string \<Rightarrow> http_response option" where
  "verify_refusal uni c =
     (if c = [] then Some (bad_request ''No challenge provided.'')
      else if \<not> all_alphanumeric uni c then
        Some (bad_request (''Parameters should be strictly alphanumeric: '' @ c))
      else None)"

text \<open>\<open>verify\<close> from the reply on.\<close>

definition verify_answer ::
  "'priv key_crypto \<Rightarrow> string \<Rightarrow> (symm_key option, agent_error) outcome \<Rightarrow> (http_response, agent_error) outcome" where
  "verify_answer kc c key =
     (case key of
        Ok None \<Rightarrow> Ok (bad_request ''Bootstrap key not yet available.'')
      | Ok (Some k) \<Rightarrow>
          or_respond (compute_hmac (kc_hmac kc) (key_bytes k) (as_bytes c))
            (\<lambda>e. server_error ''GET key challenge failed'')
            (\<lambda>hmac. Ok (respond 200 (wrapper_success (JObj [(''hmac'', JStr (kc_hex_encode kc hmac))]))))
      | Err e \<Rightarrow> Ok (server_error ''Failed to get bootstrap key.'')
      | Panic \<Rightarrow> Panic)"

text \<open>The whole handler: the request is the challenge, together with the reply channel it opens and the
  message that arrives there.\<close>

definition verify ::
  "(nat \<Rightarrow> bool) \<Rightarrow> 'priv key_crypto \<Rightarrow> key_envelope chan \<Rightarrow> key_challenge
   \<Rightarrow> (http_response \<times> key_envelope chan, agent_error) outcome" where
  "verify uni kc keys_tx param =
     (case verify_refusal uni (challenge param) of
        Some r \<Rightarrow> Ok (r, keys_tx)
      | None \<Rightarrow>
          (case get_symm_key keys_tx (challenge_resp param) (challenge_reply param) of
             (key, ch) \<Rightarrow> and_then (verify_answer kc (challenge param) key) (\<lambda>r. Ok (r, ch))))"

lemmas verify_stages = verify_def verify_refusal_def get_symm_key_def verify_answer_def

section \<open>Specification of the combination\<close>

text \<open>The pair \<open>u\<close>, \<open>v\<close> yields the key \<open>k\<close> and \<open>k\<close> authenticates the UUID.\<close>

definition authenticates :: "hmac_fun \<Rightarrow> u8 list \<Rightarrow> u_key_data \<Rightarrow> v_key_data \<Rightarrow> symm_key \<Rightarrow> bool" where
  "authenticates hmac uuid u v k \<longleftrightarrow>
     symm_key_xor (u_decrypted_key u) (v_decrypted_key v) = Ok k
     \<and> hmac (key_bytes k) uuid = Ok (tag_bytes (u_auth_tag u))"

definition payload_of :: "u_key_data \<Rightarrow> symm_key \<Rightarrow> payload option" where
  "payload_of u k = map_option (\<lambda>d. \<lparr>payload_symm_key = k, encrypted_payload = d\<rparr>) (u_payload u)"

definition matching_pairs ::
  "hmac_fun \<Rightarrow> u8 list \<Rightarrow> u_key_data list \<Rightarrow> v_key_data list \<Rightarrow> (u_key_data \<times> v_key_data) list" where
  "matching_pairs hmac uuid us vs =
     filter (\<lambda>(u, v). \<exists>k. authenticates hmac uuid u v k) (List.product us vs)"

definition valid_ukey :: "u_key_data \<Rightarrow> bool" where
  "valid_ukey u \<longleftrightarrow> valid_key (u_decrypted_key u) \<and> valid_tag (u_auth_tag u)"

definition valid_vkey :: "v_key_data \<Rightarrow> bool" where
  "valid_vkey v \<longleftrightarrow> valid_key (v_decrypted_key v)"

lemma authenticates_unique:
  "authenticates hmac uuid u v k \<Longrightarrow> authenticates hmac uuid u v k' \<Longrightarrow> k = k'"
  by (simp add: authenticates_def)

lemma verify_hmac_cases:
  assumes "hmac_length hmac" and "valid_tag t"
  shows "(verify_hmac hmac k d (tag_bytes t) = Ok () \<and> hmac k d = Ok (tag_bytes t))
    \<or> (\<exists>e. verify_hmac hmac k d (tag_bytes t) = Err e) \<and> hmac k d \<noteq> Ok (tag_bytes t)"
  using verify_hmac_no_panic [OF assms(1), of "tag_bytes t" k d] assms(2)
    verify_hmac_Ok_iff [of hmac k d "tag_bytes t"]
  by (cases "verify_hmac hmac k d (tag_bytes t)") (auto simp: valid_tag_def)

lemma combine_vkeys_spec:
  assumes "hmac_length hmac" and "valid_ukey u"
  shows "combine_vkeys hmac uuid u vs =
    (case filter (\<lambda>v. \<exists>k. authenticates hmac uuid u v k) vs of
       [] \<Rightarrow> Ok None
     | v # _ \<Rightarrow> (let k = (the_ok (symm_key_xor (u_decrypted_key u) (v_decrypted_key v)))
               in Ok (Some (k, payload_of u k))))"
proof (induction vs)
  case (Cons v vs)
  show ?case
  proof (cases "symm_key_xor (u_decrypted_key u) (v_decrypted_key v)")
    case (Ok k)
    have "valid_tag (u_auth_tag u)" using assms(2) by (simp add: valid_ukey_def)
    from verify_hmac_cases [OF assms(1) this, of "key_bytes k" uuid] show ?thesis
      using Ok Cons by (auto simp: authenticates_def payload_of_def)
  qed (use Cons in \<open>auto simp: authenticates_def\<close>)
qed simp

lemma matching_pairs_Cons:
  "matching_pairs hmac uuid (u # us) vs =
     map (Pair u) (filter (\<lambda>v. \<exists>k. authenticates hmac uuid u v k) vs) @ matching_pairs hmac uuid us vs"
  by (simp add: matching_pairs_def filter_map comp_def)

lemma combine_ukeys_spec:
  assumes "hmac_length hmac" and "list_all valid_ukey us"
  shows "combine_ukeys hmac uuid us vs =
    (case matching_pairs hmac uuid us vs of
       [] \<Rightarrow> Ok None
     | (u, v) # _ \<Rightarrow> (let k = the_ok (symm_key_xor (u_decrypted_key u) (v_decrypted_key v))
                    in Ok (Some (k, payload_of u k))))"
  using assms(2)
proof (induction us)
  case Nil
  then show ?case by (simp add: matching_pairs_def)
next
  case (Cons u us)
  then show ?case
    by (cases "filter (\<lambda>v. \<exists>k. authenticates hmac uuid u v k) vs")
      (simp_all add: matching_pairs_Cons combine_vkeys_spec [OF assms(1)] Let_def)
qed

lemma try_combine_keys_spec:
  assumes "hmac_length hmac" and "list_all valid_ukey us"
  shows "try_combine_keys hmac us vs uuid =
    (case matching_pairs hmac uuid us vs of
       [] \<Rightarrow> Ok (None, us, vs)
     | (u, v) # _ \<Rightarrow> (let k = the_ok (symm_key_xor (u_decrypted_key u) (v_decrypted_key v))
                    in Ok (Some (k, payload_of u k), [], [])))"
proof (cases "us = [] \<or> vs = []")
  case True
  then have "matching_pairs hmac uuid us vs = []" by (auto simp: matching_pairs_def filter_empty_conv)
  with True show ?thesis by (auto simp: try_combine_keys_def)
next
  case False
  then show ?thesis using combine_ukeys_spec [OF assms, of uuid vs]
    by (cases "matching_pairs hmac uuid us vs") (auto simp: try_combine_keys_def Let_def)
qed

lemma matching_pairs_hd:
  assumes "matching_pairs hmac uuid us vs = (u, v) # rest"
  shows "\<exists>k. u \<in> set us \<and> v \<in> set vs \<and> authenticates hmac uuid u v k"
proof -
  have "(u, v) \<in> set (matching_pairs hmac uuid us vs)" using assms by simp
  then show ?thesis by (auto simp: matching_pairs_def)
qed

lemma matching_pairs_Nil_iff:
  "matching_pairs hmac uuid us vs = [] \<longleftrightarrow>
     (\<forall>u \<in> set us. \<forall>v \<in> set vs. \<forall>k. \<not> authenticates hmac uuid u v k)"
  by (auto simp: matching_pairs_def filter_empty_conv)

text \<open>The outcome of one combination, as the rest of the proofs use it.\<close>

lemma try_combine_keys_cases:
  assumes "hmac_length hmac" and "list_all valid_ukey us"
  obtains (none) "try_combine_keys hmac us vs uuid = Ok (None, us, vs)"
      "\<And>u v k. u \<in> set us \<Longrightarrow> v \<in> set vs \<Longrightarrow> \<not> authenticates hmac uuid u v k"
  | (found) u v k where "try_combine_keys hmac us vs uuid = Ok (Some (k, payload_of u k), [], [])"
      "u \<in> set us" "v \<in> set vs" "authenticates hmac uuid u v k"
proof (cases "matching_pairs hmac uuid us vs")
  case Nil
  then show thesis using none try_combine_keys_spec [OF assms, of vs uuid] matching_pairs_Nil_iff [of hmac uuid us vs]
    by simp
next
  case (Cons p rest)
  obtain u v where p: "p = (u, v)" by (cases p)
  with Cons obtain k where uv: "u \<in> set us" "v \<in> set vs" "authenticates hmac uuid u v k"
    using matching_pairs_hd by blast
  moreover from this(3) have "symm_key_xor (u_decrypted_key u) (v_decrypted_key v) = Ok k"
    by (simp add: authenticates_def)
  ultimately show thesis using found try_combine_keys_spec [OF assms, of vs uuid] Cons p by simp
qed

lemma symm_key_xor_replicate [simp]:
  "symm_key_xor \<lparr>key_bytes = replicate n a\<rparr> \<lparr>key_bytes = replicate n b\<rparr> = Ok \<lparr>key_bytes = replicate n (a XOR b)\<rparr>"
  by (simp add: symm_key_xor_def zip_replicate)

text \<open>The combination of the shares is the first pair, in arrival order of the U shares and then
  of the V shares, whose exclusive or authenticates the agent's UUID under the tag sent with the U
  share. When there is one, the derived key and that U share's payload are returned and both lists
  are cleared; otherwise nothing is returned and nothing is lost. A stray share of another length or
  a wrong tag never blocks a later good pair, and no share makes the worker panic.\<close>

theorem try_combine_keys_first_match:
  assumes "hmac_length hmac" and "list_all valid_ukey us"
  shows "try_combine_keys hmac us vs uuid =
    (case matching_pairs hmac uuid us vs of
       [] \<Rightarrow> Ok (None, us, vs)
     | (u, v) # _ \<Rightarrow> (let k = the_ok (symm_key_xor (u_decrypted_key u) (v_decrypted_key v))
                    in Ok (Some (k, payload_of u k), [], [])))"
  by (rule try_combine_keys_spec [OF assms])

theorem try_combine_keys_first_match_witness:
  "\<exists>r. try_combine_keys (\<lambda>k d. Ok (replicate 48 (hd k)))
     [\<lparr>u_decrypted_key = \<lparr>key_bytes = replicate 16 1\<rparr>, u_auth_tag = \<lparr>tag_bytes = replicate 48 4\<rparr>,
       u_payload = None\<rparr>,
      \<lparr>u_decrypted_key = \<lparr>key_bytes = replicate 16 2\<rparr>, u_auth_tag = \<lparr>tag_bytes = replicate 48 6\<rparr>,
       u_payload = Some \<lparr>data_bytes = [9]\<rparr>\<rparr>]
     [\<lparr>v_decrypted_key = \<lparr>key_bytes = replicate 16 4\<rparr>\<rparr>] []
     = Ok (Some (\<lparr>key_bytes = replicate 16 6\<rparr>, r), [], [])" (is "\<exists>r. try_combine_keys ?h ?us ?vs [] = _")
proof -
  have h: "hmac_length ?h" and us: "list_all valid_ukey ?us"
    by (simp_all add: hmac_length_def valid_ukey_def valid_key_def valid_tag_def length_constants)
  have "matching_pairs ?h [] ?us ?vs = [(?us ! 1, ?vs ! 0)]"
    by (simp add: matching_pairs_def authenticates_def)
  then show ?thesis using try_combine_keys_first_match [OF h us, of ?vs "[]"] by (simp add: Let_def)
qed

section \<open>The worker: what every reachable state satisfies\<close>

fun allowed_message :: "key_envelope \<Rightarrow> bool" where
  "allowed_message (UKey u, _) = valid_ukey u"
| "allowed_message (VKey v, _) = valid_vkey v"
| "allowed_message _ = True"

fun payload_ok :: "bool \<Rightarrow> payload_message \<Rightarrow> bool" where
  "payload_ok run_payload (RunPayload p) = (run_payload \<and> valid_key (payload_symm_key p))"
| "payload_ok run_payload Payload_Shutdown = True"

definition keys_inv :: "hmac_fun \<Rightarrow> string \<Rightarrow> bool \<Rightarrow> keys_worker \<Rightarrow> bool" where
  "keys_inv hmac uuid run_payload w \<longleftrightarrow>
     list_all valid_ukey (ukeys w) \<and> list_all valid_vkey (vkeys w)
     \<and> matching_pairs hmac (as_bytes uuid) (ukeys w) (vkeys w) = []
     \<and> (case symm_key w of None \<Rightarrow> True | Some k \<Rightarrow>
          valid_key k \<and> (\<exists>t. hmac (key_bytes k) (as_bytes uuid) = Ok t))
     \<and> list_all (payload_ok run_payload) (queue (payloads_chan w))"

text \<open>Other tasks receive from the payload channel, close it, or post the shutdown message there.\<close>

definition keys_other :: "keys_worker \<Rightarrow> keys_worker \<Rightarrow> bool" where
  "keys_other w w' \<longleftrightarrow>
     (\<exists>ch. w' = w\<lparr>payloads_chan := ch\<rparr>
        \<and> set (queue ch) \<subseteq> insert Payload_Shutdown (set (queue (payloads_chan w))))"

text \<open>Each share appended to valid pending lists keeps the invariant and never panics.\<close>

lemma authenticates_valid:
  "authenticates hmac uuid u v k \<Longrightarrow> valid_ukey u \<Longrightarrow> valid_key k"
  by (auto simp: authenticates_def valid_ukey_def intro: symm_key_xor_valid)

lemma payload_of_key: "payload_of u k = Some p \<Longrightarrow> payload_symm_key p = k"
  by (auto simp: payload_of_def)

lemma process_and_store_none:
  assumes "try_combine_keys hmac (ukeys w) (vkeys w) (as_bytes uuid) = Ok (None, ukeys w, vkeys w)"
  shows "process_and_store hmac uuid rp w = Ok (w, False)"
  using assms by (simp add: process_and_store_def process_keys_def)

lemma process_and_store_found:
  assumes "try_combine_keys hmac (ukeys w) (vkeys w) (as_bytes uuid) = Ok (Some (k, p), [], [])"
  shows "\<exists>ch. process_and_store hmac uuid rp w
      = Ok (w\<lparr>ukeys := [], vkeys := [], symm_key := Some k, payloads_chan := ch\<rparr>, False)
    \<and> (ch = payloads_chan w \<or> rp \<and> (\<exists>q. p = Some q \<and> mpsc_send (payloads_chan w) (RunPayload q) = Some ch))"
proof (cases "case p of Some q \<Rightarrow> if rp then mpsc_send (payloads_chan w) (RunPayload q) else None | None \<Rightarrow> None")
  case None
  then have "process_and_store hmac uuid rp w = Ok (w\<lparr>ukeys := [], vkeys := [], symm_key := Some k\<rparr>, False)"
    using assms by (auto simp: process_and_store_def process_keys_def request_run_payload_def
        split: option.splits if_splits)
  then show ?thesis by (intro exI [of _ "payloads_chan w"]) simp
next
  case (Some ch)
  then have "process_and_store hmac uuid rp w
      = Ok (w\<lparr>ukeys := [], vkeys := [], symm_key := Some k, payloads_chan := ch\<rparr>, False)"
    using assms by (auto simp: process_and_store_def process_keys_def request_run_payload_def
        split: option.splits if_splits)
  then show ?thesis using Some by (intro exI [of _ ch]) (auto split: option.splits if_splits)
qed

lemma process_and_store_inv:
  assumes "hmac_length hmac" and "list_all valid_ukey (ukeys w)" and "list_all valid_vkey (vkeys w)"
    and "case symm_key w of None \<Rightarrow> True | Some k \<Rightarrow>
          valid_key k \<and> (\<exists>t. hmac (key_bytes k) (as_bytes uuid) = Ok t)"
    and "list_all (payload_ok rp) (queue (payloads_chan w))"
  shows "\<exists>w'. process_and_store hmac uuid rp w = Ok (w', False) \<and> keys_inv hmac uuid rp w'"
proof (cases rule: try_combine_keys_cases
    [OF assms(1,2), of "vkeys w" "as_bytes uuid", case_names none found])
  case none
  then have "matching_pairs hmac (as_bytes uuid) (ukeys w) (vkeys w) = []"
    by (simp add: matching_pairs_Nil_iff)
  with process_and_store_none [OF none(1)] assms(2-) show ?thesis by (simp add: keys_inv_def)
next
  case (found u v k)
  then have k: "valid_key k \<and> (\<exists>t. hmac (key_bytes k) (as_bytes uuid) = Ok t)"
    using assms(2) authenticates_valid [OF found(4)] by (auto simp: list_all_iff authenticates_def)
  obtain ch where w': "process_and_store hmac uuid rp w
      = Ok (w\<lparr>ukeys := [], vkeys := [], symm_key := Some k, payloads_chan := ch\<rparr>, False)"
    and ch: "ch = payloads_chan w \<or> rp \<and> (\<exists>q. payload_of u k = Some q
        \<and> mpsc_send (payloads_chan w) (RunPayload q) = Some ch)"
    using process_and_store_found [OF found(1)] by blast
  from ch assms(5) k have "list_all (payload_ok rp) (queue ch)"
    using payload_of_key [of u k] by (auto simp: mpsc_send_Some_iff)
  then show ?thesis using w' k by (simp add: keys_inv_def matching_pairs_def)
qed

lemma keys_handle_inv:
  assumes "hmac_length hmac" and "keys_inv hmac uuid rp w" and "allowed_message m"
  shows "\<exists>w' c. keys_handle hmac uuid rp w m = Ok (w', c) \<and> keys_inv hmac uuid rp w'"
proof (cases m rule: allowed_message.cases)
  case (1 u r)
  then show ?thesis
    using process_and_store_inv [OF assms(1), of "w\<lparr>ukeys := ukeys w @ [u]\<rparr>" uuid rp] assms(2,3)
    by (auto simp: keys_inv_def)
next
  case (2 v r)
  then show ?thesis
    using process_and_store_inv [OF assms(1), of "w\<lparr>vkeys := vkeys w @ [v]\<rparr>" uuid rp] assms(2,3)
    by (auto simp: keys_inv_def)
qed (use assms(2) in \<open>auto simp: keys_inv_def split: option.splits\<close>)

lemma keys_start_inv: "keys_inv hmac uuid rp keys_start"
  by (simp add: keys_inv_def keys_start_def open_chan_def matching_pairs_def)

lemma keys_other_inv: "keys_inv hmac uuid rp w \<Longrightarrow> keys_other w w' \<Longrightarrow> keys_inv hmac uuid rp w'"
  by (auto simp: keys_inv_def keys_other_def list_all_iff)

text \<open>
  The HMAC of OpenSSL with its documented tag length, as a type: the worker is interpreted for
  every such function.
\<close>

typedef hmac_sha384 = "{h :: hmac_fun. hmac_length h}"
  by (rule exI [of _ "\<lambda>k d. Ok (replicate AUTH_TAG_LEN 0)"]) (simp add: hmac_length_def)

lemma hmac_length_Rep [simp]: "hmac_length (Rep_hmac_sha384 h)"
  using Rep_hmac_sha384 by simp

interpretation keys: total_worker "keys_handle (Rep_hmac_sha384 h) uuid rp" allowed_message keys_other
  "keys_inv (Rep_hmac_sha384 h) uuid rp" keys_start for h uuid rp
proof
  show "keys_inv (Rep_hmac_sha384 h) uuid rp keys_start" by (rule keys_start_inv)
next
  fix s m s' c
  assume "keys_inv (Rep_hmac_sha384 h) uuid rp s" and "allowed_message m"
    and "keys_handle (Rep_hmac_sha384 h) uuid rp s m = Ok (s', c)"
  then show "keys_inv (Rep_hmac_sha384 h) uuid rp s'"
    using keys_handle_inv [OF hmac_length_Rep] by fastforce
next
  fix s s'
  assume "keys_inv (Rep_hmac_sha384 h) uuid rp s" and "keys_other s s'"
  then show "keys_inv (Rep_hmac_sha384 h) uuid rp s'" by (rule keys_other_inv)
next
  fix s m
  assume "keys_inv (Rep_hmac_sha384 h) uuid rp s" and "allowed_message m"
  then show "\<exists>s' c. keys_handle (Rep_hmac_sha384 h) uuid rp s m = Ok (s', c)"
    using keys_handle_inv [OF hmac_length_Rep] by blast
qed

lemma hmac_sha384_cases: "hmac_length hmac \<Longrightarrow> \<exists>h. hmac = Rep_hmac_sha384 h"
  by (metis Rep_hmac_sha384_cases mem_Collect_eq)


text \<open>A concrete exchange: an HMAC of the documented length and two shares that match under it.\<close>

definition hmac_ref :: hmac_fun where
  "hmac_ref k d = Ok (replicate 48 (hd k))"

definition ukey_ref :: u_key_data where
  "ukey_ref = \<lparr>u_decrypted_key = \<lparr>key_bytes = replicate 16 2\<rparr>, u_auth_tag = \<lparr>tag_bytes = replicate 48 6\<rparr>,
     u_payload = Some \<lparr>data_bytes = [9]\<rparr>\<rparr>"

definition vkey_ref :: v_key_data where
  "vkey_ref = \<lparr>v_decrypted_key = \<lparr>key_bytes = replicate 16 4\<rparr>\<rparr>"

lemma exchange_ref:
  "hmac_length hmac_ref" "valid_ukey ukey_ref" "valid_vkey vkey_ref"
  "symm_key_xor (u_decrypted_key ukey_ref) (v_decrypted_key vkey_ref) = Ok \<lparr>key_bytes = replicate 16 6\<rparr>"
  "authenticates hmac_ref d ukey_ref vkey_ref \<lparr>key_bytes = replicate 16 6\<rparr>"
  by (simp_all add: hmac_length_def hmac_ref_def ukey_ref_def vkey_ref_def valid_ukey_def valid_vkey_def
      valid_key_def valid_tag_def authenticates_def length_constants)

lemma reach_post_ref:
  "worker_reach (keys_handle hmac_ref uuid rp) allowed_message keys_other keys_start
     (keys_start, \<lparr>queue = [(VKey vkey_ref, None)], closed = False\<rparr>)"
  by (rule worker_reach.step [OF worker_reach.start], rule worker_step.post [where m = "(VKey vkey_ref, None)"])
    (simp_all add: exchange_ref mpsc_send_def open_chan_def)


text \<open>The keys worker never panics and never blocks: from every reachable state it works off
  all queued messages, in their order; once the shutdown message was handled the channel stays
  closed while it drains.\<close>

theorem keys_worker_drains:
  assumes "hmac_length hmac"
    and "worker_reach (keys_handle hmac uuid run_payload) allowed_message keys_other keys_start (w, ch)"
  shows "\<exists>w' c. run_worker (keys_handle hmac uuid run_payload) w (queue ch) = Ok w'
    \<and> (worker_step (keys_handle hmac uuid run_payload) allowed_message keys_other)\<^sup>*\<^sup>*
        (w, ch) (w', \<lparr>queue = [], closed = c\<rparr>)
    \<and> (closed ch \<longrightarrow> c)"
proof -
  from hmac_sha384_cases [OF assms(1)] obtain h where h: "hmac = Rep_hmac_sha384 h" by blast
  have "keys_inv hmac uuid run_payload w \<and> list_all allowed_message (queue ch)"
    using keys.reach_inv [of h uuid run_payload "(w, ch)"] assms(2) by (simp add: h)
  then obtain w' where "run_worker (keys_handle hmac uuid run_payload) w (queue ch) = Ok w'"
    using keys.run_total [of h uuid run_payload w "queue ch"] by (auto simp: h)
  then show ?thesis using drain_reaches [of "keys_handle hmac uuid run_payload" w ch w'] by blast
qed

theorem keys_worker_drains_witness:
  "\<exists>w' c. run_worker (keys_handle hmac_ref ''u'' True) keys_start [(VKey vkey_ref, None)] = Ok w'
    \<and> (worker_step (keys_handle hmac_ref ''u'' True) allowed_message keys_other)\<^sup>*\<^sup>*
        (keys_start, \<lparr>queue = [(VKey vkey_ref, None)], closed = False\<rparr>) (w', \<lparr>queue = [], closed = c\<rparr>)"
  using keys_worker_drains [OF exchange_ref(1) reach_post_ref] by auto

section \<open>The worker: when a key is derived\<close>

definition ukeys_of :: "key_envelope list \<Rightarrow> u_key_data list" where
  "ukeys_of ms = concat (map (\<lambda>(m, _). case m of UKey u \<Rightarrow> [u] | _ \<Rightarrow> []) ms)"

definition vkeys_of :: "key_envelope list \<Rightarrow> v_key_data list" where
  "vkeys_of ms = concat (map (\<lambda>(m, _). case m of VKey v \<Rightarrow> [v] | _ \<Rightarrow> []) ms)"

lemma shares_of_simps [simp]:
  "ukeys_of [] = []" "vkeys_of [] = []"
  "ukeys_of (ms @ [(m, r)]) = ukeys_of ms @ (case m of UKey u \<Rightarrow> [u] | _ \<Rightarrow> [])"
  "vkeys_of (ms @ [(m, r)]) = vkeys_of ms @ (case m of VKey v \<Rightarrow> [v] | _ \<Rightarrow> [])"
  by (simp_all add: ukeys_of_def vkeys_of_def)

text \<open>What the state remembers of the messages handled so far.\<close>

definition keys_history :: "hmac_fun \<Rightarrow> string \<Rightarrow> key_envelope list \<Rightarrow> keys_worker \<Rightarrow> bool" where
  "keys_history hmac uuid ms w \<longleftrightarrow>
     set (ukeys w) \<subseteq> set (ukeys_of ms) \<and> set (vkeys w) \<subseteq> set (vkeys_of ms)
     \<and> (case symm_key w of
          None \<Rightarrow> ukeys w = ukeys_of ms \<and> vkeys w = vkeys_of ms
        | Some k \<Rightarrow> \<exists>u \<in> set (ukeys_of ms). \<exists>v \<in> set (vkeys_of ms). authenticates hmac (as_bytes uuid) u v k)"

lemma process_and_store_history:
  assumes "hmac_length hmac" and "list_all valid_ukey (ukeys w)" and "keys_history hmac uuid ms w"
    and "process_and_store hmac uuid rp w = Ok (w', c)"
  shows "keys_history hmac uuid ms w'"
proof (cases rule: try_combine_keys_cases
    [OF assms(1,2), of "vkeys w" "as_bytes uuid", case_names none found])
  case none
  from process_and_store_none [OF none(1)] assms(3,4) show ?thesis by simp
next
  case (found u v k)
  from process_and_store_found [OF found(1), of rp] assms(4)
  have w': "ukeys w' = []" "vkeys w' = []" "symm_key w' = Some k" by auto
  from found(2,3) assms(3) have "u \<in> set (ukeys_of ms)" and "v \<in> set (vkeys_of ms)"
    by (auto simp: keys_history_def)
  with found(4) w' show ?thesis by (auto simp: keys_history_def)
qed

lemma keys_history_snoc:
  "keys_history hmac uuid ms w \<Longrightarrow> keys_history hmac uuid (ms @ [(GetSymmKey, r)]) w"
  "keys_history hmac uuid ms w \<Longrightarrow> keys_history hmac uuid (ms @ [(Keys_Shutdown, r)]) w"
  "keys_history hmac uuid ms w \<Longrightarrow> keys_history hmac uuid (ms @ [(UKey u, r)]) (w\<lparr>ukeys := ukeys w @ [u]\<rparr>)"
  "keys_history hmac uuid ms w \<Longrightarrow> keys_history hmac uuid (ms @ [(VKey v, r)]) (w\<lparr>vkeys := vkeys w @ [v]\<rparr>)"
  by (auto simp: keys_history_def split: option.splits)

lemma keys_history_replies [simp]:
  "keys_history hmac uuid ms (w\<lparr>replies := rs\<rparr>) = keys_history hmac uuid ms w"
  by (cases "symm_key w") (simp_all add: keys_history_def)

lemma keys_handle_history:
  assumes "hmac_length hmac" and "keys_inv hmac uuid rp w" and "allowed_message m"
    and "keys_history hmac uuid ms w" and "keys_handle hmac uuid rp w m = Ok (w', c)"
  shows "keys_history hmac uuid (ms @ [m]) w'"
proof -
  obtain a r where m: "m = (a, r)" by (cases m)
  show ?thesis
  proof (cases a)
    case (UKey u)
    then show ?thesis
      using process_and_store_history [OF assms(1) _ keys_history_snoc(3) [OF assms(4), of u r]] assms(2,3,5) m
      by (auto simp: keys_inv_def)
  next
    case (VKey v)
    then show ?thesis
      using process_and_store_history [OF assms(1) _ keys_history_snoc(4) [OF assms(4), of v r]] assms(2,3,5) m
      by (auto simp: keys_inv_def)
  next
    case Keys_Shutdown
    then show ?thesis using m assms(4,5) keys_history_snoc(2) by auto
  next
    case GetSymmKey
    have "keys_history hmac uuid (ms @ [m]) w" using GetSymmKey m assms(4) keys_history_snoc(1) by auto
    then show ?thesis using GetSymmKey m assms(5) by (cases r) auto
  qed
qed

lemma keys_run_history:
  assumes "hmac_length hmac" and "list_all allowed_message ms"
    and "run_worker (keys_handle hmac uuid rp) keys_start ms = Ok w"
  shows "keys_history hmac uuid ms w \<and> keys_inv hmac uuid rp w"
  using assms(2,3)
proof (induction ms arbitrary: w rule: rev_induct)
  case Nil
  then have "w = keys_start" by simp
  then show ?case
    using keys_start_inv by (simp add: keys_history_def keys_start_def)
next
  case (snoc m ms)
  from snoc.prems(2) obtain w1 c where w1: "run_worker (keys_handle hmac uuid rp) keys_start ms = Ok w1"
    and w: "keys_handle hmac uuid rp w1 m = Ok (w, c)"
    by (auto simp: run_worker_append and_then_Ok_iff)
  with snoc have "keys_history hmac uuid ms w1" and "keys_inv hmac uuid rp w1" and "allowed_message m" by auto
  then show ?case
    using keys_handle_history [OF assms(1)] keys_handle_inv [OF assms(1)] w by fastforce
qed

text \<open>\<^bold>\<open>C3\<close>: the worker handles every sequence of well-formed messages, and holds a key at the end
  exactly when some U share and some V share among the messages authenticate the agent's UUID; the
  key is then the exclusive or of such a pair. Order and interleaving of the shares do not matter,
  and shares that match nothing do no harm.\<close>

theorem keys_worker_derives_iff:
  assumes "hmac_length hmac" and "list_all allowed_message ms"
  shows "\<exists>w. run_worker (keys_handle hmac uuid run_payload) keys_start ms = Ok w
    \<and> (symm_key w \<noteq> None \<longleftrightarrow>
         (\<exists>u \<in> set (ukeys_of ms). \<exists>v \<in> set (vkeys_of ms). \<exists>k. authenticates hmac (as_bytes uuid) u v k))
    \<and> (\<forall>k. symm_key w = Some k \<longrightarrow>
         (\<exists>u \<in> set (ukeys_of ms). \<exists>v \<in> set (vkeys_of ms). authenticates hmac (as_bytes uuid) u v k))"
proof -
  from hmac_sha384_cases [OF assms(1)] obtain h where h: "hmac = Rep_hmac_sha384 h" by blast
  obtain w where w: "run_worker (keys_handle hmac uuid run_payload) keys_start ms = Ok w"
    using keys.run_total [of h uuid run_payload keys_start ms] keys_start_inv assms(2) by (auto simp: h)
  from keys_run_history [OF assms w] have hist: "keys_history hmac uuid ms w"
    and none: "matching_pairs hmac (as_bytes uuid) (ukeys w) (vkeys w) = []"
    by (auto simp: keys_inv_def)
  show ?thesis
  proof (cases "symm_key w")
    case None
    with hist have "ukeys w = ukeys_of ms" and "vkeys w = vkeys_of ms" by (auto simp: keys_history_def)
    then show ?thesis using None w none by (auto simp: matching_pairs_Nil_iff)
  next
    case (Some k)
    with hist w show ?thesis by (auto simp: keys_history_def)
  qed
qed

theorem keys_worker_derives_iff_witness:
  "\<exists>w k. run_worker (keys_handle hmac_ref ''u'' True) keys_start [(VKey vkey_ref, None), (UKey ukey_ref, None)] = Ok w
    \<and> symm_key w = Some k"
proof -
  let ?ms = "[(VKey vkey_ref, None), (UKey ukey_ref, None)]"
  have "list_all allowed_message ?ms" by (simp add: exchange_ref)
  from keys_worker_derives_iff [OF exchange_ref(1) this, of "''u''" True] show ?thesis
    using exchange_ref(5) by (fastforce simp: ukeys_of_def vkeys_of_def)
qed

section \<open>The REST handlers\<close>

lemma auth_tag_error_text: "auth_tag_try_from v = Err e \<Longrightarrow> e \<noteq> ''Success''"
  by (auto simp: auth_tag_try_from_def split: if_splits)

interpretation u_key_rest: rest_handler "u_key kc" for kc
proof
  fix st q r st'
  assume "u_key kc st q = Ok (r, st')"
  then show "well_formed_response r"
    by (auto simp: u_key_def or_respond_Ok_iff dest: auth_tag_error_text split: option.splits)
qed (auto simp: u_key_def or_respond_Err_iff split: option.splits)

interpretation v_key_rest: rest_handler "v_key kc" for kc
proof
  fix st q r st'
  assume "v_key kc st q = Ok (r, st')"
  then show "well_formed_response r"
    by (auto simp: v_key_def or_respond_Ok_iff split: option.splits)
qed (auto simp: v_key_def or_respond_Err_iff split: option.splits)

interpretation pubkey_rest: rest_handler "pubkey utf8_error ops" for utf8_error ops
  by unfold_locales (auto simp: pubkey_def or_respond_Ok_iff or_respond_Err_iff)

interpretation verify_rest: rest_handler "verify uni kc" for uni kc
proof
  fix st q r st'
  assume "verify uni kc st q = Ok (r, st')"
  then show "well_formed_response r"
    by (auto simp: verify_stages and_then_Ok_iff or_respond_Ok_iff
        split: option.splits if_splits symm_key_message.splits)
qed (auto simp: verify_stages and_then_Err_iff or_respond_Err_iff
      split: option.splits if_splits symm_key_message.splits)

lemma valid_ukey_make [simp]:
  "valid_ukey \<lparr>u_decrypted_key = k, u_auth_tag = t, u_payload = p\<rparr> \<longleftrightarrow> valid_key k \<and> valid_tag t"
  by (simp add: valid_ukey_def)

lemma valid_vkey_make [simp]: "valid_vkey \<lparr>v_decrypted_key = k\<rparr> \<longleftrightarrow> valid_key k"
  by (simp add: valid_vkey_def)

lemma u_key_cases:
  assumes "u_key kc ch q = Ok (r, ch')"
  shows "(http_status r = 200 \<and> (\<exists>u. valid_ukey u \<and> mpsc_send ch (UKey u, None) = Some ch'))
    \<or> (http_status r \<in> {400, 500} \<and> ch' = ch)"
  using assms unfolding u_key_def
  by (auto simp: or_respond_Ok_iff bad_request_def server_error_def
      symm_key_try_from_Ok_iff auth_tag_try_from_Ok_iff split: option.splits)
    (metis valid_ukey_make)+

lemma v_key_cases:
  assumes "v_key kc ch q = Ok (r, ch')"
  shows "(http_status r = 200 \<and> (\<exists>v. valid_vkey v \<and> mpsc_send ch (VKey v, None) = Some ch'))
    \<or> (http_status r \<in> {400, 500} \<and> ch' = ch)"
  using assms unfolding v_key_def
  by (auto simp: or_respond_Ok_iff bad_request_def server_error_def
      symm_key_try_from_Ok_iff split: option.splits)
    (metis valid_vkey_make)+

text \<open>A request to \<open>u_key\<close> or \<open>v_key\<close> is either answered with 200 and is a step of the system
  whose reachable states the worker's guarantees cover (it posts exactly one message, with a key of
  16 or 32 bytes and a 48-byte tag), or it is answered with 400 or 500, carries no result and
  posts nothing.\<close>

theorem key_handlers_step:
  assumes "u_key kc ch q = Ok (r, ch') \<or> v_key kc ch q' = Ok (r, ch')"
  shows "(http_status r = 200
      \<and> worker_step (keys_handle hmac uuid run_payload) allowed_message keys_other (w, ch) (w, ch'))
    \<or> (http_status r \<in> {400, 500} \<and> wrap_results (http_body r) = JObj [] \<and> ch' = ch)"
proof -
  have post: "worker_step (keys_handle hmac uuid run_payload) allowed_message keys_other (w, ch) (w, ch')"
    if "mpsc_send ch m = Some ch'" and "allowed_message m" for m
    using that by (rule worker_step.post [rotated])
  from assms show ?thesis
  proof
    assume u: "u_key kc ch q = Ok (r, ch')"
    show ?thesis using u_key_cases [OF u] u_key_rest.error_carries_nothing [OF u]
    proof (elim disjE conjE exE)
      fix u
      assume "http_status r = 200" and "valid_ukey u" and "mpsc_send ch (UKey u, None) = Some ch'"
      then show ?thesis using post [of "(UKey u, None)"] by simp
    qed auto
  next
    assume v: "v_key kc ch q' = Ok (r, ch')"
    show ?thesis using v_key_cases [OF v] v_key_rest.error_carries_nothing [OF v]
    proof (elim disjE conjE exE)
      fix v
      assume "http_status r = 200" and "valid_vkey v" and "mpsc_send ch (VKey v, None) = Some ch'"
      then show ?thesis using post [of "(VKey v, None)"] by simp
    qed auto
  qed
qed

text \<open>A transparent transport encryption, to run the handlers on.\<close>

definition key_crypto_ref :: "unit key_crypto" where
  "key_crypto_ref =
     \<lparr>kc_base64 = \<lambda>s. Ok (as_bytes s), kc_hex = \<lambda>s. ok_or ''invalid hex'' (hex_decode_ref s),
      kc_hex_encode = hex_encode_ref,
      kc_decrypter = \<lambda>_ _ _ _. Ok \<lparr>decrypt_len = \<lambda>d. Ok (length d), decrypt_into = \<lambda>d b. Ok (length d, d)\<rparr>,
      kc_hmac = hmac_ref, kc_priv_key = ()\<rparr>"

lemma v_key_ref:
  "v_key key_crypto_ref open_chan \<lparr>vk_encrypted_key = replicate 16 CHR ''a''\<rparr>
   = Ok (respond 200 (wrapper_success JNull),
       \<lparr>queue = [(VKey \<lparr>v_decrypted_key = \<lparr>key_bytes = replicate 16 97\<rparr>\<rparr>, None)], closed = False\<rparr>)"
  by (simp add: v_key_def key_crypto_ref_def rsa_oaep_decrypt_def symm_key_try_from_def length_constants
      mpsc_send_def open_chan_def as_bytes_def of_char_def map_replicate)

theorem key_handlers_step_witness:
  "worker_step (keys_handle hmac_ref ''u'' True) allowed_message keys_other (keys_start, open_chan)
     (keys_start, \<lparr>queue = [(VKey \<lparr>v_decrypted_key = \<lparr>key_bytes = replicate 16 97\<rparr>\<rparr>, None)], closed = False\<rparr>)"
  using key_handlers_step [OF disjI2 [OF v_key_ref], of hmac_ref "''u''" True keys_start] by simp

text \<open>The challenge is answered with the keyed hash of the challenge under the key the worker
  replied with, and with nothing else: 200 requires a non-empty alphanumeric challenge and a derived
  key; without a key the answer is 400, with a worker that is gone 500. Every accepted challenge asks
  the worker exactly once.\<close>

theorem verify_answers:
  assumes "verify uni kc ch q = Ok (r, ch')"
  shows "(http_status r = 200 \<longleftrightarrow>
      challenge q \<noteq> [] \<and> all_alphanumeric uni (challenge q) \<and> \<not> closed ch
      \<and> (\<exists>k t. challenge_reply q = Some (SymmKey (Some k))
           \<and> kc_hmac kc (key_bytes k) (as_bytes (challenge q)) = Ok t
           \<and> wrap_results (http_body r) = JObj [(''hmac'', JStr (kc_hex_encode kc t))]))
    \<and> (ch' = ch \<or> ch' = ch\<lparr>queue := queue ch @ [(GetSymmKey, Some (challenge_resp q))]\<rparr>)
    \<and> (challenge_reply q = Some (SymmKey None) \<and> challenge q \<noteq> [] \<and> \<not> closed ch \<longrightarrow> http_status r = 400)"
  using assms
  by (auto simp: verify_stages and_then_Ok_iff or_respond_Ok_iff compute_hmac_def bad_request_def
      server_error_def mpsc_send_def split: if_splits option.splits symm_key_message.splits)

theorem verify_answers_witness:
  "\<exists>r ch'. verify (\<lambda>_. False) key_crypto_ref open_chan
       \<lparr>challenge = ''abc'', challenge_resp = 1, challenge_reply = Some (SymmKey (Some \<lparr>key_bytes = replicate 16 6\<rparr>))\<rparr>
       = Ok (r, ch')
     \<and> http_status r = 200 \<and> ch' = \<lparr>queue = [(GetSymmKey, Some 1)], closed = False\<rparr>"
proof -
  let ?q = "\<lparr>challenge = ''abc'', challenge_resp = 1, challenge_reply = Some (SymmKey (Some \<lparr>key_bytes = replicate 16 6\<rparr>))\<rparr>"
  have a: "all_alphanumeric (\<lambda>_. False) ''abc''"
    by (simp add: all_alphanumeric_def chars_def is_alphanumeric_def)
  obtain r where r: "verify (\<lambda>_. False) key_crypto_ref open_chan ?q
      = Ok (r, \<lparr>queue = [(GetSymmKey, Some 1)], closed = False\<rparr>)"
    by (simp add: verify_stages a mpsc_send_def open_chan_def compute_hmac_def
        key_crypto_ref_def hmac_ref_def)
  have "wrap_results (http_body r) = JObj [(''hmac'', JStr (hex_encode_ref (replicate 48 6)))]"
    using r by (auto simp: verify_stages a mpsc_send_def open_chan_def compute_hmac_def
        key_crypto_ref_def hmac_ref_def)
  then show ?thesis using verify_answers [OF r] r a
    by (simp add: open_chan_def key_crypto_ref_def hmac_ref_def)
qed

end
