(* ===== verification/Revocation.thy ===== *)
theory Revocation
  imports Crypto_Ops Channels List_Parser Machine Http
begin

text \<open>
  Revocation (\<^verbatim>\<open>keylime-agent/src/revocation.rs\<close> and the REST handler of
  \<^verbatim>\<open>keylime-agent/src/notifications_handler.rs\<close>): the verifier tells the agent that it no longer
  trusts a node, with a message signed by a key whose certificate came with the payload; the worker
  checks the signature and runs the configured actions on the message. Python actions are those of
  the feature \<open>legacy-python-actions\<close>, which is a parameter.
\<close>

section \<open>Messages\<close>

record revocation =
  rev_msg :: string
  rev_signature :: string

datatype zmq_message = StartListening | Zmq_Shutdown

datatype revocation_message = PayloadDecrypted | Revocation revocation | Revocation_Shutdown

section \<open>Actions\<close>

definition possible_paths ::
  "bool \<Rightarrow> string \<Rightarrow> string \<Rightarrow> string \<Rightarrow> string \<Rightarrow> (string \<times> bool \<times> bool) list" where
  "possible_paths python payload_dir actions_dir action py_action =
     [(path_join actions_dir action, False, False), (path_join payload_dir action, False, True)]
     @ (if python then
          [(path_join actions_dir py_action, True, False), (path_join payload_dir py_action, True, True)]
        else [])"

definition lookup_action ::
  "bool \<Rightarrow> fs \<Rightarrow> string \<Rightarrow> string \<Rightarrow> string \<Rightarrow> bool \<Rightarrow> (string \<times> bool \<times> bool, agent_error) outcome" where
  "lookup_action python f payload_dir actions_dir action allow_payload_actions =
     (case set_extension action ''py'' of
        None \<Rightarrow> Err (Other (''unable to set action '' @ action @ '' extension''))
      | Some py_action \<Rightarrow>
          (case List.find (\<lambda>(path, _, _). exists_path f path)
                  (filter (\<lambda>(_, _, is_payload). \<not> is_payload \<or> allow_payload_actions)
                    (possible_paths python payload_dir actions_dir action py_action)) of
             None \<Rightarrow> Err (Io (''Could not find action '' @ action))
           | Some (script, is_python, is_payload) \<Rightarrow>
               Ok (if is_python then path_join actions_dir ''shim.py'' else script, is_python, is_payload)))"

text \<open>\<open>json_dump.write_all\<close>, whose result is not looked at.\<close>

definition write_all_ignored :: "machine_env \<Rightarrow> string \<Rightarrow> string \<Rightarrow> unit machine_act" where
  "write_all_ignored env p text m =
     (case fault (sys env) Op_write p of
        Some _ \<Rightarrow> (Ok (), m)
      | None \<Rightarrow> (Ok (), m\<lparr>disk := (disk m)(p \<mapsto> Regular text 0x180)\<rparr>))"

definition action_command :: "string \<Rightarrow> string \<Rightarrow> string \<Rightarrow> string \<Rightarrow> string \<Rightarrow> string \<Rightarrow> bool \<Rightarrow> bool \<Rightarrow> command" where
  "action_command payload_dir actions_dir work_dir action json_path program is_python is_payload =
     (if is_python then
        \<lparr>cmd_program = program, cmd_args = [action, json_path], cmd_dir = work_dir,
         cmd_env = [(''PYTHONPATH'', if is_payload then payload_dir else actions_dir)]\<rparr>
      else \<lparr>cmd_program = program, cmd_args = [json_path], cmd_dir = work_dir, cmd_env = []\<rparr>)"

text \<open>The temporary file is removed whether or not the program could be waited for.\<close>

definition wait_with_output :: "machine_env \<Rightarrow> command \<Rightarrow> string \<Rightarrow> process_output machine_act" where
  "wait_with_output env cmd json_path m =
     (case run_command env cmd m of
        (Spawn_failed e, m') \<Rightarrow> (Err (Io e), m')
      | (Wait_failed e, m') \<Rightarrow>
          act_bind (on_disk (\<lambda>f. remove_file (sys env) f json_path)) (\<lambda>_. act_lift (Err (Io e))) m'
      | (Exited out, m') \<Rightarrow>
          act_bind (on_disk (\<lambda>f. remove_file (sys env) f json_path)) (\<lambda>_. act_lift (Ok out)) m')"

definition run_action ::
  "machine_env \<Rightarrow> bool \<Rightarrow> (json \<Rightarrow> (string, string) outcome) \<Rightarrow> string \<Rightarrow> string \<Rightarrow> string \<Rightarrow> json \<Rightarrow> bool \<Rightarrow> string
   \<Rightarrow> process_output machine_act" where
  "run_action env python to_raw payload_dir actions_dir action j allow_payload_actions work_dir =
     act_bind (from_disk (\<lambda>f. lookup_action python f payload_dir actions_dir action allow_payload_actions))
       (\<lambda>(program, is_python, is_payload).
     act_bind (act_lift (map_err Serde (to_raw j))) (\<lambda>raw_json.
     act_bind (new_temp_in env work_dir) (\<lambda>json_path.
     act_bind (write_all_ignored env json_path raw_json) (\<lambda>_.
     act_bind (act_lift (case fault (sys env) Op_persist json_path of Some e \<Rightarrow> Err (PathPersist e) | None \<Rightarrow> Ok ())) (\<lambda>_.
     act_bind (wait_with_output env
                 (action_command payload_dir actions_dir work_dir action json_path program is_python is_payload)
                 json_path) (\<lambda>out.
     if status_code out = Some 0 then act_lift (Ok out)
     else act_bind (act_lift (error_from_output (bad_utf8 env) out)) (\<lambda>e. act_lift (Err e))))))))"

text \<open>The loop over the actions: the first that fails ends it, with a \<open>Script\<close> error when it failed by
  its exit status.\<close>

definition script_error :: "string \<Rightarrow> agent_error \<Rightarrow> ('a, agent_error) outcome" where
  "script_error action e =
     and_then (exe_code e) (\<lambda>code. and_then (stderr e) (\<lambda>err. Err (Script action code err)))"

fun run_actions :: "(string \<Rightarrow> process_output machine_act) \<Rightarrow> string list \<Rightarrow> process_output list machine_act" where
  "run_actions run [] = act_lift (Ok [])"
| "run_actions run (action # actions) =
     (\<lambda>m. case run action m of
            (Ok out, m') \<Rightarrow> act_bind (run_actions run actions) (\<lambda>outs. act_lift (Ok (out # outs))) m'
          | (Err e, m') \<Rightarrow> (script_error action e, m')
          | (Panic, m') \<Rightarrow> (Panic, m'))"

text \<open>What the worker is configured with.\<close>

record revocation_config =
  rc_cert_path :: string
  rc_actions_dir :: string
  rc_actions :: "string option"
  rc_allow_payload_actions :: bool
  rc_work_dir :: string
  rc_mount :: string
  rc_python :: bool

text \<open>The libraries: JSON, the description of a list that does not parse, OpenSSL.\<close>

record ('cert, 'pub) revocation_libs =
  rl_to_raw :: "json \<Rightarrow> (string, string) outcome"
  rl_from_str :: "string \<Rightarrow> (json, string) outcome"
  rl_list_error :: "string \<Rightarrow> string"
  rl_public_key :: "'cert \<Rightarrow> ('pub, string) outcome"
  rl_verifier :: "message_digest \<Rightarrow> 'pub \<Rightarrow> rsa_padding \<Rightarrow> message_digest \<Rightarrow> bool
    \<Rightarrow> (string \<Rightarrow> u8 list \<Rightarrow> (bool, string) outcome, string) outcome"
  rl_base64 :: "string \<Rightarrow> (u8 list, string) outcome"
  rl_certs :: "string \<Rightarrow> ('cert list, string) outcome"
  rl_canonicalize :: "fs \<Rightarrow> string \<Rightarrow> (string, string) outcome"

definition action_list ::
  "machine_env \<Rightarrow> ('cert, 'pub) revocation_libs \<Rightarrow> revocation_config \<Rightarrow> string list machine_act" where
  "action_list env libs cfg =
     (let unzipped = path_join (rc_mount cfg) ''unzipped'';
          action_file = path_join unzipped ''action_list'';
          parse = (\<lambda>s. map_err ListParser (parse_list (rl_list_error libs) s))
      in act_bind (act_lift (parse (case rc_actions cfg of Some a \<Rightarrow> a | None \<Rightarrow> []))) (\<lambda>config_actions.
         act_bind (from_disk (\<lambda>f. Ok (exists_path f action_file))) (\<lambda>found.
         if found then
           act_bind (from_disk (\<lambda>f. unwrap (read_to_string (sys env) f action_file))) (\<lambda>action_data.
           act_bind (act_lift (parse action_data)) (\<lambda>file_actions.
           act_lift (Ok (config_actions @ file_actions))))
         else act_lift (Ok config_actions))))"

definition run_revocation_actions ::
  "machine_env \<Rightarrow> ('cert, 'pub) revocation_libs \<Rightarrow> revocation_config \<Rightarrow> json \<Rightarrow> process_output list machine_act" where
  "run_revocation_actions env libs cfg j =
     act_bind (action_list env libs cfg) (\<lambda>actions.
     run_actions (\<lambda>action. run_action env (rc_python cfg) (rl_to_raw libs)
         (path_join (rc_mount cfg) ''unzipped'') (rc_actions_dir cfg) action j
         (rc_allow_payload_actions cfg) (rc_work_dir cfg)) actions)"

text \<open>The outputs are logged, which needs them to be UTF-8.\<close>

definition log_output :: "machine_env \<Rightarrow> process_output \<Rightarrow> (unit, agent_error) outcome" where
  "log_output env out =
     and_then (if stdout_bytes out \<noteq> [] \<and> \<not> is_utf8 (stdout_bytes out)
               then Err (Utf8 (bad_utf8 env (stdout_bytes out))) else Ok ()) (\<lambda>_.
     if stderr_bytes out \<noteq> [] \<and> \<not> is_utf8 (stderr_bytes out)
     then Err (Utf8 (bad_utf8 env (stderr_bytes out))) else Ok ())"

definition process_revocation ::
  "machine_env \<Rightarrow> ('cert, 'pub) revocation_libs \<Rightarrow> revocation_config \<Rightarrow> revocation \<Rightarrow> 'cert \<Rightarrow> unit machine_act" where
  "process_revocation env libs cfg r cert =
     act_bind (act_lift (map_err Crypto (rl_public_key libs cert))) (\<lambda>cert_key.
     act_bind (act_lift (asym_verify (rl_verifier libs) (rl_base64 libs) cert_key (rev_msg r) (rev_signature r))) (\<lambda>verified.
     if verified then
       act_bind (act_lift (map_err Serde (rl_from_str libs (rev_msg r)))) (\<lambda>msg_payload.
       act_bind (run_revocation_actions env libs cfg msg_payload) (\<lambda>outputs.
       act_lift (try_fold (\<lambda>_ out. log_output env out) () outputs)))
     else act_lift (Err InvalidRequest)))"

section \<open>The worker\<close>

record 'cert revocation_worker =
  revocation_cert :: "'cert option"
  rev_machine :: machine

text \<open>A failure to process a revocation is only logged; a certificate that cannot be found leaves the
  old one in place, one that cannot be read removes it.\<close>

fun revocation_handle ::
  "machine_env \<Rightarrow> ('cert, 'pub) revocation_libs \<Rightarrow> revocation_config \<Rightarrow> 'cert revocation_worker \<Rightarrow> revocation_message
   \<Rightarrow> ('cert revocation_worker \<times> bool, agent_error) outcome" where
  "revocation_handle env libs cfg w (Revocation r) =
     (case revocation_cert w of
        None \<Rightarrow> Ok (w, False)
      | Some cert \<Rightarrow>
          (case process_revocation env libs cfg r cert (rev_machine w) of
             (Panic, _) \<Rightarrow> Panic
           | (_, m) \<Rightarrow> Ok (w\<lparr>rev_machine := m\<rparr>, False)))"
| "revocation_handle env libs cfg w PayloadDecrypted =
     (case rl_canonicalize libs (disk (rev_machine w)) (rc_cert_path cfg) of
        Panic \<Rightarrow> Panic
      | Err _ \<Rightarrow> Ok (w, False)
      | Ok path \<Rightarrow>
          (case load_x509 (sys env) (rl_certs libs) (disk (rev_machine w)) path of
             Ok cert \<Rightarrow> Ok (w\<lparr>revocation_cert := Some cert\<rparr>, False)
           | Err _ \<Rightarrow> Ok (w\<lparr>revocation_cert := None\<rparr>, False)
           | Panic \<Rightarrow> Panic))"
| "revocation_handle env libs cfg w Revocation_Shutdown = Ok (w, True)"

section \<open>The REST handler\<close>

definition revocation_handler ::
  "revocation_message chan \<Rightarrow> revocation \<Rightarrow> (http_response \<times> revocation_message chan, agent_error) outcome" where
  "revocation_handler revocation_tx body =
     (case mpsc_send revocation_tx (Revocation body) of
        None \<Rightarrow> Ok (server_error ''Fail to send Revocation message to revocation worker'', revocation_tx)
      | Some ch \<Rightarrow> Ok (respond 200 (wrapper_success JNull), ch))"

interpretation revocation_rest: rest_handler revocation_handler
  by unfold_locales (auto simp: revocation_handler_def split: option.splits)

section \<open>The 0mq listener\<close>

text \<open>
  With the feature \<open>with-zmq\<close> revocations also arrive on a 0mq socket. One turn of the loop of
  \<open>listen_zmq\<close> posts the message that was received, if it is one; every failure is skipped.
\<close>

datatype zmq_event = Poll_error | No_input | Receive_error | Not_utf8 | Received string

definition listen_turn ::
  "(string \<Rightarrow> (revocation, string) outcome) \<Rightarrow> revocation_message chan \<Rightarrow> zmq_event \<Rightarrow> revocation_message chan" where
  "listen_turn from_str revocation_tx ev =
     (case ev of
        Received raw_body \<Rightarrow>
          (case from_str raw_body of
             Ok r \<Rightarrow> (case mpsc_send revocation_tx (Revocation r) of Some ch \<Rightarrow> ch | None \<Rightarrow> revocation_tx)
           | _ \<Rightarrow> revocation_tx)
      | _ \<Rightarrow> revocation_tx)"

text \<open>Connecting: the calls of the \<open>zmq\<close> crate can fail, and the listener is spawned only after all of them.\<close>

record zmq_calls =
  zc_socket :: "(unit, string) outcome"
  zc_subscribe :: "string \<Rightarrow> (unit, string) outcome"
  zc_connect :: "string \<Rightarrow> (unit, string) outcome"

definition listen_zmq :: "zmq_calls \<Rightarrow> string \<Rightarrow> nat \<Rightarrow> (unit, agent_error) outcome" where
  "listen_zmq calls ip port =
     and_then (map_err Zmq (zc_socket calls)) (\<lambda>_.
     and_then (map_err Zmq (zc_subscribe calls [])) (\<lambda>_.
     map_err Zmq (zc_connect calls (''tcp://'' @ ip @ '':'' @ show_nat port))))"

text \<open>The worker that starts the listener, at most once; \<open>listen\<close> tells whether the socket could be
  connected when the \<open>n\<close>th attempt was made.\<close>

record zmq_worker =
  zmq_task :: bool
  zmq_shutdown_tx :: bool
  zmq_attempts :: nat

fun zmq_handle :: "(nat \<Rightarrow> bool) \<Rightarrow> zmq_worker \<Rightarrow> zmq_message \<Rightarrow> (zmq_worker \<times> bool, agent_error) outcome" where
  "zmq_handle listen w Zmq_Shutdown = Ok (w, True)"
| "zmq_handle listen w StartListening =
     (if zmq_task w then Ok (w, False)
      else Ok (w\<lparr>zmq_shutdown_tx := True, zmq_task := listen (zmq_attempts w),
                 zmq_attempts := Suc (zmq_attempts w)\<rparr>, False))"

definition zmq_start :: zmq_worker where
  "zmq_start = \<lparr>zmq_task = False, zmq_shutdown_tx = False, zmq_attempts = 0\<rparr>"

text \<open>After the loop the listener is told to stop, if one was ever asked for.\<close>

definition zmq_end :: "zmq_worker \<Rightarrow> string option" where
  "zmq_end w = (if zmq_shutdown_tx w then Some ''shutdown'' else None)"

text \<open>A listener is always told.\<close>

interpretation zmq: total_worker "zmq_handle listen" "\<lambda>_. True" "\<lambda>_ _. False"
  "\<lambda>w. zmq_task w \<longrightarrow> zmq_shutdown_tx w" zmq_start for listen
proof
  fix s s' :: zmq_worker and m c
  show "(zmq_task zmq_start \<longrightarrow> zmq_shutdown_tx zmq_start)" by (simp add: zmq_start_def)
  show "\<exists>s' c. zmq_handle listen s m = Ok (s', c)" by (cases m) auto
  assume "zmq_task s \<longrightarrow> zmq_shutdown_tx s" and "zmq_handle listen s m = Ok (s', c)"
  then show "zmq_task s' \<longrightarrow> zmq_shutdown_tx s'" by (cases m) (auto split: if_splits)
qed simp

text \<open>
  The worker with the connection: a listener runs after the messages exactly when one of the attempts that were made connected, the
  attempts stop with the first that does, and a listener that runs is told to stop at the end.
\<close>

definition zmq_connects :: "(nat \<Rightarrow> zmq_calls) \<Rightarrow> string \<Rightarrow> nat \<Rightarrow> nat \<Rightarrow> bool" where
  "zmq_connects calls ip port n = is_ok (listen_zmq (calls n) ip port)"

lemma zmq_listens:
  assumes "run_worker (zmq_handle (zmq_connects calls ip port)) zmq_start ms = Ok w"
  shows "(zmq_task w \<longleftrightarrow> (\<exists>n < zmq_attempts w. zmq_connects calls ip port n))
    \<and> (\<forall>n < zmq_attempts w. zmq_connects calls ip port n \<longrightarrow> Suc n = zmq_attempts w)
    \<and> (zmq_task w \<longrightarrow> zmq_end w = Some ''shutdown'')"
  using assms
proof (induction ms arbitrary: w rule: rev_induct)
  case Nil
  then show ?case by (auto simp: zmq_start_def)
next
  case (snoc m ms)
  then obtain w1 c where w1: "run_worker (zmq_handle (zmq_connects calls ip port)) zmq_start ms = Ok w1"
    and w: "zmq_handle (zmq_connects calls ip port) w1 m = Ok (w, c)"
    by (auto simp: run_worker_append and_then_Ok_iff)
  from snoc.IH [OF w1] w show ?case by (cases m) (auto simp: less_Suc_eq zmq_end_def split: if_splits)
qed

section \<open>Where the programs come from\<close>

definition action_program :: "revocation_config \<Rightarrow> string \<Rightarrow> command \<Rightarrow> bool" where
  "action_program cfg action c \<longleftrightarrow> (\<exists>f is_python is_payload.
     lookup_action (rc_python cfg) f (path_join (rc_mount cfg) ''unzipped'') (rc_actions_dir cfg) action
       (rc_allow_payload_actions cfg) = Ok (cmd_program c, is_python, is_payload))"

lemma action_command_program [simp]:
  "cmd_program (action_command pd ad wd action jp program py pay) = program"
  by (simp add: action_command_def)

lemma runs_only_wait: "P cmd \<Longrightarrow> act_within (runs_only P) (wait_with_output env cmd jp)"
proof -
  assume P: "P cmd"
  have rm: "runs_only P m' (snd (act_bind (on_disk (\<lambda>f. remove_file (sys env) f jp)) (\<lambda>_. act_lift r) m'))" for m' r
    by (rule act_within_apply) (intro runs_only_bind runs_only_disk runs_only_lift)
  have "runs_only P m (snd (wait_with_output env cmd jp m))" for m
    using runs_only_command [where m = m and env = env and cmd = cmd and P = P, OF P] rm transpD [OF runs_only_trans]
    by (fastforce simp: wait_with_output_def split: prod.split proc_result.split)
  then show ?thesis by (simp add: act_within_def)
qed

lemma runs_only_write: "act_within (runs_only P) (write_all_ignored env p t)"
  by (auto simp: act_within_def write_all_ignored_def runs_only_def split: option.split)

abbreviation configured_action where
  "configured_action env libs cfg j action \<equiv> run_action env (rc_python cfg) (rl_to_raw libs)
     (path_join (rc_mount cfg) ''unzipped'') (rc_actions_dir cfg) action j
     (rc_allow_payload_actions cfg) (rc_work_dir cfg)"

lemma run_action_programs:
  "act_within (runs_only (action_program cfg action)) (configured_action env libs cfg j action)"
  unfolding act_within_def
proof
  fix m :: machine
  let ?l = "lookup_action (rc_python cfg) (disk m) (path_join (rc_mount cfg) ''unzipped'') (rc_actions_dir cfg)
    action (rc_allow_payload_actions cfg)"
  show "runs_only (action_program cfg action) m (snd (configured_action env libs cfg j action m))"
  proof (cases ?l)
    case (Ok x)
    obtain program py pay where x: "x = (program, py, pay)" by (cases x)
    have P: "action_program cfg action (action_command pd ad wd action jp program py pay)" for pd ad wd jp
      using Ok x by (auto simp: action_program_def)
    have "act_within (runs_only (action_program cfg action))
      (act_bind (act_lift (map_err Serde (rl_to_raw libs j))) (\<lambda>raw_json.
       act_bind (new_temp_in env (rc_work_dir cfg)) (\<lambda>json_path.
       act_bind (write_all_ignored env json_path raw_json) (\<lambda>_.
       act_bind (act_lift (case fault (sys env) Op_persist json_path of Some e \<Rightarrow> Err (PathPersist e) | None \<Rightarrow> Ok ())) (\<lambda>_.
       act_bind (wait_with_output env (action_command (path_join (rc_mount cfg) ''unzipped'') (rc_actions_dir cfg)
           (rc_work_dir cfg) action json_path program py pay) json_path) (\<lambda>out.
       if status_code out = Some 0 then act_lift (Ok out)
       else act_bind (act_lift (error_from_output (bad_utf8 env) out)) (\<lambda>e. act_lift (Err e))))))))"
      by (intro runs_only_bind runs_only_lift runs_only_temp runs_only_write runs_only_wait P)
        (simp add: runs_only_lift runs_only_bind)
    then show ?thesis using Ok x by (simp add: run_action_def act_bind_def [of "from_disk _"] from_disk_def act_within_def)
  qed (simp_all add: run_action_def act_bind_def from_disk_def runs_only_same)
qed

lemma run_actions_within:
  assumes "\<And>action. act_within (runs_only P) (run action)"
  shows "act_within (runs_only P) (run_actions run actions)"
proof (induction actions)
  case (Cons a as)
  have "runs_only P m (snd (run_actions run (a # as) m))" for m
  proof -
    obtain r m' where r: "run a m = (r, m')" by force
    have "runs_only P m m'" using act_withinD [OF assms r] .
    moreover have "runs_only P m' (snd (act_bind (run_actions run as) (\<lambda>outs. act_lift (Ok (out # outs))) m'))" for out
      by (rule act_within_apply) (intro runs_only_bind Cons runs_only_lift)
    ultimately show ?thesis
      using r transpD [OF runs_only_trans] by (cases r) (fastforce simp: script_error_def)+
  qed
  then show ?case by (simp add: act_within_def)
qed (simp add: runs_only_lift)

lemma action_list_within: "act_within (runs_only P) (action_list env libs cfg)"
  unfolding action_list_def Let_def
  by (intro runs_only_bind runs_only_lift runs_only_from_disk)
    (auto intro: runs_only_bind runs_only_lift runs_only_from_disk)

lemma revocation_actions_programs:
  "act_within (runs_only (\<lambda>c. \<exists>action. action_program cfg action c)) (run_revocation_actions env libs cfg j)"
  unfolding run_revocation_actions_def
  by (intro runs_only_bind action_list_within run_actions_within act_within_mono [OF run_action_programs])
    (auto elim: runs_only_mono)

section \<open>Only authentic revocations run anything\<close>

definition authentic :: "('cert, 'pub) revocation_libs \<Rightarrow> 'cert \<Rightarrow> revocation \<Rightarrow> bool" where
  "authentic libs cert r \<longleftrightarrow> (\<exists>key. rl_public_key libs cert = Ok key
     \<and> asym_verify (rl_verifier libs) (rl_base64 libs) key (rev_msg r) (rev_signature r) = Ok True)"

lemma process_revocation_runs:
  assumes "process_revocation env libs cfg r cert m = (res, m')"
  shows "executed m' = executed m
    \<or> authentic libs cert r \<and> runs_only (\<lambda>c. \<exists>action. action_program cfg action c) m m'"
proof (cases "authentic libs cert r")
  case True
  have "act_within (runs_only (\<lambda>c. \<exists>action. action_program cfg action c)) (process_revocation env libs cfg r cert)"
    unfolding process_revocation_def
    by (intro runs_only_bind runs_only_lift) (auto intro!: runs_only_bind runs_only_lift revocation_actions_programs)
  from act_withinD [where f = "process_revocation env libs cfg r cert", OF this assms] True
  show ?thesis by blast
next
  case False
  then show ?thesis
    using assms
    by (auto simp: process_revocation_def authentic_def act_bind_def act_lift_def
        split: prod.splits outcome.splits if_splits)
qed

text \<open>
  Between two messages other tasks change the file system, so each turn of the worker is given the file
  system it finds together with the message.
\<close>

definition revocation_turn ::
  "machine_env \<Rightarrow> ('cert, 'pub) revocation_libs \<Rightarrow> revocation_config \<Rightarrow> 'cert revocation_worker
   \<Rightarrow> fs \<times> revocation_message \<Rightarrow> ('cert revocation_worker \<times> bool, agent_error) outcome" where
  "revocation_turn env libs cfg w t =
     revocation_handle env libs cfg (w\<lparr>rev_machine := (rev_machine w)\<lparr>disk := fst t\<rparr>\<rparr>) (snd t)"

text \<open>A certificate that was in the configured file when a payload had been decrypted.\<close>

definition loaded_cert ::
  "machine_env \<Rightarrow> ('cert, 'pub) revocation_libs \<Rightarrow> revocation_config \<Rightarrow> (fs \<times> revocation_message) list \<Rightarrow> 'cert \<Rightarrow> bool" where
  "loaded_cert env libs cfg ts cert \<longleftrightarrow> (\<exists>f path. (f, PayloadDecrypted) \<in> set ts
     \<and> rl_canonicalize libs f (rc_cert_path cfg) = Ok path
     \<and> load_x509 (sys env) (rl_certs libs) f path = Ok cert)"

text \<open>A command that one of the turns had reason to run.\<close>

definition justified ::
  "machine_env \<Rightarrow> ('cert, 'pub) revocation_libs \<Rightarrow> revocation_config \<Rightarrow> (fs \<times> revocation_message) list \<Rightarrow> command \<Rightarrow> bool" where
  "justified env libs cfg ts c \<longleftrightarrow> (\<exists>before f r after cert action.
     ts = before @ (f, Revocation r) # after \<and> loaded_cert env libs cfg before cert
     \<and> authentic libs cert r \<and> action_program cfg action c)"

lemma loaded_cert_snoc: "loaded_cert env libs cfg ts cert \<Longrightarrow> loaded_cert env libs cfg (ts @ [t]) cert"
  by (auto simp: loaded_cert_def)

lemma justified_snoc: "justified env libs cfg ts c \<Longrightarrow> justified env libs cfg (ts @ [t]) c"
  unfolding justified_def by (metis append_Cons append_assoc)

definition revocation_history ::
  "machine_env \<Rightarrow> ('cert, 'pub) revocation_libs \<Rightarrow> revocation_config \<Rightarrow> (fs \<times> revocation_message) list
   \<Rightarrow> 'cert revocation_worker \<Rightarrow> bool" where
  "revocation_history env libs cfg ts w \<longleftrightarrow>
     (\<forall>cert. revocation_cert w = Some cert \<longrightarrow> loaded_cert env libs cfg ts cert)
     \<and> (\<forall>c \<in> set (executed (rev_machine w)). justified env libs cfg ts c)"

lemma revocation_history_snoc:
  "revocation_history env libs cfg ts w \<Longrightarrow> revocation_history env libs cfg (ts @ [t]) w"
  by (auto simp: revocation_history_def intro: loaded_cert_snoc justified_snoc)

lemma revocation_history_disk [simp]:
  "revocation_history env libs cfg ts (w\<lparr>rev_machine := (rev_machine w)\<lparr>disk := f\<rparr>\<rparr>)
     = revocation_history env libs cfg ts w"
  by (simp add: revocation_history_def)

lemma revocation_history_process:
  assumes h: "revocation_history env libs cfg ts w" and cert: "revocation_cert w = Some cert"
    and p: "process_revocation env libs cfg r cert (rev_machine w) = (res, m)"
  shows "revocation_history env libs cfg (ts @ [(f, Revocation r)]) (w\<lparr>rev_machine := m\<rparr>)"
proof -
  have "justified env libs cfg (ts @ [(f, Revocation r)]) c" if c: "c \<in> set (executed m)" for c
  proof (cases "c \<in> set (executed (rev_machine w))")
    case True
    then show ?thesis using h by (auto simp: revocation_history_def intro: justified_snoc)
  next
    case False
    then have "authentic libs cert r \<and> (\<exists>action. action_program cfg action c)"
      using process_revocation_runs [OF p] c by (auto simp: runs_only_def list_all_iff)
    moreover have "loaded_cert env libs cfg ts cert" using h cert by (simp add: revocation_history_def)
    ultimately show ?thesis unfolding justified_def by blast
  qed
  then show ?thesis using h by (auto simp: revocation_history_def intro: loaded_cert_snoc)
qed

lemma revocation_turn_history:
  assumes "revocation_history env libs cfg ts w" and "revocation_turn env libs cfg w (f, m) = Ok (w', c)"
  shows "revocation_history env libs cfg (ts @ [(f, m)]) w'"
proof -
  let ?w = "w\<lparr>rev_machine := (rev_machine w)\<lparr>disk := f\<rparr>\<rparr>"
  have h: "revocation_history env libs cfg ts ?w" using assms(1) by simp
  have step: "revocation_handle env libs cfg ?w m = Ok (w', c)" using assms(2) by (simp add: revocation_turn_def)
  show ?thesis
  proof (cases m)
    case PayloadDecrypted
    then have "w' = ?w \<or> w' = ?w\<lparr>revocation_cert := None\<rparr>
        \<or> (\<exists>cert. w' = ?w\<lparr>revocation_cert := Some cert\<rparr> \<and> loaded_cert env libs cfg (ts @ [(f, m)]) cert)"
      using step by (auto simp: loaded_cert_def split: outcome.splits)
    then show ?thesis using revocation_history_snoc [OF h, of "(f, m)"] by (auto simp: revocation_history_def)
  next
    case Revocation_Shutdown
    then show ?thesis using step revocation_history_snoc [OF h, of "(f, m)"] by simp
  next
    case (Revocation r)
    show ?thesis
    proof (cases "revocation_cert w")
      case None
      then show ?thesis using step Revocation revocation_history_snoc [OF h, of "(f, m)"] by simp
    next
      case (Some cert)
      obtain res m' where p: "process_revocation env libs cfg r cert (rev_machine ?w) = (res, m')" by force
      then have "w' = ?w\<lparr>rev_machine := m'\<rparr>" using step Some Revocation by (auto split: outcome.splits)
      then show ?thesis using revocation_history_process [OF h _ p] Some Revocation by simp
    qed
  qed
qed

lemma revocation_run_history:
  assumes "revocation_history env libs cfg [] w0" and "run_worker (revocation_turn env libs cfg) w0 ts = Ok w"
  shows "revocation_history env libs cfg ts w"
  using assms(2)
proof (induction ts arbitrary: w rule: rev_induct)
  case Nil
  then show ?case using assms(1) by simp
next
  case (snoc t ts)
  then obtain w1 c where "run_worker (revocation_turn env libs cfg) w0 ts = Ok w1"
    and "revocation_turn env libs cfg w1 t = Ok (w, c)"
    by (auto simp: run_worker_append and_then_Ok_iff)
  then show ?case using snoc.IH revocation_turn_history by (cases t) blast
qed

text \<open>\<^bold>\<open>C7\<close>: starting without a certificate, whatever messages the revocation worker handles in whatever
  order, and whatever other tasks do to the file system in between, every command it has run was run for
  a revocation whose signature verifies under the key of a certificate; that certificate was read, at the
  arrival of an earlier message that a payload had been decrypted, from the certificate file of the
  configuration, and the command is the program of an action found in the directories the configuration
  allows.\<close>

theorem revocations_authentic:
  assumes "revocation_cert w0 = None" and "executed (rev_machine w0) = []"
    and "run_worker (revocation_turn env libs cfg) w0 ts = Ok w"
    and "c \<in> set (executed (rev_machine w))"
  shows "\<exists>before g r after cert key f path action.
    ts = before @ (g, Revocation r) # after \<and> (f, PayloadDecrypted) \<in> set before
    \<and> rl_canonicalize libs f (rc_cert_path cfg) = Ok path
    \<and> load_x509 (sys env) (rl_certs libs) f path = Ok cert \<and> rl_public_key libs cert = Ok key
    \<and> asym_verify (rl_verifier libs) (rl_base64 libs) key (rev_msg r) (rev_signature r) = Ok True
    \<and> action_program cfg action c"
proof -
  have "revocation_history env libs cfg [] w0" using assms(1,2) by (simp add: revocation_history_def)
  from revocation_run_history [OF this assms(3)] assms(4) have "justified env libs cfg ts c"
    by (simp add: revocation_history_def)
  then show ?thesis unfolding justified_def loaded_cert_def authentic_def by blast
qed

section \<open>Lookup\<close>

text \<open>The program of an action that is a relative path lies below the action directory or, if
  payload actions are allowed, below the payload directory; an installed action hides one of the
  payload with the same name.\<close>

theorem lookup_action_confined:
  assumes "lookup_action python f payload_dir actions_dir action allow = Ok (program, is_python, is_payload)"
    and "\<not> is_absolute action" and "\<And>p. set_extension action ''py'' = Some p \<Longrightarrow> \<not> is_absolute p"
    and "actions_dir \<noteq> []" and "last actions_dir \<noteq> CHR ''/''"
    and "payload_dir \<noteq> []" and "last payload_dir \<noteq> CHR ''/''"
  shows "(below actions_dir program \<or> allow \<and> is_payload \<and> below payload_dir program)
    \<and> (is_payload \<longrightarrow> allow)
    \<and> (exists_path f (path_join actions_dir action) \<longrightarrow> program = path_join actions_dir action)"
proof -
  have shim: "below actions_dir (path_join actions_dir ''shim.py'')"
    using assms(4,5) by (simp add: path_join_below is_absolute_def)
  show ?thesis
    using assms shim
    by (auto simp: lookup_action_def possible_paths_def path_join_below split: option.splits if_splits)
qed


section \<open>A full run\<close>

lemma on_disk_executed: "on_disk op m = (r, m') \<Longrightarrow> executed m' = executed m"
  by (auto simp: on_disk_def split: outcome.splits)

lemma wait_with_output_Ok:
  assumes "wait_with_output env cmd jp m = (Ok out, m')"
  shows "executed m' = executed m @ [cmd]"
  using assms
  by (auto simp: wait_with_output_def run_command_def act_bind_Ok_iff act_lift_Ok_iff act_lift_def
      dest!: on_disk_executed split: prod.splits proc_result.splits)

lemma run_action_Ok:
  assumes "configured_action env libs cfg j action m = (Ok out, m')"
  shows "status_code out = Some 0 \<and> (\<exists>c. action_program cfg action c \<and> executed m' = executed m @ [c])"
proof -
  from assms obtain program py pay raw jp m1 m2 m3 where
    l: "lookup_action (rc_python cfg) (disk m) (path_join (rc_mount cfg) ''unzipped'') (rc_actions_dir cfg) action
      (rc_allow_payload_actions cfg) = Ok (program, py, pay)"
    and t: "new_temp_in env (rc_work_dir cfg) m = (Ok jp, m1)" and wr: "write_all_ignored env jp raw m1 = (Ok (), m2)"
    and wt: "wait_with_output env (action_command (path_join (rc_mount cfg) ''unzipped'') (rc_actions_dir cfg)
      (rc_work_dir cfg) action jp program py pay) jp m2 = (Ok out, m')"
    and s: "status_code out = Some 0"
    by (auto simp: run_action_def act_bind_Ok_iff act_lift_Ok_iff from_disk_def act_lift_def split: if_splits)
  have "executed m2 = executed m"
    using t wr by (auto simp: new_temp_in_def write_all_ignored_def Let_def split: option.splits)
  then show ?thesis using wait_with_output_Ok [OF wt] s l by (auto simp: action_program_def)
qed

lemma run_actions_Ok:
  assumes "run_actions (configured_action env libs cfg j) actions m = (Ok outs, m')"
  shows "length outs = length actions \<and> list_all (\<lambda>out. status_code out = Some 0) outs
    \<and> (\<exists>cs. list_all2 (action_program cfg) actions cs \<and> executed m' = executed m @ cs)"
  using assms
proof (induction actions arbitrary: m outs)
  case (Cons a as)
  then obtain out m1 outs' where r: "configured_action env libs cfg j a m = (Ok out, m1)"
    and rest: "run_actions (configured_action env libs cfg j) as m1 = (Ok outs', m')" and outs: "outs = out # outs'"
    by (auto simp: act_bind_Ok_iff act_lift_Ok_iff script_error_def and_then_Ok_iff split: prod.splits outcome.splits)
  obtain c where "action_program cfg a c" and "executed m1 = executed m @ [c]" and "status_code out = Some 0"
    using run_action_Ok [OF r] by blast
  moreover obtain cs where "list_all2 (action_program cfg) as cs" and "executed m' = executed m1 @ cs"
    and "length outs' = length as" and "list_all (\<lambda>out. status_code out = Some 0) outs'"
    using Cons.IH [OF rest] by blast
  ultimately show ?case using outs by (intro conjI exI [of _ "c # cs"]) auto
qed (simp add: act_lift_Ok_iff)

lemma action_list_Ok:
  assumes "action_list env libs cfg m = (Ok actions, m')"
  shows "m' = m \<and> (\<exists>config_actions file_actions. actions = config_actions @ file_actions
    \<and> parse_list (rl_list_error libs) (case rc_actions cfg of Some a \<Rightarrow> a | None \<Rightarrow> []) = Ok config_actions
    \<and> (if exists_path (disk m) (path_join (path_join (rc_mount cfg) ''unzipped'') ''action_list'')
       then \<exists>text. read_to_string (sys env) (disk m) (path_join (path_join (rc_mount cfg) ''unzipped'') ''action_list'') = Ok text
         \<and> parse_list (rl_list_error libs) text = Ok file_actions
       else file_actions = []))"
  using assms
  by (auto simp: action_list_def Let_def act_bind_Ok_iff act_lift_Ok_iff from_disk_def split: if_splits)

text \<open>When a revocation is processed without error, each action was run exactly once and exited with
  status 0: first the actions of the configuration, in their order, then those of the action list that
  came with the payload.\<close>

theorem revocation_runs_all_actions:
  assumes "run_revocation_actions env libs cfg j m = (Ok outs, m')"
  shows "\<exists>config_actions file_actions cs.
    parse_list (rl_list_error libs) (case rc_actions cfg of Some a \<Rightarrow> a | None \<Rightarrow> []) = Ok config_actions
    \<and> (if exists_path (disk m) (path_join (path_join (rc_mount cfg) ''unzipped'') ''action_list'')
       then \<exists>text. read_to_string (sys env) (disk m) (path_join (path_join (rc_mount cfg) ''unzipped'') ''action_list'') = Ok text
         \<and> parse_list (rl_list_error libs) text = Ok file_actions
       else file_actions = [])
    \<and> list_all2 (action_program cfg) (config_actions @ file_actions) cs
    \<and> executed m' = executed m @ cs \<and> length outs = length cs
    \<and> list_all (\<lambda>out. status_code out = Some 0) outs"
proof -
  from assms obtain actions m1 where l: "action_list env libs cfg m = (Ok actions, m1)"
    and r: "run_actions (configured_action env libs cfg j) actions m1 = (Ok outs, m')"
    by (auto simp: run_revocation_actions_def act_bind_Ok_iff)
  obtain config_actions file_actions where "m1 = m" and "actions = config_actions @ file_actions"
    and "parse_list (rl_list_error libs) (case rc_actions cfg of Some a \<Rightarrow> a | None \<Rightarrow> []) = Ok config_actions"
    and "if exists_path (disk m) (path_join (path_join (rc_mount cfg) ''unzipped'') ''action_list'')
      then \<exists>text. read_to_string (sys env) (disk m) (path_join (path_join (rc_mount cfg) ''unzipped'') ''action_list'') = Ok text
        \<and> parse_list (rl_list_error libs) text = Ok file_actions
      else file_actions = []"
    using action_list_Ok [OF l] by blast
  moreover obtain cs where "list_all2 (action_program cfg) actions cs" and "executed m' = executed m1 @ cs"
    and "length outs = length cs" and "list_all (\<lambda>out. status_code out = Some 0) outs"
    using run_actions_Ok [OF r] by (metis list_all2_lengthD)
  ultimately show ?thesis by blast
qed

text \<open>An action list that cannot be read as text takes the worker down: the result of reading it is
  unwrapped.\<close>

lemma unreadable_action_list_panics:
  assumes "exists_path (disk m) (path_join (path_join (rc_mount cfg) ''unzipped'') ''action_list'')"
    and "read_to_string (sys env) (disk m) (path_join (path_join (rc_mount cfg) ''unzipped'') ''action_list'') = Err e"
    and "parse_list (rl_list_error libs) (case rc_actions cfg of Some a \<Rightarrow> a | None \<Rightarrow> []) = Ok config_actions"
  shows "run_revocation_actions env libs cfg j m = (Panic, m)"
  using assms by (simp add: run_revocation_actions_def action_list_def Let_def act_bind_def act_lift_def from_disk_def)

subsection \<open>A small machine\<close>

definition machine_env_ref :: machine_env where
  "machine_env_ref =
     \<lparr>sys = quiet, proc = \<lambda>_ f. (Exited \<lparr>status_code = Some 0, stdout_bytes = [], stderr_bytes = []\<rparr>, f),
      temp_path = \<lambda>_ dir. path_join dir ''tmp'', bad_utf8 = \<lambda>s. s\<rparr>"

definition revocation_libs_ref :: "(unit, unit) revocation_libs" where
  "revocation_libs_ref =
     \<lparr>rl_to_raw = \<lambda>_. Ok ''{}'', rl_from_str = \<lambda>_. Ok JNull, rl_list_error = \<lambda>s. s, rl_public_key = Ok,
      rl_verifier = \<lambda>_ _ _ _ _. Ok (\<lambda>m sg. Ok (sg = as_bytes m)), rl_base64 = \<lambda>s. Ok (as_bytes s),
      rl_certs = \<lambda>_. Ok [()], rl_canonicalize = \<lambda>_ p. Ok p\<rparr>"

definition revocation_config_ref :: revocation_config where
  "revocation_config_ref =
     \<lparr>rc_cert_path = ''/c'', rc_actions_dir = ''/a'', rc_actions = Some ''x'', rc_allow_payload_actions = False,
      rc_work_dir = ''/w'', rc_mount = ''/m'', rc_python = False\<rparr>"

definition machine_ref :: machine where
  "machine_ref = \<lparr>disk = [''/a/x'' \<mapsto> Regular [] 0x1C0, ''/c'' \<mapsto> Regular [] 0x180], executed = []\<rparr>"

definition command_ref :: command where
  "command_ref = \<lparr>cmd_program = ''/a/x'', cmd_args = [''/w/tmp''], cmd_dir = ''/w'', cmd_env = []\<rparr>"

lemma parse_action_ref: "parse_list pe ''x'' = Ok [''x'']"
  using parse_unbracketed [of "[''x'']" "'', ''" pe]
  by (simp add: plain_name_def plain_def is_separator_def is_whitespace_def)

lemma run_action_ref:
  "\<exists>m'. configured_action machine_env_ref revocation_libs_ref revocation_config_ref j ''x'' machine_ref
     = (Ok \<lparr>status_code = Some 0, stdout_bytes = [], stderr_bytes = []\<rparr>, m') \<and> executed m' = [command_ref]"
proof -
  have "set_extension ''x'' ''py'' = Some ''x.py''" by code_simp
  then show ?thesis
    by (simp add: run_action_def lookup_action_def possible_paths_def path_join_def exists_path_def
        revocation_config_ref_def revocation_libs_ref_def machine_env_ref_def machine_ref_def act_bind_def
        act_lift_def from_disk_def new_temp_in_def write_all_ignored_def wait_with_output_def run_command_def
        on_disk_def remove_file_def action_command_def command_ref_def quiet_def with_fault_def Let_def)
qed

lemma run_revocation_actions_ref:
  "\<exists>m' outs. run_revocation_actions machine_env_ref revocation_libs_ref revocation_config_ref j machine_ref
     = (Ok outs, m') \<and> executed m' = [command_ref]
     \<and> outs = [\<lparr>status_code = Some 0, stdout_bytes = [], stderr_bytes = []\<rparr>]"
proof -
  have "action_list machine_env_ref revocation_libs_ref revocation_config_ref machine_ref = (Ok [''x''], machine_ref)"
    by (simp add: action_list_def act_bind_def act_lift_def from_disk_def revocation_config_ref_def
        revocation_libs_ref_def machine_ref_def parse_action_ref exists_path_def path_join_def Let_def)
  then show ?thesis
    using run_action_ref [of j] by (auto simp: run_revocation_actions_def act_bind_def act_lift_def)
qed

theorem revocation_runs_all_actions_witness:
  "\<exists>m' outs cs. run_revocation_actions machine_env_ref revocation_libs_ref revocation_config_ref JNull machine_ref
     = (Ok outs, m') \<and> executed m' = executed machine_ref @ cs \<and> length outs = length cs \<and> cs = [command_ref]"
proof -
  obtain m' outs where r: "run_revocation_actions machine_env_ref revocation_libs_ref revocation_config_ref JNull machine_ref
      = (Ok outs, m')" and e: "executed m' = [command_ref]" using run_revocation_actions_ref by blast
  from revocation_runs_all_actions [OF r] r e show ?thesis by (auto simp: machine_ref_def)
qed

definition revocation_ref :: revocation where
  "revocation_ref = \<lparr>rev_msg = ''m'', rev_signature = ''m''\<rparr>"

lemma process_revocation_ref:
  "\<exists>m'. process_revocation machine_env_ref revocation_libs_ref revocation_config_ref revocation_ref () machine_ref
     = (Ok (), m') \<and> executed m' = [command_ref]"
proof -
  obtain m' where "run_revocation_actions machine_env_ref revocation_libs_ref revocation_config_ref JNull machine_ref
      = (Ok [\<lparr>status_code = Some 0, stdout_bytes = [], stderr_bytes = []\<rparr>], m')" and "executed m' = [command_ref]"
    using run_revocation_actions_ref by blast
  moreover have "rl_public_key revocation_libs_ref () = Ok ()" "rl_from_str revocation_libs_ref s = Ok JNull"
    "asym_verify (rl_verifier revocation_libs_ref) (rl_base64 revocation_libs_ref) () (rev_msg revocation_ref)
       (rev_signature revocation_ref) = Ok True" for s
    by (simp_all add: revocation_libs_ref_def revocation_ref_def asym_verify_def)
  ultimately show ?thesis
    by (simp add: process_revocation_def act_bind_def act_lift_def log_output_def)
qed

theorem revocations_authentic_witness:
  "\<exists>w before g r after f path.
     run_worker (revocation_turn machine_env_ref revocation_libs_ref revocation_config_ref)
       \<lparr>revocation_cert = None, rev_machine = machine_ref\<rparr>
       [(disk machine_ref, PayloadDecrypted), (disk machine_ref, Revocation revocation_ref)] = Ok w
     \<and> command_ref \<in> set (executed (rev_machine w))
     \<and> [(disk machine_ref, PayloadDecrypted), (disk machine_ref, Revocation revocation_ref)]
         = before @ (g, Revocation r) # after
     \<and> (f, PayloadDecrypted) \<in> set before \<and> rl_canonicalize revocation_libs_ref f ''/c'' = Ok path"
proof -
  let ?turn = "revocation_turn machine_env_ref revocation_libs_ref revocation_config_ref"
  let ?w0 = "\<lparr>revocation_cert = None, rev_machine = machine_ref\<rparr> :: unit revocation_worker"
  let ?ts = "[(disk machine_ref, PayloadDecrypted), (disk machine_ref, Revocation revocation_ref)]"
  have "load_x509 (sys machine_env_ref) (rl_certs revocation_libs_ref) (disk machine_ref) ''/c'' = Ok ()"
    by (simp add: load_x509_def load_x509_cert_chain_def read_to_string_def read_file_def is_utf8_def
        machine_env_ref_def revocation_libs_ref_def machine_ref_def)
  then have l: "?turn ?w0 (disk machine_ref, PayloadDecrypted)
      = Ok (\<lparr>revocation_cert = Some (), rev_machine = machine_ref\<rparr>, False)"
    by (simp add: revocation_turn_def revocation_libs_ref_def revocation_config_ref_def)
  obtain m' where "process_revocation machine_env_ref revocation_libs_ref revocation_config_ref revocation_ref () machine_ref
     = (Ok (), m')" and e: "executed m' = [command_ref]" using process_revocation_ref by blast
  then have run: "run_worker ?turn ?w0 ?ts = Ok \<lparr>revocation_cert = Some (), rev_machine = m'\<rparr>"
    using l by (simp add: revocation_turn_def)
  have c: "command_ref \<in> set (executed (rev_machine \<lparr>revocation_cert = Some (), rev_machine = m'\<rparr>))"
    using e by simp
  have "\<exists>before g r after f path. ?ts = before @ (g, Revocation r) # after \<and> (f, PayloadDecrypted) \<in> set before
      \<and> rl_canonicalize revocation_libs_ref f ''/c'' = Ok path"
    using revocations_authentic [OF _ _ run c] by (auto simp: machine_ref_def revocation_config_ref_def)
  then show ?thesis using run c by blast
qed

theorem lookup_action_confined_witness:
  "below ''/a'' ''/a/x'' \<and> lookup_action False (disk machine_ref) ''/m/unzipped'' ''/a'' ''x'' False = Ok (''/a/x'', False, False)"
proof -
  have s: "set_extension ''x'' ''py'' = Some ''x.py''" by code_simp
  then have l: "lookup_action False (disk machine_ref) ''/m/unzipped'' ''/a'' ''x'' False = Ok (''/a/x'', False, False)"
    by (simp add: lookup_action_def possible_paths_def path_join_def exists_path_def machine_ref_def)
  from lookup_action_confined [OF l] l s show ?thesis by (simp add: is_absolute_def)
qed

end
