(* ===== verification/Payloads.thy ===== *)
theory Payloads
  imports Keys_Handler Revocation Config
begin

text \<open>
  The payload worker (\<^verbatim>\<open>keylime-agent/src/payloads.rs\<close>): it decrypts the payload the tenant sent,
  writes it and the key into a fresh directory on the secure mount, unpacks it, runs the configured
  script, makes the revocation actions of the payload executable and tells the revocation worker.
\<close>

section \<open>Trimming\<close>

text \<open>\<open>str::trim\<close>: the UTF-8 forms of the characters with the property White_Space.\<close>

definition whitespace_forms :: "string list" where
  "whitespace_forms =
     map (\<lambda>n. [char_of (n :: nat)]) [9, 10, 11, 12, 13, 32]
     @ map (map char_of)
         ([[0xC2, 0x85], [0xC2, 0xA0], [0xE1, 0x9A, 0x80]] @ map (\<lambda>n. [0xE2, 0x80, n]) [0x80 ..< 0x8B]
          @ [[0xE2, 0x80, 0xA8], [0xE2, 0x80, 0xA9], [0xE2, 0x80, 0xAF], [0xE2, 0x81, 0x9F], [0xE3, 0x80, 0x80 :: nat]])"

function trim_forms :: "string list \<Rightarrow> string \<Rightarrow> string" where
  "trim_forms ws s =
     (case List.find (\<lambda>w. w \<noteq> [] \<and> starts_with w s) ws of
        None \<Rightarrow> s
      | Some w \<Rightarrow> trim_forms ws (drop (length w) s))"
  by pat_completeness auto
termination
proof (relation "measure (\<lambda>(ws, s). length s)", goal_cases)
  case (2 ws s w)
  then have "w \<noteq> []" and "starts_with w s" by (auto simp: find_Some_iff)
  then have "s \<noteq> []" by (cases w) auto
  with \<open>w \<noteq> []\<close> show ?case by simp
qed simp

declare trim_forms.simps [simp del]

definition trim :: "string \<Rightarrow> string" where
  "trim s = rev (trim_forms (map rev whitespace_forms) (rev (trim_forms whitespace_forms s)))"

section \<open>Delivering a payload\<close>

definition string_of :: "u8 list \<Rightarrow> string" where
  "string_of bs = map (\<lambda>b. char_of (unat b)) bs"

definition decrypt_payload ::
  "gcm_decrypt_fun \<Rightarrow> symm_key \<Rightarrow> encrypted_data \<Rightarrow> (u8 list, agent_error) outcome" where
  "decrypt_payload gcm_decrypt k d = decrypt_aead gcm_decrypt (key_bytes k) (data_bytes d)"

text \<open>The libraries: the cipher and the \<open>zip\<close> crate, which opens an archive and extracts it below a
  directory.\<close>

record 'z payload_libs =
  pl_gcm :: gcm_decrypt_fun
  pl_zip_new :: "string \<Rightarrow> ('z, string) outcome"
  pl_zip_extract :: "'z \<Rightarrow> string \<Rightarrow> fs \<Rightarrow> (unit, string) outcome \<times> fs"

definition setup_unzipped ::
  "machine_env \<Rightarrow> agent_config \<Rightarrow> string \<Rightarrow> (string \<times> string \<times> string) machine_act" where
  "setup_unzipped env cfg mount =
     (let unzipped = path_join mount ''unzipped''
      in act_bind (from_disk (\<lambda>f. Ok (exists_path f unzipped))) (\<lambda>old.
         act_bind (if old then on_disk (\<lambda>f. remove_dir_all (sys env) f unzipped) else act_lift (Ok ())) (\<lambda>_.
         if ac_dec_payload_file cfg = [] then
           act_lift (Err (Configuration ''The dec_payload_path option was not set''))
         else if ac_enc_keyname cfg = [] then
           act_lift (Err (Configuration ''The enc_keyname option was not set''))
         else
           act_bind (on_disk (\<lambda>f. create_dir (sys env) f unzipped)) (\<lambda>_.
           act_lift (Ok (unzipped, path_join unzipped (ac_dec_payload_file cfg),
             path_join unzipped (ac_enc_keyname cfg)))))))"

text \<open>\<open>{:?}\<close> on a path.\<close>

definition debug_path :: "string \<Rightarrow> string" where
  "debug_path p = [CHR 0x22] @ p @ [CHR 0x22]"

text \<open>Create, write with one call, and compare the count.\<close>

definition write_new ::
  "machine_env \<Rightarrow> string \<Rightarrow> string \<Rightarrow> (nat \<Rightarrow> string) \<Rightarrow> unit machine_act" where
  "write_new env path text short_write =
     act_bind (on_disk (\<lambda>f. file_create (sys env) f path)) (\<lambda>_.
     act_bind (\<lambda>m. case file_write (sys env) (disk m) path text of
                Ok (f, n) \<Rightarrow> (Ok n, m\<lparr>disk := f\<rparr>)
              | Err e \<Rightarrow> (Err e, m)
              | Panic \<Rightarrow> (Panic, m)) (\<lambda>bytes.
     if bytes \<noteq> length text then act_lift (Err (Other (short_write bytes))) else act_lift (Ok ())))"

definition write_out_key_and_payload ::
  "machine_env \<Rightarrow> u8 list \<Rightarrow> string \<Rightarrow> symm_key \<Rightarrow> string \<Rightarrow> unit machine_act" where
  "write_out_key_and_payload env dec_payload dec_payload_path k key_path =
     act_bind (write_new env key_path (string_of (key_bytes k))
       (\<lambda>n. ''Error writing symm key to '' @ debug_path key_path @ '': key len is ''
            @ show_nat (length (key_bytes k)) @ '', but '' @ show_nat n @ '' bytes were written'')) (\<lambda>_.
     write_new env dec_payload_path (string_of dec_payload)
       (\<lambda>n. ''Error writing decrypted payload to '' @ debug_path dec_payload_path @ '': payload len is ''
            @ show_nat (length dec_payload) @ '', but '' @ show_nat n @ '' bytes were written''))"

text \<open>The script is started through the shell; its exit status is not looked at.\<close>

definition script_command :: "string \<Rightarrow> string \<Rightarrow> command" where
  "script_command dir script_path =
     \<lparr>cmd_program = ''sh'', cmd_args = [''-c'', script_path], cmd_dir = dir, cmd_env = []\<rparr>"

definition run_script :: "machine_env \<Rightarrow> string \<Rightarrow> string \<Rightarrow> unit machine_act" where
  "run_script env dir script m =
     (let script_path = path_join dir script
      in if \<not> exists_path (disk m) script_path then (Ok (), m)
         else
           (case set_permissions (sys env) (disk m) script_path 0x1C0 of
              Err e \<Rightarrow> (Err (Other (''unable to set '' @ debug_path script_path @ '' as executable'')), m)
            | Panic \<Rightarrow> (Panic, m)
            | Ok f \<Rightarrow>
                (case run_command env (script_command dir script_path) (m\<lparr>disk := f\<rparr>) of
                   (Exited _, m') \<Rightarrow> (Ok (), m')
                 | (Spawn_failed e, m') \<Rightarrow>
                     (Err (Other (debug_path script_path @ '' failed during run: '' @ e)), m')
                 | (Wait_failed e, m') \<Rightarrow>
                     (Err (Other (debug_path script_path @ '' failed during run: '' @ e)), m'))))"

definition optional_unzip_payload ::
  "machine_env \<Rightarrow> 'z payload_libs \<Rightarrow> agent_config \<Rightarrow> string \<Rightarrow> unit machine_act" where
  "optional_unzip_payload env libs cfg unzipped =
     (if ac_extract_payload_zip cfg \<and> ac_dec_payload_file cfg \<noteq> [] then
        act_bind (from_disk (\<lambda>f. with_fault (sys env) Op_open (path_join unzipped (ac_dec_payload_file cfg))
                    (read_file (sys env) f (path_join unzipped (ac_dec_payload_file cfg))))) (\<lambda>source.
        act_bind (act_lift (map_err Zip (pl_zip_new libs source))) (\<lambda>z.
        (\<lambda>m. case pl_zip_extract libs z unzipped (disk m) of (r, f) \<Rightarrow> (map_err Zip r, m\<lparr>disk := f\<rparr>))))
      else act_lift (Ok ()))"

text \<open>Execution permission for the actions listed in the payload, as far as they exist.\<close>

definition action_lines :: "string \<Rightarrow> string list" where
  "action_lines text = map trim (filter (\<lambda>l. l \<noteq> []) (split CHR 0x0A text))"

fun set_action_permissions :: "machine_env \<Rightarrow> string \<Rightarrow> string list \<Rightarrow> unit machine_act" where
  "set_action_permissions env unzipped [] = act_lift (Ok ())"
| "set_action_permissions env unzipped (l # ls) =
     (\<lambda>m. let script = path_join unzipped l
          in if \<not> exists_path (disk m) script then set_action_permissions env unzipped ls m
             else
               (case set_permissions (sys env) (disk m) script 0x1C0 of
                  Ok f \<Rightarrow> set_action_permissions env unzipped ls (m\<lparr>disk := f\<rparr>)
                | _ \<Rightarrow> (Err Permission, m)))"

definition permit_actions :: "machine_env \<Rightarrow> string \<Rightarrow> unit machine_act" where
  "permit_actions env unzipped =
     (let action_file = path_join unzipped ''action_list''
      in act_bind (from_disk (\<lambda>f. Ok (exists_path f action_file))) (\<lambda>found.
         if found then
           act_bind (from_disk (\<lambda>f. unwrap (read_to_string (sys env) f action_file))) (\<lambda>action_data.
           set_action_permissions env unzipped (action_lines action_data))
         else act_lift (Ok ())))"

text \<open>Everything \<open>run_encrypted_payload\<close> does on the machine.\<close>

definition deliver_payload ::
  "machine_env \<Rightarrow> 'z payload_libs \<Rightarrow> agent_config \<Rightarrow> string \<Rightarrow> symm_key \<Rightarrow> encrypted_data \<Rightarrow> unit machine_act" where
  "deliver_payload env libs cfg mount k d =
     act_bind (act_lift (decrypt_payload (pl_gcm libs) k d)) (\<lambda>dec_payload.
     act_bind (setup_unzipped env cfg mount) (\<lambda>(unzipped, dec_payload_path, key_path).
     act_bind (write_out_key_and_payload env dec_payload dec_payload_path k key_path) (\<lambda>_.
     act_bind (optional_unzip_payload env libs cfg unzipped) (\<lambda>_.
     act_bind (if ac_payload_script cfg = [] then act_lift (Ok ())
               else run_script env unzipped (ac_payload_script cfg)) (\<lambda>_.
     permit_actions env unzipped)))))"

section \<open>The worker\<close>

text \<open>The channel to the 0mq worker exists with the feature \<open>with-zmq\<close> only.\<close>

record payload_worker =
  pw_machine :: machine
  pw_revocation_tx :: "revocation_message chan"
  pw_zmq_tx :: "zmq_message chan option"

text \<open>A message that cannot be sent is dropped with a warning.\<close>

definition try_send :: "'m chan \<Rightarrow> 'm \<Rightarrow> 'm chan" where
  "try_send ch m = (case mpsc_send ch m of Some ch' \<Rightarrow> ch' | None \<Rightarrow> ch)"

definition run_encrypted_payload ::
  "machine_env \<Rightarrow> 'z payload_libs \<Rightarrow> agent_config \<Rightarrow> string \<Rightarrow> symm_key \<Rightarrow> encrypted_data
   \<Rightarrow> (payload_worker, unit, agent_error) act" where
  "run_encrypted_payload env libs cfg mount k d w =
     (case deliver_payload env libs cfg mount k d (pw_machine w) of
        (Ok _, m) \<Rightarrow>
          (Ok (), w\<lparr>pw_machine := m,
                    pw_revocation_tx := try_send (pw_revocation_tx w) PayloadDecrypted,
                    pw_zmq_tx := map_option (\<lambda>ch. try_send ch StartListening) (pw_zmq_tx w)\<rparr>)
      | (Err e, m) \<Rightarrow> (Err e, w\<lparr>pw_machine := m\<rparr>)
      | (Panic, m) \<Rightarrow> (Panic, w\<lparr>pw_machine := m\<rparr>))"

fun payloads_handle ::
  "machine_env \<Rightarrow> 'z payload_libs \<Rightarrow> agent_config \<Rightarrow> string \<Rightarrow> payload_worker \<Rightarrow> payload_message
   \<Rightarrow> (payload_worker \<times> bool, agent_error) outcome" where
  "payloads_handle env libs cfg mount w Payload_Shutdown = Ok (w, True)"
| "payloads_handle env libs cfg mount w (RunPayload p) =
     (case run_encrypted_payload env libs cfg mount (payload_symm_key p) (encrypted_payload p) w of
        (Panic, _) \<Rightarrow> Panic
      | (_, w') \<Rightarrow> Ok (w', False))"

section \<open>What delivering a payload does\<close>

lemma unzipped_below:
  "\<not> is_absolute p \<Longrightarrow> below (path_join mount ''unzipped'') (path_join (path_join mount ''unzipped'') p)"
proof -
  assume "\<not> is_absolute p"
  moreover have "last (path_join mount ''unzipped'') \<noteq> CHR ''/''" "path_join mount ''unzipped'' \<noteq> []"
    by (auto simp: path_join_def)
  ultimately show ?thesis by (simp add: path_join_below)
qed

lemma write_new_quiet:
  assumes "sys env = quiet" and "disk m p = None"
  shows "write_new env p bs short m = (Ok (), m\<lparr>disk := (disk m)(p \<mapsto> Regular bs 0x1A4)\<rparr>)"
  using assms
  by (simp add: write_new_def act_bind_def on_disk_def file_create_def file_write_def act_lift_def Let_def)

text \<open>The file system with the directory emptied.\<close>

definition cleared :: "fs \<Rightarrow> string \<Rightarrow> fs" where
  "cleared f dir = (\<lambda>q. if q = dir \<or> below dir q then None else f q)"

lemma cleared_self [simp]: "cleared f dir dir = None"
  by (simp add: cleared_def)

lemma cleared_below [simp]: "below dir p \<Longrightarrow> cleared f dir p = None"
  by (simp add: cleared_def)

text \<open>Nothing lies below a path that is not there.\<close>

definition rooted :: "fs \<Rightarrow> string \<Rightarrow> bool" where
  "rooted f dir \<longleftrightarrow> (\<forall>p. below dir p \<and> exists_path f p \<longrightarrow> exists_path f dir)"

lemma setup_unzipped_quiet:
  fixes mount :: string
  defines "dir \<equiv> path_join mount ''unzipped''"
  assumes "sys env = quiet" and "ac_dec_payload_file cfg \<noteq> []" and "ac_enc_keyname cfg \<noteq> []"
    and "rooted (disk m) dir"
  shows "setup_unzipped env cfg mount m
    = (Ok (dir, path_join dir (ac_dec_payload_file cfg), path_join dir (ac_enc_keyname cfg)),
       m\<lparr>disk := (cleared (disk m) dir)(dir \<mapsto> Directory)\<rparr>)"
proof (cases "exists_path (disk m) dir")
  case True
  then show ?thesis using assms(2-4)
    by (simp add: setup_unzipped_def dir_def [symmetric] act_bind_def from_disk_def on_disk_def remove_dir_all_def
        create_dir_def act_lift_def cleared_def exists_path_def fun_upd_def Let_def)
next
  case False
  then have "disk m p = None" if "p = dir \<or> below dir p" for p
    using that assms(5) by (cases "disk m p") (auto simp: rooted_def exists_path_def)
  then have c: "cleared (disk m) dir = disk m" by (auto simp: cleared_def)
  show ?thesis using False assms(2-4)
    by (simp add: setup_unzipped_def dir_def [symmetric] act_bind_def from_disk_def on_disk_def
        create_dir_def act_lift_def exists_path_def c Let_def)
qed

lemma try_send_open: "\<not> closed ch \<Longrightarrow> try_send ch m = ch\<lparr>queue := queue ch @ [m]\<rparr>"
  by (simp add: try_send_def mpsc_send_def)

lemma permit_actions_none:
  "disk m (path_join dir ''action_list'') = None \<Longrightarrow> permit_actions env dir m = (Ok (), m)"
  by (simp add: permit_actions_def act_bind_def from_disk_def act_lift_def exists_path_def Let_def)

lemma run_encrypted_payload_quiet:
  fixes mount :: string
  defines "dir \<equiv> path_join mount ''unzipped''"
  assumes "decrypt_payload (pl_gcm libs) k d = Ok data"
    and "sys env = quiet" and "\<not> ac_extract_payload_zip cfg" and "ac_payload_script cfg = []"
    and "ac_dec_payload_file cfg \<noteq> []" and "ac_enc_keyname cfg \<noteq> []"
    and "\<not> is_absolute (ac_dec_payload_file cfg)" and "\<not> is_absolute (ac_enc_keyname cfg)"
    and "distinct [path_join dir (ac_dec_payload_file cfg), path_join dir (ac_enc_keyname cfg), path_join dir ''action_list'']"
    and "rooted (disk (pw_machine w)) dir"
    and "\<not> closed (pw_revocation_tx w)"
  shows "\<exists>w'. run_encrypted_payload env libs cfg mount k d w = (Ok (), w')
    \<and> disk (pw_machine w')
        = (cleared (disk (pw_machine w)) dir)
            (dir \<mapsto> Directory, path_join dir (ac_enc_keyname cfg) \<mapsto> Regular (string_of (key_bytes k)) 0x1A4,
             path_join dir (ac_dec_payload_file cfg) \<mapsto> Regular (string_of data) 0x1A4)
    \<and> executed (pw_machine w') = executed (pw_machine w)
    \<and> queue (pw_revocation_tx w') = queue (pw_revocation_tx w) @ [PayloadDecrypted]
    \<and> pw_zmq_tx w' = map_option (\<lambda>ch. try_send ch StartListening) (pw_zmq_tx w)"
proof -
  let ?m = "pw_machine w"
  let ?m1 = "?m\<lparr>disk := (cleared (disk ?m) dir)(dir \<mapsto> Directory)\<rparr>"
  have b: "below dir (path_join dir p)" if "\<not> is_absolute p" for p
    using unzipped_below [OF that, of mount] by (simp add: dir_def)
  have ne: "below dir p \<Longrightarrow> p \<noteq> dir" for p by (auto simp: below_def starts_with_iff)
  have prep: "setup_unzipped env cfg mount ?m
      = (Ok (dir, path_join dir (ac_dec_payload_file cfg), path_join dir (ac_enc_keyname cfg)), ?m1)"
    unfolding dir_def by (rule setup_unzipped_quiet) (use assms in \<open>auto simp: dir_def\<close>)
  have a: "below dir (path_join dir ''action_list'')" by (simp add: b is_absolute_def)
  have fresh: "disk ?m1 (path_join dir (ac_enc_keyname cfg)) = None" "disk ?m1 (path_join dir (ac_dec_payload_file cfg)) = None"
    "disk ?m1 (path_join dir ''action_list'') = None"
    using b [OF assms(8)] b [OF assms(9)] a ne by auto
  then have written: "write_out_key_and_payload env data (path_join dir (ac_dec_payload_file cfg)) k
      (path_join dir (ac_enc_keyname cfg)) ?m1
      = (Ok (), ?m1\<lparr>disk := (disk ?m1)(path_join dir (ac_enc_keyname cfg) \<mapsto> Regular (string_of (key_bytes k)) 0x1A4,
             path_join dir (ac_dec_payload_file cfg) \<mapsto> Regular (string_of data) 0x1A4)\<rparr>)" (is "_ = (Ok (), ?m2)")
    using assms(3,10) by (simp add: write_out_key_and_payload_def act_bind_def write_new_quiet)
  have "disk ?m2 (path_join dir ''action_list'') = None" using fresh(3) assms(10) by auto
  then have "permit_actions env dir ?m2 = (Ok (), ?m2)" by (rule permit_actions_none)
  then have "deliver_payload env libs cfg mount k d ?m = (Ok (), ?m2)"
    using assms(2,4,5) prep written
    by (simp add: deliver_payload_def act_bind_def act_lift_def optional_unzip_payload_def)
  then show ?thesis using assms(12) by (simp add: run_encrypted_payload_def try_send_open)
qed

text \<open>When the payload decrypts and the system reports no failure, the worker empties the directory
  \<open>unzipped\<close> of the secure mount, puts exactly the key and the decrypted payload into it, touches nothing
  else, runs no program (none is configured) and tells the revocation and the 0mq workers.\<close>

theorem payload_delivered:
  fixes mount :: string
  defines "dir \<equiv> path_join mount ''unzipped''"
  assumes "decrypt_payload (pl_gcm libs) k d = Ok data"
    and "sys env = quiet" and "\<not> ac_extract_payload_zip cfg" and "ac_payload_script cfg = []"
    and "ac_dec_payload_file cfg \<noteq> []" and "ac_enc_keyname cfg \<noteq> []"
    and "\<not> is_absolute (ac_dec_payload_file cfg)" and "\<not> is_absolute (ac_enc_keyname cfg)"
    and "distinct [path_join dir (ac_dec_payload_file cfg), path_join dir (ac_enc_keyname cfg), path_join dir ''action_list'']"
    and "rooted (disk (pw_machine w)) dir"
    and "\<not> closed (pw_revocation_tx w)"
  shows "\<exists>w'. run_encrypted_payload env libs cfg mount k d w = (Ok (), w')
    \<and> disk (pw_machine w')
        = (cleared (disk (pw_machine w)) dir)
            (dir \<mapsto> Directory, path_join dir (ac_enc_keyname cfg) \<mapsto> Regular (string_of (key_bytes k)) 0x1A4,
             path_join dir (ac_dec_payload_file cfg) \<mapsto> Regular (string_of data) 0x1A4)
    \<and> executed (pw_machine w') = executed (pw_machine w)
    \<and> queue (pw_revocation_tx w') = queue (pw_revocation_tx w) @ [PayloadDecrypted]
    \<and> pw_zmq_tx w' = map_option (\<lambda>ch. try_send ch StartListening) (pw_zmq_tx w)"
  unfolding dir_def by (rule run_encrypted_payload_quiet) (use assms in \<open>auto simp: dir_def\<close>)

text \<open>Programs: the script of the configuration, and only that.\<close>

definition payload_program :: "agent_config \<Rightarrow> string \<Rightarrow> command \<Rightarrow> bool" where
  "payload_program cfg dir c \<longleftrightarrow> ac_payload_script cfg \<noteq> [] \<and> c = script_command dir (path_join dir (ac_payload_script cfg))"

lemma write_new_within: "act_within (runs_only P) (write_new env p bs short)"
  unfolding write_new_def
  by (intro runs_only_bind runs_only_disk)
    (auto simp: act_within_def act_lift_def runs_only_def split: outcome.split)

lemma set_action_permissions_within: "act_within (runs_only P) (set_action_permissions env dir ls)"
proof -
  have "executed (snd (set_action_permissions env dir ls m)) = executed m" for m
    by (induction ls arbitrary: m) (auto simp: act_lift_def Let_def split: outcome.split)
  then show ?thesis by (simp add: act_within_def runs_only_same)
qed

lemma permit_actions_within: "act_within (runs_only P) (permit_actions env dir)"
  unfolding permit_actions_def Let_def
  by (intro runs_only_bind runs_only_from_disk)
    (auto intro!: runs_only_bind runs_only_from_disk runs_only_lift set_action_permissions_within)

lemma unzip_within: "act_within (runs_only P) (optional_unzip_payload env libs cfg dir)"
  unfolding optional_unzip_payload_def
  by (auto intro!: runs_only_bind runs_only_from_disk runs_only_lift)
    (auto simp: act_within_def runs_only_def split: prod.split)

lemma setup_unzipped_within: "act_within (runs_only P) (setup_unzipped env cfg mount)"
  unfolding setup_unzipped_def Let_def
  by (intro runs_only_bind runs_only_from_disk)
    (auto intro!: runs_only_bind runs_only_disk runs_only_lift)

lemma run_script_within:
  "ac_payload_script cfg \<noteq> [] \<Longrightarrow>
     act_within (runs_only (payload_program cfg dir)) (run_script env dir (ac_payload_script cfg))"
proof -
  assume s: "ac_payload_script cfg \<noteq> []"
  let ?c = "script_command dir (path_join dir (ac_payload_script cfg))"
  have "runs_only (payload_program cfg dir) m (snd (run_script env dir (ac_payload_script cfg) m))" for m
  proof -
    have "runs_only (payload_program cfg dir) (m\<lparr>disk := f\<rparr>) (snd (run_command env ?c (m\<lparr>disk := f\<rparr>)))" for f
      by (rule runs_only_command) (simp add: payload_program_def s)
    then have "runs_only (payload_program cfg dir) m (snd (run_command env ?c (m\<lparr>disk := f\<rparr>)))" for f
      by (simp add: runs_only_def)
    then have "runs_only (payload_program cfg dir) m m'" if "run_command env ?c (m\<lparr>disk := f\<rparr>) = (r, m')" for f r m'
      by (metis snd_conv that)
    then show ?thesis
      by (auto simp: run_script_def Let_def runs_only_same split: outcome.split prod.split proc_result.split)
  qed
  then show ?thesis by (simp add: act_within_def)
qed

lemma setup_unzipped_dir:
  "setup_unzipped env cfg mount m = (Ok (u, p, q), m') \<Longrightarrow> u = path_join mount ''unzipped''"
  by (auto simp: setup_unzipped_def Let_def act_bind_Ok_iff act_lift_Ok_iff from_disk_def split: if_splits)

lemma deliver_payload_within:
  "act_within (runs_only (payload_program cfg (path_join mount ''unzipped''))) (deliver_payload env libs cfg mount k d)"
proof -
  have rest: "act_within (runs_only (payload_program cfg dir))
     (act_bind (write_out_key_and_payload env data p k q) (\<lambda>_.
      act_bind (optional_unzip_payload env libs cfg dir) (\<lambda>_.
      act_bind (if ac_payload_script cfg = [] then act_lift (Ok ())
                else run_script env dir (ac_payload_script cfg)) (\<lambda>_. permit_actions env dir))))" for data p q dir
    unfolding write_out_key_and_payload_def
    by (intro runs_only_bind write_new_within unzip_within permit_actions_within)
      (simp add: runs_only_lift run_script_within)
  show ?thesis
    unfolding deliver_payload_def
    by (intro runs_only_bind runs_only_lift runs_only_bind_Ok setup_unzipped_within)
      (auto dest!: setup_unzipped_dir intro: rest)
qed

text \<open>The only program the payload worker ever starts for a payload is the script named in the
  configuration, in the directory of the payload, and only if one is named; a payload that does not
  decrypt is reported and changes nothing at all; the other workers are told only of a payload that was
  delivered completely.\<close>

theorem payload_confined:
  assumes "run_encrypted_payload env libs cfg mount k d w = (r, w')"
  shows "(\<exists>cs. executed (pw_machine w') = executed (pw_machine w) @ cs
      \<and> list_all (\<lambda>c. ac_payload_script cfg \<noteq> []
          \<and> c = script_command (path_join mount ''unzipped'')
                  (path_join (path_join mount ''unzipped'') (ac_payload_script cfg))) cs)
    \<and> (\<forall>e. decrypt_payload (pl_gcm libs) k d = Err e \<longrightarrow> r = Err e \<and> w' = w)
    \<and> (r \<noteq> Ok () \<longrightarrow> pw_revocation_tx w' = pw_revocation_tx w \<and> pw_zmq_tx w' = pw_zmq_tx w)"
proof (intro conjI)
  obtain x m where d: "deliver_payload env libs cfg mount k d (pw_machine w) = (x, m)" by force
  then have "runs_only (payload_program cfg (path_join mount ''unzipped'')) (pw_machine w) m"
    by (rule act_withinD [OF deliver_payload_within])
  moreover have "pw_machine w' = m" using assms d by (auto simp: run_encrypted_payload_def split: outcome.splits)
  ultimately show "\<exists>cs. executed (pw_machine w') = executed (pw_machine w) @ cs
      \<and> list_all (\<lambda>c. ac_payload_script cfg \<noteq> []
          \<and> c = script_command (path_join mount ''unzipped'')
                  (path_join (path_join mount ''unzipped'') (ac_payload_script cfg))) cs"
    by (simp add: runs_only_def payload_program_def [abs_def])
next
  show "\<forall>e. decrypt_payload (pl_gcm libs) k d = Err e \<longrightarrow> r = Err e \<and> w' = w"
    using assms by (auto simp: run_encrypted_payload_def deliver_payload_def act_bind_def act_lift_def)
next
  show "r \<noteq> Ok () \<longrightarrow> pw_revocation_tx w' = pw_revocation_tx w \<and> pw_zmq_tx w' = pw_zmq_tx w"
    using assms by (auto simp: run_encrypted_payload_def split: prod.splits outcome.splits)
qed

text \<open>The comment above \<open>run\<close> says that it checks the status; a script that fails counts as run.\<close>

lemma script_status_ignored:
  assumes "exists_path (disk m) (path_join dir script)"
    and "set_permissions (sys env) (disk m) (path_join dir script) 0x1C0 = Ok f"
    and "proc env (script_command dir (path_join dir script)) f = (Exited out, f')"
  shows "run_script env dir script m = (Ok (), m\<lparr>disk := f', executed := executed m @ [script_command dir (path_join dir script)]\<rparr>)"
  using assms by (simp add: run_script_def run_command_def Let_def)

text \<open>An \<open>action_list\<close> in the payload that is not text takes the payload worker down.\<close>

lemma permit_actions_panics:
  assumes "exists_path (disk m) (path_join dir ''action_list'')"
    and "read_to_string (sys env) (disk m) (path_join dir ''action_list'') = Err e"
  shows "permit_actions env dir m = (Panic, m)"
  using assms by (simp add: permit_actions_def act_bind_def from_disk_def Let_def)

section \<open>A delivery\<close>

definition payload_libs_ref :: "unit payload_libs" where
  "payload_libs_ref =
     \<lparr>pl_gcm = gcm_decrypt_ref, pl_zip_new = \<lambda>_. Err ''invalid Zip archive'', pl_zip_extract = \<lambda>_ _ f. (Ok (), f)\<rparr>"

definition payload_config_ref :: agent_config where
  "payload_config_ref = (agent_config_default 0)\<lparr>ac_extract_payload_zip := False, ac_payload_script := []\<rparr>"

definition payload_worker_ref :: payload_worker where
  "payload_worker_ref =
     \<lparr>pw_machine = \<lparr>disk = [''/m'' \<mapsto> Directory, ''/m/unzipped'' \<mapsto> Directory, ''/m/unzipped/old'' \<mapsto> Regular ''x'' 0x1A4],
                   executed = []\<rparr>,
      pw_revocation_tx = open_chan, pw_zmq_tx = None\<rparr>"

lemma payload_config_ref_simps [simp]:
  "\<not> ac_extract_payload_zip payload_config_ref" "ac_payload_script payload_config_ref = []"
  "ac_dec_payload_file payload_config_ref = ''decrypted_payload''" "ac_enc_keyname payload_config_ref = ''derived_tci_key''"
  by (simp_all add: payload_config_ref_def agent_config_default_def DEFAULT_DEC_PAYLOAD_FILE_def DEFAULT_ENC_KEYNAME_def)

lemma payload_worker_ref_tree: "rooted (disk (pw_machine payload_worker_ref)) ''/m/unzipped''"
  by (simp add: payload_worker_ref_def rooted_def exists_path_def)

definition delivered_ref :: encrypted_data where
  "delivered_ref = \<lparr>data_bytes = replicate 16 7 @ [1, 2, 3] @ replicate 16 1\<rparr>"

lemma decrypt_payload_ref:
  "decrypt_payload gcm_decrypt_ref \<lparr>key_bytes = replicate 16 6\<rparr> delivered_ref = Ok [1, 2, 3]"
proof -
  have "gcm_cipher_for (length (replicate 16 (6 :: u8))) = Ok Aes_128_gcm"
    by (simp add: gcm_cipher_for_def length_constants)
  from decrypt_aead_layout [OF this, of "replicate 16 7" "replicate 16 1" gcm_decrypt_ref "[1, 2, 3]"]
  show ?thesis by (simp add: decrypt_payload_def delivered_ref_def length_constants gcm_decrypt_ref_def)
qed

theorem payload_delivered_witness:
  "\<exists>w'. run_encrypted_payload machine_env_ref payload_libs_ref payload_config_ref ''/m'' \<lparr>key_bytes = replicate 16 6\<rparr>
       delivered_ref payload_worker_ref = (Ok (), w')
     \<and> disk (pw_machine w') ''/m/unzipped/decrypted_payload'' = Some (Regular (string_of [1, 2, 3]) 0x1A4)
     \<and> disk (pw_machine w') ''/m/unzipped/old'' = None
     \<and> queue (pw_revocation_tx w') = [PayloadDecrypted]"
proof -
  have "\<not> closed (pw_revocation_tx payload_worker_ref)" "queue (pw_revocation_tx payload_worker_ref) = []"
    by (simp_all add: payload_worker_ref_def open_chan_def)
  then show ?thesis
    using payload_delivered [of payload_libs_ref "\<lparr>key_bytes = replicate 16 6\<rparr>" delivered_ref "[1, 2, 3]"
        machine_env_ref payload_config_ref "''/m''" payload_worker_ref] payload_worker_ref_tree
    by (fastforce simp: payload_libs_ref_def decrypt_payload_ref machine_env_ref_def is_absolute_def path_join_def
        cleared_def below_def)
qed

theorem payload_confined_witness:
  "\<exists>e. run_encrypted_payload machine_env_ref payload_libs_ref payload_config_ref ''/m'' \<lparr>key_bytes = [6]\<rparr>
       delivered_ref payload_worker_ref = (Err e, payload_worker_ref)"
proof -
  obtain e where "decrypt_payload (pl_gcm payload_libs_ref) \<lparr>key_bytes = [6]\<rparr> delivered_ref = Err e"
    by (simp add: decrypt_payload_def decrypt_aead_def gcm_cipher_for_def length_constants)
  moreover obtain r w' where r: "run_encrypted_payload machine_env_ref payload_libs_ref payload_config_ref ''/m'' \<lparr>key_bytes = [6]\<rparr>
       delivered_ref payload_worker_ref = (r, w')" by force
  ultimately show ?thesis using payload_confined [OF r] r by blast
qed

end
