(* ===== verification/Startup.thy ===== *)
theory Startup
  imports Startup_Keys Quotes_Handler Payloads
begin

text \<open>
  \<open>main\<close> of \<^verbatim>\<open>keylime-agent/src/main.rs\<close> as a whole: the host is prepared, the keys are collected, the agent enrols with
  the registrar, and the server and its workers get their settings.
\<close>

section \<open>The environment and what the stages hand on\<close>

record ('c, 'k, 'pub, 'priv, 's, 'sig, 'spki, 'pkey, 'cert, 'sk, 'spub, 'tcti) startup_env =
  su_host :: host_env
  su_tpm :: "('c, 'k, 'pub, 'priv, 's, 'sig) tpm_libs"
  su_ssl :: "('pub, 'spki, 'pkey, 'cert, 'sk, 'spub) ssl_libs"
  su_text :: text_libs
  su_registrar :: "'cert registrar_env"
  su_tcti_var :: "string option"
  su_tcti_parse :: "string \<Rightarrow> ('tcti, tss_error) outcome"
  su_connect :: "'tcti \<Rightarrow> ('c, tss_error) outcome"
  su_bind :: "string \<Rightarrow> ('cert, 'sk) ssl_acceptor option \<Rightarrow> (unit, string) outcome"
  su_python :: bool

record ('k, 'pub, 'priv, 'sig, 'cert) agent_identity =
  ai_uuid :: string
  ai_enc_alg :: encryption_algorithm
  ai_hash_alg :: hash_algorithm
  ai_sign_alg :: sign_algorithm
  ai_iak_cert :: "'cert option"
  ai_idevid_cert :: "'cert option"
  ai_device :: "(('pub \<times> 'k) \<times> 'pub \<times> 'k) option"
  ai_ek :: "('k, 'pub) ek_result"
  ai_ak_handle :: 'k
  ai_ak :: "('pub, 'priv) ak_result"
  ai_attestation :: "(attest \<times> 'sig) option"

record ('cert, 'sk, 'spub) server_keys =
  sk_public :: 'spub
  sk_private :: 'sk
  sk_tls :: "('cert \<times> ('cert, 'sk) ssl_acceptor) option"

text \<open>The agent once it listens: \<open>QuoteData\<close>, the arguments of the workers, the socket.\<close>

record ('k, 'cert, 'sk, 'spub) running_agent =
  ra_uuid :: string
  ra_quote_data :: "('spub, 'k) quote_data"
  ra_priv_key :: 'sk
  ra_ima_log :: "string option"
  ra_measuredboot_log :: "string option"
  ra_secure_mount :: string
  ra_revocation :: revocation_config
  ra_run_payload :: bool
  ra_listen :: string
  ra_ssl :: "('cert, 'sk) ssl_acceptor option"

abbreviation su_os :: "('c, 'k, 'pub, 'priv, 's, 'sig, 'spki, 'pkey, 'cert, 'sk, 'spub, 'tcti) startup_env \<Rightarrow> os" where
  "su_os env \<equiv> sys (he_machine (su_host env))"

section \<open>Keys\<close>

text \<open>With the legacy Python actions compiled in, their shim has to be installed.\<close>

definition check_python_shim :: "bool \<Rightarrow> agent_config \<Rightarrow> fs \<Rightarrow> (unit, agent_error) outcome" where
  "check_python_shim python cfg f =
     (let shim = path_join (ac_revocation_actions_dir cfg) ''shim.py''
      in if python \<and> \<not> exists_path f shim then Err (Configuration (''Could not find python shim at '' @ shim)) else Ok ())"

definition collect_identity ::
  "('c, 'k, 'pub, 'priv, 's, 'sig, 'spki, 'pkey, 'cert, 'sk, 'spub, 'tcti) startup_env \<Rightarrow> agent_config
   \<Rightarrow> ('c, ('k, 'pub, 'priv, 'sig, 'cert) agent_identity) world_act" where
  "collect_identity env cfg =
     (let tp = su_tpm env; sl = su_ssl env; xl = su_text env
      in act_bind (in_tss (tl_vendor tp)) (\<lambda>_.
         act_bind (from_host (check_python_shim (su_python env) cfg)) (\<lambda>_.
         act_bind (set_owner_password tp cfg) (\<lambda>_.
         act_bind (act_lift (configured_algorithms cfg)) (\<lambda>(enc, hash, sign).
         act_bind (from_host (identity_certs (su_os env) sl cfg)) (\<lambda>(iak_cert, idevid_cert).
         act_bind (device_identity tp sl cfg iak_cert idevid_cert) (\<lambda>device.
         act_bind (endorsement_key tp cfg enc) (\<lambda>ek.
         act_bind (act_lift (ek_identity sl (ek_public ek))) (\<lambda>ekh.
         act_bind (old_ak (su_os env) xl tp cfg hash sign ekh (ek_key_handle ek)) (\<lambda>old.
         act_bind (attestation_key tp hash sign (ek_key_handle ek) old) (\<lambda>(ak_handle, ak).
         act_bind (store_agent_data (su_os env) xl tp cfg hash sign ekh ak) (\<lambda>_.
         act_bind (certify_ak tp (agent_uuid cfg ekh) ak_handle device) (\<lambda>attestation.
         act_lift (Ok \<lparr>ai_uuid = agent_uuid cfg ekh, ai_enc_alg = enc, ai_hash_alg = hash, ai_sign_alg = sign,
           ai_iak_cert = iak_cert, ai_idevid_cert = idevid_cert, ai_device = device, ai_ek = ek,
           ai_ak_handle = ak_handle, ai_ak = ak, ai_attestation = attestation\<rparr>))))))))))))))"

definition collect_server_keys ::
  "('c, 'k, 'pub, 'priv, 's, 'sig, 'spki, 'pkey, 'cert, 'sk, 'spub, 'tcti) startup_env \<Rightarrow> agent_config \<Rightarrow> string
   \<Rightarrow> ('c, ('cert, 'sk, 'spub) server_keys) world_act" where
  "collect_server_keys env cfg uuid =
     act_bind (in_machine (in_disk (server_key_pair (su_os env) (su_ssl env) cfg))) (\<lambda>(nk_pub, nk_priv).
     act_bind (in_machine (in_disk (tls_setup (su_os env) (su_text env) (su_ssl env) cfg uuid nk_priv))) (\<lambda>tls.
     act_lift (Ok \<lparr>sk_public = nk_pub, sk_private = nk_priv, sk_tls = tls\<rparr>)))"

section \<open>Enrolment\<close>

definition registration_of ::
  "('c, 'k, 'pub, 'priv, 's, 'sig) tpm_libs \<Rightarrow> agent_config \<Rightarrow> ('k, 'pub, 'priv, 'sig, 'cert) agent_identity
   \<Rightarrow> 'cert option \<Rightarrow> ('cert registration, agent_error) outcome" where
  "registration_of tp cfg ai mtls_cert =
     (let marshall = (\<lambda>p. map_err error_from_tss (tl_marshall tp p));
          base = (\<lambda>ek_tpm aik_tpm.
            \<lparr>rn_ek_tpm = ek_tpm, rn_ekcert = ek_cert (ai_ek ai), rn_aik_tpm = aik_tpm, rn_iak_tpm = None,
             rn_idevid_tpm = None, rn_idevid_cert = None, rn_iak_cert = None, rn_iak_attest = None, rn_iak_sign = None,
             rn_mtls_cert = mtls_cert, rn_ip = ac_contact_ip cfg, rn_port = unat (ac_contact_port cfg)\<rparr>)
      in if ac_enable_iak_idevid cfg then
           (case (ai_device ai, ai_attestation ai) of
              (Some (iak, idevid), Some (att, sig)) \<Rightarrow>
                and_then (marshall (ek_public (ai_ek ai))) (\<lambda>ek_tpm.
                and_then (marshall (ak_result_public (ai_ak ai))) (\<lambda>aik_tpm.
                and_then (marshall (fst iak)) (\<lambda>iak_tpm.
                and_then (marshall (fst idevid)) (\<lambda>idevid_tpm.
                and_then (map_err error_from_tss (tl_marshall_attest tp att)) (\<lambda>iak_attest.
                and_then (map_err error_from_tss (tl_marshall_signature tp sig)) (\<lambda>iak_sign.
                Ok ((base ek_tpm aik_tpm)\<lparr>rn_iak_tpm := Some iak_tpm, rn_idevid_tpm := Some idevid_tpm,
                      rn_idevid_cert := ai_idevid_cert ai, rn_iak_cert := ai_iak_cert ai,
                      rn_iak_attest := Some iak_attest, rn_iak_sign := Some iak_sign\<rparr>)))))))
            | _ \<Rightarrow> Err (Configuration ''IDevID and IAK are enabled but could not be generated''))
         else
           and_then (marshall (ek_public (ai_ek ai))) (\<lambda>ek_tpm.
           and_then (marshall (ak_result_public (ai_ak ai))) (\<lambda>aik_tpm.
           Ok (base ek_tpm aik_tpm))))"

text \<open>The proof that the credential was recovered: an HMAC of the identity under the base64 text of the key.\<close>

definition credential_tag ::
  "('c, 'k, 'pub, 'priv, 's, 'sig, 'spki, 'pkey, 'cert, 'sk, 'spub, 'tcti) startup_env \<Rightarrow> u8 list \<Rightarrow> string
   \<Rightarrow> (string, agent_error) outcome" where
  "credential_tag env key uuid =
     and_then (compute_hmac (sl_hmac (su_ssl env)) (as_bytes (b64_encode (re_codec (su_registrar env)) key)) (as_bytes uuid))
       (\<lambda>tag. Ok (sl_hex (su_ssl env) tag))"

definition prove_credential ::
  "('c, 'k, 'pub, 'priv, 's, 'sig, 'spki, 'pkey, 'cert, 'sk, 'spub, 'tcti) startup_env \<Rightarrow> agent_config
   \<Rightarrow> ('k, 'pub, 'priv, 'sig, 'cert) agent_identity \<Rightarrow> u8 list \<Rightarrow> ('c, unit) world_act" where
  "prove_credential env cfg ai blob =
     (let tp = su_tpm env; ek_h = ek_key_handle (ai_ek ai)
      in act_bind (in_tpm (activate_credential (tl_keys tp) blob (ai_ak_handle ai) ek_h)) (\<lambda>key.
         act_bind (if ac_ek_handle cfg = [] then in_tss (tl_flush tp ek_h) else act_lift (Ok ())) (\<lambda>_.
         act_bind (act_lift (credential_tag env key (ai_uuid ai))) (\<lambda>auth_tag.
         in_net (do_activate_agent (su_registrar env) (ac_registrar_ip cfg) (unat (ac_registrar_port cfg)) (ai_uuid ai) auth_tag)))))"

definition enrol ::
  "('c, 'k, 'pub, 'priv, 's, 'sig, 'spki, 'pkey, 'cert, 'sk, 'spub, 'tcti) startup_env \<Rightarrow> agent_config
   \<Rightarrow> ('k, 'pub, 'priv, 'sig, 'cert) agent_identity \<Rightarrow> 'cert option \<Rightarrow> ('c, unit) world_act" where
  "enrol env cfg ai mtls_cert =
     act_bind (act_lift (registration_of (su_tpm env) cfg ai mtls_cert)) (\<lambda>rn.
     act_bind (in_net (do_register_agent (su_registrar env) (ac_registrar_ip cfg) (unat (ac_registrar_port cfg)) (ai_uuid ai) rn)) (\<lambda>blob.
     prove_credential env cfg ai blob))"

section \<open>Serving\<close>

definition revocation_settings :: "bool \<Rightarrow> agent_config \<Rightarrow> string \<Rightarrow> (revocation_config, agent_error) outcome" where
  "revocation_settings python cfg mnt =
     (if ac_revocation_cert cfg = [] then
        Err (Configuration (''No revocation certificate set in '' @ [CHR 0x27] @ ''revocation_cert'' @ [CHR 0x27] @ '' option''))
      else
        Ok \<lparr>rc_cert_path = ac_revocation_cert cfg, rc_actions_dir = ac_revocation_actions_dir cfg,
            rc_actions = (if ac_revocation_actions cfg = [] then None else Some (ac_revocation_actions cfg)),
            rc_allow_payload_actions = ac_allow_payload_revocation_actions cfg, rc_work_dir = ac_keylime_dir cfg,
            rc_mount = mnt, rc_python = python\<rparr>)"

definition serve ::
  "('c, 'k, 'pub, 'priv, 's, 'sig, 'spki, 'pkey, 'cert, 'sk, 'spub, 'tcti) startup_env \<Rightarrow> agent_config \<Rightarrow> string
   \<Rightarrow> string option \<Rightarrow> string option \<Rightarrow> ('k, 'pub, 'priv, 'sig, 'cert) agent_identity \<Rightarrow> ('cert, 'sk, 'spub) server_keys
   \<Rightarrow> (('k, 'cert, 'sk, 'spub) running_agent, agent_error) outcome" where
  "serve env cfg mnt ima_log mb_log ai sk =
     (let ssl = (if ac_enable_agent_mtls cfg then map_option snd (sk_tls sk) else None);
          address = ac_ip cfg @ '':'' @ show_nat (unat (ac_port cfg))
      in and_then (revocation_settings (su_python env) cfg mnt) (\<lambda>rev.
         and_then (map_err Io (su_bind env address ssl)) (\<lambda>_.
         Ok \<lparr>ra_uuid = ai_uuid ai,
             ra_quote_data = \<lparr>qd_pub_key = sk_public sk, qd_ak_handle = ai_ak_handle ai, qd_hash_alg = ai_hash_alg ai,
               qd_enc_alg = ai_enc_alg ai, qd_sign_alg = ai_sign_alg ai\<rparr>,
             ra_priv_key = sk_private sk, ra_ima_log = ima_log, ra_measuredboot_log = mb_log, ra_secure_mount = mnt,
             ra_revocation = rev, ra_run_payload = (ac_enable_agent_mtls cfg \<or> ac_enable_insecure_payload cfg),
             ra_listen = address, ra_ssl = ssl\<rparr>)))"

definition run_agent ::
  "('c, 'k, 'pub, 'priv, 's, 'sig, 'spki, 'pkey, 'cert, 'sk, 'spub, 'tcti) startup_env \<Rightarrow> agent_config \<Rightarrow> string
   \<Rightarrow> string option \<Rightarrow> string option \<Rightarrow> ('c, ('k, 'cert, 'sk, 'spub) running_agent) world_act" where
  "run_agent env cfg mnt ima_log mb_log =
     act_bind (collect_identity env cfg) (\<lambda>ai.
     act_bind (collect_server_keys env cfg (ai_uuid ai)) (\<lambda>sk.
     act_bind (enrol env cfg ai (map_option fst (sk_tls sk))) (\<lambda>_.
     act_lift (serve env cfg mnt ima_log mb_log ai sk))))"

text \<open>The host afterwards, and the TPM context once there is one.\<close>

definition start_agent ::
  "('c, 'k, 'pub, 'priv, 's, 'sig, 'spki, 'pkey, 'cert, 'sk, 'spub, 'tcti) startup_env \<Rightarrow> agent_config \<Rightarrow> host
   \<Rightarrow> ((('k, 'cert, 'sk, 'spub) running_agent, agent_error) outcome \<times> host \<times> 'c option) option" where
  "start_agent env cfg h =
     (let f = disk (h_machine h);
          ima_log = open_log (su_os env) f (ac_ima_ml_path cfg);
          mb_log = open_log (su_os env) f (ac_measuredboot_ml_path cfg)
      in case prepare_host (su_host env) cfg h of
           None \<Rightarrow> None
         | Some (Err e, h1) \<Rightarrow> Some (Err e, h1, None)
         | Some (Panic, h1) \<Rightarrow> Some (Panic, h1, None)
         | Some (Ok mnt, h1) \<Rightarrow>
             (case context_new (su_tcti_var env) (disk (h_machine h1)) (su_tcti_parse env) (su_connect env) of
                Err e \<Rightarrow> Some (Err (Tpm e), h1, None)
              | Panic \<Rightarrow> Some (Panic, h1, None)
              | Ok c \<Rightarrow>
                  (case run_agent env cfg mnt ima_log mb_log (host.extend h1 (agent_world.fields c)) of
                     (r, w) \<Rightarrow> Some (r, host.truncate w, Some (tpm_ctx w)))))"

definition keylime_agent_main ::
  "('c, 'k, 'pub, 'priv, 's, 'sig, 'spki, 'pkey, 'cert, 'sk, 'spub, 'tcti) startup_env \<Rightarrow> cfg_world \<Rightarrow> host
   \<Rightarrow> ((('k, 'cert, 'sk, 'spub) running_agent, agent_error) outcome \<times> host \<times> 'c option) option" where
  "keylime_agent_main env cw h =
     (case keylime_config_new cw of
        Ok cfg \<Rightarrow> start_agent env cfg h
      | Err e \<Rightarrow> Some (Err e, h, None)
      | Panic \<Rightarrow> Some (Panic, h, None))"

section \<open>What the stages leave alone\<close>

definition host_kept :: "'x host_scheme \<Rightarrow> 'x host_scheme \<Rightarrow> bool" where
  "host_kept h h' \<longleftrightarrow> h_process h' = h_process h \<and> h_sent h' = h_sent h"

lemma host_kept_refl: "reflp host_kept"
  by (simp add: host_kept_def reflp_def)

lemma host_kept_trans: "transp host_kept"
  by (auto simp: host_kept_def transp_def)

lemma act_within_case_prod: "(\<And>a b. act_within R (f a b)) \<Longrightarrow> act_within R (case p of (a, b) \<Rightarrow> f a b)"
  by (cases p) simp

lemma act_within_case_option:
  "act_within R f \<Longrightarrow> (\<And>x. act_within R (g x)) \<Longrightarrow> act_within R (case v of None \<Rightarrow> f | Some x \<Rightarrow> g x)"
  by (cases v) auto

lemma act_within_if: "act_within R f \<Longrightarrow> act_within R g \<Longrightarrow> act_within R (if b then f else g)"
  by simp

lemma act_within_call:
  "act_within host_kept (in_tpm f)" "act_within host_kept (in_tss g)" "act_within host_kept (in_machine m)"
  "act_within host_kept (from_host q)"
  by (auto simp: act_within_def host_kept_def in_tpm_def in_tss_def in_machine_def from_host_def split: prod.split)

lemmas kept_rules = act_within_bind [OF host_kept_trans] act_within_lift [OF host_kept_refl] act_within_call
  act_within_case_prod act_within_case_option act_within_if

lemma set_owner_password_kept: "act_within host_kept (set_owner_password tp cfg)"
proof -
  have "act_within host_kept (\<lambda>w. case tl_set_auth tp auth (tpm_ctx w) of (r, c) \<Rightarrow> (map_err g r, w\<lparr>tpm_ctx := c\<rparr>))" for auth g
    by (auto simp: act_within_def host_kept_def split: prod.split)
  then show ?thesis unfolding set_owner_password_def by (intro kept_rules)
qed

lemma old_ak_kept: "act_within host_kept (old_ak env xl tp cfg hash sign ekh ek_h)"
  unfolding act_within_def
  by (auto simp: old_ak_def Let_def host_kept_def act_bind_def act_lift_def act_try_def in_tpm_def split: outcome.split prod.split)

lemma collect_identity_kept: "act_within host_kept (collect_identity env cfg)"
  unfolding collect_identity_def Let_def device_identity_def endorsement_key_def attestation_key_def store_agent_data_def
    certify_ak_def
  by (intro kept_rules set_owner_password_kept old_ak_kept)

lemma collect_server_keys_kept: "act_within host_kept (collect_server_keys env cfg uuid)"
  unfolding collect_server_keys_def by (intro kept_rules)

lemma in_net_process: "h_process (snd (in_net f w)) = h_process w"
  by (simp add: in_net_def split: prod.split)

section \<open>The keys of a running agent\<close>

text \<open>An action can return a value, from some state.\<close>

definition yields :: "('c, 'a, 'e) act \<Rightarrow> 'a \<Rightarrow> bool" where
  "yields f x \<longleftrightarrow> (\<exists>c c'. f c = (Ok x, c'))"

lemma yieldsI: "f c = (Ok x, c') \<Longrightarrow> yields f x"
  by (auto simp: yields_def)

lemma in_tpm_yields: "in_tpm f w = (Ok x, w') \<Longrightarrow> yields f x"
  by (auto simp: in_tpm_Ok_iff intro: yieldsI)

lemma act_bindE:
  "act_bind f g c = (Ok y, c'') \<Longrightarrow> (\<And>x c'. f c = (Ok x, c') \<Longrightarrow> g x c' = (Ok y, c'') \<Longrightarrow> P) \<Longrightarrow> P"
  by (auto simp: act_bind_Ok_iff)

lemma case_prod_actE:
  "(case p of (a, b) \<Rightarrow> f a b) w = r \<Longrightarrow> (\<And>a b. p = (a, b) \<Longrightarrow> f a b w = r \<Longrightarrow> P) \<Longrightarrow> P"
  by (cases p) auto

lemma act_liftE: "act_lift r c = (Ok x, c') \<Longrightarrow> (r = Ok x \<Longrightarrow> c' = c \<Longrightarrow> P) \<Longrightarrow> P"
  by (auto simp: act_lift_def)

lemma load_ak_of_old:
  assumes "old_ak env xl tp cfg hash sign ekh ek_h w = (Ok (Some (ak_handle, ak)), w')"
  shows "yields (load_ak (tl_keys tp) ek_h (ak_result_public ak, ak_result_private ak)) ak_handle"
  using assms
  by (auto simp: old_ak_def Let_def world_acts act_try_Some_iff intro: in_tpm_yields split: if_splits outcome.splits)

lemma attestation_key_loaded:
  assumes "attestation_key tp hash sign ek_h old w = (Ok (ak_handle, ak), w')"
    and "\<And>x y. old = Some (x, y) \<Longrightarrow> yields (load_ak (tl_keys tp) ek_h (ak_result_public y, ak_result_private y)) x"
  shows "yields (load_ak (tl_keys tp) ek_h (ak_result_public ak, ak_result_private ak)) ak_handle"
  using assms
  by (cases old) (auto simp: attestation_key_def world_acts intro: in_tpm_yields)

text \<open>The attestation key is loaded under its handle, and an enabled device identity is proved and has certified it.\<close>

definition identity_sound ::
  "('c, 'k, 'pub, 'priv, 's, 'sig, 'spki, 'pkey, 'cert, 'sk, 'spub, 'tcti) startup_env \<Rightarrow> agent_config
   \<Rightarrow> ('k, 'pub, 'priv, 'sig, 'cert) agent_identity \<Rightarrow> bool" where
  "identity_sound env cfg ai \<longleftrightarrow>
     yields (load_ak (tl_keys (su_tpm env)) (ek_key_handle (ai_ek ai)) (ak_result_public (ai_ak ai), ak_result_private (ai_ak ai)))
       (ai_ak_handle ai)
     \<and> configured_algorithms cfg = Ok (ai_enc_alg ai, ai_hash_alg ai, ai_sign_alg ai)
     \<and> (\<exists>ekh. ek_identity (su_ssl env) (ek_public (ai_ek ai)) = Ok ekh \<and> ai_uuid ai = agent_uuid cfg ekh)
     \<and> (ac_enable_iak_idevid cfg \<longrightarrow> (\<exists>iak idevid att sig. ai_device ai = Some (iak, idevid)
          \<and> identity_proved (su_ssl env) (ai_iak_cert ai) (ai_idevid_cert ai) (fst iak) (fst idevid)
          \<and> ai_attestation ai = Some (att, sig)
          \<and> yields (certify_credential_with_iak (tl_certify (su_tpm env)) (the_ok (tl_data (su_tpm env) (as_bytes (ai_uuid ai))))
              (ai_ak_handle ai) (snd iak)) (att, sig)))"

lemma certify_ak_Ok:
  assumes "certify_ak tp uuid ak_handle (Some (iak, idevid)) w = (Ok att, w')"
  shows "\<exists>a s. att = Some (a, s)
    \<and> yields (certify_credential_with_iak (tl_certify tp) (the_ok (tl_data tp (as_bytes uuid))) ak_handle (snd iak)) (a, s)"
  using assms by (auto simp: certify_ak_def world_acts intro: in_tpm_yields)

lemma collect_identity_Ok:
  assumes "collect_identity env cfg w = (Ok ai, w')"
  shows "identity_sound env cfg ai"
proof -
  let ?tp = "su_tpm env" and ?sl = "su_ssl env"
  from assms obtain w5 w6 w8 w9 w10 w11 enc hash sign iak_cert idevid_cert device ek ekh old ak_handle ak att where
    alg: "configured_algorithms cfg = Ok (enc, hash, sign)"
    and dev: "device_identity ?tp ?sl cfg iak_cert idevid_cert w5 = (Ok device, w6)"
    and ekh: "ek_identity ?sl (ek_public ek) = Ok ekh"
    and old: "old_ak (su_os env) (su_text env) ?tp cfg hash sign ekh (ek_key_handle ek) w8 = (Ok old, w9)"
    and ak: "attestation_key ?tp hash sign (ek_key_handle ek) old w9 = (Ok (ak_handle, ak), w10)"
    and cert: "certify_ak ?tp (agent_uuid cfg ekh) ak_handle device w11 = (Ok att, w')"
    and ai: "ai = \<lparr>ai_uuid = agent_uuid cfg ekh, ai_enc_alg = enc, ai_hash_alg = hash, ai_sign_alg = sign,
           ai_iak_cert = iak_cert, ai_idevid_cert = idevid_cert, ai_device = device, ai_ek = ek,
           ai_ak_handle = ak_handle, ai_ak = ak, ai_attestation = att\<rparr>"
    unfolding collect_identity_def Let_def by (elim act_bindE case_prod_actE act_liftE) simp
  have "yields (load_ak (tl_keys ?tp) (ek_key_handle ek) (ak_result_public ak, ak_result_private ak)) ak_handle"
    using old load_ak_of_old by (intro attestation_key_loaded [OF ak]) simp
  moreover have "ac_enable_iak_idevid cfg \<longrightarrow> (\<exists>iak idevid a s. device = Some (iak, idevid)
          \<and> identity_proved ?sl iak_cert idevid_cert (fst iak) (fst idevid) \<and> att = Some (a, s)
          \<and> yields (certify_credential_with_iak (tl_certify ?tp) (the_ok (tl_data ?tp (as_bytes (agent_uuid cfg ekh))))
              ak_handle (snd iak)) (a, s))"
  proof
    assume "ac_enable_iak_idevid cfg"
    with device_identity_Ok [OF dev] obtain iak idevid where d: "device = Some (iak, idevid)"
      and "identity_proved ?sl iak_cert idevid_cert (fst iak) (fst idevid)" by (auto split: option.splits prod.splits)
    with certify_ak_Ok [OF cert [unfolded d]] show "\<exists>iak idevid a s. device = Some (iak, idevid)
          \<and> identity_proved ?sl iak_cert idevid_cert (fst iak) (fst idevid) \<and> att = Some (a, s)
          \<and> yields (certify_credential_with_iak (tl_certify ?tp) (the_ok (tl_data ?tp (as_bytes (agent_uuid cfg ekh))))
              ak_handle (snd iak)) (a, s)" by auto
  qed
  ultimately show ?thesis using alg ekh ai by (simp add: identity_sound_def)
qed

section \<open>Enrolment\<close>

text \<open>The two requests of an enrolment.\<close>

definition registering ::
  "('c, 'k, 'pub, 'priv, 's, 'sig, 'spki, 'pkey, 'cert, 'sk, 'spub, 'tcti) startup_env \<Rightarrow> agent_config \<Rightarrow> string \<Rightarrow> register
   \<Rightarrow> net_request" where
  "registering env cfg uuid d =
     register_request (su_registrar env) (ac_registrar_ip cfg) (unat (ac_registrar_port cfg)) uuid d"

definition activating :: "agent_config \<Rightarrow> string \<Rightarrow> string \<Rightarrow> net_request" where
  "activating cfg uuid tag = activate_request (ac_registrar_ip cfg) (unat (ac_registrar_port cfg)) uuid tag"

text \<open>The registrar accepts a registration with a credential, and a proof of having recovered it.\<close>

definition accepts_registration ::
  "('c, 'k, 'pub, 'priv, 's, 'sig, 'spki, 'pkey, 'cert, 'sk, 'spub, 'tcti) startup_env \<Rightarrow> net_request list \<Rightarrow> net_request
   \<Rightarrow> u8 list \<Rightarrow> bool" where
  "accepts_registration env sent rq blob \<longleftrightarrow>
     (\<exists>b. verdict (su_registrar env) (register_results (re_codec (su_registrar env))) (rq_url rq)
        (re_answer (su_registrar env) sent rq) = Ok b \<and> blob = (case b of Some bytes \<Rightarrow> bytes | None \<Rightarrow> []))"

definition accepts_activation ::
  "('c, 'k, 'pub, 'priv, 's, 'sig, 'spki, 'pkey, 'cert, 'sk, 'spub, 'tcti) startup_env \<Rightarrow> net_request list \<Rightarrow> net_request
   \<Rightarrow> bool" where
  "accepts_activation env sent rq \<longleftrightarrow>
     verdict (su_registrar env) activate_results (rq_url rq) (re_answer (su_registrar env) sent rq) = Ok ()"

lemma request_urls [simp]:
  "rq_url (registering env cfg uuid d) = agents_url (ac_registrar_ip cfg) (unat (ac_registrar_port cfg)) uuid"
  "rq_url (activating cfg uuid tag) = agents_url (ac_registrar_ip cfg) (unat (ac_registrar_port cfg)) uuid"
  by (simp_all add: registering_def activating_def register_request_def activate_request_def)

lemma register_step:
  assumes "in_net (do_register_agent (su_registrar env) (ac_registrar_ip cfg) (unat (ac_registrar_port cfg)) uuid rn) w = (r, w')"
  shows "(h_sent w' = h_sent w \<and> \<not> is_ok r)
    \<or> (\<exists>d. register_data (su_registrar env) rn = Ok d \<and> h_sent w' = h_sent w @ [registering env cfg uuid d]
         \<and> (\<forall>blob. r = Ok blob \<longrightarrow> accepts_registration env (h_sent w) (registering env cfg uuid d) blob))"
  using assms
  by (auto simp: in_net_def do_register_agent_alt registering_def [symmetric] accepts_registration_def and_then_Ok_iff
      split: outcome.splits)

lemma activate_step:
  assumes "in_net (do_activate_agent (su_registrar env) (ac_registrar_ip cfg) (unat (ac_registrar_port cfg)) uuid tag) w = (r, w')"
  shows "h_sent w' = h_sent w @ [activating cfg uuid tag]
    \<and> (r = Ok () \<longleftrightarrow> accepts_activation env (h_sent w) (activating cfg uuid tag))"
  using assms by (auto simp: in_net_def do_activate_agent_alt activating_def [symmetric] accepts_activation_def)

text \<open>
  How far an enrolment got: nothing was sent; the registration was sent; or it was accepted with a credential, the TPM
  recovered its key, and the proof was sent. It succeeded only in the last case, when the proof was accepted.
\<close>

definition enrolment ::
  "('c, 'k, 'pub, 'priv, 's, 'sig, 'spki, 'pkey, 'cert, 'sk, 'spub, 'tcti) startup_env \<Rightarrow> agent_config
   \<Rightarrow> ('k, 'pub, 'priv, 'sig, 'cert) agent_identity \<Rightarrow> 'cert option \<Rightarrow> net_request list \<Rightarrow> net_request list \<Rightarrow> bool \<Rightarrow> bool" where
  "enrolment env cfg ai mtls_cert sent sent' done \<longleftrightarrow>
     (sent' = sent \<and> \<not> done)
     \<or> (\<exists>rn d. registration_of (su_tpm env) cfg ai mtls_cert = Ok rn \<and> register_data (su_registrar env) rn = Ok d
          \<and> (sent' = sent @ [registering env cfg (ai_uuid ai) d] \<and> \<not> done
             \<or> (\<exists>blob key tag. accepts_registration env sent (registering env cfg (ai_uuid ai) d) blob
                  \<and> yields (activate_credential (tl_keys (su_tpm env)) blob (ai_ak_handle ai) (ek_key_handle (ai_ek ai))) key
                  \<and> credential_tag env key (ai_uuid ai) = Ok tag
                  \<and> sent' = sent @ [registering env cfg (ai_uuid ai) d, activating cfg (ai_uuid ai) tag]
                  \<and> (done \<longleftrightarrow> accepts_activation env (sent @ [registering env cfg (ai_uuid ai) d])
                        (activating cfg (ai_uuid ai) tag)))))"

lemma kept_bindE:
  assumes "act_bind f g w = (r, w')" and "act_within host_kept f"
  obtains (Stop) "h_sent w' = h_sent w" and "\<not> is_ok r"
  | (Go) x w1 where "f w = (Ok x, w1)" and "h_sent w1 = h_sent w" and "g x w1 = (r, w')"
proof -
  obtain r1 w1 where f: "f w = (r1, w1)" by force
  moreover have "h_sent w1 = h_sent w" using act_withinD [OF assms(2) f] by (simp add: host_kept_def)
  ultimately show thesis using assms(1) that by (cases r1) (auto simp: act_bind_def)
qed

lemma prove_credential_sent:
  assumes "prove_credential env cfg ai blob w = (r, w')"
  shows "h_sent w' = h_sent w \<and> \<not> is_ok r
    \<or> (\<exists>key tag. yields (activate_credential (tl_keys (su_tpm env)) blob (ai_ak_handle ai) (ek_key_handle (ai_ek ai))) key
         \<and> credential_tag env key (ai_uuid ai) = Ok tag \<and> h_sent w' = h_sent w @ [activating cfg (ai_uuid ai) tag]
         \<and> (is_ok r \<longleftrightarrow> accepts_activation env (h_sent w) (activating cfg (ai_uuid ai) tag)))"
  using assms [unfolded prove_credential_def Let_def] act_within_call(1)
proof (cases rule: kept_bindE)
  case (Go key w1)
  note key = in_tpm_yields [OF Go(1)] and w1 = Go(2)
  have "act_within host_kept (if ac_ek_handle cfg = [] then in_tss (tl_flush (su_tpm env) (ek_key_handle (ai_ek ai))) else act_lift (Ok ()))"
    by (intro kept_rules)
  from Go(3) this show ?thesis
  proof (cases rule: kept_bindE)
    case (Go u w2)
    note w2 = Go(2)
    from Go(3) act_within_lift [OF host_kept_refl] show ?thesis
    proof (cases rule: kept_bindE)
      case (Go tag w3)
      then have "credential_tag env key (ai_uuid ai) = Ok tag" by (simp add: act_lift_def)
      moreover have "is_ok r \<longleftrightarrow> r = Ok ()" by (cases r) auto
      ultimately show ?thesis using activate_step [OF Go(3)] key w1 w2 Go(2) by auto
    qed (simp add: w1 w2)
  qed (simp add: w1)
qed simp

lemma enrol_enrolment:
  assumes "enrol env cfg ai mtls_cert w = (r, w')"
  shows "enrolment env cfg ai mtls_cert (h_sent w) (h_sent w') (is_ok r)"
  using assms [unfolded enrol_def] act_within_lift [OF host_kept_refl]
proof (cases rule: kept_bindE)
  case (Go rn w0)
  then have rn: "registration_of (su_tpm env) cfg ai mtls_cert = Ok rn" by (simp add: act_lift_def)
  obtain r1 w1 where reg: "in_net (do_register_agent (su_registrar env) (ac_registrar_ip cfg) (unat (ac_registrar_port cfg))
      (ai_uuid ai) rn) w0 = (r1, w1)" by force
  note register_step [OF reg, unfolded Go(2)]
  moreover have "\<not> is_ok r \<and> w' = w1" if "\<not> is_ok r1" using that Go(3) reg by (cases r1) (auto simp: act_bind_def)
  moreover have "prove_credential env cfg ai blob w1 = (r, w')" if "r1 = Ok blob" for blob
    using that Go(3) reg by (simp add: act_bind_def)
  ultimately show ?thesis using rn prove_credential_sent [of env cfg ai _ w1 r w']
    by (cases r1) (fastforce simp: enrolment_def)+
qed (simp add: enrolment_def)

section \<open>Starting up\<close>

lemma prepare_host_sent:
  assumes "prepare_host env cfg h = Some (r, h')"
  shows "h_sent h' = h_sent h"
proof -
  have d: "h_sent h2 = h_sent h1" if "drop_privileges env user mnt h1 = Some (q, h2)" for user mnt h1 q h2
    using that by (auto simp: drop_privileges_def in_process_def split: option.splits prod.splits outcome.splits)
  show ?thesis using assms
    by (auto simp: prepare_host_def act_bind_def act_lift_def in_machine_def dest!: d split: outcome.splits prod.splits)
qed

definition process_kept :: "'x host_scheme \<Rightarrow> 'x host_scheme \<Rightarrow> bool" where
  "process_kept h h' \<longleftrightarrow> h_process h' = h_process h"

lemma process_kept_rules:
  "transp process_kept" "act_within process_kept (in_net f)" "act_within process_kept (act_lift r)"
  "act_within host_kept g \<Longrightarrow> act_within process_kept g"
  by (auto simp: process_kept_def host_kept_def transp_def act_within_def in_net_def act_lift_def split: prod.split)

lemma run_agent_process: "act_within process_kept (run_agent env cfg mnt ima_log mb_log)"
proof -
  have f: "act_within process_kept (if b then in_tss g else act_lift (Ok ()))" for b and g :: "'a \<Rightarrow> (unit, tss_error) outcome \<times> 'a"
    by (intro process_kept_rules(4) kept_rules)
  show ?thesis
    unfolding run_agent_def enrol_def prove_credential_def Let_def
    by (intro act_within_bind [OF process_kept_rules(1)] process_kept_rules(2,3) f
        process_kept_rules(4) [OF collect_identity_kept] process_kept_rules(4) [OF collect_server_keys_kept]
        process_kept_rules(4) [OF act_within_call(1)])
qed

text \<open>What a start does: it stops before the TPM is used, or runs on a prepared host.\<close>

lemma start_agent_cases:
  assumes "start_agent env cfg h = Some (r, h', ctx)"
  obtains (Early) "\<not> is_ok r" and "ctx = None" and "h_sent h' = h_sent h"
  | (Run) mnt h1 c ima_log mb_log w where "prepare_host (su_host env) cfg h = Some (Ok mnt, h1)"
      and "run_agent env cfg mnt ima_log mb_log (host.extend h1 (agent_world.fields c)) = (r, w)"
      and "h' = host.truncate w" and "ctx = Some (tpm_ctx w)"
      and "ima_log = open_log (su_os env) (disk (h_machine h)) (ac_ima_ml_path cfg)"
proof (cases "prepare_host (su_host env) cfg h")
  case (Some x)
  then obtain q h1 where p: "prepare_host (su_host env) cfg h = Some (q, h1)" by (cases x) auto
  note sent = prepare_host_sent [OF p]
  show thesis
  proof (cases q)
    case (Ok mnt)
    with p assms sent that show ?thesis
      by (cases "context_new (su_tcti_var env) (disk (h_machine h1)) (su_tcti_parse env) (su_connect env)")
        (auto simp: start_agent_def Let_def split: prod.splits)
  qed (use p assms sent that in \<open>auto simp: start_agent_def Let_def\<close>)
qed (use assms in \<open>simp add: start_agent_def Let_def\<close>)

lemma host_views [simp]:
  "h_process (host.truncate w) = h_process w" "h_sent (host.truncate w) = h_sent w"
  "h_process (host.extend h x) = h_process h" "h_sent (host.extend h x) = h_sent h"
  by (simp_all add: host.truncate_def host.extend_def)

text \<open>\<^bold>\<open>C8\<close>: nothing is done with root's rights but mounting and dropping them. Whenever a start has connected to the TPM
  or sent a request, whether or not it succeeded in the end, it was started by root, payloads are protected or
  switched off, and the process runs as the configured user and group with that user's groups only, and owns the
  mount; it keeps root's rights only when the option is empty.\<close>

theorem startup_confined:
  assumes "start_agent env cfg h = Some (r, h', ctx)" and "ctx \<noteq> None \<or> h_sent h' \<noteq> h_sent h"
  shows "p_euid (h_process h) = 0 \<and> payload_protected cfg
    \<and> (if ac_run_as cfg = [] then h_process h' = h_process h
       else dropped_to (he_libc (su_host env)) (ac_run_as cfg) (path_join (ac_keylime_dir cfg) ''secure'') (h_process h'))"
  using assms(1)
proof (cases rule: start_agent_cases)
  case (Run mnt h1 c ima_log mb_log w)
  have "h_process h' = h_process h1"
    using act_withinD [OF run_agent_process Run(2)] Run(3) by (simp add: process_kept_def)
  then show ?thesis using prepare_host_Ok [OF Run(1)] mount_path by (auto split: if_splits)
qed (use assms(2) in simp)

text \<open>What an agent that runs is made of.\<close>

definition runs_with ::
  "('c, 'k, 'pub, 'priv, 's, 'sig, 'spki, 'pkey, 'cert, 'sk, 'spub, 'tcti) startup_env \<Rightarrow> agent_config
   \<Rightarrow> ('k, 'pub, 'priv, 'sig, 'cert) agent_identity \<Rightarrow> 'cert option \<Rightarrow> ('k, 'cert, 'sk, 'spub) running_agent \<Rightarrow> bool" where
  "runs_with env cfg ai mtls_cert ra \<longleftrightarrow>
     ra_uuid ra = ai_uuid ai \<and> qd_ak_handle (ra_quote_data ra) = ai_ak_handle ai
     \<and> qd_hash_alg (ra_quote_data ra) = ai_hash_alg ai \<and> qd_sign_alg (ra_quote_data ra) = ai_sign_alg ai
     \<and> ra_run_payload ra = (ac_enable_agent_mtls cfg \<or> ac_enable_insecure_payload cfg)
     \<and> ra_secure_mount ra = path_join (ac_keylime_dir cfg) ''secure''
     \<and> (ac_enable_agent_mtls cfg \<longleftrightarrow> ra_ssl ra \<noteq> None)
     \<and> (case ra_ssl ra of None \<Rightarrow> mtls_cert = None
        | Some acc \<Rightarrow> acc_verify acc = [PEER, FAIL_IF_NO_PEER_CERT]
            \<and> (\<exists>cert. mtls_cert = Some cert \<and> acc_certificate acc \<in> {Some cert, None}))"

lemma tls_setup_Ok:
  assumes "tls_setup env xl sl cfg uuid private f = (Ok tls, f')"
  shows "case tls of None \<Rightarrow> \<not> ac_enable_agent_mtls cfg
    | Some (cert, acc) \<Rightarrow> ac_enable_agent_mtls cfg \<and> acc_verify acc = [PEER, FAIL_IF_NO_PEER_CERT]
        \<and> acc_certificate acc \<in> {Some cert, None}"
  using assms
  by (auto simp: tls_setup_def world_acts generate_mtls_context_def split: if_splits)

lemma serve_Ok:
  assumes "serve env cfg mnt ima_log mb_log ai sk = Ok ra" and "mnt = path_join (ac_keylime_dir cfg) ''secure''"
    and "case sk_tls sk of None \<Rightarrow> \<not> ac_enable_agent_mtls cfg
      | Some (cert, acc) \<Rightarrow> ac_enable_agent_mtls cfg \<and> acc_verify acc = [PEER, FAIL_IF_NO_PEER_CERT]
          \<and> acc_certificate acc \<in> {Some cert, None}"
  shows "runs_with env cfg ai (map_option fst (sk_tls sk)) ra"
  using assms by (auto simp: serve_def Let_def and_then_Ok_iff runs_with_def split: option.splits)

lemma run_agent_enrolment:
  assumes "run_agent env cfg mnt ima_log mb_log w = (r, w')" and "mnt = path_join (ac_keylime_dir cfg) ''secure''"
  shows "h_sent w' = h_sent w \<and> \<not> is_ok r
    \<or> (\<exists>ai mtls_cert done. identity_sound env cfg ai \<and> enrolment env cfg ai mtls_cert (h_sent w) (h_sent w') done
         \<and> (\<forall>ra. r = Ok ra \<longrightarrow> done \<and> runs_with env cfg ai mtls_cert ra))"
  using assms(1) [unfolded run_agent_def] collect_identity_kept
proof (cases rule: kept_bindE)
  case (Go ai w1)
  note ai = collect_identity_Ok [OF Go(1)] and w1 = Go(2)
  from Go(3) collect_server_keys_kept show ?thesis
  proof (cases rule: kept_bindE)
    case (Go sk w2)
    from Go(1) have tls: "case sk_tls sk of None \<Rightarrow> \<not> ac_enable_agent_mtls cfg
      | Some (cert, acc) \<Rightarrow> ac_enable_agent_mtls cfg \<and> acc_verify acc = [PEER, FAIL_IF_NO_PEER_CERT]
          \<and> acc_certificate acc \<in> {Some cert, None}"
      by (auto simp: collect_server_keys_def world_acts in_disk_Ok_iff dest!: tls_setup_Ok)
    obtain r3 w3 where e: "enrol env cfg ai (map_option fst (sk_tls sk)) w2 = (r3, w3)" by force
    have "enrolment env cfg ai (map_option fst (sk_tls sk)) (h_sent w) (h_sent w') (is_ok r3)"
      using enrol_enrolment [OF e] w1 Go(2,3) e by (cases r3) (auto simp: act_bind_def act_lift_def)
    moreover have "is_ok r3 \<and> runs_with env cfg ai (map_option fst (sk_tls sk)) ra" if "r = Ok ra" for ra
      using that Go(3) e serve_Ok [OF _ assms(2) tls] by (cases r3) (auto simp: act_bind_def act_lift_def)
    ultimately show ?thesis using ai by blast
  qed (simp add: w1)
qed simp

lemma start_agent_runs_with:
  assumes "start_agent env cfg h = Some (Ok ra, h', ctx)"
  shows "payload_protected cfg \<and> (\<exists>ai mtls_cert. runs_with env cfg ai mtls_cert ra)"
  using assms
proof (cases rule: start_agent_cases)
  case (Run mnt h1 c ima_log mb_log w)
  have "mnt = path_join (ac_keylime_dir cfg) ''secure''" using prepare_host_Ok [OF Run(1)] mount_path by blast
  then show ?thesis using run_agent_enrolment [OF Run(2)] prepare_host_Ok [OF Run(1)] by auto
qed simp

text \<open>\<^bold>\<open>C10\<close>: the order of an enrolment. Whatever a start ends with, it sent nothing; or one registration of a sound
  identity; or the registration, which was accepted with a credential, followed by an activation with the tag of the
  key that the TPM recovered from that credential. The agent runs only after the activation was accepted too, and then it quotes with
  the attestation key of that identity, under its name, and serves TLS with verified clients exactly when mTLS is
  enabled.\<close>

theorem startup_enrols:
  assumes "start_agent env cfg h = Some (r, h', ctx)"
  shows "h_sent h' = h_sent h \<and> \<not> is_ok r
    \<or> (\<exists>ai mtls_cert done. identity_sound env cfg ai \<and> enrolment env cfg ai mtls_cert (h_sent h) (h_sent h') done
         \<and> (\<forall>ra. r = Ok ra \<longrightarrow> done \<and> runs_with env cfg ai mtls_cert ra))"
  using assms
proof (cases rule: start_agent_cases)
  case (Run mnt h1 c ima_log mb_log w)
  have "mnt = path_join (ac_keylime_dir cfg) ''secure''" and "h_sent h1 = h_sent h"
    using prepare_host_Ok [OF Run(1)] mount_path by blast+
  then show ?thesis using run_agent_enrolment [OF Run(2)] Run(3) by simp
qed simp

text \<open>The keys and certificates in a registration.\<close>

lemma registration_of_fields:
  assumes "registration_of tp cfg ai mtls_cert = Ok rn"
  shows "tl_marshall tp (ak_result_public (ai_ak ai)) = Ok (rn_aik_tpm rn)
    \<and> tl_marshall tp (ek_public (ai_ek ai)) = Ok (rn_ek_tpm rn) \<and> rn_mtls_cert rn = mtls_cert"
proof (cases "ac_enable_iak_idevid cfg")
  case True
  with assms obtain iak idevid att sig where "ai_device ai = Some (iak, idevid)" "ai_attestation ai = Some (att, sig)"
    by (auto simp: registration_of_def Let_def split: option.splits)
  with True assms show ?thesis by (auto simp: registration_of_def Let_def and_then_Ok_iff)
qed (use assms in \<open>auto simp: registration_of_def Let_def and_then_Ok_iff\<close>)

lemma register_data_copies:
  assumes "register_data reg rn = Ok d"
  shows "reg_aik_tpm d = rn_aik_tpm rn \<and> reg_ek_tpm d = rn_ek_tpm rn
    \<and> (case rn_mtls_cert rn of None \<Rightarrow> reg_mtls_cert d = Some ''disabled''
       | Some cert \<Rightarrow> \<exists>pem. re_to_pem reg cert = Ok pem \<and> reg_mtls_cert d = Some pem)"
  using assms by (cases "rn_mtls_cert rn") (auto simp: register_data_def and_then_Ok_iff split: if_splits)

lemma register_data_fields:
  assumes "registration_of tp cfg ai mtls_cert = Ok rn" and "register_data reg rn = Ok d"
  shows "tl_marshall tp (ak_result_public (ai_ak ai)) = Ok (reg_aik_tpm d)
    \<and> tl_marshall tp (ek_public (ai_ek ai)) = Ok (reg_ek_tpm d)
    \<and> (case mtls_cert of None \<Rightarrow> reg_mtls_cert d = Some ''disabled''
       | Some cert \<Rightarrow> \<exists>pem. re_to_pem reg cert = Ok pem \<and> reg_mtls_cert d = Some pem)"
  using registration_of_fields [OF assms(1)] register_data_copies [OF assms(2)] by simp


lemma activate_credential_empty: "activate_credential ko [] ak ek c = (Panic, c)"
  by (simp add: activate_credential_def parse_cred_and_secret_short act_bind_def act_lift_def)

text \<open>\<^bold>\<open>C35\<close>: a registration answered without a credential brings the agent down. A successful answer whose blob is null
  becomes an empty blob, and taking its header apart panics instead of ending the start with an error.\<close>

theorem null_credential_panics:
  assumes "registration_of (su_tpm env) cfg ai mtls_cert = Ok rn" and "register_data (su_registrar env) rn = Ok d"
    and "re_answer (su_registrar env) (h_sent w) (registering env cfg (ai_uuid ai) d)
      = Replied c (Ok (wrapped_results n s (JObj [(''blob'', JNull)])))" and "is_success c"
  shows "fst (enrol env cfg ai mtls_cert w) = Panic"
proof -
  have "do_register_agent (su_registrar env) (ac_registrar_ip cfg) (unat (ac_registrar_port cfg)) (ai_uuid ai) rn (h_sent w)
      = (Ok [], h_sent w @ [registering env cfg (ai_uuid ai) d])"
    using assms(2-4)
    by (simp add: do_register_agent_alt registering_def verdict_def decode_body_def deserialize_maybe_base64_def)
  then show ?thesis using assms(1)
    by (simp add: enrol_def prove_credential_def act_bind_def act_lift_def in_net_def in_tpm_def activate_credential_empty Let_def)
qed

subsection \<open>A start that succeeds\<close>

definition startup_ref ::
  "(unit, nat, nat, nat, unit, unit, nat, unit, string, string, string, string) startup_env" where
  "startup_ref =
     \<lparr>su_host = \<lparr>he_machine = mount_env_ref, he_texts = mount_texts_ref, he_libc = libc_ref 1, he_nul_error = \<lambda>_. []\<rparr>,
      su_tpm = tpm_libs_ref, su_ssl = ssl_libs_ref,
      su_text = \<lparr>xl_parse = \<lambda>_. None, xl_print = \<lambda>_. [], xl_serde_msg = \<lambda>_. [], xl_list_error = \<lambda>_. []\<rparr>,
      su_registrar = registrar_ref 200 (JObj [(''blob'', serialize_maybe_base64 codec_ref (Some (keyblob [1] [2])))]),
      su_tcti_var = None, su_tcti_parse = Ok, su_connect = \<lambda>_. Ok (), su_bind = \<lambda>_ _. Ok (), su_python = False\<rparr>"

definition cfg_ref :: agent_config where
  "cfg_ref = (agent_config_default 0)\<lparr>ac_uuid := ''hash_ek'', ac_enable_agent_mtls := False, ac_payload_script := [],
     ac_keylime_dir := ''/w'', ac_run_as := ''keylime:tss'', ac_server_key := [], ac_agent_data_path := [],
     ac_enable_iak_idevid := False, ac_revocation_cert := ''/w/cert'', ac_ek_handle := []\<rparr>"

definition host_ref :: host where
  "host_ref = \<lparr>h_machine = mount_machine_ref, h_process = root_ref, h_sent = []\<rparr>"

lemma cfg_ref_simps [simp]:
  "ac_uuid cfg_ref = ''hash_ek''" "\<not> ac_enable_agent_mtls cfg_ref" "ac_payload_script cfg_ref = []"
  "ac_keylime_dir cfg_ref = ''/w''" "ac_run_as cfg_ref = ''keylime:tss''" "ac_server_key cfg_ref = []"
  "ac_agent_data_path cfg_ref = []" "\<not> ac_enable_iak_idevid cfg_ref" "ac_revocation_cert cfg_ref = ''/w/cert''"
  "ac_ek_handle cfg_ref = []" "ac_tpm_ownerpassword cfg_ref = []"
  by (simp_all add: cfg_ref_def agent_config_default_def DEFAULT_TPM_OWNERPASSWORD_def)

lemma startup_ref_simps [simp]:
  "su_tpm startup_ref = tpm_libs_ref" "su_ssl startup_ref = ssl_libs_ref" "\<not> su_python startup_ref"
  "tl_keys tpm_libs_ref = key_ops_ref" "he_libc (su_host startup_ref) = libc_ref 1"
  by (simp_all add: startup_ref_def tpm_libs_ref_def)

lemma prepare_ref:
  "\<exists>p. prepare_host (su_host startup_ref) cfg_ref host_ref = Some (Ok ''/w/secure'', host_ref\<lparr>h_process := p\<rparr>)"
  using mount_ref [of "ac_secure_size cfg_ref"]
  by (simp add: prepare_host_def payload_guard_def run_as_option_def act_bind_def act_lift_def in_machine_def
      startup_ref_def host_ref_def root_ref_def drop_privileges_def in_process_def chown_ref [unfolded root_ref_def]
      run_as_ref [unfolded One_nat_def])

lemma algorithms_ref: "configured_algorithms cfg_ref = Ok (Rsa, Sha256, RsaSsa)"
  by (simp add: configured_algorithms_def cfg_ref_def agent_config_default_def DEFAULT_TPM_ENCRYPTION_ALG_def
      DEFAULT_TPM_HASH_ALG_def DEFAULT_TPM_SIGNING_ALG_def encryption_algorithm_try_from_def hash_algorithm_try_from_def
      sign_algorithm_try_from_def)

text \<open>The stages of this start, from any host.\<close>

definition identity_ref :: "(nat, nat, nat, unit, string) agent_identity" where
  "identity_ref =
     \<lparr>ai_uuid = ''0'', ai_enc_alg = Rsa, ai_hash_alg = Sha256, ai_sign_alg = RsaSsa, ai_iak_cert = None, ai_idevid_cert = None,
      ai_device = None, ai_ek = \<lparr>ek_key_handle = 1, ek_cert = None, ek_public = 10\<rparr>, ai_ak_handle = 2,
      ai_ak = \<lparr>ak_result_public = 20, ak_result_private = 21\<rparr>, ai_attestation = None\<rparr>"

lemma collect_identity_ref: "collect_identity startup_ref cfg_ref w = (Ok identity_ref, w)"
  by (simp add: collect_identity_def act_bind_def act_lift_def in_tss_def from_host_apply check_python_shim_def
      set_owner_password_def algorithms_ref identity_certs_def device_identity_def endorsement_key_def in_tpm_def
      create_ek_def ek_handle_def act_tss_def key_ops_ref_def ek_identity_def hash_ek_pubkey_def ssl_libs_ref_def
      old_ak_def attestation_key_def create_ak_def load_ak_def store_agent_data_def agent_data_create_def certify_ak_def
      agent_uuid_def tpm_libs_ref_def identity_ref_def Let_def)

lemma collect_server_keys_ref: "\<exists>pub sk. collect_server_keys startup_ref cfg_ref uuid w = (Ok \<lparr>sk_public = pub, sk_private = sk, sk_tls = None\<rparr>, w)"
  by (simp add: collect_server_keys_def act_bind_def act_lift_def in_machine_def in_disk_def server_key_pair_def
      rsa_generate_pair_def rsa_generate_def pkey_pub_from_priv_def ssl_libs_ref_def pkey_ops_ref_def tls_setup_def Let_def)

lemma blob_ref: "parse_cred_and_secret Some Some (keyblob [1] [2]) = Ok ([1], [2])"
  using parse_keyblob [of "[1]" Some "[1]" Some "[2]" "[2]"] by simp

lemma activate_credential_ref: "activate_credential key_ops_ref (keyblob [1] [2]) ak ek c = (Ok [9], c)"
  using blob_ref
  by (simp add: activate_credential_def create_empty_session_def act_bind_def act_lift_def act_tss_def key_ops_ref_def)

lemma registrar_ref_simps:
  "su_registrar startup_ref = registrar_ref 200 (JObj [(''blob'', serialize_maybe_base64 codec_ref (Some (keyblob [1] [2])))])"
  "re_codec (registrar_ref c r) = codec_ref" "re_answer (registrar_ref c r) sent rq = Replied c (Ok (wrapped_results 200 ''Success'' r))"
  by (simp_all add: startup_ref_def registrar_ref_def)

lemma verdict_ref:
  "verdict (su_registrar startup_ref) (register_results codec_ref) addr (re_answer (su_registrar startup_ref) sent rq)
     = Ok (Some (keyblob [1] [2]))"
  "verdict (su_registrar startup_ref) activate_results addr (re_answer (su_registrar startup_ref) sent rq) = Ok ()"
  by (simp_all add: registrar_ref_simps verdict_def is_success_def decode_body_def activate_results_def struct_members_def
      deserialize_serialize(4) [OF base64_inverse_ref])

lemma registration_ref_of:
  "\<exists>rn d. registration_of tpm_libs_ref cfg_ref identity_ref None = Ok rn \<and> register_data (su_registrar startup_ref) rn = Ok d"
  by (simp add: registration_of_def tpm_libs_ref_def Let_def register_data_def optional_der_def)

lemma enrol_ref: "\<exists>w'. enrol startup_ref cfg_ref identity_ref None w = (Ok (), w')"
proof -
  obtain rn d where rn: "registration_of tpm_libs_ref cfg_ref identity_ref None = Ok rn"
    and d: "register_data (su_registrar startup_ref) rn = Ok d" using registration_ref_of by blast
  have reg: "\<exists>w1. in_net (do_register_agent (su_registrar startup_ref) ip port uuid rn) w = (Ok (keyblob [1] [2]), w1)" for ip port uuid
    using d verdict_ref(1) by (simp add: in_net_def do_register_agent_alt registrar_ref_simps(1,2))
  have prove: "\<exists>w2. prove_credential startup_ref cfg_ref identity_ref (keyblob [1] [2]) w1 = (Ok (), w2)" for w1
    using verdict_ref(2)
    by (simp add: prove_credential_def act_bind_def act_lift_def in_tpm_def in_tss_def in_net_def activate_credential_ref
        tpm_libs_ref_def credential_tag_def compute_hmac_def ssl_libs_ref_def do_activate_agent_alt Let_def)
  obtain w1 where w1: "in_net (do_register_agent (su_registrar startup_ref) (ac_registrar_ip cfg_ref)
      (unat (ac_registrar_port cfg_ref)) (ai_uuid identity_ref) rn) w = (Ok (keyblob [1] [2]), w1)" using reg by blast
  obtain w2 where "prove_credential startup_ref cfg_ref identity_ref (keyblob [1] [2]) w1 = (Ok (), w2)" using prove by blast
  then show ?thesis using rn w1 by (simp add: enrol_def act_bind_def act_lift_def)
qed

lemma start_ref:
  "\<exists>ra h' c. start_agent startup_ref cfg_ref host_ref = Some (Ok ra, h', Some c)"
proof -
  obtain p where p: "prepare_host (su_host startup_ref) cfg_ref host_ref = Some (Ok ''/w/secure'', host_ref\<lparr>h_process := p\<rparr>)"
    using prepare_ref by blast
  have c: "context_new (su_tcti_var startup_ref) f (su_tcti_parse startup_ref) (su_connect startup_ref) = Ok ()" for f
    by (simp add: context_new_def startup_ref_def Let_def)
  have s: "\<exists>ra. serve startup_ref cfg_ref mnt a b identity_ref sk = Ok ra" for mnt a b sk
    by (simp add: serve_def revocation_settings_def startup_ref_def Let_def)
  have "\<exists>ra w'. run_agent startup_ref cfg_ref mnt a b w = (Ok ra, w')" for mnt a b w
  proof -
    obtain pub sk where sk: "collect_server_keys startup_ref cfg_ref (ai_uuid identity_ref) w = (Ok \<lparr>sk_public = pub, sk_private = sk, sk_tls = None\<rparr>, w)"
      using collect_server_keys_ref by blast
    obtain w' where "enrol startup_ref cfg_ref identity_ref None w = (Ok (), w')" using enrol_ref by blast
    then show ?thesis using sk s by (simp add: run_agent_def collect_identity_ref act_bind_def act_lift_def)
  qed
  then obtain ra w' where "run_agent startup_ref cfg_ref ''/w/secure'' (open_log (su_os startup_ref) (disk (h_machine host_ref)) (ac_ima_ml_path cfg_ref))
      (open_log (su_os startup_ref) (disk (h_machine host_ref)) (ac_measuredboot_ml_path cfg_ref))
      (host.extend (host_ref\<lparr>h_process := p\<rparr>) (agent_world.fields ())) = (Ok ra, w')" by blast
  then show ?thesis using p c by (simp add: start_agent_def Let_def)
qed

theorem startup_confined_witness:
  "\<exists>r h' ctx. start_agent startup_ref cfg_ref host_ref = Some (r, h', ctx) \<and> ctx \<noteq> None
     \<and> dropped_to (libc_ref 1) ''keylime:tss'' ''/w/secure'' (h_process h')"
proof -
  obtain ra h' c where s: "start_agent startup_ref cfg_ref host_ref = Some (Ok ra, h', Some c)" using start_ref by blast
  then show ?thesis using startup_confined [OF s] by (auto simp: path_join_def)
qed

theorem startup_enrols_witness:
  "\<exists>ra h' ctx ai. start_agent startup_ref cfg_ref host_ref = Some (Ok ra, h', ctx)
     \<and> enrolment startup_ref cfg_ref ai None [] (h_sent h') True \<and> runs_with startup_ref cfg_ref ai None ra"
proof -
  obtain ra h' c where s: "start_agent startup_ref cfg_ref host_ref = Some (Ok ra, h', Some c)" using start_ref by blast
  from startup_enrols [OF s] obtain ai mtls_cert where "enrolment startup_ref cfg_ref ai mtls_cert [] (h_sent h') True"
    and r: "runs_with startup_ref cfg_ref ai mtls_cert ra" by (auto simp: host_ref_def)
  moreover from r have "mtls_cert = None" by (auto simp: runs_with_def split: option.splits)
  ultimately show ?thesis using s by blast
qed


theorem null_credential_panics_witness:
  "fst (enrol (startup_ref\<lparr>su_registrar := registrar_ref 200 (JObj [(''blob'', JNull)])\<rparr>) cfg_ref identity_ref None
     (host.extend host_ref (agent_world.fields ()))) = Panic"
proof -
  let ?env = "startup_ref\<lparr>su_registrar := registrar_ref 200 (JObj [(''blob'', JNull)])\<rparr>"
  obtain rn d where "registration_of (su_tpm ?env) cfg_ref identity_ref None = Ok rn" "register_data (su_registrar ?env) rn = Ok d"
    by (simp add: registration_of_def tpm_libs_ref_def Let_def register_data_def optional_der_def)
  moreover have "re_answer (su_registrar ?env) sent rq = Replied 200 (Ok (wrapped_results 200 ''Success'' (JObj [(''blob'', JNull)])))" for sent rq
    by (simp add: registrar_ref_simps(3))
  moreover have "is_success 200" by (simp add: is_success_def)
  ultimately show ?thesis by (rule null_credential_panics)
qed

end
