(* ===== verification/Shutdown.thy ===== *)
theory Shutdown
  imports Main
begin

text \<open>
  The end of \<open>main\<close> in \<^verbatim>\<open>keylime-agent/src/main.rs\<close>: the tasks it spawns, which of them hold a sender of which channel,
  and what each waits for once a signal arrived. The futures that would send the shutdown messages are created and
  dropped without being awaited, so no worker ever receives one; a worker ends when its channel has no sender left. The
  server ends when it is told to stop, and drops the data of the application with it.
\<close>

section \<open>Tasks and channels\<close>

datatype agent_task =
  Server_task | Payload_task | Key_task | Revocation_task | Zmq_task | Listener_task | Shutdown_task

datatype agent_channel = Payload_ch | Keys_ch | Revocation_ch | Zmq_ch

text \<open>
  The flag says whether the 0mq service runs. The original senders are moved into the shutdown task; the server has clones in
  \<open>QuoteData\<close>, the key worker one to the payload worker, the payload worker one to the revocation worker and one to
  the 0mq worker, and the 0mq worker and the listener it spawns one to the revocation worker.
\<close>

fun senders :: "bool \<Rightarrow> agent_channel \<Rightarrow> agent_task list" where
  "senders zmq Keys_ch = [Server_task, Shutdown_task]"
| "senders zmq Payload_ch = [Server_task, Key_task, Shutdown_task]"
| "senders zmq Revocation_ch = [Server_task, Payload_task, Shutdown_task] @ (if zmq then [Zmq_task, Listener_task] else [])"
| "senders zmq Zmq_ch = [Payload_task, Shutdown_task]"

definition tasks :: "bool \<Rightarrow> agent_task list" where
  "tasks zmq = [Server_task, Payload_task, Key_task, Revocation_task, Shutdown_task]
     @ (if zmq then [Zmq_task, Listener_task] else [])"

text \<open>The shutdown task awaits the server; the listener is told to stop by the 0mq worker when its loop has ended.\<close>

fun waits_for :: "bool \<Rightarrow> agent_task \<Rightarrow> agent_task list" where
  "waits_for zmq Server_task = []"
| "waits_for zmq Shutdown_task = [Server_task]"
| "waits_for zmq Key_task = senders zmq Keys_ch"
| "waits_for zmq Payload_task = senders zmq Payload_ch"
| "waits_for zmq Revocation_task = senders zmq Revocation_ch"
| "waits_for zmq Zmq_task = senders zmq Zmq_ch"
| "waits_for zmq Listener_task = [Zmq_task]"

section \<open>Stopping\<close>

text \<open>
  After the signal: a task may end when everything it waits for has. A task that is stuck, because it waits for room in a
  channel from which nobody receives, does not end.
\<close>

inductive stop_step :: "bool \<Rightarrow> agent_task set \<Rightarrow> agent_task set \<Rightarrow> agent_task set \<Rightarrow> bool" for zmq stuck where
  ends: "t \<in> set (tasks zmq) \<Longrightarrow> t \<notin> ended \<Longrightarrow> t \<notin> stuck \<Longrightarrow> set (waits_for zmq t) \<subseteq> ended
    \<Longrightarrow> stop_step zmq stuck ended (insert t ended)"

inductive_cases stop_stepE: "stop_step zmq stuck ended ended'"

text \<open>The length of the longest chain of waiting below a task: nobody waits in a circle.\<close>

fun depth :: "agent_task \<Rightarrow> nat" where
  "depth Server_task = 0"
| "depth Shutdown_task = 1"
| "depth Key_task = 2"
| "depth Payload_task = 3"
| "depth Zmq_task = 4"
| "depth Listener_task = 5"
| "depth Revocation_task = 6"

lemma waits_deeper: "t' \<in> set (waits_for zmq t) \<Longrightarrow> depth t' < depth t"
  by (cases t) (auto split: if_splits)

lemma waits_closed: "t \<in> set (tasks zmq) \<Longrightarrow> set (waits_for zmq t) \<subseteq> set (tasks zmq)"
  by (cases t) (auto simp: tasks_def split: if_splits)

lemma stop_progress:
  assumes "ended \<noteq> set (tasks zmq)" and "ended \<subseteq> set (tasks zmq)" and "stuck \<inter> set (tasks zmq) = {}"
  shows "\<exists>ended'. stop_step zmq stuck ended ended'"
proof -
  let ?open = "set (tasks zmq) - ended"
  have "?open \<noteq> {}" using assms by blast
  then obtain t where t: "t \<in> ?open" and least: "\<And>t'. t' \<in> ?open \<Longrightarrow> depth t \<le> depth t'"
    using ex_has_least_nat [of "\<lambda>t. t \<in> ?open" _ depth] by blast
  have "set (waits_for zmq t) \<subseteq> ended"
  proof
    fix t' assume "t' \<in> set (waits_for zmq t)"
    then show "t' \<in> ended"
      using t least [of t'] waits_deeper [of t' zmq t] waits_closed [of t zmq] by fastforce
  qed
  then show ?thesis using t assms(3) stop_step.ends [of t zmq ended stuck] by blast
qed

lemma stop_reach:
  "(stop_step zmq stuck ^^ n) {} ended \<Longrightarrow> ended \<subseteq> set (tasks zmq) \<and> card ended = n \<and> finite ended
     \<and> (\<forall>t \<in> ended. set (waits_for zmq t) \<subseteq> ended) \<and> ended \<inter> stuck = {}"
proof (induction n arbitrary: ended)
  case (Suc n)
  then obtain before where b: "(stop_step zmq stuck ^^ n) {} before" and s: "stop_step zmq stuck before ended" by auto
  from s Suc.IH [OF b] show ?case by (elim stop_stepE) auto
qed simp



end
