(* ===== verification/Errors_Handler.thy ===== *)
theory Errors_Handler
  imports Common Http
begin

text \<open>
  The answers to requests no other handler takes (\<^verbatim>\<open>keylime-agent/src/errors_handler.rs\<close>) and the
  version request (\<^verbatim>\<open>keylime-agent/src/version_handler.rs\<close>). The default services answer a
  supported method with 400 and a hint, any other with 405 and an \<open>Allow\<close> header.
\<close>

datatype http_method = GET | POST | Other_method string

text \<open>A response with its \<open>Allow\<close> header, when it has one.\<close>

record default_response =
  default_reply :: http_response
  allow_header :: "http_method list option"

definition hint :: "string \<Rightarrow> default_response" where
  "hint message = \<lparr>default_reply = bad_request message, allow_header = None\<rparr>"

definition not_allowed :: "http_method list \<Rightarrow> string \<Rightarrow> default_response" where
  "not_allowed ms message =
     \<lparr>default_reply = respond 405 (wrapper_error 405 message), allow_header = Some ms\<rparr>"

section \<open>Default services\<close>

definition app_default :: "http_method \<Rightarrow> default_response" where
  "app_default m =
     (case m of
        GET \<Rightarrow> hint (''Not Implemented: Use /version or /'' @ API_VERSION @ ''/ interfaces'')
      | POST \<Rightarrow> hint (''Not Implemented: Use /'' @ API_VERSION @ ''/ interface'')
      | Other_method _ \<Rightarrow> not_allowed [GET, POST] ''Method is not supported'')"

definition api_default :: "http_method \<Rightarrow> default_response" where
  "api_default m =
     (case m of
        GET \<Rightarrow> hint ''Not Implemented: Use /keys/ or /quotes/ interfaces''
      | POST \<Rightarrow> hint ''Not Implemented: Use /keys/ or /notifications/ interfaces''
      | Other_method _ \<Rightarrow> not_allowed [GET, POST] ''Method is not supported'')"

definition keys_default :: "http_method \<Rightarrow> default_response" where
  "keys_default m =
     (case m of
        GET \<Rightarrow> hint ''URI not supported, only /pubkey and /verify are supported for GET in /keys/ interface''
      | POST \<Rightarrow> hint ''URI not supported, only /ukey and /vkey are supported for POST in /keys/ interface''
      | Other_method _ \<Rightarrow> not_allowed [GET, POST] ''Method is not supported in /keys/ interface'')"

definition quotes_default :: "http_method \<Rightarrow> default_response" where
  "quotes_default m =
     (case m of
        GET \<Rightarrow> hint (''URI not supported, only /identity and /integrity are supported for GET in ''
                  @ ''/quotes/ interface'')
      | _ \<Rightarrow> not_allowed [GET] ''Method is not supported in /quotes/ interface'')"

definition notifications_default :: "http_method \<Rightarrow> default_response" where
  "notifications_default m =
     (case m of
        POST \<Rightarrow> hint (''URI not supported, only /revocation is supported for POST in ''
                   @ ''/notifications/ interface'')
      | _ \<Rightarrow> not_allowed [POST] ''Method is not supported in /notifications/ interface'')"

definition version_not_supported :: "api_version \<Rightarrow> http_response" where
  "version_not_supported v = bad_request (''API version not supported: '' @ api_version_to_string v)"

text \<open>The three parser errors, by the text of the error.\<close>

definition json_parser_error :: "string \<Rightarrow> http_response" where
  "json_parser_error err = bad_request err"

definition query_parser_error :: "string \<Rightarrow> http_response" where
  "query_parser_error err = bad_request err"

definition path_parser_error :: "string \<Rightarrow> http_response" where
  "path_parser_error err = bad_request err"

text \<open>The middleware that puts an error of the server into the JSON structure;
  \<open>StatusCode::canonical_reason\<close> is a table of the HTTP library.\<close>

definition wrap_404 :: "(nat \<Rightarrow> string option) \<Rightarrow> nat \<Rightarrow> http_response" where
  "wrap_404 canonical_reason status =
     respond status (wrapper_error status
       (case canonical_reason status of Some r \<Rightarrow> r | None \<Rightarrow> ''Not Found''))"

text \<open>\<open>API_VERSION[1..]\<close>: the version without its leading letter.\<close>

definition version :: http_response where
  "version = respond 200 (wrapper_success (JObj [(''supported_version'', JStr (drop 1 API_VERSION))]))"

section \<open>The contract of a default service\<close>

text \<open>
  A default service never reports success: it answers with 400, or with 405 and the methods that it
  would have answered with 400.
\<close>

definition is_hint :: "default_response \<Rightarrow> bool" where
  "is_hint r \<longleftrightarrow> (\<exists>s. s \<noteq> ''Success'' \<and> r = hint s)"

definition is_refusal :: "http_method list \<Rightarrow> default_response \<Rightarrow> bool" where
  "is_refusal ms r \<longleftrightarrow> (\<exists>s. s \<noteq> ''Success'' \<and> r = not_allowed ms s)"

lemma is_hintI [intro]: "s \<noteq> ''Success'' \<Longrightarrow> is_hint (hint s)"
  by (auto simp: is_hint_def)

lemma is_refusalI [intro]: "s \<noteq> ''Success'' \<Longrightarrow> is_refusal ms (not_allowed ms s)"
  by (auto simp: is_refusal_def)

lemma is_hintD:
  "is_hint r \<Longrightarrow> http_status (default_reply r) = 400 \<and> allow_header r = None
     \<and> well_formed_response (default_reply r)"
  by (auto simp: is_hint_def hint_def)

lemma is_refusalD:
  "is_refusal ms r \<Longrightarrow> http_status (default_reply r) = 405 \<and> allow_header r = Some ms
     \<and> well_formed_response (default_reply r)"
  by (auto simp: is_refusal_def not_allowed_def)

locale default_service =
  fixes service :: "http_method \<Rightarrow> default_response"
    and supported :: "http_method list"
  assumes hints: "m \<in> set supported \<Longrightarrow> is_hint (service m)"
    and refuses: "m \<notin> set supported \<Longrightarrow> is_refusal supported (service m)"
begin

lemma status: "http_status (default_reply (service m)) = (if m \<in> set supported then 400 else 405)"
  using is_hintD [OF hints, of m] is_refusalD [OF refuses, of m] by simp

lemma allow: "allow_header (service m) = (if m \<in> set supported then None else Some supported)"
  using is_hintD [OF hints, of m] is_refusalD [OF refuses, of m] by simp

lemma well_formed: "well_formed_response (default_reply (service m))"
  using is_hintD [OF hints, of m] is_refusalD [OF refuses, of m] by blast

lemma allow_sound:
  "allow_header (service m) = Some ms \<Longrightarrow> m' \<in> set ms \<longleftrightarrow> http_status (default_reply (service m')) = 400"
  by (auto simp: allow status split: if_splits)

end

interpretation app_service: default_service app_default "[GET, POST]"
  by unfold_locales (auto simp: app_default_def split: http_method.split)

interpretation api_service: default_service api_default "[GET, POST]"
  by unfold_locales (auto simp: api_default_def split: http_method.split)

interpretation keys_service: default_service keys_default "[GET, POST]"
  by unfold_locales (auto simp: keys_default_def split: http_method.split)

interpretation quotes_service: default_service quotes_default "[GET]"
  by unfold_locales (auto simp: quotes_default_def split: http_method.split)

interpretation notifications_service: default_service notifications_default "[POST]"
  by unfold_locales (auto simp: notifications_default_def split: http_method.split)

end
