(* ===== verification/Routes.thy ===== *)
theory Routes
  imports Errors_Handler
begin

text \<open>
  The table of services that \<open>main\<close> in \<^verbatim>\<open>keylime-agent/src/main.rs\<close> gives to the server: the scopes below the API version, their
  resources with the method and handler of each, and the default service of each scope. How the server finds the
  service of a request is its own matter.
\<close>

section \<open>The table\<close>

datatype rest_handler_name =
  Pubkey | Ukey | Verify | Vkey | Revocation_handler | Identity | Integrity | Version_handler

record route =
  rt_path :: string
  rt_method :: http_method
  rt_handler :: rest_handler_name

record api_scope =
  sc_path :: string
  sc_routes :: "route list"
  sc_default :: "http_method \<Rightarrow> default_response"

definition keys_scope :: api_scope where
  "keys_scope =
     \<lparr>sc_path = ''/keys'',
      sc_routes =
        [\<lparr>rt_path = ''/pubkey'', rt_method = GET, rt_handler = Pubkey\<rparr>,
         \<lparr>rt_path = ''/ukey'', rt_method = POST, rt_handler = Ukey\<rparr>,
         \<lparr>rt_path = ''/verify'', rt_method = GET, rt_handler = Verify\<rparr>,
         \<lparr>rt_path = ''/vkey'', rt_method = POST, rt_handler = Vkey\<rparr>],
      sc_default = keys_default\<rparr>"

definition notifications_scope :: api_scope where
  "notifications_scope =
     \<lparr>sc_path = ''/notifications'',
      sc_routes = [\<lparr>rt_path = ''/revocation'', rt_method = POST, rt_handler = Revocation_handler\<rparr>],
      sc_default = notifications_default\<rparr>"

definition quotes_scope :: api_scope where
  "quotes_scope =
     \<lparr>sc_path = ''/quotes'',
      sc_routes =
        [\<lparr>rt_path = ''/identity'', rt_method = GET, rt_handler = Identity\<rparr>,
         \<lparr>rt_path = ''/integrity'', rt_method = GET, rt_handler = Integrity\<rparr>],
      sc_default = quotes_default\<rparr>"

definition api_scopes :: "api_scope list" where
  "api_scopes = [keys_scope, notifications_scope, quotes_scope]"

text \<open>The resources of the application: those of the scopes below the version, and the version request.\<close>

definition agent_routes :: "(string \<times> http_method \<times> rest_handler_name) list" where
  "agent_routes =
     concat (map (\<lambda>s. map (\<lambda>r. (''/'' @ API_VERSION @ sc_path s @ rt_path r, rt_method r, rt_handler r)) (sc_routes s)) api_scopes)
     @ [(''/version'', GET, Version_handler)]"

section \<open>The table agrees with what the default services say\<close>

text \<open>The routes agree with the answers of the default services. Every handler of the agent is served at exactly one
  path, no two resources share a path, and a scope's default service refuses exactly the methods that no resource of the scope
  takes, naming in its \<open>Allow\<close> header just the methods that some resource takes.\<close>

theorem routes_agree_with_defaults:
  "distinct (map fst agent_routes)
   \<and> (\<forall>h. length (filter (\<lambda>r. snd (snd r) = h) agent_routes) = 1)
   \<and> list_all (\<lambda>s. \<forall>m. (http_status (default_reply (sc_default s m)) = 405 \<longleftrightarrow> m \<notin> rt_method ` set (sc_routes s))
        \<and> map_option set (allow_header (sc_default s m)) \<in> {None, Some (rt_method ` set (sc_routes s))}) api_scopes"
proof (intro conjI allI)
  show "distinct (map fst agent_routes)"
    by (simp add: agent_routes_def api_scopes_def keys_scope_def notifications_scope_def quotes_scope_def API_VERSION_def)
  show "length (filter (\<lambda>r. snd (snd r) = h) agent_routes) = 1" for h
    by (cases h) (simp_all add: agent_routes_def api_scopes_def keys_scope_def notifications_scope_def quotes_scope_def)
  show "list_all (\<lambda>s. \<forall>m. (http_status (default_reply (sc_default s m)) = 405 \<longleftrightarrow> m \<notin> rt_method ` set (sc_routes s))
        \<and> map_option set (allow_header (sc_default s m)) \<in> {None, Some (rt_method ` set (sc_routes s))}) api_scopes"
    by (auto simp: api_scopes_def keys_scope_def notifications_scope_def quotes_scope_def keys_service.status
        keys_service.allow notifications_service.status notifications_service.allow quotes_service.status quotes_service.allow
        split: if_splits)
qed

end
