(* ===== verification/Server.thy ===== *)
theory Server
  imports Routes Keys_Handler Quotes_Handler Revocation
begin

text \<open>
  The handlers behind the routes of \<^verbatim>\<open>keylime-agent/src/main.rs\<close> as one server: a request whose parameters were parsed goes to
  the handler its route names, on the part of the shared data (\<open>QuoteData\<close>) that the handler uses.
\<close>

section \<open>Requests and shared data\<close>

datatype agent_request =
  Rq_pubkey | Rq_ukey keylime_ukey | Rq_verify key_challenge | Rq_vkey keylime_vkey | Rq_revocation revocation
| Rq_identity ident | Rq_integrity integ | Rq_version

fun handler_of :: "agent_request \<Rightarrow> rest_handler_name" where
  "handler_of Rq_pubkey = Pubkey"
| "handler_of (Rq_ukey _) = Ukey"
| "handler_of (Rq_verify _) = Verify"
| "handler_of (Rq_vkey _) = Vkey"
| "handler_of (Rq_revocation _) = Revocation_handler"
| "handler_of (Rq_identity _) = Identity"
| "handler_of (Rq_integrity _) = Integrity"
| "handler_of Rq_version = Version_handler"

record 'c shared_data =
  sd_keys_tx :: "key_envelope chan"
  sd_revocation_tx :: "revocation_message chan"
  sd_quotes :: "'c quote_state"

record ('h, 'c, 'key, 'sel, 'data, 'sig, 'dig, 'priv, 'pub, 'sk) server_env =
  se_quotes :: "('h, 'c, 'key, 'sel, 'data, 'sig, 'dig, 'priv, 'pub) quote_libs"
  se_keys :: "'sk key_crypto"
  se_order :: "(nat \<times> nat) iteration_order"
  se_data :: "('pub, 'key) quote_data"

section \<open>Answering\<close>

fun serve_request ::
  "('h, 'c, 'key, 'sel, 'data, 'sig, 'dig, 'priv, 'pub, 'sk) server_env \<Rightarrow> 'c shared_data \<Rightarrow> agent_request
   \<Rightarrow> (http_response \<times> 'c shared_data, agent_error) outcome" where
  "serve_request env sd Rq_pubkey =
     pubkey (ql_utf8_error (se_quotes env)) (ql_pkey (se_quotes env)) sd (qd_pub_key (se_data env))"
| "serve_request env sd (Rq_ukey b) =
     and_then (u_key (se_keys env) (sd_keys_tx sd) b) (\<lambda>(r, ch). Ok (r, sd\<lparr>sd_keys_tx := ch\<rparr>))"
| "serve_request env sd (Rq_verify q) =
     and_then (verify (ql_alphanumeric (se_quotes env)) (se_keys env) (sd_keys_tx sd) q) (\<lambda>(r, ch). Ok (r, sd\<lparr>sd_keys_tx := ch\<rparr>))"
| "serve_request env sd (Rq_vkey b) =
     and_then (v_key (se_keys env) (sd_keys_tx sd) b) (\<lambda>(r, ch). Ok (r, sd\<lparr>sd_keys_tx := ch\<rparr>))"
| "serve_request env sd (Rq_revocation b) =
     and_then (revocation_handler (sd_revocation_tx sd) b) (\<lambda>(r, ch). Ok (r, sd\<lparr>sd_revocation_tx := ch\<rparr>))"
| "serve_request env sd (Rq_identity q) =
     and_then (identity (se_quotes env) (se_data env) (sd_quotes sd) q) (\<lambda>(r, st). Ok (r, sd\<lparr>sd_quotes := st\<rparr>))"
| "serve_request env sd (Rq_integrity q) =
     and_then (integrity (se_quotes env) (se_order env) (se_data env) (sd_quotes sd) q) (\<lambda>(r, st). Ok (r, sd\<lparr>sd_quotes := st\<rparr>))"
| "serve_request env sd Rq_version = Ok (version, sd)"

text \<open>The server keeps the contract of its handlers.\<close>

interpretation server_rest: rest_handler "serve_request env" for env
proof
  fix sd q r sd'
  assume "serve_request env sd q = Ok (r, sd')"
  then show "well_formed_response r"
    by (cases q) (auto simp: and_then_Ok_iff version_def dest: u_key_rest.well_formed v_key_rest.well_formed
        pubkey_rest.well_formed verify_rest.well_formed revocation_rest.well_formed identity_rest.well_formed
        integrity_rest.well_formed)
next
  fix sd q e
  show "serve_request env sd q \<noteq> Err e"
    by (cases q) (auto simp: and_then_Err_iff u_key_rest.responds v_key_rest.responds pubkey_rest.responds
        verify_rest.responds revocation_rest.responds identity_rest.responds integrity_rest.responds)
qed

text \<open>\<^bold>\<open>C40\<close>: every answer of the server has the one shape its clients parse. For each request that has a route the code in the body is the
  HTTP status, the body reports success exactly with 200, and an error carries no results; no request is answered
  with an error value. A request reaches only the data its handler is for: keys requests do not touch the quotes
  or the revocations, quotes touch nothing else, and public key and version change nothing.\<close>

theorem server_contract:
  "(\<forall>e. serve_request env sd q \<noteq> Err e)
   \<and> (serve_request env sd q = Ok (r, sd') \<longrightarrow>
        (wrap_code (http_body r) = http_status r
         \<and> (http_status r = 200 \<longleftrightarrow> wrap_status (http_body r) = ''Success'')
         \<and> (http_status r \<noteq> 200 \<longrightarrow> wrap_results (http_body r) = JObj []))
        \<and> (sd_keys_tx sd' = sd_keys_tx sd \<or> handler_of q \<in> {Ukey, Vkey, Verify})
        \<and> (sd_revocation_tx sd' = sd_revocation_tx sd \<or> handler_of q = Revocation_handler)
        \<and> (sd_quotes sd' = sd_quotes sd \<or> handler_of q \<in> {Identity, Integrity}))"
proof (intro conjI impI allI)
  show "serve_request env sd q \<noteq> Err e" for e by (rule server_rest.responds)
  assume s: "serve_request env sd q = Ok (r, sd')"
  show "wrap_code (http_body r) = http_status r" by (rule server_rest.body_code [OF s])
  show "http_status r = 200 \<longleftrightarrow> wrap_status (http_body r) = ''Success''" by (rule server_rest.success_iff [OF s])
  show "wrap_results (http_body r) = JObj []" if "http_status r \<noteq> 200" by (rule server_rest.error_carries_nothing [OF s that])
  show "sd_keys_tx sd' = sd_keys_tx sd \<or> handler_of q \<in> {Ukey, Vkey, Verify}"
    "sd_revocation_tx sd' = sd_revocation_tx sd \<or> handler_of q = Revocation_handler"
    "sd_quotes sd' = sd_quotes sd \<or> handler_of q \<in> {Identity, Integrity}"
    using s by (cases q; auto simp: and_then_Ok_iff pubkey_def or_respond_Ok_iff)+
qed

definition shared_data_ref :: "nat shared_data" where
  "shared_data_ref = \<lparr>sd_keys_tx = open_chan, sd_revocation_tx = open_chan, sd_quotes = quote_state_ref\<rparr>"

theorem server_contract_witness:
  "\<exists>r sd'. serve_request \<lparr>se_quotes = quote_libs_ref, se_keys = key_crypto_ref, se_order = insertion_order, se_data = quote_data_ref\<rparr>
       shared_data_ref (Rq_revocation \<lparr>rev_msg = ''m'', rev_signature = ''s''\<rparr>) = Ok (r, sd')
     \<and> http_status r = 200 \<and> wrap_status (http_body r) = ''Success'' \<and> sd_quotes sd' = quote_state_ref"
proof -
  let ?env = "\<lparr>se_quotes = quote_libs_ref, se_keys = key_crypto_ref, se_order = insertion_order, se_data = quote_data_ref\<rparr>"
    and ?q = "Rq_revocation \<lparr>rev_msg = ''m'', rev_signature = ''s''\<rparr>"
  obtain r sd' where s: "serve_request ?env shared_data_ref ?q = Ok (r, sd')" and "http_status r = 200"
    by (simp add: shared_data_ref_def revocation_handler_def mpsc_send_def open_chan_def)
  with server_contract [of ?env shared_data_ref ?q r sd'] show ?thesis by (auto simp: shared_data_ref_def)
qed

end
