(* ===== verification/Agent_System.thy ===== *)
theory Agent_System
  imports Server Payloads
begin

text \<open>
  The tasks that \<open>main\<close> of \<^verbatim>\<open>keylime-agent/src/main.rs\<close> spawns, together: the server, the keys worker, the payload worker,
  the revocation worker and, with the feature \<open>with-zmq\<close>, the 0mq worker and its listener, on the channels between
  them and on one machine. The workers are tasks of one thread and have no \<open>await\<close> between receiving a message and
  sending the messages that result, so a turn of a worker is one step. The steps come in any order. No task sends a
  shutdown message (theory \<open>Shutdown\<close>), so channels stay open while the agent serves.
\<close>

section \<open>The system\<close>

record ('h, 'c, 'key, 'sel, 'data, 'sig, 'dig, 'priv, 'pub, 'sk, 'z, 'cert, 'cpub) system_env =
  ge_server :: "('h, 'c, 'key, 'sel, 'data, 'sig, 'dig, 'priv, 'pub, 'sk) server_env"
  ge_machine :: machine_env
  ge_payload_libs :: "'z payload_libs"
  ge_revocation_libs :: "('cert, 'cpub) revocation_libs"
  ge_revocation :: revocation_config
  ge_config :: agent_config
  ge_mount :: string
  ge_uuid :: string
  ge_run_payload :: bool
  ge_zmq_body :: "string \<Rightarrow> (revocation, string) outcome"
  ge_zmq_connects :: "nat \<Rightarrow> bool"

text \<open>The sending end of the payload channel is held by the keys worker; the 0mq channel exists with the feature. The
  handlers of key challenges that wait for the reply of the keys worker are listed with their reply channel and their challenge; reply
  channels are numbered.\<close>

record ('c, 'cert) agent_system =
  as_shared :: "'c shared_data"
  as_keys :: keys_worker
  as_cert :: "'cert option"
  as_zmq_tx :: "zmq_message chan option"
  as_zmq :: zmq_worker
  as_machine :: machine
  as_waiting :: "(nat \<times> string) list"
  as_next :: nat

abbreviation system_hmac where "system_hmac env \<equiv> kc_hmac (se_keys (ge_server env))"

definition agent_start :: "bool \<Rightarrow> 'c quote_state \<Rightarrow> machine \<Rightarrow> ('c, 'cert) agent_system" where
  "agent_start with_zmq quotes m =
     \<lparr>as_shared = \<lparr>sd_keys_tx = open_chan, sd_revocation_tx = open_chan, sd_quotes = quotes\<rparr>,
      as_keys = keys_start, as_cert = None, as_zmq_tx = (if with_zmq then Some open_chan else None),
      as_zmq = zmq_start, as_machine = m, as_waiting = [], as_next = 0\<rparr>"

text \<open>What happens, as an observer of the agent would record it.\<close>

datatype agent_event =
  Answered agent_request http_response
| Asked nat string
| Keys_turn key_envelope
| Payload_turn payload_message
| Revocation_turn fs revocation_message
| Zmq_turn zmq_message
| Zmq_heard zmq_event
| Disk_changed fs
| Platform_changed

text \<open>
  A challenge that is not refused waits for the keys worker; every other request is answered at once. The kernel appends to
  the measurement list, the TPM and the boot log change, and other programs change the file system at any time.
\<close>

abbreviation system_alphanumeric where "system_alphanumeric env \<equiv> ql_alphanumeric (se_quotes (ge_server env))"

fun awaits_key where
  "awaits_key env s (Rq_verify q) \<longleftrightarrow>
     verify_refusal (system_alphanumeric env) (challenge q) = None \<and> \<not> closed (sd_keys_tx (as_shared s))"
| "awaits_key env s _ \<longleftrightarrow> False"

inductive platform_step :: "'c quote_state \<Rightarrow> 'c quote_state \<Rightarrow> bool" where
  measured: "ima_ml_file st = Some t \<Longrightarrow> platform_step st (st\<lparr>ima_ml_file := Some (t @ t')\<rparr>)"
| tpm_used: "platform_step st (st\<lparr>tpmcontext := c\<rparr>)"
| boot_log_changed: "platform_step st (st\<lparr>measuredboot_ml_file := f\<rparr>)"

inductive agent_step for env where
  request: "\<not> awaits_key env s q \<Longrightarrow> serve_request (ge_server env) (as_shared s) q = Ok (r, sd)
    \<Longrightarrow> agent_step env s (Answered q r) (s\<lparr>as_shared := sd\<rparr>)"
| challenge_asked: "verify_refusal (system_alphanumeric env) c = None
    \<Longrightarrow> mpsc_send (sd_keys_tx (as_shared s)) (GetSymmKey, Some (as_next s)) = Some ch
    \<Longrightarrow> agent_step env s (Asked (as_next s) c)
          (s\<lparr>as_shared := (as_shared s)\<lparr>sd_keys_tx := ch\<rparr>, as_waiting := as_waiting s @ [(as_next s, c)], as_next := Suc (as_next s)\<rparr>)"
| challenge_answered: "(i, c) \<in> set (as_waiting s) \<Longrightarrow> (i, SymmKey k) \<in> set (replies (as_keys s))
    \<Longrightarrow> verify_answer (se_keys (ge_server env)) c (Ok k) = Ok r
    \<Longrightarrow> agent_step env s
          (Answered (Rq_verify \<lparr>challenge = c, challenge_resp = i, challenge_reply = Some (SymmKey k)\<rparr>) r)
          (s\<lparr>as_waiting := remove1 (i, c) (as_waiting s)\<rparr>)"
| keys_turn: "sd_keys_tx (as_shared s) = \<lparr>queue = m # ms, closed = b\<rparr>
    \<Longrightarrow> keys_handle (system_hmac env) (ge_uuid env) (ge_run_payload env) (as_keys s) m = Ok (w, c)
    \<Longrightarrow> agent_step env s (Keys_turn m)
          (s\<lparr>as_keys := w, as_shared := (as_shared s)\<lparr>sd_keys_tx := \<lparr>queue = ms, closed = b \<or> c\<rparr>\<rparr>\<rparr>)"
| payload_turn: "payloads_chan (as_keys s) = \<lparr>queue = m # ms, closed = b\<rparr>
    \<Longrightarrow> payloads_handle (ge_machine env) (ge_payload_libs env) (ge_config env) (ge_mount env)
          \<lparr>pw_machine = as_machine s, pw_revocation_tx = sd_revocation_tx (as_shared s), pw_zmq_tx = as_zmq_tx s\<rparr> m = Ok (w, c)
    \<Longrightarrow> agent_step env s (Payload_turn m)
          (s\<lparr>as_keys := (as_keys s)\<lparr>payloads_chan := \<lparr>queue = ms, closed = b \<or> c\<rparr>\<rparr>,
             as_machine := pw_machine w, as_zmq_tx := pw_zmq_tx w,
             as_shared := (as_shared s)\<lparr>sd_revocation_tx := pw_revocation_tx w\<rparr>\<rparr>)"
| revocation_turn: "sd_revocation_tx (as_shared s) = \<lparr>queue = m # ms, closed = b\<rparr>
    \<Longrightarrow> revocation_handle (ge_machine env) (ge_revocation_libs env) (ge_revocation env)
          \<lparr>revocation_cert = as_cert s, rev_machine = as_machine s\<rparr> m = Ok (w, c)
    \<Longrightarrow> agent_step env s (Revocation_turn (disk (as_machine s)) m)
          (s\<lparr>as_cert := revocation_cert w, as_machine := rev_machine w,
             as_shared := (as_shared s)\<lparr>sd_revocation_tx := \<lparr>queue = ms, closed = b \<or> c\<rparr>\<rparr>\<rparr>)"
| zmq_turn: "ac_enable_revocation_notifications (ge_config env) \<Longrightarrow> as_zmq_tx s = Some \<lparr>queue = m # ms, closed = b\<rparr>
    \<Longrightarrow> zmq_handle (ge_zmq_connects env) (as_zmq s) m = Ok (w, c)
    \<Longrightarrow> agent_step env s (Zmq_turn m) (s\<lparr>as_zmq := w, as_zmq_tx := Some \<lparr>queue = ms, closed = b \<or> c\<rparr>\<rparr>)"
| zmq_heard: "zmq_task (as_zmq s)
    \<Longrightarrow> agent_step env s (Zmq_heard ev)
          (s\<lparr>as_shared := (as_shared s)\<lparr>sd_revocation_tx := listen_turn (ge_zmq_body env) (sd_revocation_tx (as_shared s)) ev\<rparr>\<rparr>)"
| disk_changed: "agent_step env s (Disk_changed f) (s\<lparr>as_machine := (as_machine s)\<lparr>disk := f\<rparr>\<rparr>)"
| platform_changed: "platform_step (sd_quotes (as_shared s)) st
    \<Longrightarrow> agent_step env s Platform_changed (s\<lparr>as_shared := (as_shared s)\<lparr>sd_quotes := st\<rparr>\<rparr>)"

text \<open>Asking and answering are together the handler \<open>verify\<close>, with the reply of the keys worker.\<close>

lemma challenge_steps_verify:
  assumes "verify_refusal uni c = None" and "mpsc_send ch (GetSymmKey, Some i) = Some ch'"
  shows "verify uni kc ch \<lparr>challenge = c, challenge_resp = i, challenge_reply = Some (SymmKey k)\<rparr>
    = and_then (verify_answer kc c (Ok k)) (\<lambda>r. Ok (r, ch'))"
  using assms by (simp add: verify_def get_symm_key_def)

text \<open>A trace of events from a start, and the induction that every invariant of states and traces uses.\<close>

inductive event_reach :: "('s \<Rightarrow> 'e \<Rightarrow> 's \<Rightarrow> bool) \<Rightarrow> 's \<Rightarrow> 'e list \<Rightarrow> 's \<Rightarrow> bool" for step s0 where
  start: "event_reach step s0 [] s0"
| extend: "event_reach step s0 es s \<Longrightarrow> step s e s' \<Longrightarrow> event_reach step s0 (es @ [e]) s'"

lemma event_reach_snocE:
  assumes "event_reach step s0 (es @ [e]) s"
  obtains s' where "event_reach step s0 es s'" and "step s' e s"
  using assms by (cases rule: event_reach.cases) auto

locale event_system =
  fixes step :: "'s \<Rightarrow> 'e \<Rightarrow> 's \<Rightarrow> bool" and inv :: "'e list \<Rightarrow> 's \<Rightarrow> bool" and starts :: "'s \<Rightarrow> bool"
  assumes inv_start: "starts s \<Longrightarrow> inv [] s"
    and inv_step: "inv es s \<Longrightarrow> step s e s' \<Longrightarrow> inv (es @ [e]) s'"
begin

lemma reach_inv: "event_reach step s0 es s \<Longrightarrow> starts s0 \<Longrightarrow> inv es s"
  by (induction rule: event_reach.induct) (auto intro: inv_start inv_step)

end

section \<open>The keys worker in the system\<close>

text \<open>A request reaches the keys channel in one way only.\<close>

lemma serve_keys_post:
  assumes "serve_request env sd q = Ok (r, sd')"
  shows "sd_keys_tx sd' = sd_keys_tx sd
    \<or> (\<exists>m. allowed_message m \<and> mpsc_send (sd_keys_tx sd) m = Some (sd_keys_tx sd'))"
  using assms
proof (cases q)
  case (Rq_ukey b)
  with assms obtain ch where "u_key (se_keys env) (sd_keys_tx sd) b = Ok (r, ch)" and "sd_keys_tx sd' = ch"
    by (auto simp: and_then_Ok_iff)
  then show ?thesis using u_key_cases by (metis allowed_message.simps(1))
next
  case (Rq_vkey b)
  with assms obtain ch where "v_key (se_keys env) (sd_keys_tx sd) b = Ok (r, ch)" and "sd_keys_tx sd' = ch"
    by (auto simp: and_then_Ok_iff)
  then show ?thesis using v_key_cases by (metis allowed_message.simps(2))
next
  case (Rq_verify b)
  with assms have "verify (ql_alphanumeric (se_quotes env)) (se_keys env) (sd_keys_tx sd) b = Ok (r, sd_keys_tx sd')"
    by (auto simp: and_then_Ok_iff)
  then have "sd_keys_tx sd' = sd_keys_tx sd
      \<or> mpsc_send (sd_keys_tx sd) (GetSymmKey, Some (challenge_resp b)) = Some (sd_keys_tx sd')"
    by (auto simp: verify_def get_symm_key_def and_then_Ok_iff split: option.splits symm_key_message.splits)
  then show ?thesis by fastforce
qed (auto simp: and_then_Ok_iff pubkey_def or_respond_Ok_iff)

lemma system_step_keys:
  assumes "agent_step env s e s'"
  shows "(as_keys s', sd_keys_tx (as_shared s')) = (as_keys s, sd_keys_tx (as_shared s))
    \<or> worker_step (keys_handle (system_hmac env) (ge_uuid env) (ge_run_payload env)) allowed_message keys_other
        (as_keys s, sd_keys_tx (as_shared s)) (as_keys s', sd_keys_tx (as_shared s'))"
  using assms
proof (cases rule: agent_step.cases)
  case (request q r sd)
  then show ?thesis using serve_keys_post [OF request(4)] by (auto intro: worker_step.post)
next
  case (keys_turn m ms b w c)
  then show ?thesis using worker_step.receive [of "sd_keys_tx (as_shared s)" m ms _ "as_keys s" w c] by simp
next
  case (challenge_asked c ch)
  then show ?thesis by (auto intro: worker_step.post [where m = "(GetSymmKey, Some (as_next s))"])
next
  case (payload_turn m ms b w c)
  then have "keys_other (as_keys s) (as_keys s')" by (auto simp: keys_other_def)
  then show ?thesis using payload_turn by (auto intro: worker_step.environment)
qed auto

lemma system_keys_reach:
  assumes "event_reach (agent_step env) (agent_start with_zmq quotes m) es s"
  shows "worker_reach (keys_handle (system_hmac env) (ge_uuid env) (ge_run_payload env)) allowed_message keys_other keys_start
    (as_keys s, sd_keys_tx (as_shared s))"
  using assms
proof (induction rule: event_reach.induct)
  case start
  then show ?case by (simp add: agent_start_def worker_reach.start)
next
  case (extend es s e s')
  from system_step_keys [OF extend.hyps(2)] extend.IH show ?case by (auto intro: worker_reach.step)
qed

section \<open>The quotes in the system\<close>

lemma system_step_quotes:
  assumes "agent_step env s e s'"
  shows "sd_quotes (as_shared s') = sd_quotes (as_shared s)
    \<or> quotes_step (se_quotes (ge_server env)) (se_data (ge_server env)) (sd_quotes (as_shared s)) (sd_quotes (as_shared s'))"
  using assms
proof (cases rule: agent_step.cases)
  case (request q r sd)
  then show ?thesis
    by (cases q) (auto simp: and_then_Ok_iff pubkey_def or_respond_Ok_iff intro: quotes_step.intros)
next
  case (platform_changed st)
  from platform_changed(3) show ?thesis
    by (cases rule: platform_step.cases) (use platform_changed(2) in \<open>auto intro: quotes_step.intros\<close>)
qed auto

lemma system_quotes_reach:
  assumes "event_reach (agent_step env) (agent_start with_zmq quotes m) es s" and "ima_ml quotes = ml_new"
  shows "quotes_reach (se_quotes (ge_server env)) (se_data (ge_server env)) (sd_quotes (as_shared s))"
  using assms
proof (induction rule: event_reach.induct)
  case start
  then show ?case by (simp add: agent_start_def quotes_reach.start)
next
  case (extend es s e s')
  from system_step_quotes [OF extend.hyps(2)] extend.IH [OF extend.prems] show ?case by (auto intro: quotes_reach.step)
qed

section \<open>What a turn of each task can do\<close>

text \<open>The share that the body of a request carries.\<close>

definition u_share :: "'priv key_crypto \<Rightarrow> keylime_ukey \<Rightarrow> u_key_data \<Rightarrow> bool" where
  "u_share kc b u \<longleftrightarrow> valid_ukey u
     \<and> (\<exists>e. kc_base64 kc (uk_encrypted_key b) = Ok e
          \<and> rsa_oaep_decrypt (kc_decrypter kc) (kc_priv_key kc) e = Ok (key_bytes (u_decrypted_key u)))
     \<and> kc_hex kc (uk_auth_tag b) = Ok (tag_bytes (u_auth_tag u))
     \<and> (case uk_payload b of
          None \<Rightarrow> u_payload u = None
        | Some p \<Rightarrow> \<exists>d. u_payload u = Some d \<and> kc_base64 kc p = Ok (data_bytes d))"

definition v_share :: "'priv key_crypto \<Rightarrow> keylime_vkey \<Rightarrow> v_key_data \<Rightarrow> bool" where
  "v_share kc b v \<longleftrightarrow> valid_vkey v
     \<and> (\<exists>e. kc_base64 kc (vk_encrypted_key b) = Ok e
          \<and> rsa_oaep_decrypt (kc_decrypter kc) (kc_priv_key kc) e = Ok (key_bytes (v_decrypted_key v)))"

lemma u_key_posts:
  assumes "u_key kc ch b = Ok (r, ch')"
  shows "ch' = ch \<or> http_status r = 200 \<and> (\<exists>u. u_share kc b u \<and> queue ch' = queue ch @ [(UKey u, None)])"
  using assms unfolding u_key_def u_share_def
  by (auto simp: or_respond_Ok_iff and_then_Ok_iff symm_key_try_from_Ok_iff auth_tag_try_from_Ok_iff
      mpsc_send_Some_iff encrypted_data_from_def split: option.splits)

lemma v_key_posts:
  assumes "v_key kc ch b = Ok (r, ch')"
  shows "ch' = ch \<or> http_status r = 200 \<and> (\<exists>v. v_share kc b v \<and> queue ch' = queue ch @ [(VKey v, None)])"
  using assms unfolding v_key_def v_share_def
  by (auto simp: or_respond_Ok_iff symm_key_try_from_Ok_iff mpsc_send_Some_iff split: option.splits)

text \<open>Where the pending shares, the key and the payloads of the keys worker come from.\<close>

definition derived :: "hmac_fun \<Rightarrow> string \<Rightarrow> u_key_data set \<Rightarrow> v_key_data set \<Rightarrow> symm_key \<Rightarrow> bool" where
  "derived hmac uuid us vs k \<longleftrightarrow> (\<exists>u \<in> us. \<exists>v \<in> vs. authenticates hmac (as_bytes uuid) u v k)"

definition combined :: "hmac_fun \<Rightarrow> string \<Rightarrow> u_key_data set \<Rightarrow> v_key_data set \<Rightarrow> payload \<Rightarrow> bool" where
  "combined hmac uuid us vs p \<longleftrightarrow> (\<exists>u \<in> us. \<exists>v \<in> vs.
     authenticates hmac (as_bytes uuid) u v (payload_symm_key p) \<and> u_payload u = Some (encrypted_payload p))"

lemma process_and_store_sources:
  assumes "hmac_length hmac" and "list_all valid_ukey (ukeys w)" and "process_and_store hmac uuid rp w = Ok (w', c)"
  shows "set (ukeys w') \<subseteq> set (ukeys w) \<and> set (vkeys w') \<subseteq> set (vkeys w)
    \<and> (\<forall>p. RunPayload p \<in> set (queue (payloads_chan w')) \<longrightarrow>
         RunPayload p \<in> set (queue (payloads_chan w)) \<or> rp \<and> combined hmac uuid (set (ukeys w)) (set (vkeys w)) p)
    \<and> (\<forall>k. symm_key w' = Some k \<longrightarrow> symm_key w = Some k \<or> derived hmac uuid (set (ukeys w)) (set (vkeys w)) k)
    \<and> replies w' = replies w"
proof (cases rule: try_combine_keys_cases
    [OF assms(1,2), of "vkeys w" "as_bytes uuid", case_names none found])
  case none
  with process_and_store_none [OF none(1)] assms(3) show ?thesis by simp
next
  case (found u v k)
  from process_and_store_found [OF found(1), of rp] assms(3) obtain ch where
    w': "w' = w\<lparr>ukeys := [], vkeys := [], symm_key := Some k, payloads_chan := ch\<rparr>" and
    ch: "ch = payloads_chan w \<or> rp \<and> (\<exists>q. payload_of u k = Some q \<and> mpsc_send (payloads_chan w) (RunPayload q) = Some ch)"
    by auto
  have "combined hmac uuid (set (ukeys w)) (set (vkeys w)) q" if "payload_of u k = Some q" for q
    using that found(2-4) by (fastforce simp: combined_def payload_of_def)
  moreover have "derived hmac uuid (set (ukeys w)) (set (vkeys w)) k"
    using found(2-4) by (auto simp: derived_def)
  ultimately show ?thesis using ch by (auto simp: w' mpsc_send_Some_iff)
qed

lemma keys_turn_sources:
  assumes "hmac_length hmac" and "list_all valid_ukey (ukeys w)" and "allowed_message m"
    and "keys_handle hmac uuid rp w m = Ok (w', c)"
  defines "us \<equiv> set (ukeys w) \<union> {u. fst m = UKey u}" and "vs \<equiv> set (vkeys w) \<union> {v. fst m = VKey v}"
  shows "set (ukeys w') \<subseteq> us \<and> set (vkeys w') \<subseteq> vs
    \<and> (\<forall>p. RunPayload p \<in> set (queue (payloads_chan w')) \<longrightarrow>
         RunPayload p \<in> set (queue (payloads_chan w)) \<or> rp \<and> combined hmac uuid us vs p)
    \<and> (\<forall>k. symm_key w' = Some k \<longrightarrow> symm_key w = Some k \<or> derived hmac uuid us vs k)
    \<and> set (replies w') \<subseteq> insert (the (snd m), SymmKey (symm_key w)) (set (replies w))"
proof (cases m rule: allowed_message.cases)
  case (1 u r)
  then show ?thesis
    using process_and_store_sources [OF assms(1), of "w\<lparr>ukeys := ukeys w @ [u]\<rparr>" uuid rp w' c] assms(2-4)
    by (simp add: us_def vs_def subset_insertI)
next
  case (2 v r)
  then show ?thesis
    using process_and_store_sources [OF assms(1), of "w\<lparr>vkeys := vkeys w @ [v]\<rparr>" uuid rp w' c] assms(2-4)
    by (simp add: us_def vs_def subset_insertI)
qed (use assms(4) in \<open>auto simp: us_def vs_def split: option.splits\<close>)

text \<open>A payload that does not decrypt has no effect.\<close>

lemma payload_turn_effects:
  assumes "payloads_handle env libs cfg mount w m = Ok (w', c)"
  shows "w' = w \<or> (\<exists>p data. m = RunPayload p
      \<and> decrypt_payload (pl_gcm libs) (payload_symm_key p) (encrypted_payload p) = Ok data
      \<and> runs_only (payload_program cfg (path_join mount ''unzipped'')) (pw_machine w) (pw_machine w')
      \<and> set (queue (pw_revocation_tx w')) \<subseteq> insert PayloadDecrypted (set (queue (pw_revocation_tx w))))"
proof (cases m)
  case (RunPayload p)
  let ?k = "payload_symm_key p" and ?d = "encrypted_payload p"
  obtain x mach where d: "deliver_payload env libs cfg mount ?k ?d (pw_machine w) = (x, mach)" by force
  have run: "runs_only (payload_program cfg (path_join mount ''unzipped'')) (pw_machine w) mach"
    by (rule act_withinD [OF deliver_payload_within d])
  show ?thesis
  proof (cases "decrypt_payload (pl_gcm libs) ?k ?d")
    case (Ok data)
    then show ?thesis using assms d run RunPayload
      by (auto simp: run_encrypted_payload_def try_send_def mpsc_send_Some_iff split: outcome.splits option.splits)
  qed (use assms RunPayload in \<open>auto simp: run_encrypted_payload_def deliver_payload_def act_bind_def act_lift_def\<close>)
qed (use assms in auto)

lemma revocation_turn_effects:
  assumes "revocation_handle env libs cfg w m = Ok (w', c)"
  shows "runs_only (\<lambda>cmd. \<exists>r cert action. m = Revocation r \<and> revocation_cert w = Some cert \<and> authentic libs cert r
            \<and> action_program cfg action cmd) (rev_machine w) (rev_machine w')
    \<and> (\<forall>cert. revocation_cert w' = Some cert \<longrightarrow> revocation_cert w = Some cert
         \<or> m = PayloadDecrypted \<and> (\<exists>path. rl_canonicalize libs (disk (rev_machine w)) (rc_cert_path cfg) = Ok path
             \<and> load_x509 (sys env) (rl_certs libs) (disk (rev_machine w)) path = Ok cert))"
proof (cases m)
  case (Revocation r)
  show ?thesis
  proof (cases "revocation_cert w")
    case (Some cert)
    obtain res mach where p: "process_revocation env libs cfg r cert (rev_machine w) = (res, mach)" by force
    then have "w' = w\<lparr>rev_machine := mach\<rparr>" using assms Revocation Some by (auto split: outcome.splits)
    then show ?thesis using process_revocation_runs [OF p] Revocation Some
      by (auto simp: runs_only_same elim: runs_only_mono)
  qed (use assms Revocation in \<open>auto simp: runs_only_same\<close>)
qed (use assms in \<open>auto simp: runs_only_same split: outcome.splits\<close>)

section \<open>Every program runs for a reason\<close>

text \<open>Shares, payloads and revocations that a trace of events accounts for.\<close>

definition posted_u where
  "posted_u env es u \<longleftrightarrow> (\<exists>b r. Answered (Rq_ukey b) r \<in> set es \<and> http_status r = 200 \<and> u_share (se_keys (ge_server env)) b u)"

definition posted_v where
  "posted_v env es v \<longleftrightarrow> (\<exists>b r. Answered (Rq_vkey b) r \<in> set es \<and> http_status r = 200 \<and> v_share (se_keys (ge_server env)) b v)"

lemma posted_now:
  "http_status r = 200 \<Longrightarrow> u_share (se_keys (ge_server env)) b u \<Longrightarrow> posted_u env (es @ [Answered (Rq_ukey b) r]) u"
  "http_status r = 200 \<Longrightarrow> v_share (se_keys (ge_server env)) b' v \<Longrightarrow> posted_v env (es @ [Answered (Rq_vkey b') r]) v"
  by (auto simp: posted_u_def posted_v_def)

text \<open>A payload that came with a U share and under a key that the U share and a V share authenticate.\<close>

definition released where
  "released env es p \<longleftrightarrow> ge_run_payload env
     \<and> combined (system_hmac env) (ge_uuid env) {u. posted_u env es u} {v. posted_v env es v} p"

text \<open>A key that posted shares give and that authenticates the agent's UUID.\<close>

definition derivable where
  "derivable env es k \<longleftrightarrow> derived (system_hmac env) (ge_uuid env) {u. posted_u env es u} {v. posted_v env es v} k"

definition decrypted where
  "decrypted env es p \<longleftrightarrow> released env es p \<and> Payload_turn (RunPayload p) \<in> set es
     \<and> (\<exists>data. decrypt_payload (pl_gcm (ge_payload_libs env)) (payload_symm_key p) (encrypted_payload p) = Ok data)"

definition announced where
  "announced env es r \<longleftrightarrow>
     (\<exists>resp. Answered (Rq_revocation r) resp \<in> set es \<and> http_status resp = 200)
     \<or> (\<exists>raw. Zmq_heard (Received raw) \<in> set es \<and> ge_zmq_body env raw = Ok r)"

lemma announced_now:
  "http_status resp = 200 \<Longrightarrow> announced env (es @ [Answered (Rq_revocation r) resp]) r"
  "ge_zmq_body env raw = Ok r \<Longrightarrow> announced env (es @ [Zmq_heard (Received raw)]) r"
  by (auto simp: announced_def)

text \<open>A certificate found in the configured file after a payload had been decrypted.\<close>

definition trusted where
  "trusted env es cert \<longleftrightarrow> (\<exists>p. decrypted env es p)
     \<and> (\<exists>f path. Revocation_turn f PayloadDecrypted \<in> set es
          \<and> rl_canonicalize (ge_revocation_libs env) f (rc_cert_path (ge_revocation env)) = Ok path
          \<and> load_x509 (sys (ge_machine env)) (rl_certs (ge_revocation_libs env)) f path = Ok cert)"

definition payload_reason where
  "payload_reason env es c \<longleftrightarrow> (\<exists>p. decrypted env es p) \<and> payload_program (ge_config env) (path_join (ge_mount env) ''unzipped'') c"

definition revocation_reason where
  "revocation_reason env es c \<longleftrightarrow> (\<exists>r cert action. announced env es r \<and> trusted env es cert
     \<and> authentic (ge_revocation_libs env) cert r \<and> action_program (ge_revocation env) action c)"

named_theorems more_events

lemma posted_more [more_events]:
  "posted_u env es u \<Longrightarrow> posted_u env (es @ [e]) u" "posted_v env es v \<Longrightarrow> posted_v env (es @ [e]) v"
  by (auto simp: posted_u_def posted_v_def)

lemma released_more [more_events]: "released env es p \<Longrightarrow> released env (es @ [e]) p"
  using posted_more by (fastforce simp: released_def combined_def)

lemma derivable_more [more_events]: "derivable env es k \<Longrightarrow> derivable env (es @ [e]) k"
  using posted_more by (fastforce simp: derivable_def derived_def)

lemma decrypted_more [more_events]: "decrypted env es p \<Longrightarrow> decrypted env (es @ [e]) p"
  by (auto simp: decrypted_def intro: more_events)

lemma announced_more [more_events]: "announced env es r \<Longrightarrow> announced env (es @ [e]) r"
  by (auto simp: announced_def)

lemma trusted_more [more_events]: "trusted env es cert \<Longrightarrow> trusted env (es @ [e]) cert"
  unfolding trusted_def using decrypted_more by fastforce

lemma reason_more [more_events]:
  "payload_reason env es c \<Longrightarrow> payload_reason env (es @ [e]) c"
  "revocation_reason env es c \<Longrightarrow> revocation_reason env (es @ [e]) c"
  unfolding payload_reason_def revocation_reason_def by (blast intro: more_events)+

text \<open>What is queued or held is accounted for.\<close>

fun key_message_ok where
  "key_message_ok env es (UKey u, _ :: nat option) \<longleftrightarrow> posted_u env es u"
| "key_message_ok env es (VKey v, _) \<longleftrightarrow> posted_v env es v"
| "key_message_ok env es _ \<longleftrightarrow> True"

fun payload_message_ok where
  "payload_message_ok env es (RunPayload p) \<longleftrightarrow> released env es p"
| "payload_message_ok env es Payload_Shutdown \<longleftrightarrow> True"

fun revocation_message_ok where
  "revocation_message_ok env es (Revocation r) \<longleftrightarrow> announced env es r"
| "revocation_message_ok env es PayloadDecrypted \<longleftrightarrow> (\<exists>p. decrypted env es p)"
| "revocation_message_ok env es Revocation_Shutdown \<longleftrightarrow> True"

lemma message_ok_more [more_events]:
  "key_message_ok env es k \<Longrightarrow> key_message_ok env (es @ [e]) k"
  "payload_message_ok env es p \<Longrightarrow> payload_message_ok env (es @ [e]) p"
  "revocation_message_ok env es r \<Longrightarrow> revocation_message_ok env (es @ [e]) r"
  by (cases k rule: allowed_message.cases; cases p; cases r; auto intro: more_events)+

definition system_ok where
  "system_ok env m0 es s \<longleftrightarrow>
     list_all (key_message_ok env es) (queue (sd_keys_tx (as_shared s)))
     \<and> list_all (posted_u env es) (ukeys (as_keys s)) \<and> list_all (posted_v env es) (vkeys (as_keys s))
     \<and> list_all (payload_message_ok env es) (queue (payloads_chan (as_keys s)))
     \<and> list_all (revocation_message_ok env es) (queue (sd_revocation_tx (as_shared s)))
     \<and> pred_option (derivable env es) (symm_key (as_keys s))
     \<and> (\<forall>i k. (i, SymmKey (Some k)) \<in> set (replies (as_keys s)) \<longrightarrow> derivable env es k)
     \<and> pred_option (trusted env es) (as_cert s)
     \<and> runs_only (\<lambda>c. payload_reason env es c \<or> revocation_reason env es c) m0 (as_machine s)"

lemma system_ok_more: "system_ok env m0 es s \<Longrightarrow> system_ok env m0 (es @ [e]) s"
  unfolding system_ok_def
  by (auto intro: more_events elim!: list.pred_mono_strong option.pred_mono_strong runs_only_mono)

lemma key_message_ok_allowed: "key_message_ok env es m \<Longrightarrow> allowed_message m"
  by (cases m rule: allowed_message.cases) (auto simp: posted_u_def posted_v_def u_share_def v_share_def)

text \<open>One lemma for each kind of step.\<close>

lemma request_ok:
  assumes "system_ok env m0 es s" and "serve_request (ge_server env) (as_shared s) q = Ok (r, sd)"
  shows "system_ok env m0 (es @ [Answered q r]) (s\<lparr>as_shared := sd\<rparr>)"
proof -
  let ?es = "es @ [Answered q r]"
  have ok: "system_ok env m0 ?es s" by (rule system_ok_more [OF assms(1)])
  have "list_all (key_message_ok env ?es) (queue (sd_keys_tx sd))
      \<and> list_all (revocation_message_ok env ?es) (queue (sd_revocation_tx sd))"
  proof (cases q)
    case (Rq_ukey b)
    with assms(2) obtain ch where u: "u_key (se_keys (ge_server env)) (sd_keys_tx (as_shared s)) b = Ok (r, ch)"
      and "sd = (as_shared s)\<lparr>sd_keys_tx := ch\<rparr>" by (auto simp: and_then_Ok_iff)
    then show ?thesis using u_key_posts [OF u] ok Rq_ukey by (auto simp: system_ok_def posted_now)
  next
    case (Rq_vkey b)
    with assms(2) obtain ch where v: "v_key (se_keys (ge_server env)) (sd_keys_tx (as_shared s)) b = Ok (r, ch)"
      and "sd = (as_shared s)\<lparr>sd_keys_tx := ch\<rparr>" by (auto simp: and_then_Ok_iff)
    then show ?thesis using v_key_posts [OF v] ok Rq_vkey by (auto simp: system_ok_def posted_now)
  next
    case (Rq_verify b)
    with assms(2) ok show ?thesis
      by (auto simp: system_ok_def and_then_Ok_iff verify_def get_symm_key_def mpsc_send_Some_iff
          split: option.splits symm_key_message.splits)
  next
    case (Rq_revocation b)
    with assms(2) ok show ?thesis
      by (auto simp: system_ok_def and_then_Ok_iff revocation_handler_def mpsc_send_Some_iff announced_now split: option.splits)
  qed (use assms(2) ok in \<open>auto simp: system_ok_def and_then_Ok_iff pubkey_def or_respond_Ok_iff\<close>)
  then show ?thesis using ok by (simp add: system_ok_def)
qed

lemma keys_turn_ok:
  assumes "hmac_length (system_hmac env)" and ok: "system_ok env m0 es s"
    and q: "sd_keys_tx (as_shared s) = \<lparr>queue = m # ms, closed = b\<rparr>"
    and h: "keys_handle (system_hmac env) (ge_uuid env) (ge_run_payload env) (as_keys s) m = Ok (w, c)"
  shows "system_ok env m0 es (s\<lparr>as_keys := w, as_shared := (as_shared s)\<lparr>sd_keys_tx := \<lparr>queue = ms, closed = b'\<rparr>\<rparr>\<rparr>)"
proof -
  let ?us = "{u. posted_u env es u}" and ?vs = "{v. posted_v env es v}"
  have m: "key_message_ok env es m" and us: "set (ukeys (as_keys s)) \<subseteq> ?us" and vs: "set (vkeys (as_keys s)) \<subseteq> ?vs"
    using ok q by (auto simp: system_ok_def list_all_iff)
  have new: "{u. fst m = UKey u} \<subseteq> ?us" "{v. fst m = VKey v} \<subseteq> ?vs"
    using m by (cases m rule: allowed_message.cases; auto)+
  have "list_all valid_ukey (ukeys (as_keys s))" using us by (auto simp: list_all_iff posted_u_def u_share_def)
  note src = keys_turn_sources [OF assms(1) this key_message_ok_allowed [OF m] h]
  have "set (ukeys w) \<subseteq> ?us" and "set (vkeys w) \<subseteq> ?vs" using src us vs new by blast+
  moreover have "released env es p" if p: "RunPayload p \<in> set (queue (payloads_chan w))" for p
  proof (cases "RunPayload p \<in> set (queue (payloads_chan (as_keys s)))")
    case True
    then show ?thesis using ok by (auto simp: system_ok_def list_all_iff)
  next
    case False
    then show ?thesis using src p us vs new unfolding released_def combined_def by blast
  qed
  moreover have key: "pred_option (derivable env es) (symm_key (as_keys s))" using ok by (simp add: system_ok_def)
  have "derivable env es k" if "symm_key w = Some k" for k
  proof (cases "symm_key (as_keys s) = Some k")
    case False
    then show ?thesis using src that us vs new unfolding derivable_def derived_def by blast
  qed (use key in simp)
  moreover have "derivable env es k" if "(i, SymmKey (Some k)) \<in> set (replies w)" for i k
  proof (cases "symm_key (as_keys s) = Some k")
    case False
    then have "(i, SymmKey (Some k)) \<in> set (replies (as_keys s))" using src that by auto
    then show ?thesis using ok by (auto simp: system_ok_def)
  qed (use key in simp)
  moreover have "payload_message_ok env es p \<longleftrightarrow> (\<forall>q. p = RunPayload q \<longrightarrow> released env es q)" for p by (cases p) auto
  ultimately show ?thesis using ok q by (cases "symm_key w") (auto simp: system_ok_def list_all_iff)
qed

lemma payload_turn_ok:
  assumes ok: "system_ok env m0 es s" and q: "payloads_chan (as_keys s) = \<lparr>queue = m # ms, closed = b\<rparr>"
    and h: "payloads_handle (ge_machine env) (ge_payload_libs env) (ge_config env) (ge_mount env)
          \<lparr>pw_machine = as_machine s, pw_revocation_tx = sd_revocation_tx (as_shared s), pw_zmq_tx = as_zmq_tx s\<rparr> m = Ok (w, c)"
  shows "system_ok env m0 (es @ [Payload_turn m])
    (s\<lparr>as_keys := (as_keys s)\<lparr>payloads_chan := \<lparr>queue = ms, closed = b'\<rparr>\<rparr>, as_machine := pw_machine w, as_zmq_tx := pw_zmq_tx w,
       as_shared := (as_shared s)\<lparr>sd_revocation_tx := pw_revocation_tx w\<rparr>\<rparr>)"
proof -
  let ?es = "es @ [Payload_turn m]"
  have more: "system_ok env m0 ?es s" by (rule system_ok_more [OF ok])
  show ?thesis using payload_turn_effects [OF h]
  proof (elim disjE exE conjE)
    fix p data
    assume m: "m = RunPayload p"
      and "decrypt_payload (pl_gcm (ge_payload_libs env)) (payload_symm_key p) (encrypted_payload p) = Ok data"
      and r: "runs_only (payload_program (ge_config env) (path_join (ge_mount env) ''unzipped''))
        (pw_machine \<lparr>pw_machine = as_machine s, pw_revocation_tx = sd_revocation_tx (as_shared s), pw_zmq_tx = as_zmq_tx s\<rparr>) (pw_machine w)"
      and t: "set (queue (pw_revocation_tx w)) \<subseteq> insert PayloadDecrypted (set (queue (pw_revocation_tx
        \<lparr>pw_machine = as_machine s, pw_revocation_tx = sd_revocation_tx (as_shared s), pw_zmq_tx = as_zmq_tx s\<rparr>)))"
    moreover have "released env ?es p" using more q m by (simp add: system_ok_def)
    ultimately have d: "decrypted env ?es p" by (auto simp: decrypted_def)
    have "runs_only (\<lambda>c. payload_reason env ?es c \<or> revocation_reason env ?es c) (as_machine s) (pw_machine w)"
      using r d by (auto simp: payload_reason_def elim: runs_only_mono)
    then have "runs_only (\<lambda>c. payload_reason env ?es c \<or> revocation_reason env ?es c) m0 (pw_machine w)"
      using more transpD [OF runs_only_trans] by (auto simp: system_ok_def)
    moreover have "list_all (revocation_message_ok env ?es) (queue (sd_revocation_tx (as_shared s)))"
      using more by (simp add: system_ok_def)
    then have "list_all (revocation_message_ok env ?es) (queue (pw_revocation_tx w))"
      using t d by (fastforce simp: list_all_iff)
    ultimately show ?thesis using more q by (simp add: system_ok_def)
  qed (use more q in \<open>auto simp: system_ok_def\<close>)
qed

lemma revocation_turn_ok:
  assumes ok: "system_ok env m0 es s" and q: "sd_revocation_tx (as_shared s) = \<lparr>queue = m # ms, closed = b\<rparr>"
    and h: "revocation_handle (ge_machine env) (ge_revocation_libs env) (ge_revocation env)
          \<lparr>revocation_cert = as_cert s, rev_machine = as_machine s\<rparr> m = Ok (w, c)"
  shows "system_ok env m0 (es @ [Revocation_turn (disk (as_machine s)) m])
    (s\<lparr>as_cert := revocation_cert w, as_machine := rev_machine w,
       as_shared := (as_shared s)\<lparr>sd_revocation_tx := \<lparr>queue = ms, closed = b'\<rparr>\<rparr>\<rparr>)"
proof -
  let ?es = "es @ [Revocation_turn (disk (as_machine s)) m]"
  have more: "system_ok env m0 ?es s" by (rule system_ok_more [OF ok])
  then have m: "revocation_message_ok env ?es m" and cert: "pred_option (trusted env ?es) (as_cert s)"
    using q by (simp_all add: system_ok_def)
  from revocation_turn_effects [OF h] have "runs_only (\<lambda>c. \<exists>r cert action. m = Revocation r \<and> as_cert s = Some cert
      \<and> authentic (ge_revocation_libs env) cert r \<and> action_program (ge_revocation env) action c) (as_machine s) (rev_machine w)"
    by simp
  then have "runs_only (\<lambda>c. payload_reason env ?es c \<or> revocation_reason env ?es c) (as_machine s) (rev_machine w)"
    by (rule runs_only_mono) (use m cert in \<open>fastforce simp: revocation_reason_def\<close>)
  then have "runs_only (\<lambda>c. payload_reason env ?es c \<or> revocation_reason env ?es c) m0 (rev_machine w)"
    using more transpD [OF runs_only_trans] by (auto simp: system_ok_def)
  moreover have "pred_option (trusted env ?es) (revocation_cert w)"
    using revocation_turn_effects [OF h] m cert by (cases "revocation_cert w") (fastforce simp: trusted_def)+
  ultimately show ?thesis using more q by (simp add: system_ok_def)
qed

lemma zmq_heard_ok:
  assumes ok: "system_ok env m0 es s"
  shows "system_ok env m0 (es @ [Zmq_heard ev])
    (s\<lparr>as_shared := (as_shared s)\<lparr>sd_revocation_tx := listen_turn (ge_zmq_body env) (sd_revocation_tx (as_shared s)) ev\<rparr>\<rparr>)"
  using system_ok_more [OF ok, of "Zmq_heard ev"]
  by (auto simp: system_ok_def listen_turn_def mpsc_send_Some_iff announced_now split: zmq_event.split outcome.split option.split)

text \<open>An HMAC of the documented length is part of the system whose steps are looked at.\<close>

interpretation agent: event_system "\<lambda>s e s'. hmac_length (system_hmac env) \<and> agent_step env s e s'"
  "\<lambda>es s. system_ok env m0 es s" "\<lambda>s. \<exists>z q. s = agent_start z q m0" for env m0
proof
  show "system_ok env m0 [] s" if "\<exists>z q. s = agent_start z q m0" for s
    using that by (auto simp: system_ok_def agent_start_def open_chan_def keys_start_def runs_only_same)
next
  fix es s e s'
  assume ok: "system_ok env m0 es s" and "hmac_length (system_hmac env) \<and> agent_step env s e s'"
  then have h: "hmac_length (system_hmac env)" and "agent_step env s e s'" by auto
  from this(2) show "system_ok env m0 (es @ [e]) s'"
  proof (cases rule: agent_step.cases)
    case (request q r sd)
    then show ?thesis using request_ok [OF ok] by simp
  next
    case (keys_turn m ms b w c)
    then show ?thesis using keys_turn_ok [OF h system_ok_more [OF ok]] by simp
  next
    case (payload_turn m ms b w c)
    then show ?thesis using payload_turn_ok [OF ok] by simp
  next
    case (revocation_turn m ms b w c)
    then show ?thesis using revocation_turn_ok [OF ok] by simp
  next
    case (zmq_heard ev)
    then show ?thesis using zmq_heard_ok [OF ok] by simp
  next
    case (zmq_turn m ms b w c)
    then show ?thesis using system_ok_more [OF ok] by (simp add: system_ok_def)
  next
    case (disk_changed f)
    then show ?thesis using system_ok_more [OF ok] by (simp add: system_ok_def runs_only_def)
  next
    case (challenge_asked c ch)
    then show ?thesis using system_ok_more [OF ok] by (auto simp: system_ok_def mpsc_send_Some_iff)
  next
    case (challenge_answered i c k r)
    then show ?thesis using system_ok_more [OF ok] by (simp add: system_ok_def)
  next
    case (platform_changed st)
    then show ?thesis using system_ok_more [OF ok] by (simp add: system_ok_def)
  qed
qed

section \<open>What a challenge proves\<close>

lemma answered_challenge:
  assumes "agent_step env s (Answered (Rq_verify q) r) s'" and "http_status r = 200"
  obtains k t where "(challenge_resp q, SymmKey (Some k)) \<in> set (replies (as_keys s))"
    and "system_hmac env (key_bytes k) (as_bytes (challenge q)) = Ok t"
    and "r = respond 200 (wrapper_success (JObj [(''hmac'', JStr (kc_hex_encode (se_keys (ge_server env)) t))]))"
  using assms(1)
proof (cases rule: agent_step.cases)
  case request
  then have "http_status r \<noteq> 200"
    by (auto simp: and_then_Ok_iff verify_stages mpsc_send_def bad_request_def server_error_def split: option.splits if_splits)
  then show thesis using assms(2) by simp
next
  case (challenge_answered i c k)
  then show thesis using assms(2) that
    by (auto simp: verify_answer_def compute_hmac_def or_respond_Ok_iff bad_request_def server_error_def split: option.splits)
qed

end
