(* ===== verification/Agent_Capacity.thy ===== *)
theory Agent_Capacity
  imports Agent_System
begin

text \<open>
  The channels of \<open>main\<close> in \<^verbatim>\<open>keylime-agent/src/main.rs\<close> have room for one message; a task that sends to a full channel waits. The
  senders of a full channel wait in line, so the queue of a channel is read as the message it holds followed by those whose
  senders still wait. A worker whose own message waits does nothing else until it has its place: the keys worker sends
  to the payload channel only, and the payload worker tells the revocation worker first and the 0mq worker then. The
  handlers of requests and each message of the 0mq listener wait on their own.
\<close>

section \<open>Waiting senders\<close>

definition CHANNEL_CAPACITY :: nat where
  "CHANNEL_CAPACITY = 1"

definition waiting_sends :: "'m chan \<Rightarrow> 'm list" where
  "waiting_sends ch = drop CHANNEL_CAPACITY (queue ch)"

definition zmq_queue where
  "zmq_queue s = (case as_zmq_tx s of None \<Rightarrow> [] | Some ch \<Rightarrow> queue ch)"

definition keys_blocked where
  "keys_blocked s \<longleftrightarrow> waiting_sends (payloads_chan (as_keys s)) \<noteq> []"

text \<open>The payload worker waits to tell the revocation worker, or to tell the 0mq worker.\<close>

definition telling where
  "telling s \<longleftrightarrow> PayloadDecrypted \<in> set (waiting_sends (sd_revocation_tx (as_shared s)))"

definition zmq_blocked where
  "zmq_blocked s \<longleftrightarrow> CHANNEL_CAPACITY < length (zmq_queue s)"

text \<open>While it waits to tell the revocation worker, its last message to the 0mq worker is not sent yet.\<close>

fun may_run where
  "may_run s (Keys_turn _) \<longleftrightarrow> \<not> keys_blocked s"
| "may_run s (Payload_turn _) \<longleftrightarrow> \<not> telling s \<and> \<not> zmq_blocked s"
| "may_run s (Zmq_turn _) \<longleftrightarrow> \<not> telling s \<or> zmq_blocked s"
| "may_run s _ \<longleftrightarrow> True"

definition bounded_step where
  "bounded_step env s e s' \<longleftrightarrow> agent_step env s e s' \<and> may_run s e"

lemma bounded_reach: "event_reach (bounded_step env) s0 es s \<Longrightarrow> event_reach (agent_step env) s0 es s"
  by (induction rule: event_reach.induct) (auto simp: bounded_step_def intro: event_reach.intros)

section \<open>The turns of the workers\<close>

fun worker_event :: "agent_event \<Rightarrow> bool" where
  "worker_event (Keys_turn _) = True"
| "worker_event (Payload_turn _) = True"
| "worker_event (Revocation_turn _ _) = True"
| "worker_event (Zmq_turn _) = True"
| "worker_event _ = False"

definition turn where
  "turn env s s' \<longleftrightarrow> (\<exists>e. worker_event e \<and> bounded_step env s e s')"

text \<open>What is left to do: a key message leads to at most one payload, a payload to at most two messages.\<close>

definition work where
  "work s = 4 * length (queue (sd_keys_tx (as_shared s))) + 3 * length (queue (payloads_chan (as_keys s)))
     + length (queue (sd_revocation_tx (as_shared s))) + length (zmq_queue s)"

lemma process_and_store_outputs:
  assumes "process_and_store hmac uuid rp w = Ok (w', c)"
  shows "length (queue (payloads_chan w')) \<le> Suc (length (queue (payloads_chan w))) \<and> replies w' = replies w"
proof -
  obtain r us vs where t: "try_combine_keys hmac (ukeys w) (vkeys w) (as_bytes uuid) = Ok (r, us, vs)"
    using assms by (auto simp: process_and_store_def process_keys_def and_then_Ok_iff)
  show ?thesis
  proof (cases r)
    case (Some kp)
    obtain k p where "kp = (k, p)" by (cases kp)
    with assms t Some show ?thesis
      by (cases p) (auto simp: process_and_store_def process_keys_def request_run_payload_def mpsc_send_def Let_def split: if_splits)
  qed (use assms t in \<open>auto simp: process_and_store_def process_keys_def\<close>)
qed

lemma keys_outputs:
  "keys_handle hmac uuid rp w m = Ok (w', c) \<Longrightarrow> length (queue (payloads_chan w')) \<le> Suc (length (queue (payloads_chan w)))"
  by (cases m rule: allowed_message.cases) (auto dest: process_and_store_outputs split: option.splits)

lemma payload_outputs:
  assumes "payloads_handle env libs cfg mount w m = Ok (w', c)"
  shows "queue (pw_revocation_tx w') \<in> {queue (pw_revocation_tx w), queue (pw_revocation_tx w) @ [PayloadDecrypted]}
    \<and> (case pw_zmq_tx w of None \<Rightarrow> pw_zmq_tx w' = None
       | Some ch \<Rightarrow> \<exists>ch'. pw_zmq_tx w' = Some ch' \<and> length (queue ch') \<le> Suc (length (queue ch)))"
proof (cases m)
  case (RunPayload p)
  then show ?thesis using assms
    by (auto simp: run_encrypted_payload_def try_send_def mpsc_send_Some_iff split: outcome.splits prod.splits option.splits)
qed (use assms in \<open>auto split: option.split\<close>)

lemma turn_less_work:
  assumes "agent_step env s e s'" and "worker_event e"
  shows "work s' < work s"
  using assms(1)
proof (cases rule: agent_step.cases)
  case (keys_turn m ms b w c)
  then show ?thesis using keys_outputs [OF keys_turn(4)] by (simp add: work_def zmq_queue_def)
next
  case (payload_turn m ms b w c)
  then show ?thesis using payload_outputs [OF payload_turn(4)] by (auto simp: work_def zmq_queue_def split: option.splits)
qed (use assms(2) in \<open>auto simp: work_def zmq_queue_def\<close>)

lemma turns_bounded: "(turn env ^^ n) s s' \<Longrightarrow> n + work s' \<le> work s"
proof (induction n arbitrary: s')
  case (Suc n)
  obtain s1 where s1: "(turn env ^^ n) s s1" and "turn env s1 s'" by (rule relpowp_Suc_E [OF Suc.prems])
  then obtain e where "worker_event e" and "agent_step env s1 e s'" by (auto simp: turn_def bounded_step_def)
  then show ?case using Suc.IH [OF s1] turn_less_work [of env s1 e s'] by simp
qed simp

section \<open>No deadlock\<close>

definition resting where
  "resting s \<longleftrightarrow> queue (sd_keys_tx (as_shared s)) = [] \<and> queue (payloads_chan (as_keys s)) = []
     \<and> queue (sd_revocation_tx (as_shared s)) = [] \<and> zmq_queue s = []"

text \<open>A worker panics on the message it receives next; the runtime then ends the agent.\<close>

definition panicking where
  "panicking env s \<longleftrightarrow>
     (\<exists>m ms. queue (payloads_chan (as_keys s)) = m # ms
        \<and> payloads_handle (ge_machine env) (ge_payload_libs env) (ge_config env) (ge_mount env)
            \<lparr>pw_machine = as_machine s, pw_revocation_tx = sd_revocation_tx (as_shared s), pw_zmq_tx = as_zmq_tx s\<rparr> m = Panic)
     \<or> (\<exists>m ms. queue (sd_revocation_tx (as_shared s)) = m # ms
        \<and> revocation_handle (ge_machine env) (ge_revocation_libs env) (ge_revocation env)
            \<lparr>revocation_cert = as_cert s, rev_machine = as_machine s\<rparr> m = Panic)"

lemma payloads_handle_cases:
  "payloads_handle env libs cfg mount w m = Panic \<or> (\<exists>w' c. payloads_handle env libs cfg mount w m = Ok (w', c))"
  by (cases m) (auto split: prod.split outcome.split)

lemma revocation_handle_cases:
  "revocation_handle env libs cfg w m = Panic \<or> (\<exists>w' c. revocation_handle env libs cfg w m = Ok (w', c))"
  by (cases m) (auto split: prod.split outcome.split option.split)

lemma zmq_handle_total: "\<exists>w' c. zmq_handle listen w m = Ok (w', c)"
  by (cases m) auto

lemma chan_Cons: "queue ch = m # ms \<Longrightarrow> ch = \<lparr>queue = m # ms, closed = closed ch\<rparr>"
  by simp

lemma keys_turn_possible:
  assumes "hmac_length (system_hmac env)" and "event_reach (agent_step env) (agent_start with_zmq quotes m0) es s"
    and "queue (sd_keys_tx (as_shared s)) = m # ms"
  shows "\<exists>w c. keys_handle (system_hmac env) (ge_uuid env) (ge_run_payload env) (as_keys s) m = Ok (w, c)"
proof -
  from hmac_sha384_cases [OF assms(1)] obtain h where h: "system_hmac env = Rep_hmac_sha384 h" by blast
  from keys.progress [OF system_keys_reach [OF assms(2), unfolded h] assms(3)] show ?thesis by (auto simp: h)
qed

lemma turn_possible:
  assumes "hmac_length (system_hmac env)" and "event_reach (agent_step env) (agent_start with_zmq quotes m0) es s"
    and "\<not> resting s" and "\<not> panicking env s"
    and "as_zmq_tx s \<noteq> None \<longrightarrow> ac_enable_revocation_notifications (ge_config env)"
  shows "\<exists>s'. turn env s s'"
proof (cases "queue (sd_revocation_tx (as_shared s))")
  case (Cons m ms)
  then obtain w c where "revocation_handle (ge_machine env) (ge_revocation_libs env) (ge_revocation env)
      \<lparr>revocation_cert = as_cert s, rev_machine = as_machine s\<rparr> m = Ok (w, c)"
    using assms(4) revocation_handle_cases unfolding panicking_def by blast
  from agent_step.revocation_turn [OF chan_Cons [OF Cons] this] show ?thesis
    by (auto simp: turn_def bounded_step_def intro!: exI [where x = "Revocation_turn _ _"])
next
  case Nil
  then have quiet: "\<not> telling s" by (simp add: telling_def waiting_sends_def)
  show ?thesis
  proof (cases "zmq_queue s")
    case (Cons m ms)
    then obtain ch where ch: "as_zmq_tx s = Some ch" "queue ch = m # ms" by (auto simp: zmq_queue_def split: option.splits)
    obtain w c where "zmq_handle (ge_zmq_connects env) (as_zmq s) m = Ok (w, c)" using zmq_handle_total by blast
    then have "\<exists>s'. agent_step env s (Zmq_turn m) s'"
      using agent_step.zmq_turn [of env s m ms "closed ch" w c] ch assms(5) chan_Cons [OF ch(2)] by auto
    then show ?thesis using quiet by (auto simp: turn_def bounded_step_def intro!: exI [where x = "Zmq_turn _"])
  next
    case zNil: Nil
    show ?thesis
    proof (cases "queue (payloads_chan (as_keys s))")
      case (Cons m ms)
      then obtain w c where "payloads_handle (ge_machine env) (ge_payload_libs env) (ge_config env) (ge_mount env)
          \<lparr>pw_machine = as_machine s, pw_revocation_tx = sd_revocation_tx (as_shared s), pw_zmq_tx = as_zmq_tx s\<rparr> m = Ok (w, c)"
        using assms(4) payloads_handle_cases unfolding panicking_def by blast
      from agent_step.payload_turn [OF chan_Cons [OF Cons] this] quiet zNil show ?thesis
        by (auto simp: turn_def bounded_step_def zmq_blocked_def intro!: exI [where x = "Payload_turn _"])
    next
      case pNil: Nil
      then obtain m ms where k: "queue (sd_keys_tx (as_shared s)) = m # ms"
        using assms(3) Nil zNil by (cases "queue (sd_keys_tx (as_shared s))") (auto simp: resting_def)
      obtain w c where "keys_handle (system_hmac env) (ge_uuid env) (ge_run_payload env) (as_keys s) m = Ok (w, c)"
        using keys_turn_possible [OF assms(1,2) k] by blast
      from agent_step.keys_turn [OF chan_Cons [OF k] this] pNil show ?thesis
        by (auto simp: turn_def bounded_step_def keys_blocked_def waiting_sends_def intro!: exI [where x = "Keys_turn _"])
    qed
  qed
qed

text \<open>A challenge that waits has its question in the channel or its reply in hand; the 0mq channel does not appear or disappear.\<close>

definition asked_ok where
  "asked_ok with_zmq s \<longleftrightarrow>
     (\<forall>i c. (i, c) \<in> set (as_waiting s) \<longrightarrow>
        (GetSymmKey, Some i) \<in> set (queue (sd_keys_tx (as_shared s))) \<or> (\<exists>k. (i, SymmKey k) \<in> set (replies (as_keys s))))
     \<and> (as_zmq_tx s \<noteq> None \<longleftrightarrow> with_zmq)"

lemma keys_handle_replies:
  assumes "keys_handle hmac uuid rp w m = Ok (w', c)"
  shows "set (replies w) \<subseteq> set (replies w') \<and> (\<forall>i. m = (GetSymmKey, Some i) \<longrightarrow> (i, SymmKey (symm_key w)) \<in> set (replies w'))"
  using assms by (cases m rule: allowed_message.cases) (auto dest: process_and_store_outputs split: option.splits)

lemma asked_ok_step:
  assumes "asked_ok z s" and "agent_step env s e s'"
  shows "asked_ok z s'"
  using assms(2)
proof (cases rule: agent_step.cases)
  case (request q r sd)
  have "set (queue (sd_keys_tx (as_shared s))) \<subseteq> set (queue (sd_keys_tx sd))"
    using serve_keys_post [OF request(4)] by (auto simp: mpsc_send_Some_iff)
  then show ?thesis using assms(1) request(2) by (auto simp: asked_ok_def)
next
  case (keys_turn m ms b w c)
  then show ?thesis using assms(1) keys_handle_replies [OF keys_turn(4)] by (fastforce simp: asked_ok_def)
next
  case (payload_turn m ms b w c)
  then show ?thesis using assms(1) payload_outputs [OF payload_turn(4)] by (auto simp: asked_ok_def split: option.splits)
next
  case (challenge_asked c ch)
  then show ?thesis using assms(1) by (auto simp: asked_ok_def mpsc_send_Some_iff)
next
  case (challenge_answered i c k r)
  then show ?thesis using assms(1) using set_remove1_subset [of "(i, c)" "as_waiting s"] by (fastforce simp: asked_ok_def)
qed (use assms(1) in \<open>auto simp: asked_ok_def\<close>)

interpretation asked: event_system "agent_step env" "\<lambda>_. asked_ok z" "\<lambda>s. \<exists>q m. s = agent_start z q m" for env z
proof
  show "asked_ok z s" if "\<exists>q m. s = agent_start z q m" for s using that by (auto simp: asked_ok_def agent_start_def split: if_splits)
qed (rule asked_ok_step)

text \<open>How much can pile up.\<close>

definition bounded_ok where
  "bounded_ok s \<longleftrightarrow> length (queue (payloads_chan (as_keys s))) \<le> 2 \<and> length (zmq_queue s) \<le> 2
     \<and> count_list (waiting_sends (sd_revocation_tx (as_shared s))) PayloadDecrypted \<le> 1"

lemma count_waiting_post:
  "count_list (drop n (xs @ [x])) y \<le> count_list (drop n xs) y + (if x = y then 1 else 0)"
  by (cases "n \<le> length xs") auto

lemma count_waiting_receive: "count_list (drop n xs) y \<le> count_list (drop n (x # xs)) y"
proof -
  have "count_list (tl zs) y \<le> count_list zs y" for zs by (cases zs) auto
  then show ?thesis by (cases n) (simp_all add: drop_Suc drop_tl)
qed

lemma serve_revocation_post:
  assumes "serve_request env sd q = Ok (r, sd')"
  shows "queue (sd_revocation_tx sd') = queue (sd_revocation_tx sd)
    \<or> (\<exists>b. queue (sd_revocation_tx sd') = queue (sd_revocation_tx sd) @ [Revocation b])"
  using assms
  by (cases q) (auto simp: and_then_Ok_iff pubkey_def or_respond_Ok_iff revocation_handler_def mpsc_send_Some_iff split: option.splits)

lemma listen_post:
  "queue (listen_turn from_str ch ev) = queue ch \<or> (\<exists>r. queue (listen_turn from_str ch ev) = queue ch @ [Revocation r])"
  by (auto simp: listen_turn_def mpsc_send_Some_iff split: zmq_event.split outcome.split option.split)

lemma bounded_ok_step:
  assumes ok: "bounded_ok s" and "bounded_step env s e s'"
  shows "bounded_ok s'"
proof -
  let ?rev = "\<lambda>s. queue (sd_revocation_tx (as_shared s))"
  have step: "agent_step env s e s'" and run: "may_run s e" using assms(2) by (auto simp: bounded_step_def)
  from step show ?thesis
  proof (cases rule: agent_step.cases)
    case (request q r sd)
    then show ?thesis
      using ok serve_revocation_post [OF request(4)] count_waiting_post [of CHANNEL_CAPACITY "?rev s" "Revocation _" PayloadDecrypted]
      by (auto simp: bounded_ok_def zmq_queue_def waiting_sends_def intro: le_trans)
  next
    case (keys_turn m ms b w c)
    then show ?thesis using ok keys_outputs [OF keys_turn(4)] run
      by (auto simp: bounded_ok_def zmq_queue_def keys_blocked_def waiting_sends_def CHANNEL_CAPACITY_def)
  next
    case (payload_turn m ms b w c)
    have none: "count_list (waiting_sends (sd_revocation_tx (as_shared s))) PayloadDecrypted = 0"
      and z: "length (zmq_queue s) \<le> 1"
      using run payload_turn(1) by (auto simp: telling_def zmq_blocked_def CHANNEL_CAPACITY_def count_list_0_iff)
    then have "count_list (waiting_sends (pw_revocation_tx w)) PayloadDecrypted \<le> 1"
      using payload_outputs [OF payload_turn(4)] count_waiting_post [of CHANNEL_CAPACITY "?rev s" PayloadDecrypted PayloadDecrypted]
      by (auto simp: waiting_sends_def)
    then show ?thesis using ok z payload_turn payload_outputs [OF payload_turn(4)]
      by (auto simp: bounded_ok_def zmq_queue_def split: option.splits)
  next
    case (revocation_turn m ms b w c)
    then show ?thesis using ok count_waiting_receive [of CHANNEL_CAPACITY ms PayloadDecrypted m]
      by (auto simp: bounded_ok_def zmq_queue_def waiting_sends_def)
  next
    case (zmq_heard ev)
    then show ?thesis
      using ok listen_post [of "ge_zmq_body env" "sd_revocation_tx (as_shared s)" ev]
        count_waiting_post [of CHANNEL_CAPACITY "?rev s" "Revocation _" PayloadDecrypted]
      by (auto simp: bounded_ok_def zmq_queue_def waiting_sends_def intro: le_trans)
  qed (use ok in \<open>auto simp: bounded_ok_def zmq_queue_def\<close>)
qed

interpretation bounded: event_system "bounded_step env" "\<lambda>_. bounded_ok" "\<lambda>s. \<exists>z q m. s = agent_start z q m" for env
proof
  show "bounded_ok s" if "\<exists>z q m. s = agent_start z q m" for s
    using that by (auto simp: bounded_ok_def agent_start_def open_chan_def keys_start_def zmq_queue_def waiting_sends_def)
qed (rule bounded_ok_step)

section \<open>The workers come to rest\<close>

lemma turns_reach:
  assumes "event_reach (bounded_step env) s0 es s"
  shows "(turn env ^^ n) s s' \<Longrightarrow> \<exists>es'. event_reach (bounded_step env) s0 es' s'"
proof (induction n arbitrary: s')
  case 0
  then show ?case using assms by auto
next
  case (Suc n)
  obtain s1 where s1: "(turn env ^^ n) s s1" and "turn env s1 s'" by (rule relpowp_Suc_E [OF Suc.prems])
  then obtain e where "bounded_step env s1 e s'" by (auto simp: turn_def)
  then show ?case using Suc.IH [OF s1] event_reach.extend by metis
qed

lemma turns_end: "\<exists>n s'. (turn env ^^ n) s s' \<and> \<not> (\<exists>s''. turn env s' s'')"
proof (induction "work s" arbitrary: s rule: less_induct)
  case less
  show ?case
  proof (cases "\<exists>s1. turn env s s1")
    case True
    then obtain s1 where s1: "turn env s s1" by blast
    then have "work s1 < work s" using turn_less_work by (auto simp: turn_def bounded_step_def)
    from less [OF this] obtain n s' where "(turn env ^^ n) s1 s'" and "\<not> (\<exists>s''. turn env s' s'')" by blast
    then show ?thesis using relpowp_Suc_I2 [of "turn env", OF s1] by blast
  next
    case False
    then show ?thesis by (intro exI [of _ 0] exI [of _ s]) simp
  qed
qed

lemma verify_answer_total:
  "hmac_length (kc_hmac kc) \<Longrightarrow> \<exists>r. verify_answer kc c (Ok k) = Ok r"
  by (cases k; cases "kc_hmac kc (key_bytes (the k)) (as_bytes c)")
    (auto simp: verify_answer_def compute_hmac_def hmac_length_def)

text \<open>Every waiting challenge can be answered.\<close>

definition answerable where
  "answerable env s \<longleftrightarrow> (\<forall>i c. (i, c) \<in> set (as_waiting s) \<longrightarrow>
     (\<exists>k r s'. bounded_step env s
        (Answered (Rq_verify \<lparr>challenge = c, challenge_resp = i, challenge_reply = Some (SymmKey k)\<rparr>) r) s'))"

lemma resting_answerable:
  assumes "hmac_length (system_hmac env)" and "asked_ok z s" and "resting s"
  shows "answerable env s"
  unfolding answerable_def
proof (intro allI impI)
  fix i c
  assume w: "(i, c) \<in> set (as_waiting s)"
  then obtain k where "(i, SymmKey k) \<in> set (replies (as_keys s))"
    using assms(2,3) by (auto simp: asked_ok_def resting_def)
  moreover obtain r where "verify_answer (se_keys (ge_server env)) c (Ok k) = Ok r" using verify_answer_total [OF assms(1)] by blast
  ultimately show "\<exists>k r s'. bounded_step env s
        (Answered (Rq_verify \<lparr>challenge = c, challenge_resp = i, challenge_reply = Some (SymmKey k)\<rparr>) r) s'"
    using agent_step.challenge_answered [OF w, of k env r] by (auto simp: bounded_step_def)
qed

lemma stuck_resting:
  assumes "hmac_length (system_hmac env)" and "event_reach (bounded_step env) (agent_start with_zmq quotes m0) es s"
    and "with_zmq \<longrightarrow> ac_enable_revocation_notifications (ge_config env)" and "\<not> (\<exists>s'. turn env s s')"
  shows "panicking env s \<or> resting s \<and> answerable env s"
proof -
  note reach = bounded_reach [OF assms(2)]
  have a: "asked_ok with_zmq s" using asked.reach_inv [OF reach] by blast
  then have "as_zmq_tx s \<noteq> None \<longrightarrow> ac_enable_revocation_notifications (ge_config env)" using assms(3) by (auto simp: asked_ok_def)
  then have "panicking env s \<or> resting s" using turn_possible [OF assms(1) reach] assms(4) by blast
  then show ?thesis using resting_answerable [OF assms(1) a] by blast
qed

section \<open>A full 0mq channel\<close>

text \<open>
  With the feature \<open>with-zmq\<close> the payload worker always tells the 0mq worker; without the option for revocation notifications nobody
  receives there, while \<open>main\<close> keeps the receiver to its end.
\<close>

definition jammed where
  "jammed env s \<longleftrightarrow> \<not> ac_enable_revocation_notifications (ge_config env) \<and> zmq_blocked s \<and> keys_blocked s"

lemma jammed_step:
  assumes "jammed env s" and "bounded_step env s e s'"
  shows "jammed env s' \<and> as_keys s' = as_keys s \<and> (\<forall>m. e \<noteq> Keys_turn m \<and> e \<noteq> Payload_turn m')
    \<and> (\<exists>ms. queue (sd_keys_tx (as_shared s')) = queue (sd_keys_tx (as_shared s)) @ ms)
    \<and> (\<forall>i c. (i, c) \<in> set (as_waiting s) \<and> (\<forall>k. (i, SymmKey k) \<notin> set (replies (as_keys s))) \<longrightarrow> (i, c) \<in> set (as_waiting s'))"
proof -
  have step: "agent_step env s e s'" and run: "may_run s e" using assms(2) by (auto simp: bounded_step_def)
  note jam = assms(1) [unfolded jammed_def]
  from step show ?thesis
  proof (cases rule: agent_step.cases)
    case (request q r sd)
    then show ?thesis using jam serve_keys_post [OF request(4)]
      by (auto simp: jammed_def zmq_blocked_def keys_blocked_def zmq_queue_def mpsc_send_Some_iff)
  next
    case (challenge_asked c ch)
    then show ?thesis using jam by (auto simp: jammed_def zmq_blocked_def keys_blocked_def zmq_queue_def mpsc_send_Some_iff)
  next
    case (challenge_answered i c k r)
    then show ?thesis using jam
      by (auto simp: jammed_def zmq_blocked_def keys_blocked_def zmq_queue_def intro!: in_set_remove1 [THEN iffD2])
  qed (use jam run in \<open>auto simp: jammed_def zmq_blocked_def keys_blocked_def zmq_queue_def\<close>)
qed

lemma jammed_reach:
  assumes "event_reach (bounded_step env) s es s'" and "jammed env s"
  shows "jammed env s' \<and> as_keys s' = as_keys s \<and> (\<forall>m m'. Keys_turn m \<notin> set es \<and> Payload_turn m' \<notin> set es)
    \<and> (\<exists>ms. queue (sd_keys_tx (as_shared s')) = queue (sd_keys_tx (as_shared s)) @ ms)
    \<and> (\<forall>i c. (i, c) \<in> set (as_waiting s) \<and> (\<forall>k. (i, SymmKey k) \<notin> set (replies (as_keys s))) \<longrightarrow> (i, c) \<in> set (as_waiting s'))"
  using assms
proof (induction rule: event_reach.induct)
  case (extend es s1 e s')
  then show ?case using jammed_step [of env s1 e s'] by fastforce
qed simp

end
