(* ===== verification/Bootstrap.thy ===== *)
theory Bootstrap
  imports Payloads
begin

text \<open>
  The bootstrap of a payload across \<^verbatim>\<open>keys_handler.rs\<close> and \<^verbatim>\<open>payloads.rs\<close>: two requests with shares of the key, the keys worker, and the
  payload worker that leaves the payload on disk; and an exchange on concrete primitives that other theories use.
\<close>

section \<open>From the shares of the key to the payload on disk\<close>

text \<open>The tenant and the verifier post their shares, in either order.\<close>

definition post_shares ::
  "'priv key_crypto \<Rightarrow> bool \<Rightarrow> keylime_ukey \<Rightarrow> keylime_vkey
   \<Rightarrow> (http_response \<times> http_response \<times> key_envelope chan, agent_error) outcome" where
  "post_shares kc u_first u v =
     (if u_first then
        and_then (u_key kc open_chan u) (\<lambda>(ru, ch). and_then (v_key kc ch v) (\<lambda>(rv, ch'). Ok (ru, rv, ch')))
      else
        and_then (v_key kc open_chan v) (\<lambda>(rv, ch). and_then (u_key kc ch u) (\<lambda>(ru, ch'). Ok (ru, rv, ch'))))"

lemma u_key_accepts:
  assumes "kc_base64 kc (uk_encrypted_key u) = Ok eu"
    and "rsa_oaep_decrypt (kc_decrypter kc) (kc_priv_key kc) eu = Ok ku" and "symm_key_try_from ku = Ok k"
    and "kc_hex kc (uk_auth_tag u) = Ok tag" and "auth_tag_try_from tag = Ok t"
    and "uk_payload u = Some p" and "kc_base64 kc p = Ok blob" and "\<not> closed ch"
  shows "u_key kc ch u = Ok (respond 200 (wrapper_success JNull),
    ch\<lparr>queue := queue ch @ [(UKey \<lparr>u_decrypted_key = k, u_auth_tag = t, u_payload = Some (encrypted_data_from blob)\<rparr>, None)]\<rparr>)"
  using assms by (simp add: u_key_def mpsc_send_def)

lemma v_key_accepts:
  assumes "kc_base64 kc (vk_encrypted_key v) = Ok ev"
    and "rsa_oaep_decrypt (kc_decrypter kc) (kc_priv_key kc) ev = Ok kv" and "symm_key_try_from kv = Ok k"
    and "\<not> closed ch"
  shows "v_key kc ch v = Ok (respond 200 (wrapper_success JNull),
    ch\<lparr>queue := queue ch @ [(VKey \<lparr>v_decrypted_key = k\<rparr>, None)]\<rparr>)"
  using assms by (simp add: v_key_def mpsc_send_def)

text \<open>Two shares that match, alone and in either order, leave the key and the request to run the payload.\<close>

lemma combine_pair:
  assumes "hmac_length hmac" and "valid_ukey u" and "authenticates hmac (as_bytes uuid) u v k" and "u_payload u = Some d"
  shows "try_combine_keys hmac [u] [v] (as_bytes uuid) = Ok (Some (k, Some \<lparr>payload_symm_key = k, encrypted_payload = d\<rparr>), [], [])"
proof -
  have "matching_pairs hmac (as_bytes uuid) [u] [v] = [(u, v)]"
    using assms(3) by (auto simp: matching_pairs_def)
  moreover have "the_ok (symm_key_xor (u_decrypted_key u) (v_decrypted_key v)) = k"
    using assms(3) by (simp add: authenticates_def)
  ultimately show ?thesis
    using try_combine_keys_spec [OF assms(1), of "[u]" "[v]" "as_bytes uuid"] assms(2,4) by (simp add: payload_of_def)
qed

lemma keys_worker_pair:
  assumes "hmac_length hmac" and "valid_ukey u" and "authenticates hmac (as_bytes uuid) u v k"
    and "u_payload u = Some d" and "ms = [(UKey u, None), (VKey v, None)] \<or> ms = [(VKey v, None), (UKey u, None)]"
  shows "run_worker (keys_handle hmac uuid True) keys_start ms
    = Ok \<lparr>ukeys = [], vkeys = [], symm_key = Some k, replies = [],
         payloads_chan = \<lparr>queue = [RunPayload \<lparr>payload_symm_key = k, encrypted_payload = d\<rparr>], closed = False\<rparr>\<rparr>"
proof -
  note combine_pair [OF assms(1-4)]
  moreover have "try_combine_keys hmac [] vs (as_bytes uuid) = Ok (None, [], vs)"
    "try_combine_keys hmac us [] (as_bytes uuid) = Ok (None, us, [])" for us vs
    by (simp_all add: try_combine_keys_def)
  ultimately show ?thesis using assms(5)
    by (auto simp: process_and_store_def process_keys_def keys_start_def open_chan_def request_run_payload_def
        mpsc_send_def Let_def)
qed

lemma decrypt_encrypted:
  assumes "gcm_inverse gcm_encrypt gcm_decrypt" and "encrypt_aead gcm_encrypt (key_bytes k) iv data = Ok blob"
  shows "decrypt_payload gcm_decrypt k (encrypted_data_from blob) = Ok data"
  by (simp add: decrypt_payload_def encrypted_data_from_def decrypt_encrypt_aead [OF assms])

text \<open>\<^bold>\<open>C4\<close>: the bootstrap of a payload, end to end. The tenant posts the U share, encrypted
  under the public transport key of the agent, with the payload it encrypted under the payload key and the authentication tag of
  the key, the verifier posts the V share, encrypted likewise; in whichever order the two requests arrive, both are answered 200, the keys worker derives the key and
  hands the payload over, and the payload worker leaves exactly the tenant's data and the key in the
  secure mount, tells the revocation worker, and runs nothing.\<close>

theorem bootstrap_delivers_payload:
  fixes mount :: string
  defines "dir \<equiv> path_join mount ''unzipped''"
  assumes "hmac_length (kc_hmac kc)" and "gcm_inverse gcm_encrypt (pl_gcm libs)"
    and "oaep_inverse encrypter_new (kc_decrypter kc) pub (kc_priv_key kc)"
    and "kc_base64 kc (uk_encrypted_key u) = Ok eu" and "rsa_oaep_encrypt encrypter_new pub ku = Ok eu"
    and "kc_base64 kc (vk_encrypted_key v) = Ok ev" and "rsa_oaep_encrypt encrypter_new pub kv = Ok ev"
    and "length ku \<in> {16, 32}" and "symm_key_xor \<lparr>key_bytes = ku\<rparr> \<lparr>key_bytes = kv\<rparr> = Ok k"
    and "kc_hex kc (uk_auth_tag u) = Ok tag" and "kc_hmac kc (key_bytes k) (as_bytes uuid) = Ok tag"
    and "uk_payload u = Some p" and "kc_base64 kc p = Ok blob"
    and "encrypt_aead gcm_encrypt (key_bytes k) iv data = Ok blob"
    and "sys env = quiet" and "\<not> ac_extract_payload_zip cfg" and "ac_payload_script cfg = []"
    and "ac_dec_payload_file cfg \<noteq> []" and "ac_enc_keyname cfg \<noteq> []"
    and "\<not> is_absolute (ac_dec_payload_file cfg)" and "\<not> is_absolute (ac_enc_keyname cfg)"
    and "distinct [path_join dir (ac_dec_payload_file cfg), path_join dir (ac_enc_keyname cfg), path_join dir ''action_list'']"
    and "rooted (disk (pw_machine pw)) dir"
    and "\<not> closed (pw_revocation_tx pw)"
  shows "\<exists>ru rv ch w pw'.
    post_shares kc u_first u v = Ok (ru, rv, ch) \<and> http_status ru = 200 \<and> http_status rv = 200
    \<and> run_worker (keys_handle (kc_hmac kc) uuid True) keys_start (queue ch) = Ok w \<and> symm_key w = Some k
    \<and> run_worker (payloads_handle env libs cfg mount) pw (queue (payloads_chan w)) = Ok pw'
    \<and> disk (pw_machine pw') (path_join dir (ac_dec_payload_file cfg)) = Some (Regular (string_of data) 0x1A4)
    \<and> disk (pw_machine pw') (path_join dir (ac_enc_keyname cfg)) = Some (Regular (string_of (key_bytes k)) 0x1A4)
    \<and> executed (pw_machine pw') = executed (pw_machine pw)
    \<and> queue (pw_revocation_tx pw') = queue (pw_revocation_tx pw) @ [PayloadDecrypted]"
proof -
  have lv: "length kv = length ku" and lk: "length (key_bytes k) = length ku"
    using assms(10) by (auto simp: symm_key_xor_Ok_iff)
  have keys: "symm_key_try_from ku = Ok \<lparr>key_bytes = ku\<rparr>" "symm_key_try_from kv = Ok \<lparr>key_bytes = kv\<rparr>"
    using assms(9) lv by (auto simp: symm_key_try_from_def length_constants)
  have tag: "auth_tag_try_from tag = Ok \<lparr>tag_bytes = tag\<rparr>"
    using assms(2,12) by (auto simp: auth_tag_try_from_def hmac_length_def)
  let ?u = "\<lparr>u_decrypted_key = \<lparr>key_bytes = ku\<rparr>, u_auth_tag = \<lparr>tag_bytes = tag\<rparr>,
    u_payload = Some (encrypted_data_from blob)\<rparr>"
  let ?v = "\<lparr>v_decrypted_key = \<lparr>key_bytes = kv\<rparr>\<rparr>"
  let ?ms = "if u_first then [(UKey ?u, None), (VKey ?v, None)] else [(VKey ?v, None), (UKey ?u, None)]"
  note oaep = decrypt_encrypt_oaep [OF assms(4)]
  note accepts = u_key_accepts [OF assms(5) oaep [OF assms(6)] keys(1) assms(11) tag assms(13,14)]
    v_key_accepts [OF assms(7) oaep [OF assms(8)] keys(2)]
  have posted: "post_shares kc u_first u v = Ok (respond 200 (wrapper_success JNull), respond 200 (wrapper_success JNull),
      \<lparr>queue = ?ms, closed = False\<rparr>)"
    by (simp add: post_shares_def accepts open_chan_def)
  have "valid_ukey ?u" using assms(9) tag
    by (auto simp: valid_key_def valid_tag_def length_constants auth_tag_try_from_def split: if_splits)
  moreover have "authenticates (kc_hmac kc) (as_bytes uuid) ?u ?v k"
    using assms(10,12) by (simp add: authenticates_def)
  ultimately have derived: "run_worker (keys_handle (kc_hmac kc) uuid True) keys_start ?ms
    = Ok \<lparr>ukeys = [], vkeys = [], symm_key = Some k, replies = [],
         payloads_chan = \<lparr>queue = [RunPayload \<lparr>payload_symm_key = k, encrypted_payload = encrypted_data_from blob\<rparr>],
           closed = False\<rparr>\<rparr>" (is "_ = Ok ?w")
    by (intro keys_worker_pair [OF assms(2)]) auto
  have "decrypt_payload (pl_gcm libs) k (encrypted_data_from blob) = Ok data"
    by (rule decrypt_encrypted [OF assms(3,15)])
  from run_encrypted_payload_quiet [OF this assms(16-22) assms(23) [unfolded dir_def] assms(24) [unfolded dir_def] assms(25)]
  obtain pw' where run: "run_encrypted_payload env libs cfg mount k (encrypted_data_from blob) pw = (Ok (), pw')"
    and d: "disk (pw_machine pw') = (cleared (disk (pw_machine pw)) dir)
            (dir \<mapsto> Directory, path_join dir (ac_enc_keyname cfg) \<mapsto> Regular (string_of (key_bytes k)) 0x1A4,
             path_join dir (ac_dec_payload_file cfg) \<mapsto> Regular (string_of data) 0x1A4)"
    and "executed (pw_machine pw') = executed (pw_machine pw)"
    and "queue (pw_revocation_tx pw') = queue (pw_revocation_tx pw) @ [PayloadDecrypted]"
    unfolding dir_def by blast
  note delivered = this
  have "run_worker (payloads_handle env libs cfg mount) pw (queue (payloads_chan ?w)) = Ok pw'"
    using run by simp
  moreover have "disk (pw_machine pw') (path_join dir (ac_dec_payload_file cfg)) = Some (Regular (string_of data) 0x1A4)"
    "disk (pw_machine pw') (path_join dir (ac_enc_keyname cfg)) = Some (Regular (string_of (key_bytes k)) 0x1A4)"
    using d assms(23) by auto
  moreover have "run_worker (keys_handle (kc_hmac kc) uuid True) keys_start (queue \<lparr>queue = ?ms, closed = False\<rparr>) = Ok ?w"
    by (simp only: chan.select_convs derived)
  ultimately show ?thesis
    using posted delivered(3,4) by (intro exI conjI) (assumption | simp only: keys_worker.select_convs respond_simps)+
qed

text \<open>A bootstrap on the reference primitives.\<close>

lemma as_bytes_string_of: "as_bytes (string_of bs) = bs"
proof -
  have "unat b < 256" for b :: u8 using unat_lt_pow [of b] by simp
  then show ?thesis by (simp add: as_bytes_def string_of_def comp_def)
qed

definition ukey_body_ref :: keylime_ukey where
  "ukey_body_ref =
     \<lparr>uk_auth_tag = hex_encode_ref (replicate 48 6), uk_encrypted_key = string_of (replicate 16 2),
      uk_payload = Some (string_of (replicate 16 7 @ [1, 2, 3] @ replicate 16 1))\<rparr>"

definition vkey_body_ref :: keylime_vkey where
  "vkey_body_ref = \<lparr>vk_encrypted_key = string_of (replicate 16 4)\<rparr>"

lemma bootstrap_ref:
  "kc_base64 key_crypto_ref (string_of bs) = Ok bs"
  "rsa_oaep_decrypt (kc_decrypter key_crypto_ref) (kc_priv_key key_crypto_ref) bs = Ok bs"
  "kc_hex key_crypto_ref (hex_encode_ref bs) = Ok bs"
  "kc_hmac key_crypto_ref = hmac_ref"
  "encrypt_aead gcm_encrypt_ref (replicate 16 6) (replicate 16 7) [1, 2, 3]
     = Ok (replicate 16 7 @ [1, 2, 3] @ replicate 16 1)"
  using hex_codec_ref
  by (simp_all add: key_crypto_ref_def as_bytes_string_of rsa_oaep_decrypt_def hex_codec_def
      encrypt_aead_def gcm_cipher_for_def length_constants gcm_encrypt_ref_def)

definition encrypter_ref :: "unit \<Rightarrow> rsa_padding \<Rightarrow> message_digest \<Rightarrow> message_digest \<Rightarrow> (encrypter, string) outcome" where
  "encrypter_ref _ _ _ _ = Ok \<lparr>encrypt_len = \<lambda>d. Ok (length d), encrypt_into = \<lambda>d b. Ok (length d, d)\<rparr>"

lemma oaep_ref:
  "oaep_inverse encrypter_ref (kc_decrypter key_crypto_ref) () (kc_priv_key key_crypto_ref)" "rsa_oaep_encrypt encrypter_ref () bs = Ok bs"
  by (simp_all add: oaep_inverse_def encrypter_ref_def key_crypto_ref_def rsa_oaep_encrypt_def)

theorem bootstrap_delivers_payload_witness:
  "\<exists>ru rv ch w pw'.
    post_shares key_crypto_ref False ukey_body_ref vkey_body_ref = Ok (ru, rv, ch)
    \<and> run_worker (keys_handle hmac_ref ''u'' True) keys_start (queue ch) = Ok w
    \<and> run_worker (payloads_handle machine_env_ref payload_libs_ref payload_config_ref ''/m'') payload_worker_ref
        (queue (payloads_chan w)) = Ok pw'
    \<and> disk (pw_machine pw') ''/m/unzipped/decrypted_payload'' = Some (Regular (string_of [1, 2, 3]) 0x1A4)"
proof -
  let ?k = "\<lparr>key_bytes = replicate 16 6\<rparr> :: symm_key"
  let ?blob = "replicate 16 7 @ [1, 2, 3] @ replicate 16 1 :: u8 list"
  have h: "hmac_length (kc_hmac key_crypto_ref)" "kc_hmac key_crypto_ref (key_bytes ?k) (as_bytes ''u'') = Ok (replicate 48 6)"
    by (simp_all add: bootstrap_ref exchange_ref hmac_ref_def)
  have c: "kc_base64 key_crypto_ref (uk_encrypted_key ukey_body_ref) = Ok (replicate 16 2)"
    "kc_base64 key_crypto_ref (vk_encrypted_key vkey_body_ref) = Ok (replicate 16 4)"
    "kc_hex key_crypto_ref (uk_auth_tag ukey_body_ref) = Ok (replicate 48 6)"
    "uk_payload ukey_body_ref = Some (string_of ?blob)"
    by (simp_all add: ukey_body_ref_def vkey_body_ref_def bootstrap_ref)
  have x: "length (replicate 16 2 :: u8 list) \<in> {16, 32}"
    "symm_key_xor \<lparr>key_bytes = replicate 16 2\<rparr> \<lparr>key_bytes = replicate 16 4\<rparr> = Ok ?k"
    by (simp_all)
  have g: "gcm_inverse gcm_encrypt_ref (pl_gcm payload_libs_ref)" "sys machine_env_ref = quiet"
    "rooted (disk (pw_machine payload_worker_ref)) (path_join ''/m'' ''unzipped'')"
    "\<not> closed (pw_revocation_tx payload_worker_ref)"
    using payload_worker_ref_tree
    by (simp_all add: payload_libs_ref_def gcm_inverse_ref machine_env_ref_def payload_worker_ref_def open_chan_def path_join_def)
  have e: "encrypt_aead gcm_encrypt_ref (key_bytes ?k) (replicate 16 7) [1, 2, 3] = Ok ?blob"
    by (simp add: bootstrap_ref)
  from bootstrap_delivers_payload [OF h(1) g(1) oaep_ref(1) c(1) oaep_ref(2) c(2) oaep_ref(2) x c(3) h(2) c(4) bootstrap_ref(1) e g(2)
      _ _ _ _ _ _ _ g(3,4), of payload_config_ref False]
  show ?thesis by (fastforce simp: is_absolute_def path_join_def bootstrap_ref)
qed

end
