(* ===== verification/Agent_Runs.thy ===== *)
theory Agent_Runs
  imports Agent_System Bootstrap
begin

text \<open>
  What every run of the whole agent satisfies: why it runs programs, what an answered key challenge proves, and that its components
  stay in the states their own guarantees cover. The runs of the witnesses are made of the exchange of theory \<open>Bootstrap\<close>.
\<close>

section \<open>Why the agent runs a program\<close>

lemma system_accounts:
  assumes "hmac_length (system_hmac env)" and "event_reach (agent_step env) (agent_start with_zmq quotes m0) es s"
  shows "system_ok env m0 es s"
  using agent.reach_inv [of env "agent_start with_zmq quotes m0" es s m0] assms by auto


text \<open>A run of the agent on the reference primitives in which the payload is an archive with a script.\<close>

definition archive_libs_ref :: "unit payload_libs" where
  "archive_libs_ref =
     payload_libs_ref\<lparr>pl_zip_new := Ok \<circ> (\<lambda>_. ()),
       pl_zip_extract := \<lambda>_ dir f. (Ok (), f(path_join dir ''autorun.sh'' \<mapsto> Regular ''#!'' 0x1A4))\<rparr>"

definition server_ref where
  "server_ref = \<lparr>se_quotes = quote_libs_ref, se_keys = key_crypto_ref, se_order = insertion_order, se_data = quote_data_ref\<rparr>"

definition system_ref where
  "system_ref =
     \<lparr>ge_server = server_ref, ge_machine = machine_env_ref, ge_payload_libs = archive_libs_ref,
      ge_revocation_libs = revocation_libs_ref, ge_revocation = revocation_config_ref, ge_config = agent_config_default 0,
      ge_mount = ''/m'', ge_uuid = ''u'', ge_run_payload = True, ge_zmq_body = \<lambda>_. Err [], ge_zmq_connects = \<lambda>_. False\<rparr>"

definition fresh_machine_ref :: machine where
  "fresh_machine_ref = \<lparr>disk = [''/m'' \<mapsto> Directory], executed = []\<rparr>"

definition payload_message_ref :: payload_message where
  "payload_message_ref = RunPayload \<lparr>payload_symm_key = \<lparr>key_bytes = replicate 16 6\<rparr>, encrypted_payload = delivered_ref\<rparr>"

lemma archive_libs_ref_simps:
  "pl_gcm archive_libs_ref = gcm_decrypt_ref" "pl_zip_new archive_libs_ref t = Ok ()"
  "pl_zip_extract archive_libs_ref z dir f = (Ok (), f(path_join dir ''autorun.sh'' \<mapsto> Regular ''#!'' 0x1A4))"
  by (simp_all add: archive_libs_ref_def payload_libs_ref_def)

lemma default_payload_ref:
  "ac_dec_payload_file (agent_config_default n) = ''decrypted_payload''" "ac_enc_keyname (agent_config_default n) = ''derived_tci_key''"
  "ac_extract_payload_zip (agent_config_default n)" "ac_payload_script (agent_config_default n) = ''autorun.sh''"
  by (simp_all add: agent_config_default_def config_defaults)

lemma machine_env_ref_simps: "sys machine_env_ref = quiet" "\<exists>out. \<forall>cmd f. proc machine_env_ref cmd f = (Exited out, f)"
  by (simp_all add: machine_env_ref_def)

lemma archive_turn_ref:
  "\<exists>w. payloads_handle machine_env_ref archive_libs_ref (agent_config_default 0) ''/m''
       \<lparr>pw_machine = fresh_machine_ref, pw_revocation_tx = open_chan, pw_zmq_tx = None\<rparr> payload_message_ref = Ok (w, False)
     \<and> executed (pw_machine w) = [script_command ''/m/unzipped'' ''/m/unzipped/autorun.sh'']"
proof -
  obtain out where out: "\<And>cmd f. proc machine_env_ref cmd f = (Exited out, f)" using machine_env_ref_simps(2) by blast
  let ?d1 = "[''/m'' \<mapsto> Directory, ''/m/unzipped'' \<mapsto> Directory]"
  let ?d2 = "?d1(''/m/unzipped/derived_tci_key'' \<mapsto> Regular (string_of (replicate 16 6)) 0x1A4,
    ''/m/unzipped/decrypted_payload'' \<mapsto> Regular (string_of [1, 2, 3]) 0x1A4)"
  let ?m1 = "fresh_machine_ref\<lparr>disk := ?d1\<rparr>" and ?m2 = "fresh_machine_ref\<lparr>disk := ?d2\<rparr>"
    and ?m3 = "fresh_machine_ref\<lparr>disk := ?d2(''/m/unzipped/autorun.sh'' \<mapsto> Regular ''#!'' 0x1A4)\<rparr>"
    and ?m4 = "fresh_machine_ref\<lparr>disk := ?d2(''/m/unzipped/autorun.sh'' \<mapsto> Regular ''#!'' 0x1C0),
      executed := [script_command ''/m/unzipped'' ''/m/unzipped/autorun.sh'']\<rparr>"
  have prep: "setup_unzipped machine_env_ref (agent_config_default 0) ''/m'' fresh_machine_ref
      = (Ok (''/m/unzipped'', ''/m/unzipped/decrypted_payload'', ''/m/unzipped/derived_tci_key''), ?m1)"
    by (simp add: setup_unzipped_def act_bind_def act_lift_def from_disk_def on_disk_def fresh_machine_ref_def exists_path_def
        path_join_def create_dir_def with_fault_def machine_env_ref_simps default_payload_ref quiet_def Let_def)
  have out2: "write_out_key_and_payload machine_env_ref [1, 2, 3] ''/m/unzipped/decrypted_payload'' \<lparr>key_bytes = replicate 16 6\<rparr>
      ''/m/unzipped/derived_tci_key'' ?m1 = (Ok (), ?m2)"
    by (simp add: write_out_key_and_payload_def act_bind_def write_new_quiet machine_env_ref_simps)
  have unzip: "optional_unzip_payload machine_env_ref archive_libs_ref (agent_config_default 0) ''/m/unzipped'' ?m2 = (Ok (), ?m3)"
    by (simp add: optional_unzip_payload_def act_bind_def act_lift_def from_disk_def archive_libs_ref_simps default_payload_ref
        machine_env_ref_simps read_file_def with_fault_def path_join_def quiet_def)
  have script: "run_script machine_env_ref ''/m/unzipped'' ''autorun.sh'' ?m3 = (Ok (), ?m4)"
    by (simp add: run_script_def run_command_def out machine_env_ref_simps set_permissions_def with_fault_def exists_path_def
        path_join_def quiet_def fresh_machine_ref_def Let_def)
  have permit: "permit_actions machine_env_ref ''/m/unzipped'' ?m4 = (Ok (), ?m4)"
    by (simp add: permit_actions_def act_bind_def act_lift_def from_disk_def exists_path_def path_join_def fresh_machine_ref_def Let_def)
  have "deliver_payload machine_env_ref archive_libs_ref (agent_config_default 0) ''/m'' \<lparr>key_bytes = replicate 16 6\<rparr> delivered_ref
      fresh_machine_ref = (Ok (), ?m4)"
    unfolding deliver_payload_def archive_libs_ref_simps decrypt_payload_ref
    by (simp add: act_bind_def [of "act_lift _"] act_bind_def act_lift_def prep out2 unzip script permit default_payload_ref)
  then show ?thesis by (simp add: payload_message_ref_def run_encrypted_payload_def)
qed

definition u_data_ref :: u_key_data where
  "u_data_ref = \<lparr>u_decrypted_key = \<lparr>key_bytes = replicate 16 2\<rparr>, u_auth_tag = \<lparr>tag_bytes = replicate 48 6\<rparr>, u_payload = Some delivered_ref\<rparr>"

lemma shares_posted_ref:
  assumes "\<not> closed ch"
  shows "u_key key_crypto_ref ch ukey_body_ref = Ok (respond 200 (wrapper_success JNull), ch\<lparr>queue := queue ch @ [(UKey u_data_ref, None)]\<rparr>)"
    "v_key key_crypto_ref ch vkey_body_ref = Ok (respond 200 (wrapper_success JNull), ch\<lparr>queue := queue ch @ [(VKey vkey_ref, None)]\<rparr>)"
proof -
  have k: "symm_key_try_from (replicate 16 a) = Ok \<lparr>key_bytes = replicate 16 a\<rparr>" for a :: u8
    by (simp add: symm_key_try_from_def length_constants)
  have t: "auth_tag_try_from (replicate 48 6) = Ok \<lparr>tag_bytes = replicate 48 6\<rparr>"
    by (simp add: auth_tag_try_from_def length_constants)
  show "u_key key_crypto_ref ch ukey_body_ref = Ok (respond 200 (wrapper_success JNull), ch\<lparr>queue := queue ch @ [(UKey u_data_ref, None)]\<rparr>)"
    using u_key_accepts [OF _ bootstrap_ref(2) k _ t _ bootstrap_ref(1) assms, of ukey_body_ref]
    by (simp add: ukey_body_ref_def bootstrap_ref u_data_ref_def delivered_ref_def encrypted_data_from_def)
  show "v_key key_crypto_ref ch vkey_body_ref = Ok (respond 200 (wrapper_success JNull), ch\<lparr>queue := queue ch @ [(VKey vkey_ref, None)]\<rparr>)"
    using v_key_accepts [OF _ bootstrap_ref(2) k assms, of vkey_body_ref]
    by (simp add: vkey_body_ref_def bootstrap_ref vkey_ref_def)
qed

text \<open>Both shares are posted, the keys worker takes them, the payload worker runs the script.\<close>

abbreviation posted_answer :: http_response where "posted_answer \<equiv> respond 200 (wrapper_success JNull)"

definition trace_ref :: "agent_event list" where
  "trace_ref = [Answered (Rq_ukey ukey_body_ref) posted_answer, Answered (Rq_vkey vkey_body_ref) posted_answer,
     Keys_turn (UKey u_data_ref, None), Keys_turn (VKey vkey_ref, None), Payload_turn payload_message_ref]"

lemma keys_turns_ref:
  "keys_handle hmac_ref ''u'' True keys_start (UKey u_data_ref, None) = Ok (keys_start\<lparr>ukeys := [u_data_ref]\<rparr>, False)"
  "keys_handle hmac_ref ''u'' True (keys_start\<lparr>ukeys := [u_data_ref]\<rparr>) (VKey vkey_ref, None)
     = Ok (keys_start\<lparr>symm_key := Some \<lparr>key_bytes = replicate 16 6\<rparr>, payloads_chan := \<lparr>queue = [payload_message_ref], closed = False\<rparr>\<rparr>, False)"
proof -
  show u: "keys_handle hmac_ref ''u'' True keys_start (UKey u_data_ref, None) = Ok (keys_start\<lparr>ukeys := [u_data_ref]\<rparr>, False)"
    by (simp add: process_and_store_def process_keys_def try_combine_keys_def keys_start_def)
  have "valid_ukey u_data_ref" and "authenticates hmac_ref (as_bytes ''u'') u_data_ref vkey_ref \<lparr>key_bytes = replicate 16 6\<rparr>"
    by (simp_all add: u_data_ref_def vkey_ref_def authenticates_def hmac_ref_def valid_key_def valid_tag_def length_constants)
  from keys_worker_pair [OF exchange_ref(1) this, of delivered_ref "[(UKey u_data_ref, None), (VKey vkey_ref, None)]"]
  have "run_worker (keys_handle hmac_ref ''u'' True) keys_start [(UKey u_data_ref, None), (VKey vkey_ref, None)]
      = Ok (keys_start\<lparr>symm_key := Some \<lparr>key_bytes = replicate 16 6\<rparr>, payloads_chan := \<lparr>queue = [payload_message_ref], closed = False\<rparr>\<rparr>)"
    by (simp add: u_data_ref_def payload_message_ref_def keys_start_def del: keys_handle.simps run_worker.simps)
  then obtain c where "keys_handle hmac_ref ''u'' True (keys_start\<lparr>ukeys := [u_data_ref]\<rparr>) (VKey vkey_ref, None)
      = Ok (keys_start\<lparr>symm_key := Some \<lparr>key_bytes = replicate 16 6\<rparr>, payloads_chan := \<lparr>queue = [payload_message_ref], closed = False\<rparr>\<rparr>, c)"
    using u by (auto simp: and_then_Ok_iff simp del: keys_handle.simps)
  moreover from this have "\<not> c" by (auto simp: process_and_store_def and_then_Ok_iff split: option.splits)
  ultimately show "keys_handle hmac_ref ''u'' True (keys_start\<lparr>ukeys := [u_data_ref]\<rparr>) (VKey vkey_ref, None)
     = Ok (keys_start\<lparr>symm_key := Some \<lparr>key_bytes = replicate 16 6\<rparr>, payloads_chan := \<lparr>queue = [payload_message_ref], closed = False\<rparr>\<rparr>, False)"
    by simp
qed

lemma system_ref_simps [simp]:
  "ge_server system_ref = server_ref" "ge_machine system_ref = machine_env_ref" "ge_payload_libs system_ref = archive_libs_ref"
  "ge_config system_ref = agent_config_default 0" "ge_mount system_ref = ''/m''" "ge_uuid system_ref = ''u''"
  "ge_run_payload system_ref" "se_keys server_ref = key_crypto_ref" "kc_hmac key_crypto_ref = hmac_ref"
  by (simp_all add: system_ref_def server_ref_def bootstrap_ref)

definition state_ref :: "key_envelope list \<Rightarrow> keys_worker \<Rightarrow> (nat \<times> string) list \<Rightarrow> nat \<Rightarrow> (nat, unit) agent_system" where
  "state_ref ms w waiting n =
    \<lparr>as_shared = \<lparr>sd_keys_tx = \<lparr>queue = ms, closed = False\<rparr>, sd_revocation_tx = open_chan, sd_quotes = quote_state_ref\<rparr>,
     as_keys = w, as_cert = None, as_zmq_tx = None, as_zmq = zmq_start, as_machine = fresh_machine_ref,
     as_waiting = waiting, as_next = n\<rparr>"

lemma start_ref_state: "agent_start False quote_state_ref fresh_machine_ref = state_ref [] keys_start [] 0"
  by (simp add: state_ref_def agent_start_def open_chan_def)

definition keys_done_ref :: keys_worker where
  "keys_done_ref = keys_start\<lparr>symm_key := Some \<lparr>key_bytes = replicate 16 6\<rparr>,
     payloads_chan := \<lparr>queue = [payload_message_ref], closed = False\<rparr>\<rparr>"

lemma keys_done_ref_simps:
  "symm_key keys_done_ref = Some \<lparr>key_bytes = replicate 16 6\<rparr>" "replies keys_done_ref = []"
  "payloads_chan keys_done_ref = \<lparr>queue = [payload_message_ref], closed = False\<rparr>"
  by (simp_all add: keys_done_ref_def keys_start_def)

definition bootstrap_trace_ref :: "agent_event list" where
  "bootstrap_trace_ref = [Answered (Rq_ukey ukey_body_ref) posted_answer, Answered (Rq_vkey vkey_body_ref) posted_answer,
     Keys_turn (UKey u_data_ref, None), Keys_turn (VKey vkey_ref, None)]"

lemma bootstrap_reached_ref:
  "event_reach (agent_step system_ref) (agent_start False quote_state_ref fresh_machine_ref) bootstrap_trace_ref
     (state_ref [] keys_done_ref [] 0)"
proof -
  let ?u = "(UKey u_data_ref, None)" and ?v = "(VKey vkey_ref, None)"
  let ?w1 = "keys_start\<lparr>ukeys := [u_data_ref]\<rparr>"
  have a1: "agent_step system_ref (state_ref [] keys_start [] 0) (Answered (Rq_ukey ukey_body_ref) posted_answer) (state_ref [?u] keys_start [] 0)"
    using agent_step.request [of system_ref "state_ref [] keys_start [] 0" "Rq_ukey ukey_body_ref" posted_answer
        "as_shared (state_ref [?u] keys_start [] 0)"]
    by (simp add: state_ref_def shares_posted_ref)
  have a2: "agent_step system_ref (state_ref [?u] keys_start [] 0) (Answered (Rq_vkey vkey_body_ref) posted_answer) (state_ref [?u, ?v] keys_start [] 0)"
    using agent_step.request [of system_ref "state_ref [?u] keys_start [] 0" "Rq_vkey vkey_body_ref" posted_answer
        "as_shared (state_ref [?u, ?v] keys_start [] 0)"]
    by (simp add: state_ref_def shares_posted_ref)
  have a3: "agent_step system_ref (state_ref [?u, ?v] keys_start [] 0) (Keys_turn ?u) (state_ref [?v] ?w1 [] 0)"
    using agent_step.keys_turn [of "state_ref [?u, ?v] keys_start [] 0" ?u "[?v]" False system_ref ?w1 False]
    by (simp add: state_ref_def keys_turns_ref del: keys_handle.simps)
  have a4: "agent_step system_ref (state_ref [?v] ?w1 [] 0) (Keys_turn ?v) (state_ref [] keys_done_ref [] 0)"
    using agent_step.keys_turn [of "state_ref [?v] ?w1 [] 0" ?v "[]" False system_ref keys_done_ref False]
    by (simp add: state_ref_def keys_turns_ref keys_done_ref_def del: keys_handle.simps)
  note go = event_reach.extend [where step = "agent_step system_ref"]
  show ?thesis using go [OF go [OF go [OF go [OF event_reach.start a1] a2] a3] a4]
    by (simp add: bootstrap_trace_ref_def start_ref_state)
qed

lemma trace_ref_reached:
  "\<exists>s. event_reach (agent_step system_ref) (agent_start False quote_state_ref fresh_machine_ref) trace_ref s
     \<and> executed (as_machine s) = [script_command ''/m/unzipped'' ''/m/unzipped/autorun.sh'']
     \<and> symm_key (as_keys s) = Some \<lparr>key_bytes = replicate 16 6\<rparr>"
proof -
  obtain w where w: "payloads_handle machine_env_ref archive_libs_ref (agent_config_default 0) ''/m''
       \<lparr>pw_machine = fresh_machine_ref, pw_revocation_tx = open_chan, pw_zmq_tx = None\<rparr> payload_message_ref = Ok (w, False)"
    and x: "executed (pw_machine w) = [script_command ''/m/unzipped'' ''/m/unzipped/autorun.sh'']" using archive_turn_ref by blast
  have "\<exists>s. agent_step system_ref (state_ref [] keys_done_ref [] 0) (Payload_turn payload_message_ref) s \<and> as_machine s = pw_machine w
      \<and> symm_key (as_keys s) = Some \<lparr>key_bytes = replicate 16 6\<rparr>"
    using agent_step.payload_turn [of "state_ref [] keys_done_ref [] 0" payload_message_ref "[]" False system_ref w False] w
    by (fastforce simp: state_ref_def keys_done_ref_simps simp del: payloads_handle.simps)
  then obtain s where "agent_step system_ref (state_ref [] keys_done_ref [] 0) (Payload_turn payload_message_ref) s" and "as_machine s = pw_machine w"
    and "symm_key (as_keys s) = Some \<lparr>key_bytes = replicate 16 6\<rparr>" by blast
  note a = this
  from event_reach.extend [OF bootstrap_reached_ref a(1)] a(2,3) x show ?thesis
    by (auto simp: trace_ref_def bootstrap_trace_ref_def)
qed


section \<open>What a key challenge proves\<close>

text \<open>\<^bold>\<open>C6\<close>: an answer with 200 to a key challenge proves possession of the payload key. However the tasks interleave, the answer
  is the HMAC of the challenge under a key that a U share and a V share give, both posted and answered with 200 before, and that
  authenticates the agent's UUID.\<close>

theorem challenge_proves_key:
  assumes "hmac_length (system_hmac env)"
    and "event_reach (agent_step env) (agent_start with_zmq quotes m0) (es @ [Answered (Rq_verify q) r]) s"
    and "http_status r = 200"
  shows "\<exists>u v k t. posted_u env es u \<and> posted_v env es v \<and> authenticates (system_hmac env) (as_bytes (ge_uuid env)) u v k
    \<and> system_hmac env (key_bytes k) (as_bytes (challenge q)) = Ok t
    \<and> wrap_results (http_body r) = JObj [(''hmac'', JStr (kc_hex_encode (se_keys (ge_server env)) t))]"
proof -
  obtain s1 where reach: "event_reach (agent_step env) (agent_start with_zmq quotes m0) es s1"
    and step: "agent_step env s1 (Answered (Rq_verify q) r) s" using event_reach_snocE [OF assms(2)] .
  from step assms(3) obtain k t where k: "(challenge_resp q, SymmKey (Some k)) \<in> set (replies (as_keys s1))"
    and t: "system_hmac env (key_bytes k) (as_bytes (challenge q)) = Ok t"
    and r: "r = respond 200 (wrapper_success (JObj [(''hmac'', JStr (kc_hex_encode (se_keys (ge_server env)) t))]))"
    by (rule answered_challenge)
  have "derivable env es k" using system_accounts [OF assms(1) reach] k by (auto simp: system_ok_def)
  then show ?thesis using t r by (auto simp: derivable_def derived_def)
qed

theorem challenge_proves_key_witness:
  "\<exists>q r s. event_reach (agent_step system_ref) (agent_start False quote_state_ref fresh_machine_ref)
       ((bootstrap_trace_ref @ [Asked 0 ''abc'', Keys_turn (GetSymmKey, Some 0)]) @ [Answered (Rq_verify q) r]) s
     \<and> http_status r = 200 \<and> challenge q = ''abc''
     \<and> wrap_results (http_body r) = JObj [(''hmac'', JStr (hex_encode_ref (replicate 48 6)))]"
proof -
  let ?k = "\<lparr>key_bytes = replicate 16 6\<rparr> :: symm_key" and ?w = "keys_done_ref\<lparr>replies := [(0, SymmKey (Some \<lparr>key_bytes = replicate 16 6\<rparr>))]\<rparr>"
  let ?q = "\<lparr>challenge = ''abc'', challenge_resp = 0, challenge_reply = Some (SymmKey (Some ?k))\<rparr>"
  let ?r = "respond 200 (wrapper_success (JObj [(''hmac'', JStr (hex_encode_ref (replicate 48 6)))]))"
  have "verify_refusal (system_alphanumeric system_ref) ''abc'' = None"
    by (simp add: verify_refusal_def all_alphanumeric_def chars_def is_alphanumeric_def)
  then have a1: "agent_step system_ref (state_ref [] keys_done_ref [] 0) (Asked 0 ''abc'')
      (state_ref [(GetSymmKey, Some 0)] keys_done_ref [(0, ''abc'')] 1)"
    using agent_step.challenge_asked [of system_ref "''abc''" "state_ref [] keys_done_ref [] 0"
        "\<lparr>queue = [(GetSymmKey, Some 0)], closed = False\<rparr>"] by (simp add: state_ref_def mpsc_send_def)
  have a2: "agent_step system_ref (state_ref [(GetSymmKey, Some 0)] keys_done_ref [(0, ''abc'')] 1) (Keys_turn (GetSymmKey, Some 0))
      (state_ref [] ?w [(0, ''abc'')] 1)"
    using agent_step.keys_turn [of "state_ref [(GetSymmKey, Some 0)] keys_done_ref [(0, ''abc'')] 1" "(GetSymmKey, Some 0)" "[]" False
        system_ref ?w False] by (simp add: state_ref_def keys_done_ref_simps)
  have a3: "agent_step system_ref (state_ref [] ?w [(0, ''abc'')] 1) (Answered (Rq_verify ?q) ?r) (state_ref [] ?w [] 1)"
    using agent_step.challenge_answered [of 0 "''abc''" "state_ref [] ?w [(0, ''abc'')] 1" "Some ?k" system_ref ?r]
    by (simp add: state_ref_def verify_answer_def compute_hmac_def hmac_ref_def key_crypto_ref_def)
  note go = event_reach.extend [where step = "agent_step system_ref"]
  have reach: "event_reach (agent_step system_ref) (agent_start False quote_state_ref fresh_machine_ref)
      ((bootstrap_trace_ref @ [Asked 0 ''abc'', Keys_turn (GetSymmKey, Some 0)]) @ [Answered (Rq_verify ?q) ?r]) (state_ref [] ?w [] 1)"
    using go [OF go [OF go [OF bootstrap_reached_ref a1] a2] a3] by simp
  then show ?thesis using challenge_proves_key [OF _ reach] by (fastforce simp: exchange_ref)
qed

section \<open>The components inside the agent\<close>

text \<open>\<^bold>\<open>C19\<close>: the agent as a whole implements the systems that the guarantees of its components are proved for. Whatever requests
  arrive and however the server and the workers interleave, the keys worker and its channel go through states that are reachable
  when other tasks post well-formed messages only and do nothing to the payload channel but receive from it, and the data of
  the quotes go through states that are reachable by quote requests, new measurements and changes of the TPM and the boot
  log.\<close>

theorem system_refines_components:
  assumes "event_reach (agent_step env) (agent_start with_zmq quotes m) es s" and "ima_ml quotes = ml_new"
  shows "worker_reach (keys_handle (system_hmac env) (ge_uuid env) (ge_run_payload env)) allowed_message keys_other keys_start
      (as_keys s, sd_keys_tx (as_shared s))
    \<and> quotes_reach (se_quotes (ge_server env)) (se_data (ge_server env)) (sd_quotes (as_shared s))"
  using system_keys_reach [OF assms(1)] system_quotes_reach [OF assms] by simp

theorem system_refines_components_witness:
  "worker_reach (keys_handle hmac_ref ''u'' True) allowed_message keys_other keys_start
     (keys_done_ref, \<lparr>queue = [], closed = False\<rparr>) \<and> quotes_reach quote_libs_ref quote_data_ref quote_state_ref"
  using system_refines_components [OF bootstrap_reached_ref]
  by (simp add: state_ref_def server_ref_def quote_state_ref_def)

end
