(* ===== verification/Agent_Rest.thy ===== *)
theory Agent_Rest
  imports Agent_Capacity Agent_Runs
begin

text \<open>
  The agent with channels of the capacity that \<open>main\<close> gives them: its workers come to rest, little piles up, and the one
  combination of feature and option in which they block each other for good.
\<close>

section \<open>Channels with room for one message\<close>





text \<open>Four exchanges of shares bring the agent into that state.\<close>

definition jam_system_ref where
  "jam_system_ref = system_ref\<lparr>ge_payload_libs := payload_libs_ref, ge_config := payload_config_ref\<rparr>"

lemma jam_system_ref_simps [simp]:
  "ge_server jam_system_ref = server_ref" "ge_machine jam_system_ref = machine_env_ref" "ge_payload_libs jam_system_ref = payload_libs_ref"
  "ge_config jam_system_ref = payload_config_ref" "ge_mount jam_system_ref = ''/m''" "ge_uuid jam_system_ref = ''u''"
  "ge_run_payload jam_system_ref" "\<not> ac_enable_revocation_notifications payload_config_ref"
  by (simp_all add: jam_system_ref_def payload_config_ref_def agent_config_default_def config_defaults)

definition jam_keys :: "payload_message list \<Rightarrow> symm_key option \<Rightarrow> keys_worker" where
  "jam_keys ps k = \<lparr>ukeys = [], vkeys = [], symm_key = k, replies = [], payloads_chan = \<lparr>queue = ps, closed = False\<rparr>\<rparr>"

definition jam_state ::
  "key_envelope list \<Rightarrow> keys_worker \<Rightarrow> revocation_message list \<Rightarrow> zmq_message list \<Rightarrow> machine \<Rightarrow> (nat, unit) agent_system" where
  "jam_state ms w rs zs m =
    \<lparr>as_shared = \<lparr>sd_keys_tx = \<lparr>queue = ms, closed = False\<rparr>, sd_revocation_tx = \<lparr>queue = rs, closed = False\<rparr>, sd_quotes = quote_state_ref\<rparr>,
     as_keys = w, as_cert = None, as_zmq_tx = Some \<lparr>queue = zs, closed = False\<rparr>, as_zmq = zmq_start, as_machine = m,
     as_waiting = [], as_next = 0\<rparr>"

abbreviation jam_reach where
  "jam_reach s \<equiv> \<exists>es. event_reach (bounded_step jam_system_ref) (agent_start True quote_state_ref (pw_machine payload_worker_ref)) es s"

lemma jam_reach_step:
  assumes "jam_reach s" and "agent_step jam_system_ref s e s'" and "may_run s e"
  shows "jam_reach s'"
proof -
  have "bounded_step jam_system_ref s e s'" using assms(2,3) by (simp add: bounded_step_def)
  then show ?thesis using assms(1) event_reach.extend [where step = "bounded_step jam_system_ref"] by blast
qed

lemma jam_keys_turns:
  fixes ps k
  defines "w \<equiv> jam_keys ps k"
  shows "keys_handle hmac_ref ''u'' True w (UKey u_data_ref, None) = Ok (w\<lparr>ukeys := [u_data_ref]\<rparr>, False)"
    "keys_handle hmac_ref ''u'' True (w\<lparr>ukeys := [u_data_ref]\<rparr>) (VKey vkey_ref, None)
       = Ok (jam_keys (ps @ [payload_message_ref]) (Some \<lparr>key_bytes = replicate 16 6\<rparr>), False)"
proof -
  have "valid_ukey u_data_ref" "authenticates hmac_ref (as_bytes ''u'') u_data_ref vkey_ref \<lparr>key_bytes = replicate 16 6\<rparr>"
    "u_payload u_data_ref = Some delivered_ref"
    by (simp_all add: u_data_ref_def vkey_ref_def authenticates_def hmac_ref_def valid_key_def valid_tag_def length_constants)
  note pair = combine_pair [OF exchange_ref(1) this]
  show "keys_handle hmac_ref ''u'' True w (UKey u_data_ref, None) = Ok (w\<lparr>ukeys := [u_data_ref]\<rparr>, False)"
    by (simp add: w_def jam_keys_def process_and_store_def process_keys_def try_combine_keys_def)
  show "keys_handle hmac_ref ''u'' True (w\<lparr>ukeys := [u_data_ref]\<rparr>) (VKey vkey_ref, None)
       = Ok (jam_keys (ps @ [payload_message_ref]) (Some \<lparr>key_bytes = replicate 16 6\<rparr>), False)"
    by (simp add: w_def jam_keys_def process_and_store_def process_keys_def pair request_run_payload_def mpsc_send_def
        payload_message_ref_def)
qed

lemma jam_exchange:
  assumes "jam_reach (jam_state [] (jam_keys ps k) rs zs m)" and "length ps \<le> 1"
  shows "jam_reach (jam_state [] (jam_keys (ps @ [payload_message_ref]) (Some \<lparr>key_bytes = replicate 16 6\<rparr>)) rs zs m)"
proof -
  let ?u = "(UKey u_data_ref, None)" and ?v = "(VKey vkey_ref, None)" and ?w = "jam_keys ps k"
  let ?w1 = "?w\<lparr>ukeys := [u_data_ref]\<rparr>" and ?w2 = "jam_keys (ps @ [payload_message_ref]) (Some \<lparr>key_bytes = replicate 16 6\<rparr>)"
  have free: "\<not> keys_blocked (jam_state ms ?w rs zs m)" "\<not> keys_blocked (jam_state ms ?w1 rs zs m)" for ms
    using assms(2) by (simp_all add: keys_blocked_def waiting_sends_def jam_state_def jam_keys_def CHANNEL_CAPACITY_def)
  have a1: "agent_step jam_system_ref (jam_state [] ?w rs zs m) (Answered (Rq_ukey ukey_body_ref) posted_answer) (jam_state [?u] ?w rs zs m)"
    using agent_step.request [of jam_system_ref "jam_state [] ?w rs zs m" "Rq_ukey ukey_body_ref" posted_answer
        "as_shared (jam_state [?u] ?w rs zs m)"] by (simp add: jam_state_def shares_posted_ref)
  have a2: "agent_step jam_system_ref (jam_state [?u] ?w rs zs m) (Answered (Rq_vkey vkey_body_ref) posted_answer) (jam_state [?u, ?v] ?w rs zs m)"
    using agent_step.request [of jam_system_ref "jam_state [?u] ?w rs zs m" "Rq_vkey vkey_body_ref" posted_answer
        "as_shared (jam_state [?u, ?v] ?w rs zs m)"] by (simp add: jam_state_def shares_posted_ref)
  have a3: "agent_step jam_system_ref (jam_state [?u, ?v] ?w rs zs m) (Keys_turn ?u) (jam_state [?v] ?w1 rs zs m)"
    using agent_step.keys_turn [of "jam_state [?u, ?v] ?w rs zs m" ?u "[?v]" False jam_system_ref ?w1 False]
    by (simp add: jam_state_def jam_keys_turns del: keys_handle.simps)
  have a4: "agent_step jam_system_ref (jam_state [?v] ?w1 rs zs m) (Keys_turn ?v) (jam_state [] ?w2 rs zs m)"
    using agent_step.keys_turn [of "jam_state [?v] ?w1 rs zs m" ?v "[]" False jam_system_ref ?w2 False]
    by (simp add: jam_state_def jam_keys_turns del: keys_handle.simps)
  show ?thesis
    by (rule jam_reach_step [OF jam_reach_step [OF jam_reach_step [OF jam_reach_step [OF assms(1) a1] a2] a3] a4]) (simp_all add: free)
qed

lemma jam_payload:
  assumes "jam_reach (jam_state [] (jam_keys (payload_message_ref # ps) k) rs zs m)" and "length zs \<le> 1"
    and "PayloadDecrypted \<notin> set (drop 1 rs)" and "rooted (disk m) ''/m/unzipped''"
  shows "\<exists>m'. jam_reach (jam_state [] (jam_keys ps k) (rs @ [PayloadDecrypted]) (zs @ [StartListening]) m')
    \<and> rooted (disk m') ''/m/unzipped''"
proof -
  let ?s = "jam_state [] (jam_keys (payload_message_ref # ps) k) rs zs m"
  let ?pw = "\<lparr>pw_machine = m, pw_revocation_tx = \<lparr>queue = rs, closed = False\<rparr>, pw_zmq_tx = Some \<lparr>queue = zs, closed = False\<rparr>\<rparr>"
  have "\<exists>w'. run_encrypted_payload machine_env_ref payload_libs_ref payload_config_ref ''/m'' \<lparr>key_bytes = replicate 16 6\<rparr> delivered_ref ?pw
      = (Ok (), w') \<and> rooted (disk (pw_machine w')) ''/m/unzipped''"
    using run_encrypted_payload_quiet [of payload_libs_ref "\<lparr>key_bytes = replicate 16 6\<rparr>" delivered_ref "[1, 2, 3]"
        machine_env_ref payload_config_ref "''/m''" ?pw] assms(4)
    by (fastforce simp: payload_libs_ref_def decrypt_payload_ref machine_env_ref_simps is_absolute_def path_join_def rooted_def exists_path_def)
  then obtain w' where r: "run_encrypted_payload machine_env_ref payload_libs_ref payload_config_ref ''/m'' \<lparr>key_bytes = replicate 16 6\<rparr>
      delivered_ref ?pw = (Ok (), w')" and d: "rooted (disk (pw_machine w')) ''/m/unzipped''" by blast
  then have w: "pw_revocation_tx w' = \<lparr>queue = rs @ [PayloadDecrypted], closed = False\<rparr>"
    "pw_zmq_tx w' = Some \<lparr>queue = zs @ [StartListening], closed = False\<rparr>"
    by (auto simp: run_encrypted_payload_def try_send_def mpsc_send_def split: prod.splits outcome.splits)
  have "payloads_handle machine_env_ref payload_libs_ref payload_config_ref ''/m'' ?pw payload_message_ref = Ok (w', False)"
    using r by (simp add: payload_message_ref_def)
  then have "agent_step jam_system_ref ?s (Payload_turn payload_message_ref)
      (jam_state [] (jam_keys ps k) (rs @ [PayloadDecrypted]) (zs @ [StartListening]) (pw_machine w'))"
    using agent_step.payload_turn [of ?s payload_message_ref ps False jam_system_ref w' False] w
    by (simp add: jam_state_def jam_keys_def del: payloads_handle.simps)
  moreover have "may_run ?s (Payload_turn payload_message_ref)"
    using assms(2,3) by (simp add: telling_def zmq_blocked_def waiting_sends_def zmq_queue_def jam_state_def CHANNEL_CAPACITY_def)
  ultimately show ?thesis using jam_reach_step [OF assms(1)] d by blast
qed

lemma jam_reached: "\<exists>s. jam_reach s \<and> jammed jam_system_ref s"
proof -
  let ?k = "Some \<lparr>key_bytes = replicate 16 6\<rparr>" and ?p = payload_message_ref and ?m0 = "pw_machine payload_worker_ref"
  have "jam_reach (agent_start True quote_state_ref ?m0)" by (rule exI, rule event_reach.start)
  then have "jam_reach (jam_state [] (jam_keys [] None) [] [] ?m0)"
    by (simp add: agent_start_def jam_state_def jam_keys_def keys_start_def open_chan_def)
  from jam_exchange [OF this] have "jam_reach (jam_state [] (jam_keys [?p] ?k) [] [] ?m0)" by simp
  from jam_payload [OF this] payload_worker_ref_tree obtain m1 where
    "jam_reach (jam_state [] (jam_keys [] ?k) [PayloadDecrypted] [StartListening] m1)" and m1: "rooted (disk m1) ''/m/unzipped''" by auto
  from jam_exchange [OF this(1)] have "jam_reach (jam_state [] (jam_keys [?p] ?k) [PayloadDecrypted] [StartListening] m1)" by simp
  from jam_payload [OF this] m1 obtain m2 where
    "jam_reach (jam_state [] (jam_keys [] ?k) [PayloadDecrypted, PayloadDecrypted] [StartListening, StartListening] m2)" by auto
  from jam_exchange [OF jam_exchange [OF this, simplified]] have
    "jam_reach (jam_state [] (jam_keys [?p, ?p] ?k) [PayloadDecrypted, PayloadDecrypted] [StartListening, StartListening] m2)" by simp
  moreover have "jammed jam_system_ref (jam_state [] (jam_keys [?p, ?p] ?k) [PayloadDecrypted, PayloadDecrypted] [StartListening, StartListening] m2)"
    by (simp add: jammed_def zmq_blocked_def keys_blocked_def waiting_sends_def zmq_queue_def jam_state_def jam_keys_def CHANNEL_CAPACITY_def)
  ultimately show ?thesis by blast
qed



end
