(* ===== verification/Spec2Isabelle.thy ===== *)
theory Spec2Isabelle
  imports Measurement_List Tpm_Keys Ima_Emulator Startup Shutdown Agent_Rest
begin

text \<open>
  \<^bold>\<open>A verification development for the Keylime agent in Rust\<close>

  \<^bold>\<open>The program.\<close> The agent runs on an attested machine. It starts as root, mounts a tmpfs for secrets, drops its
  privileges, makes or loads its TPM keys, registers with a registrar and proves that its attestation key lives in the
  same TPM as its endorsement key. It then serves a REST interface: quotes signed by the TPM together with
  the IMA and boot logs for the verifier, and two shares of a payload key, one from the tenant (U) and one from the verifier (V).
  A keys worker combines the shares, a payload worker decrypts and unpacks the payload and runs its script, and a revocation
  worker runs actions when a signed revocation arrives by REST or 0mq. A second program, the IMA emulator, replays the
  kernel's measurement list into the PCRs of a software TPM. The library crate has the algorithms, IMA entries and lists, list
  parser and TPM operations that both use.

  \<^bold>\<open>Conventions.\<close> A fallible function is an \<open>outcome\<close>: \<open>Ok\<close>, \<open>Err\<close> or \<open>Panic\<close>; a function with
  effects is an \<open>act\<close> on an explicit state that keeps what was done before a failure. Machine integers are words; strings are their
  UTF-8 bytes. Libraries that are not part of the repository are parameters (records such as \<open>key_ops\<close>, \<open>quote_ops\<close>,
  \<open>pkey_ops\<close>, \<open>registrar_env\<close>); where a theorem needs a law of one, the law is a named hypothesis
  (\<open>hmac_length\<close>, \<open>gcm_inverse\<close>, \<open>oaep_inverse\<close>, \<open>pem_inverse\<close>, \<open>base64_inverse\<close>, \<open>json_text\<close>, \<open>layered\<close>, \<open>tpm_laws\<close>)
  with an instance on concrete functions. There is no fuel: every recursion is on data or has a measure. The
  bounds are the program's own: five attempts at a consistent quote, a bounded cache of positions in the measurement list, nonces
  of 64 bytes, an array of 32 groups, digest and selection structures of fixed size.

  \<^bold>\<open>Theories, in the order of the code.\<close>

  \<^item> \<open>Prelude\<close>, \<open>Bytes\<close>: outcomes, actions, string and number functions of the standard library, byte order and length-prefixed
    fields (locale \<open>byte_codec\<close>).
  \<^item> \<open>Algorithms\<close> (\<^verbatim>\<open>keylime/src/algorithms.rs\<close>): names and conversions (locale \<open>text_codec\<close>).
  \<^item> \<open>Ima_Entry\<close>, \<open>Measurement_List\<close> (\<^verbatim>\<open>keylime/src/ima/\<close>): parsing and binary encoding of log entries; different
    entries have different encodings, where the digests have the size of their algorithm, and printed entries parse back. Reading
    the list from an entry on refines reading the whole list, whatever the cache holds (locale \<open>entry_cache\<close>).
  \<^item> \<open>List_Parser\<close> (\<^verbatim>\<open>keylime/src/list_parser.rs\<close>, \<^verbatim>\<open>list.pest\<close>): the grammar with the semantics of pest
    (locale \<open>item_parser\<close>); round trip for plain names.
  \<^item> \<open>Tpm_Pcr\<close>, \<open>Tpm_Quote\<close>, \<open>Tpm_Keys\<close> (\<^verbatim>\<open>keylime/src/tpm.rs\<close>): masks, PCR blobs, credential blobs, the quote with
    its retries and its verification, key templates and key operations. A quote that is returned was consistent with the
    PCR values sent along; the verification accepts nothing else.
  \<^item> \<open>Errors\<close>, \<open>Http\<close>, \<open>Fs\<close>, \<open>Machine\<close>, \<open>Channels\<close>: error types (\<^verbatim>\<open>error.rs\<close>), JSON answers with the contract of a handler
    (locale \<open>rest_handler\<close>), file system, running of programs, channels and message loops (locales \<open>worker\<close>, \<open>total_worker\<close>).
  \<^item> \<open>Common\<close>, \<open>Crypto_Ops\<close> (\<^verbatim>\<open>common.rs\<close>, \<^verbatim>\<open>crypto.rs\<close>): keys, tags, agent data, certificates, key files, HMAC, AES-GCM.
  \<^item> \<open>Keys_Handler\<close> (\<^verbatim>\<open>keys_handler.rs\<close>): REST handlers and the keys worker as a step relation; the worker derives a
    key exactly from shares that authenticate, in any order, and never gets stuck.
  \<^item> \<open>Quotes_Handler\<close> (\<^verbatim>\<open>quotes_handler.rs\<close>): the quote handlers; what an integrity answer attests, in every reachable
    state of the shared cache.
  \<^item> \<open>Errors_Handler\<close>, \<open>Routes\<close>, \<open>Server\<close> (\<^verbatim>\<open>errors_handler.rs\<close>, \<^verbatim>\<open>version_handler.rs\<close>, the services of \<^verbatim>\<open>main.rs\<close>): default
    services (locale \<open>default_service\<close>), the table of routes, and the handlers together as one server that keeps
    the contract of its parts.
  \<^item> \<open>Config\<close> (\<^verbatim>\<open>config.rs\<close>): defaults, layers, translation; which layer wins, and what a loaded configuration satisfies.
  \<^item> \<open>Revocation\<close> (\<^verbatim>\<open>revocation.rs\<close>, \<^verbatim>\<open>notifications_handler.rs\<close>), \<open>Payloads\<close> (\<^verbatim>\<open>payloads.rs\<close>): the two workers that run
    programs; which programs they run, and for which messages.
  \<^item> \<open>Secure_Mount\<close>, \<open>Permissions\<close>, \<open>Registrar\<close> (\<^verbatim>\<open>secure_mount.rs\<close>, \<^verbatim>\<open>permissions.rs\<close>, \<^verbatim>\<open>registrar_agent.rs\<close>,
    \<^verbatim>\<open>serialization.rs\<close>): the mount, dropping of privileges, and the exchange with the registrar.
  \<^item> \<open>Startup_Host\<close>, \<open>Startup_Keys\<close>, \<open>Startup\<close>, \<open>Shutdown\<close> (\<^verbatim>\<open>main.rs\<close>): \<open>main\<close> in the order of its
    stages. Nothing but the mount happens with root's rights; the enrolment has its order and its proof; stored keys
    survive restarts; after a signal all tasks end.
  \<^item> \<open>Bootstrap\<close>: from the two posted shares of the key to the payload on disk.
  \<^item> \<open>Agent_System\<close>, \<open>Agent_Runs\<close> (the tasks of \<^verbatim>\<open>main.rs\<close> together): server, workers and 0mq listener as one step relation on the
    channels between them and one machine, with the trace of what happened (locale \<open>event_system\<close>). What is queued or held
    anywhere is accounted for by past events, so every program that was run has its reason in the requests that were answered, and
    an answered key challenge proves the payload key; the components stay in the states that their own guarantees cover.
  \<^item> \<open>Agent_Capacity\<close>, \<open>Agent_Rest\<close>: the same with channels that have room for one message. The workers come to rest, which
    means no deadlock, except with the feature \<open>with-zmq\<close> and the default option, where they block each other for good.
  \<^item> \<open>Ima_Emulator\<close> (\<^verbatim>\<open>keylime-ima-emulator/src/main.rs\<close>): the emulator leaves the PCR where the kernel would have.
  \<^item> This theory: from the configuration at the start to what the running agent may do, and which key template a certificate selects.

  Properties that show a fault of the code, such as an array read past its end, a panic on an answer of the registrar, or a key
  file that is lost, state what the code does.

  \<^bold>\<open>Not modelled.\<close> Logging, the command line and the tests. The inside of actix and tokio: how a path is matched, TLS on the wire,
  and the scheduling of tasks: any interleaving of their turns is taken, with messages and waiting senders in order; a handler holds
  its locks throughout and is one step, except that a key challenge waits for its reply. Symbolic links and dot components of paths. The code that pest
  and serde generate is represented by the grammar and by the derived attributes. Floating point numbers in JSON.
  The connection of the emulator to its TPM and its signal handlers.
\<close>

section \<open>An agent without protection\<close>

text \<open>The system that \<open>main\<close> sets up for the agent that came up.\<close>

definition serves where
  "serves env cfg ra \<longleftrightarrow> ge_config env = cfg \<and> ge_uuid env = ra_uuid ra \<and> ge_run_payload env = ra_run_payload ra
     \<and> ge_mount env = ra_secure_mount ra \<and> ge_revocation env = ra_revocation ra"

text \<open>\<^bold>\<open>C18\<close>: an agent that came up without mTLS and without the option for insecure payloads never runs a program again, whatever
  requests and revocations it receives in whatever order: no payload is handed over, so no certificate for revocations is ever
  loaded, and no revocation is acted on.\<close>

theorem unprotected_agent_runs_nothing:
  assumes "start_agent env cfg h = Some (Ok ra, h', ctx)"
    and "\<not> ac_enable_agent_mtls cfg" and "\<not> ac_enable_insecure_payload cfg"
    and "serves sv cfg ra" and "hmac_length (system_hmac sv)"
    and "event_reach (agent_step sv) (agent_start with_zmq quotes (h_machine h')) es s"
  shows "executed (as_machine s) = executed (h_machine h') \<and> as_cert s = None
    \<and> (\<forall>p. RunPayload p \<notin> set (queue (payloads_chan (as_keys s))))"
proof -
  have "\<not> ge_run_payload sv"
    using start_agent_runs_with [OF assms(1)] assms(2-4) by (auto simp: runs_with_def serves_def)
  then have "\<not> released sv es p" for p by (simp add: released_def)
  then have none: "\<not> released sv es p" "\<not> decrypted sv es p" "\<not> payload_reason sv es c" "\<not> trusted sv es cert"
    "\<not> revocation_reason sv es c" for p c cert
    by (auto simp: decrypted_def payload_reason_def trusted_def revocation_reason_def)
  from system_accounts [OF assms(5,6)] show ?thesis
    by (cases "as_cert s") (auto simp: system_ok_def runs_only_def none list_all_iff)
qed

theorem unprotected_agent_runs_nothing_witness:
  "\<exists>ra h' ctx. \<exists>s :: (nat, unit) agent_system. start_agent startup_ref cfg_ref host_ref = Some (Ok ra, h', ctx)
     \<and> sd_revocation_tx (as_shared s) = \<lparr>queue = [Revocation \<lparr>rev_msg = ''m'', rev_signature = ''s''\<rparr>], closed = False\<rparr>
     \<and> executed (as_machine s) = executed (h_machine h') \<and> as_cert s = None"
proof -
  obtain ra h' c where a: "start_agent startup_ref cfg_ref host_ref = Some (Ok ra, h', Some c)" using start_ref by blast
  have i: "\<not> ac_enable_insecure_payload cfg_ref" "\<not> ac_enable_agent_mtls cfg_ref"
    by (simp_all add: cfg_ref_def agent_config_default_def DEFAULT_ENABLE_INSECURE_PAYLOAD_def)
  let ?sys = "system_ref\<lparr>ge_config := cfg_ref, ge_uuid := ra_uuid ra, ge_run_payload := ra_run_payload ra,
    ge_mount := ra_secure_mount ra, ge_revocation := ra_revocation ra\<rparr>"
  let ?s0 = "agent_start False quote_state_ref (h_machine h') :: (nat, unit) agent_system"
  let ?q = "Rq_revocation \<lparr>rev_msg = ''m'', rev_signature = ''s''\<rparr>"
  let ?sd = "(as_shared ?s0)\<lparr>sd_revocation_tx := \<lparr>queue = [Revocation \<lparr>rev_msg = ''m'', rev_signature = ''s''\<rparr>], closed = False\<rparr>\<rparr>"
  have "serves ?sys cfg_ref ra" by (simp add: serves_def)
  moreover have "hmac_length (system_hmac ?sys)" by (simp add: exchange_ref)
  moreover have "agent_step ?sys ?s0 (Answered ?q posted_answer) (?s0\<lparr>as_shared := ?sd\<rparr>)"
    by (rule agent_step.request) (simp_all add: revocation_handler_def mpsc_send_def open_chan_def agent_start_def)
  then have "event_reach (agent_step ?sys) ?s0 ([] @ [Answered ?q posted_answer]) (?s0\<lparr>as_shared := ?sd\<rparr>)"
    by (rule event_reach.extend [OF event_reach.start])
  ultimately have "executed (as_machine (?s0\<lparr>as_shared := ?sd\<rparr>)) = executed (h_machine h') \<and> as_cert (?s0\<lparr>as_shared := ?sd\<rparr>) = None"
    using unprotected_agent_runs_nothing [OF a i(2,1), of ?sys] by blast
  then show ?thesis using a by (intro exI [of _ ra] exI [of _ h'] exI [of _ "Some c"] exI [of _ "?s0\<lparr>as_shared := ?sd\<rparr>"]) simp
qed

section \<open>Which template a certificate selects\<close>

text \<open>With the template left to be detected, the template chosen from the key of an IDevID certificate
  has the algorithm and hash that belong to the key for RSA-2048, P-384 and P-521; a 256-bit
  elliptic-curve key that is not on the curve secp256k1, such as any NIST P-256 key, is taken for an SM2
  key and gets the template with the SM3 hash.\<close>

theorem certificate_template:
  assumes "match_cert_to_template (Ok pk) = Ok t" and "template \<in> {[], ''detect'', ''default''}"
  shows "(ck_id pk \<in> {Id_RSA, id_rsa_pss} \<and> ck_bits pk = 2048
            \<longrightarrow> get_idevid_template t template a n = Ok (Asym_Rsa, Hashing_Sha256))
    \<and> (ck_id pk = Id_EC \<and> ck_bits pk = 384 \<longrightarrow> get_idevid_template t template a n = Ok (Asym_Ecc, Hashing_Sha384))
    \<and> (ck_id pk = Id_EC \<and> ck_bits pk = 521 \<longrightarrow> get_idevid_template t template a n = Ok (Asym_Ecc, Hashing_Sha512))
    \<and> (ck_id pk = Id_EC \<and> ck_bits pk = 256 \<and> ck_curve pk \<noteq> Ok (Some SECP256K1)
            \<longrightarrow> get_idevid_template t template a n = Ok (Asym_Ecc, Hashing_Sm3_256))"
  using assms
  by (auto simp: match_cert_to_template_def get_idevid_template_def and_then_Ok_iff id_rsa_pss_def Let_def split: if_splits)

theorem certificate_template_witness:
  "get_idevid_template ''H-5'' ''detect'' ''ecc'' ''sha256'' = Ok (Asym_Ecc, Hashing_Sm3_256)
   \<and> match_cert_to_template (Ok \<lparr>ck_id = Id_EC, ck_bits = 256, ck_rsa_n = Err [], ck_ec_der = Ok [],
       ck_curve = Ok (Some (Nid_other ''prime256v1''))\<rparr>) = Ok ''H-5''"
proof -
  let ?pk = "\<lparr>ck_id = Id_EC, ck_bits = 256, ck_rsa_n = Err [], ck_ec_der = Ok [],
       ck_curve = Ok (Some (Nid_other ''prime256v1''))\<rparr>"
  have "match_cert_to_template (Ok ?pk) = Ok ''H-5''"
    by (simp add: match_cert_to_template_def id_rsa_pss_def)
  from certificate_template [OF this, of "''detect''" "''ecc''" "''sha256''"] this show ?thesis by simp
qed

end
